(* ===== verification/Prelude.thy ===== *)
theory Prelude
  imports Main "HOL-Library.Word" "HOL-Library.Finite_Map" "HOL-Library.List_Lexorder"
    "HOL-Library.Char_ord" "HOL-Library.Multiset"
begin

unbundle bit_operations_syntax

text \<open>
  The vocabulary every component shares: Go's machine integers, byte strings, the ordered
  key/value collections the Cosmos SDK keepers are built on, and the generic lemmas about
  finite maps, sorting and words that the component proofs use.

  \<^item> A Go \<open>uintN\<close> is an \<open>N word\<close>, so addition and multiplication wrap as in Go.
  \<^item> A Go \<open>int64\<close> or \<open>int\<close> is an \<open>int\<close>; \<open>int64_wrap\<close> is written out at each
    place where the code's addition can leave the range, and \<open>to_uint64\<close> and \<open>to_int64\<close>
    are the conversions \<open>uint64(x)\<close> and \<open>int64(x)\<close>, which keep the bit pattern.
  \<^item> A string is a list of bytes read as \<open>char\<close>; \<open>List_Lexorder\<close> orders strings and byte
    slices lexicographically, which is the order of \<open>bytes.Compare\<close> and of the store's
    iterators.
  \<^item> A \<open>collections.Map\<close> is a finite map; iterating over it visits the keys in
    ascending order (\<open>walk\<close>).
\<close>

subsection \<open>Machine integers and byte strings\<close>

type_synonym byte = "8 word"
type_synonym bytes = "byte list"
type_synonym uint16 = "16 word"
type_synonym uint32 = "32 word"
type_synonym uint64 = "64 word"
type_synonym int64 = int

definition to_uint64 :: "int64 \<Rightarrow> uint64" where
  "to_uint64 x = word_of_int x"

definition to_int64 :: "uint64 \<Rightarrow> int64" where
  "to_int64 w = sint w"

definition int64_wrap :: "int \<Rightarrow> int64" where
  "int64_wrap x = sint (word_of_int x :: uint64)"

definition int64_range :: "int \<Rightarrow> bool" where
  "int64_range x \<longleftrightarrow> - (2 ^ 63) \<le> x \<and> x < 2 ^ 63"

named_theorems conv_defs \<open>unfolding rules of the integer conversions\<close>
named_theorems frame \<open>what an operation leaves unchanged\<close>

declare to_uint64_def [conv_defs] to_int64_def [conv_defs] int64_wrap_def [conv_defs]
  int64_range_def [conv_defs]

lemma int64_wrap_id: "int64_range x \<Longrightarrow> int64_wrap x = x"
  by (simp add: conv_defs signed_of_int signed_take_bit_int_eq_self)

lemma int64_wrap_range: "int64_range (int64_wrap x)"
  using sint_greater_eq [of "word_of_int x :: uint64"] sint_less [of "word_of_int x :: uint64"]
  by (simp add: conv_defs)

lemma uint_to_uint64: "0 \<le> x \<Longrightarrow> x < 2 ^ 64 \<Longrightarrow> uint (to_uint64 x) = x"
  by (simp add: to_uint64_def unsigned_of_int take_bit_int_eq_self)

lemma unat_to_uint64: "0 \<le> x \<Longrightarrow> x < 2 ^ 64 \<Longrightarrow> unat (to_uint64 x) = nat x"
  by (simp add: to_uint64_def unsigned_of_int take_bit_int_eq_self)

lemma to_int64_small: "unat w < 2 ^ 63 \<Longrightarrow> to_int64 w = int (unat w)"
proof -
  assume "unat w < 2 ^ 63"
  then have "int (unat w) < int (2 ^ 63)" by (simp only: of_nat_less_iff)
  then have "uint w < 2 ^ 63" by (simp only: uint_nat of_nat_power of_nat_numeral)
  moreover have "- (2 ^ 63) \<le> uint w" by (rule order_trans [OF _ uint_ge_0]) simp
  ultimately have "signed_take_bit 63 (uint w) = uint w"
    by (intro signed_take_bit_int_eq_self)
  then show ?thesis by (simp add: to_int64_def sint_uint)
qed

subsection \<open>Results\<close>

text \<open>
  A Go function that returns \<open>(T, error)\<close> is a function into \<open>'e + 'a\<close>, with \<open>Inl\<close> the
  error. A state-changing operation returns the result paired with the state it leaves,
  on the error paths too.
\<close>

definition is_err :: "'e + 'a \<Rightarrow> bool" where
  "is_err r \<longleftrightarrow> (case r of Inl _ \<Rightarrow> True | Inr _ \<Rightarrow> False)"

lemma is_err_simps [simp]: "is_err (Inl e)" "\<not> is_err (Inr a)"
  by (simp_all add: is_err_def)

lemma is_err_iff: "is_err r \<longleftrightarrow> (\<exists>e. r = Inl e)"
  by (cases r) auto

lemma not_is_err_iff: "\<not> is_err r \<longleftrightarrow> (\<exists>a. r = Inr a)"
  by (cases r) auto

text \<open>
  \<open>and_then r f\<close> is the idiom \<open>x, err := r; if err != nil { return err }; f(x)\<close>.
\<close>

definition and_then :: "'e + 'a \<Rightarrow> ('a \<Rightarrow> 'e + 'b) \<Rightarrow> 'e + 'b" where
  "and_then r f = (case r of Inl err \<Rightarrow> Inl err | Inr a \<Rightarrow> f a)"

lemma and_then_simps [simp]: "and_then (Inl err) f = Inl err" "and_then (Inr a) f = f a"
  by (simp_all add: and_then_def)

lemma and_then_Inr_iff: "and_then r f = Inr b \<longleftrightarrow> (\<exists>a. r = Inr a \<and> f a = Inr b)"
  by (cases r) auto

lemma and_then_Inl_iff:
  "and_then r f = Inl err \<longleftrightarrow> r = Inl err \<or> (\<exists>a. r = Inr a \<and> f a = Inl err)"
  by (cases r) auto

text \<open>A check that only fails or lets the code go on.\<close>

definition guard :: "bool \<Rightarrow> 'e \<Rightarrow> 'e + unit" where
  "guard ok err = (if ok then Inr () else Inl err)"

lemma guard_simps [simp]: "guard True err = Inr ()" "guard False err = Inl err"
  by (simp_all add: guard_def)

lemma guard_Inr_iff: "guard ok err = Inr u \<longleftrightarrow> ok"
  by (simp add: guard_def)

lemma guard_Inl_iff: "guard ok err = Inl err' \<longleftrightarrow> \<not> ok \<and> err' = err"
  by (auto simp: guard_def)

lemmas result_iffs = and_then_Inr_iff guard_Inr_iff

text \<open>The same idiom for calls that also change a state: an error keeps the changes made so far.\<close>

definition run_then ::
    "('e + 'a) \<times> 's \<Rightarrow> ('a \<Rightarrow> 's \<Rightarrow> ('e + 'b) \<times> 's) \<Rightarrow> ('e + 'b) \<times> 's" where
  "run_then p f = (case p of (Inl err, s) \<Rightarrow> (Inl err, s) | (Inr a, s) \<Rightarrow> f a s)"

lemma run_then_simps [simp]:
  "run_then (Inl err, s) f = (Inl err, s)" "run_then (Inr a, s) f = f a s"
  by (simp_all add: run_then_def)

lemma run_then_Inr_iff:
  "run_then p f = (Inr b, s') \<longleftrightarrow> (\<exists>a s. p = (Inr a, s) \<and> f a s = (Inr b, s'))"
  by (auto simp: run_then_def split: prod.splits sum.splits)

lemma run_then_Inl_iff:
  "run_then p f = (Inl err, s') \<longleftrightarrow>
     p = (Inl err, s') \<or> (\<exists>a s. p = (Inr a, s) \<and> f a s = (Inl err, s'))"
  by (auto simp: run_then_def split: prod.splits sum.splits)

lemma run_then_failE:
  assumes "run_then p f = (Inl err, s')"
  obtains "p = (Inl err, s')" | a s where "p = (Inr a, s)" "f a s = (Inl err, s')"
  using assms unfolding run_then_Inl_iff by blast

text \<open>What every step keeps, the sequence keeps, whether it fails or not.\<close>

lemma snd_run_then:
  "I (snd p) \<Longrightarrow> (\<And>a s. p = (Inr a, s) \<Longrightarrow> I s \<Longrightarrow> I (snd (f a s))) \<Longrightarrow> I (snd (run_then p f))"
  by (cases p; cases "fst p") (auto simp: run_then_def)

lemma unat_inc: "x \<noteq> - 1 \<Longrightarrow> unat (x + 1) = Suc (unat (x :: 'a::len word))"
  using unatSuc [of x] by (simp add: add.commute eq_neg_iff_add_eq_0)

lemma word_le_inc: "x \<noteq> - 1 \<Longrightarrow> x \<le> x + (1 :: 'a::len word)"
  using unatSuc [of x] by (simp add: word_le_nat_alt add.commute eq_neg_iff_add_eq_0)

subsection \<open>Ordered collections\<close>

text \<open>
  Iteration over a collection: the entries in ascending key order.
\<close>

definition keys_asc :: "('k::linorder, 'v) fmap \<Rightarrow> 'k list" where
  "keys_asc m = sorted_list_of_fset (fmdom m)"

definition walk :: "('k::linorder, 'v) fmap \<Rightarrow> ('k \<times> 'v) list" where
  "walk m = map (\<lambda>k. (k, the (fmlookup m k))) (keys_asc m)"

text \<open>\<open>Clear\<close> over a range of keys removes every entry whose key is in the range.\<close>

definition clear_range :: "('k \<Rightarrow> bool) \<Rightarrow> ('k, 'v) fmap \<Rightarrow> ('k, 'v) fmap" where
  "clear_range in_range m = fmfilter (\<lambda>k. \<not> in_range k) m"

lemma set_keys_asc [simp]: "set (keys_asc m) = fset (fmdom m)"
  by (simp add: keys_asc_def sorted_list_of_fset.rep_eq)

lemma distinct_keys_asc [simp]: "distinct (keys_asc m)"
  by (simp add: keys_asc_def sorted_list_of_fset.rep_eq)

lemma sorted_keys_asc [simp]: "sorted (keys_asc m)"
  by (simp add: keys_asc_def sorted_list_of_fset.rep_eq)

lemma length_keys_asc: "length (keys_asc m) = fcard (fmdom m)"
  by (simp add: keys_asc_def sorted_list_of_fset.rep_eq fcard.rep_eq)

lemma set_walk: "set (walk m) = {(k, v). fmlookup m k = Some v}"
  by (force simp: walk_def fmlookup_dom_iff)

lemma walk_fmempty [simp]: "walk fmempty = []"
  by (simp add: walk_def keys_asc_def sorted_list_of_fset.rep_eq)

lemma fmlookup_clear_range [simp]:
  "fmlookup (clear_range p m) k = (if p k then None else fmlookup m k)"
  by (simp add: clear_range_def)

text \<open>
  The contract of such a collection, as the keepers use it: what a lookup returns after a
  write, a removal and a range clear, and that iteration visits every present key once.
  The keepers' lemmas on their collections are instances of it.
\<close>

locale collection =
  fixes lookup :: "'m \<Rightarrow> 'k::linorder \<Rightarrow> 'v option"
    and insert :: "'k \<Rightarrow> 'v \<Rightarrow> 'm \<Rightarrow> 'm"
    and remove :: "'k \<Rightarrow> 'm \<Rightarrow> 'm"
    and clear :: "('k \<Rightarrow> bool) \<Rightarrow> 'm \<Rightarrow> 'm"
    and keys :: "'m \<Rightarrow> 'k list"
  assumes lookup_insert: "lookup (insert k v m) k' = (if k' = k then Some v else lookup m k')"
    and lookup_remove: "lookup (remove k m) k' = (if k' = k then None else lookup m k')"
    and lookup_clear: "lookup (clear p m) k = (if p k then None else lookup m k)"
    and set_keys: "set (keys m) = {k. lookup m k \<noteq> None}"
    and distinct_keys: "distinct (keys m)"
begin

lemma clear_below_keys:
  "set (keys (clear p m)) = {k \<in> set (keys m). \<not> p k}"
  by (auto simp: set_keys lookup_clear split: if_splits)

lemma length_keys: "length (keys m) = card {k. lookup m k \<noteq> None}"
  using distinct_card [OF distinct_keys [of m]] by (simp add: set_keys)

lemma length_keys_insert_old:
  assumes "lookup m k \<noteq> None"
  shows "length (keys (insert k v m)) = length (keys m)"
proof -
  have "{k'. lookup (insert k v m) k' \<noteq> None} = {k'. lookup m k' \<noteq> None}"
    using assms by (auto simp: lookup_insert)
  then show ?thesis by (simp add: length_keys)
qed

lemma clear_clear: "lookup (clear p (clear q m)) k = lookup (clear (\<lambda>k. p k \<or> q k) m) k"
  by (simp add: lookup_clear)

end

interpretation kv: collection fmlookup fmupd fmdrop clear_range keys_asc
  by unfold_locales (auto simp: fmlookup_dom_iff)

subsection \<open>Lists, sorting and sums\<close>

lemma sort_key_set [simp]: "set (sort_key f xs) = set xs"
  by simp

lemma map_sort_key_sorted: "sorted (map f (sort_key f xs))"
  by simp

lemma sort_key_map: "sort_key f (map g l) = map g (sort_key (\<lambda>x. f (g x)) l)"
proof (induction l)
  case (Cons x l)
  have "insort_key f (g x) (map g ys) = map g (insort_key (\<lambda>x. f (g x)) x ys)" for ys
    by (induction ys) auto
  then show ?case using Cons.IH by simp
qed simp

lemma sort_key_numbering:
  assumes "set (map f xs) = {..<n}" and "distinct (map f xs)"
  shows "map f (sort_key f xs) = [0..<n]"
proof (rule sorted_distinct_set_unique)
  have "mset (map f (sort_key f xs)) = mset (map f xs)" by simp
  then show "distinct (map f (sort_key f xs))"
    using assms(2) mset_eq_imp_distinct_iff by blast
qed (use assms(1) in auto)

lemma sort_key_unat: "sort_key (\<lambda>x. unat (f x)) xs = sort_key f xs"
proof (induction xs)
  case (Cons x xs)
  have "insort_key (\<lambda>x. unat (f x)) x ys = insort_key f x ys" for ys
    by (induction ys) (auto simp: word_le_nat_alt)
  then show ?case using Cons.IH by simp
qed simp

lemma sort_key_eqI:
  assumes "mset xs = mset ys" and "inj_on f (set xs)"
  shows "sort_key f xs = sort_key f ys"
proof (rule properties_for_sort_key)
  show "mset (sort_key f ys) = mset xs" using assms(1) by simp
  show "sorted (map f (sort_key f ys))" by simp
  fix k assume "k \<in> set (sort_key f ys)"
  have st: "set ys = set xs" using assms(1) by (metis mset_eq_setD)
  show "filter (\<lambda>x. f k = f x) (sort_key f ys) = filter (\<lambda>x. f k = f x) xs"
  proof -
    have kin: "k \<in> set xs" using \<open>k \<in> set (sort_key f ys)\<close> st by simp
    have eq: "\<And>zs. set zs = set xs \<Longrightarrow>
        filter (\<lambda>x. f k = f x) zs = replicate (count (mset zs) k) k"
    proof -
      fix zs assume z: "set zs = set xs"
      have "filter (\<lambda>x. f k = f x) zs = filter (\<lambda>x. k = x) zs"
        by (rule filter_cong) (use z kin assms(2) in \<open>auto dest: inj_onD\<close>)
      also have "\<dots> = replicate (count (mset zs) k) k"
        by (simp add: replicate_count_mset_eq_filter_eq)
      finally show "filter (\<lambda>x. f k = f x) zs = replicate (count (mset zs) k) k" .
    qed
    show ?thesis using eq [of "sort_key f ys"] eq [of xs] st assms(1) by simp
  qed
qed

lemma sorted_distinct_sort_key_id:
  "sorted (map f xs) \<Longrightarrow> sort_key f xs = xs"
  by (rule sort_key_id_if_sorted)

lemma card_filter_upt: "length (filter P [0..<n]) = card {i. i < n \<and> P i}"
proof -
  have "distinct (filter P [0..<n])" by simp
  then have "card (set (filter P [0..<n])) = length (filter P [0..<n])"
    by (rule distinct_card)
  then show ?thesis by (simp add: conj_commute)
qed

end
