(* ===== verification/SdkTypes.thy ===== *)
theory SdkTypes
  imports Prelude Complex_Main
begin

text \<open>
  The data of the Cosmos SDK and CometBFT that cross the modules' interfaces (public keys,
  \<open>Any\<close> values, votes, block identifiers, staking validators, the block context, events),
  and the functions of those packages that the code calls.
  Their source is not part of the repository, so the functions are the fields of a record
  \<open>ext\<close> that every definition using them takes as an argument; a theorem that relies on
  their documented behaviour says so in a hypothesis.
\<close>

datatype pubkey = PubKey (pk_type: string) (pk_bytes: bytes)

text \<open>
  A protobuf \<open>Any\<close>: type URL, encoded value and the cached concrete value. \<open>any_cached\<close> is
  \<open>Some pk\<close> when the cached value is a \<open>cryptotypes.PubKey\<close>, \<open>None\<close> when it is unset or of
  another type.
\<close>

record any =
  any_TypeUrl :: string
  any_Value :: bytes
  any_cached :: "pubkey option"

record block_id =
  bid_Hash :: bytes
  bid_psh_Total :: uint32
  bid_psh_Hash :: bytes

datatype signed_msg_type = UnknownType | PrevoteType | PrecommitType | ProposalType

record vote =
  vote_Type :: signed_msg_type
  vote_Height :: int64
  vote_Round :: int
  vote_BlockID :: block_id
  vote_Timestamp :: int
  vote_ValidatorAddress :: bytes
  vote_ValidatorIndex :: int
  vote_Signature :: bytes

record staking_validator =
  val_Moniker :: string
  val_ConsensusPubkey :: any
  val_IsBonded :: bool

record sdk_ctx =
  BlockHeight :: int64
  ChainID :: string

record event =
  ev_Type :: string
  ev_Attributes :: "(string \<times> string) list"

text \<open>A decimal of \<open>cosmossdk.io/math\<close> is read as the rational number it denotes.\<close>

type_synonym dec = rat

record ext =
  ext_pk_Address :: "pubkey \<Rightarrow> bytes"
  ext_VerifySignature :: "pubkey \<Rightarrow> bytes \<Rightarrow> bytes \<Rightarrow> bool"
  ext_ConsAddress :: "bytes \<Rightarrow> string"
  ext_bech32_Decode :: "string \<Rightarrow> (string \<times> bytes) option"
  ext_UnmarshalVote :: "bytes \<Rightarrow> vote option"
  ext_VoteSignBytes :: "string \<Rightarrow> vote \<Rightarrow> bytes"
  ext_BlockIDFromProto :: "block_id \<Rightarrow> block_id option"
  ext_DecFromStr :: "string \<Rightarrow> dec option"
  ext_DecString :: "dec \<Rightarrow> string"
  ext_DecQuoInt64 :: "dec \<Rightarrow> int \<Rightarrow> dec"
  ext_IntString :: "int \<Rightarrow> string"
  ext_Sha256 :: "bytes \<Rightarrow> bytes"
  ext_Base64 :: "bytes \<Rightarrow> string"

text \<open>
  The errors of the two modules: the SDK's registered errors with the message of the call
  site (without its formatted arguments), gRPC status errors, errors of collaborators, and a
  runtime panic, which unwinds like an error.
\<close>

datatype grpc_code = InvalidArgument | NotFound

datatype go_error =
    ErrUnauthorized string
  | ErrNotFound string
  | ErrInvalidRequest string
  | ErrLogic string
  | ErrInvalidSigner string
  | ErrInvalidType string
  | CollectionsNotFound
  | StatusError grpc_code string
  | ErrorString string
  | Wrap string go_error
  | Panic string

type_synonym 'a result = "go_error + 'a"

text \<open>
  The keys of a validator \<open>Any\<close>: \<open>GetCachedValue().(cryptotypes.PubKey)\<close>.
\<close>

definition cached_pubkey :: "any option \<Rightarrow> pubkey option" where
  "cached_pubkey a = (case a of None \<Rightarrow> None | Some x \<Rightarrow> any_cached x)"

end
