(* ===== verification/Staking.thy ===== *)
theory Staking
  imports SdkTypes
begin

text \<open>
  The staking wrapper (\<open>modules/staking\<close>): it embeds the SDK's staking keeper and overrides
  what could change the validator set. The embedded keeper is the argument \<open>inner\<close>: a
  function from its state to its answer and the state it leaves. A validator update carries the
  CometBFT key and the new power.
\<close>

datatype cmt_pubkey = CmtPubKey (cmt_type: string) (cmt_bytes: bytes)

record val_update =
  vu_PubKey :: cmt_pubkey
  vu_Power :: int64

type_synonym 's inner_updates = "'s \<Rightarrow> val_update list result \<times> 's"

text \<open>
  Go returns the updates and the error together; the wrapper passes the error on and drops the
  updates, except at the genesis block.
\<close>

definition ApplyAndReturnValidatorSetUpdates ::
    "'s inner_updates \<Rightarrow> sdk_ctx \<Rightarrow> 's \<Rightarrow> val_update list result \<times> 's" where
  "ApplyAndReturnValidatorSetUpdates inner ctx s =
     (case inner s of (valUpdates, s') \<Rightarrow>
      if BlockHeight ctx = 0 then (valUpdates, s')
      else (case valUpdates of Inl err \<Rightarrow> (Inl err, s') | Inr _ \<Rightarrow> (Inr [], s')))"

definition Slash :: "bytes \<Rightarrow> int64 \<Rightarrow> int64 \<Rightarrow> dec \<Rightarrow> 's \<Rightarrow> int result \<times> 's" where
  "Slash consAddr infractionHeight pw slashFactor s = (Inr 0, s)"

definition SlashWithInfractionReason ::
    "bytes \<Rightarrow> int64 \<Rightarrow> int64 \<Rightarrow> dec \<Rightarrow> int \<Rightarrow> 's \<Rightarrow> int result \<times> 's" where
  "SlashWithInfractionReason consAddr infractionHeight pw slashFactor infraction s = (Inr 0, s)"

definition Jail :: "bytes \<Rightarrow> 's \<Rightarrow> unit result \<times> 's" where
  "Jail consAddr s = (Inr (), s)"

definition Unjail :: "bytes \<Rightarrow> 's \<Rightarrow> unit result \<times> 's" where
  "Unjail consAddr s = (Inr (), s)"

definition staking_EndBlock :: "'s inner_updates \<Rightarrow> 's \<Rightarrow> val_update list result \<times> 's" where
  "staking_EndBlock inner_EndBlocker s =
     (case inner_EndBlocker s of
        (Inl err, s') \<Rightarrow> (Inl err, s')
      | (Inr _, s') \<Rightarrow> (Inr [], s'))"

text \<open>
  the staking wrapper never changes the validator set after genesis: its end block and,
  past height 0, its validator set updates are empty whenever they succeed, while the state
  changes and errors of the embedded keeper pass through; slashing and jailing do nothing.
\<close>

lemma staking_updates_nullified:
  "fst (staking_EndBlock inner s) = map_sum id (\<lambda>_. []) (fst (inner s)) \<and>
   snd (staking_EndBlock inner s) = snd (inner s) \<and>
   snd (ApplyAndReturnValidatorSetUpdates inner ctx s) = snd (inner s) \<and>
   (if BlockHeight ctx = 0
    then fst (ApplyAndReturnValidatorSetUpdates inner ctx s) = fst (inner s)
    else ApplyAndReturnValidatorSetUpdates inner ctx s = staking_EndBlock inner s) \<and>
   Slash a ih pw f s = (Inr 0, s) \<and> SlashWithInfractionReason a ih pw f r s = (Inr 0, s) \<and>
   Jail a s = (Inr (), s) \<and> Unjail a s = (Inr (), s)"
  by (auto simp: staking_EndBlock_def ApplyAndReturnValidatorSetUpdates_def Slash_def
      SlashWithInfractionReason_def Jail_def Unjail_def split: prod.splits sum.splits)

subsection \<open>The module and its hooks\<close>

definition staking_BeginBlock :: "('s \<Rightarrow> unit result \<times> 's) \<Rightarrow> 's \<Rightarrow> unit result \<times> 's" where
  "staking_BeginBlock inner_BeginBlocker s = inner_BeginBlocker s"

text \<open>\<open>MustUnmarshalJSON\<close> panics on data that does not decode.\<close>

definition staking_InitGenesis ::
    "(bytes \<Rightarrow> 'g result) \<Rightarrow> ('g \<Rightarrow> 's \<Rightarrow> val_update list \<times> 's) \<Rightarrow> bytes \<Rightarrow> 's \<Rightarrow>
     val_update list result \<times> 's" where
  "staking_InitGenesis unmarshalJSON inner_InitGenesis data s =
     (case unmarshalJSON data of
        Inl _ \<Rightarrow> (Inl (Panic ''unmarshal genesis state''), s)
      | Inr genesisState \<Rightarrow> (case inner_InitGenesis genesisState s of (updates, s) \<Rightarrow> (Inr updates, s)))"

text \<open>
  \<open>ProvideModule\<close>, the same in the three modules: the authority is the governance module's address
  unless the configuration names another.
\<close>

definition module_authority :: "(string \<Rightarrow> string) \<Rightarrow> (string \<Rightarrow> string) \<Rightarrow> string \<Rightarrow> string" where
  "module_authority newModuleAddress moduleOrBech32 config_Authority =
     (if config_Authority \<noteq> [] then moduleOrBech32 config_Authority else newModuleAddress ''gov'')"

fun collect_hooks :: "(string, 'h) fmap \<Rightarrow> string list \<Rightarrow> 'h list result" where
  "collect_hooks stakingHooks [] = Inr []"
| "collect_hooks stakingHooks (modName # order) =
     (case fmlookup stakingHooks modName of
        None \<Rightarrow> Inl (ErrorString ''can't find staking hooks for module'')
      | Some hook \<Rightarrow> and_then (collect_hooks stakingHooks order) (\<lambda>hooks. Inr (hook # hooks)))"

text \<open>
  \<open>config\<close> and \<open>keeper\<close> may be nil. The result is the keeper's hooks afterwards: \<open>None\<close> when
  \<open>SetHooks\<close> was not called.
\<close>

definition InvokeSetStakingHooks ::
    "string list option \<Rightarrow> bool \<Rightarrow> (string, 'h) fmap \<Rightarrow> 'h list option result" where
  "InvokeSetStakingHooks config keeper_present stakingHooks =
     (case config of
        None \<Rightarrow> Inr None
      | Some hooksOrder \<Rightarrow>
          if \<not> keeper_present then Inr None
          else
            let modNames = sorted_list_of_set (fset (fmdom stakingHooks));
                order = (if hooksOrder = [] then modNames else hooksOrder) in
            if length order \<noteq> length modNames
            then Inl (ErrorString ''len(hooks_order) != len(hooks modules)'')
            else if modNames = [] then Inr None
            else and_then (collect_hooks stakingHooks order) (\<lambda>multiHooks. Inr (Some multiHooks)))"

lemma collect_hooks_iff:
  "collect_hooks m order = Inr hs \<longleftrightarrow> map Some hs = map (fmlookup m) order"
  by (induction order arbitrary: hs) (auto simp: result_iffs Cons_eq_map_conv split: option.splits)

text \<open>
  With an order that names no module twice, or with none, the keeper gets the hooks of every
  module, each once, in that order (alphabetically without one).
\<close>

lemma hooks_all_once:
  assumes "InvokeSetStakingHooks (Some order) True m = Inr (Some hs)" and "distinct order"
  defines "used \<equiv> (if order = [] then sorted_list_of_set (fset (fmdom m)) else order)"
  shows "set used = fset (fmdom m) \<and> distinct used \<and> map Some hs = map (fmlookup m) used"
proof -
  have hs: "map Some hs = map (fmlookup m) used" and len: "length used = card (fset (fmdom m))"
    using assms(1) by (auto simp: InvokeSetStakingHooks_def Let_def result_iffs collect_hooks_iff
        used_def split: if_splits)
  have d: "distinct used" using assms(2) by (simp add: used_def)
  have "set used \<subseteq> fset (fmdom m)"
  proof
    fix n
    assume "n \<in> set used"
    then have "fmlookup m n \<in> set (map Some hs)" unfolding hs by simp
    then show "n \<in> fset (fmdom m)" by (auto intro: fmdomI)
  qed
  then have "set used = fset (fmdom m)"
    by (rule card_subset_eq [OF finite_fset]) (simp add: distinct_card [OF d] len)
  then show ?thesis using d hs by simp
qed

text \<open>
  An order that repeats a name has the right length but leaves another module out: its hooks
  are never called, and nothing is reported.
\<close>

lemma hooks_duplicate_drops:
  assumes "InvokeSetStakingHooks (Some order) True m = Inr (Some hs)" and "\<not> distinct order"
  shows "\<exists>n. n |\<in>| fmdom m \<and> n \<notin> set order"
proof -
  have "length order = card (fset (fmdom m))"
    using assms by (auto simp: InvokeSetStakingHooks_def Let_def split: if_splits)
  then have "card (set order) < card (fset (fmdom m))"
    using card_length [of order] assms(2) card_distinct [of order] by (metis le_neq_implies_less)
  then have "\<not> fset (fmdom m) \<subseteq> set order" by (meson List.finite_set card_mono not_less)
  then show ?thesis by blast
qed

end
