(* ===== verification/Migration.thy ===== *)
theory Migration
  imports Staking
begin

text \<open>
  The migration manager (\<open>modules/migrationmngr\<close>): a governance message stores a migration
  with a height; at that height the end block replaces the validator set by the sequencer (or
  the attesters) in one update and records the sequencer; two blocks later the pre-block halts
  the chain. The store codec, the key conversion and the \<open>Any\<close> methods are not part of the
  repository; they are the fields of \<open>mig_ext\<close>.
\<close>

subsection \<open>Data\<close>

record sequencer =
  seq_Name :: string
  seq_ConsensusPubkey :: "any option"

record attester =
  att_Name :: string
  att_ConsensusPubkey :: "any option"

record evolve_migration =
  em_BlockHeight :: uint64
  em_Sequencer :: sequencer
  em_Attesters :: "attester list"

record msg_migrate_to_evolve =
  mm_Authority :: string
  mm_BlockHeight :: uint64
  mm_Sequencer :: sequencer
  mm_Attesters :: "attester list"

record migration_state =
  mg_Sequencer :: "sequencer option"
  mg_Migration :: "evolve_migration option"
  mg_MigrationStep :: "uint64 option"

text \<open>
  \<open>mx_decode\<close> is what the codec leaves of a value read back from the store, \<open>mx_UnpackAny\<close>
  resolves the cached value of an \<open>Any\<close>, \<open>mx_UpdateZero\<close> is the SDK validator's
  \<open>ABCIValidatorUpdateZero\<close>, which panics on a key it cannot convert.
\<close>

record mig_ext =
  mx_decode :: "evolve_migration \<Rightarrow> evolve_migration"
  mx_UnpackAny :: "any option \<Rightarrow> any option result"
  mx_ToCmtProtoPublicKey :: "pubkey \<Rightarrow> cmt_pubkey result"
  mx_any_String :: "any option \<Rightarrow> string"
  mx_any_Equal :: "any option \<Rightarrow> any option \<Rightarrow> bool"
  mx_UpdateZero :: "staking_validator \<Rightarrow> val_update result"

record migration_env =
  me_ext :: mig_ext
  me_authority :: string
  me_GetLastValidators :: "staking_validator list result"

definition NewMigrationKeeper :: migration_state where
  "NewMigrationKeeper = \<lparr>mg_Sequencer = None, mg_Migration = None, mg_MigrationStep = None\<rparr>"

definition Migration_Get :: "migration_env \<Rightarrow> migration_state \<Rightarrow> evolve_migration result" where
  "Migration_Get env k =
     (case mg_Migration k of None \<Rightarrow> Inl CollectionsNotFound | Some m \<Rightarrow> Inr (mx_decode (me_ext env) m))"

subsection \<open>Keys\<close>

text \<open>\<open>GetCachedValue\<close> on a nil \<open>Any\<close> dereferences it.\<close>

definition any_TmConsPublicKey :: "mig_ext \<Rightarrow> any option \<Rightarrow> cmt_pubkey result" where
  "any_TmConsPublicKey e a =
     (case a of
        None \<Rightarrow> Inl (Panic ''nil pointer dereference'')
      | Some x \<Rightarrow> (case any_cached x of
          None \<Rightarrow> Inl (ErrInvalidType ''expecting cryptotypes.PubKey'')
        | Some pk \<Rightarrow> mx_ToCmtProtoPublicKey e pk))"

definition Sequencer_TmConsPublicKey :: "mig_ext \<Rightarrow> sequencer \<Rightarrow> cmt_pubkey result" where
  "Sequencer_TmConsPublicKey e seq = any_TmConsPublicKey e (seq_ConsensusPubkey seq)"

definition Attester_TmConsPublicKey :: "mig_ext \<Rightarrow> attester \<Rightarrow> cmt_pubkey result" where
  "Attester_TmConsPublicKey e att = any_TmConsPublicKey e (att_ConsensusPubkey att)"

definition Sequencer_UnpackInterfaces :: "mig_ext \<Rightarrow> sequencer \<Rightarrow> sequencer result" where
  "Sequencer_UnpackInterfaces e seq =
     and_then (mx_UnpackAny e (seq_ConsensusPubkey seq)) (\<lambda>a. Inr (seq\<lparr>seq_ConsensusPubkey := a\<rparr>))"

definition Attester_UnpackInterfaces :: "mig_ext \<Rightarrow> attester \<Rightarrow> attester result" where
  "Attester_UnpackInterfaces e att =
     and_then (mx_UnpackAny e (att_ConsensusPubkey att)) (\<lambda>a. Inr (att\<lparr>att_ConsensusPubkey := a\<rparr>))"

subsection \<open>The message and the window\<close>

definition MigrateToEvolve ::
    "migration_env \<Rightarrow> sdk_ctx \<Rightarrow> msg_migrate_to_evolve \<Rightarrow> migration_state \<Rightarrow>
     unit result \<times> migration_state" where
  "MigrateToEvolve env ctx msg k =
     (if me_authority env \<noteq> mm_Authority msg
      then (Inl (ErrInvalidSigner ''invalid authority''), k)
      else if mm_BlockHeight msg < to_uint64 (BlockHeight ctx)
      then (Inl (ErrInvalidRequest ''block height must be greater than current block height''), k)
      else (Inr (), k\<lparr>mg_Migration := Some \<lparr>em_BlockHeight = mm_BlockHeight msg,
              em_Sequencer = mm_Sequencer msg, em_Attesters = mm_Attesters msg\<rparr>\<rparr>))"

definition IsMigrating ::
    "migration_env \<Rightarrow> sdk_ctx \<Rightarrow> migration_state \<Rightarrow> uint64 \<times> uint64 \<times> bool" where
  "IsMigrating env ctx k =
     (case Migration_Get env k of
        Inl _ \<Rightarrow> (0, 0, False)
      | Inr migration \<Rightarrow>
          let migrationEndHeight = em_BlockHeight migration + 1;
              currentHeight = to_uint64 (BlockHeight ctx);
              migrationInProgress =
                (currentHeight \<ge> em_BlockHeight migration \<and> currentHeight \<le> migrationEndHeight)
          in (em_BlockHeight migration, migrationEndHeight, migrationInProgress))"

definition PreBlock ::
    "migration_env \<Rightarrow> sdk_ctx \<Rightarrow> migration_state \<Rightarrow> unit result \<times> migration_state" where
  "PreBlock env ctx k =
     (case IsMigrating env ctx k of (start, end_h, _) \<Rightarrow>
      let currentHeight = to_uint64 (BlockHeight ctx);
          shouldHalt = (end_h > 0 \<and> currentHeight = end_h + 1)
      in if shouldHalt
         then (Inl (ErrLogic ''MIGRATE: chain migration to evolve is complete''),
               k\<lparr>mg_Migration := None\<rparr>)
         else (Inr (), k))"

subsection \<open>The validator set updates\<close>

fun zero_updates ::
    "mig_ext \<Rightarrow> (staking_validator \<Rightarrow> bool) \<Rightarrow> staking_validator list \<Rightarrow> val_update list result" where
  "zero_updates e drop_val [] = Inr []"
| "zero_updates e drop_val (v # vs) =
     (if drop_val v
      then and_then (mx_UpdateZero e v) (\<lambda>u. and_then (zero_updates e drop_val vs) (\<lambda>us. Inr (u # us)))
      else zero_updates e drop_val vs)"

text \<open>
  The single-sequencer loop computes the zero update of every validator, also of the one it
  then skips, so a validator whose key cannot be converted panics in either case.
\<close>

fun sequencer_zero_updates ::
    "mig_ext \<Rightarrow> sequencer \<Rightarrow> staking_validator list \<Rightarrow> val_update list result" where
  "sequencer_zero_updates e seq [] = Inr []"
| "sequencer_zero_updates e seq (v # vs) =
     and_then (mx_UpdateZero e v) (\<lambda>powerUpdate.
     and_then (sequencer_zero_updates e seq vs) (\<lambda>us.
     Inr (if mx_any_Equal e (Some (val_ConsensusPubkey v)) (seq_ConsensusPubkey seq)
          then us else powerUpdate # us)))"

definition migrateToSequencer ::
    "mig_ext \<Rightarrow> evolve_migration \<Rightarrow> staking_validator list \<Rightarrow> val_update list result" where
  "migrateToSequencer e migrationData lastValidatorSet =
     (let seq = em_Sequencer migrationData in
      and_then (Sequencer_TmConsPublicKey e seq) (\<lambda>pk.
      let sequencerUpdate = \<lparr>vu_PubKey = pk, vu_Power = 1\<rparr> in
      and_then (sequencer_zero_updates e seq lastValidatorSet) (\<lambda>initialValUpdates.
      Inr (initialValUpdates @ [sequencerUpdate]))))"

fun attester_updates :: "mig_ext \<Rightarrow> attester list \<Rightarrow> val_update list result" where
  "attester_updates e [] = Inr []"
| "attester_updates e (a # as) =
     and_then (Attester_TmConsPublicKey e a) (\<lambda>pk.
     and_then (attester_updates e as) (\<lambda>us. Inr (\<lparr>vu_PubKey = pk, vu_Power = 1\<rparr> # us)))"

definition migrateToAttesters ::
    "mig_ext \<Rightarrow> evolve_migration \<Rightarrow> staking_validator list \<Rightarrow> val_update list result" where
  "migrateToAttesters e migrationData lastValidatorSet =
     (let attesterPubKeys = (\<lambda>a. mx_any_String e (att_ConsensusPubkey a)) ` set (em_Attesters migrationData) in
      and_then (zero_updates e
         (\<lambda>v. mx_any_String e (Some (val_ConsensusPubkey v)) \<notin> attesterPubKeys) lastValidatorSet)
        (\<lambda>removed.
      and_then (attester_updates e (em_Attesters migrationData)) (\<lambda>added. Inr (removed @ added))))"

text \<open>\<open>ErrInvalidRequest.Wrapf\<close> keeps only the text of the error; a panic is not caught.\<close>

definition invalid_request :: "string \<Rightarrow> go_error \<Rightarrow> go_error" where
  "invalid_request msg err = (case err of Panic p \<Rightarrow> Panic p | _ \<Rightarrow> ErrInvalidRequest msg)"

definition migrateNow ::
    "migration_env \<Rightarrow> evolve_migration \<Rightarrow> staking_validator list \<Rightarrow> migration_state \<Rightarrow>
     val_update list result \<times> migration_state" where
  "migrateNow env migrationData lastValidatorSet k =
     (let e = me_ext env in
      case Sequencer_UnpackInterfaces e (em_Sequencer migrationData) of
        Inl err \<Rightarrow> (Inl (invalid_request ''failed to unpack sequencer pubkey'' err), k)
      | Inr seq \<Rightarrow>
     (let migrationData = migrationData\<lparr>em_Sequencer := seq\<rparr> in
      case (if em_Attesters migrationData = []
            then map_sum (invalid_request ''failed to migrate to sequencer'') id
              (migrateToSequencer e migrationData lastValidatorSet)
            else map_sum (invalid_request ''failed to migrate to sequencer & attesters'') id
              (migrateToAttesters e migrationData lastValidatorSet)) of
        Inl err \<Rightarrow> (Inl err, k)
      | Inr initialValUpdates \<Rightarrow>
          (Inr initialValUpdates, k\<lparr>mg_Sequencer := Some (em_Sequencer migrationData)\<rparr>)))"

definition migration_EndBlock ::
    "migration_env \<Rightarrow> sdk_ctx \<Rightarrow> migration_state \<Rightarrow> val_update list result \<times> migration_state" where
  "migration_EndBlock env ctx k =
     (case IsMigrating env ctx k of (start, end_h, shouldBeMigrating) \<Rightarrow>
      if \<not> shouldBeMigrating \<or> start > to_uint64 (BlockHeight ctx) then (Inr [], k)
      else (case Migration_Get env k of
              Inl err \<Rightarrow> (Inl (ErrLogic ''failed to get migration state''), k)
            | Inr migration \<Rightarrow>
           (case me_GetLastValidators env of
              Inl err \<Rightarrow> (Inl err, k)
            | Inr validatorSet \<Rightarrow>
              if to_uint64 (BlockHeight ctx) = start
              then migrateNow env migration validatorSet k
              else (Inr [], k))))"

subsection \<open>Queries\<close>

definition Query_Attesters :: "migration_env \<Rightarrow> attester list result" where
  "Query_Attesters env =
     (case me_GetLastValidators env of
        Inl err \<Rightarrow> Inl (ErrLogic ''failed to get last validators'')
      | Inr vals \<Rightarrow> Inr (map (\<lambda>val. \<lparr>att_Name = val_Moniker val,
          att_ConsensusPubkey = Some (val_ConsensusPubkey val)\<rparr>) vals))"

record is_migrating_response =
  im_IsMigrating :: bool
  im_StartBlockHeight :: uint64
  im_EndBlockHeight :: uint64

definition Query_IsMigrating ::
    "migration_env \<Rightarrow> sdk_ctx \<Rightarrow> migration_state \<Rightarrow> is_migrating_response" where
  "Query_IsMigrating env ctx k =
     (case IsMigrating env ctx k of (start, end_h, isMigrating) \<Rightarrow>
      \<lparr>im_IsMigrating = isMigrating, im_StartBlockHeight = start, im_EndBlockHeight = end_h\<rparr>)"

definition Query_Sequencer ::
    "migration_env \<Rightarrow> sdk_ctx \<Rightarrow> migration_state \<Rightarrow> sequencer result" where
  "Query_Sequencer env ctx k =
     (case IsMigrating env ctx k of (_, _, migrationInProgress) \<Rightarrow>
      if migrationInProgress
      then Inl (ErrLogic ''sequencer is not set, migration is in progress or not started yet'')
      else (case mg_Sequencer k of
              None \<Rightarrow> Inl (ErrLogic ''failed to get sequencer'')
            | Some seq \<Rightarrow> Inr seq))"

subsection \<open>What the updates do to a validator set\<close>

text \<open>
  The consensus engine's view: a validator set maps keys to powers; an update of power 0 removes
  its key, any other sets it. The engine refuses two updates of one key in a block and the
  removal of a key that is not in the set.
\<close>

type_synonym valset = "cmt_pubkey \<rightharpoonup> int64"

definition apply_update :: "val_update \<Rightarrow> valset \<Rightarrow> valset" where
  "apply_update u m = m(vu_PubKey u := (if vu_Power u = 0 then None else Some (vu_Power u)))"

definition updates_valid :: "val_update list \<Rightarrow> valset \<Rightarrow> bool" where
  "updates_valid us m \<longleftrightarrow> distinct (map vu_PubKey us) \<and>
     (\<forall>u\<in>set us. vu_Power u = 0 \<longrightarrow> vu_PubKey u \<in> dom m)"

abbreviation removal :: "cmt_pubkey \<Rightarrow> val_update" where
  "removal pk \<equiv> \<lparr>vu_PubKey = pk, vu_Power = 0\<rparr>"

abbreviation addition :: "cmt_pubkey \<Rightarrow> val_update" where
  "addition pk \<equiv> \<lparr>vu_PubKey = pk, vu_Power = 1\<rparr>"

lemma fold_removals:
  "fold apply_update (map removal ks) m = (\<lambda>x. if x \<in> set ks then None else m x)"
  by (induction ks arbitrary: m) (auto simp: apply_update_def)

lemma fold_additions:
  "fold apply_update (map addition ks) m = (\<lambda>x. if x \<in> set ks then Some 1 else m x)"
  by (induction ks arbitrary: m) (auto simp: apply_update_def)

text \<open>Removing some keys and then giving power 1 to others.\<close>

lemma apply_replace:
  assumes "distinct removed" "distinct added" "set removed \<inter> set added = {}"
    and "dom m \<subseteq> set removed \<union> set added" "set removed \<subseteq> dom m"
  shows "updates_valid (map removal removed @ map addition added) m"
    and "fold apply_update (map removal removed @ map addition added) m =
      (\<lambda>x. if x \<in> set added then Some 1 else None)"
proof -
  show "updates_valid (map removal removed @ map addition added) m"
    using assms(1-3,5) by (auto simp: updates_valid_def comp_def)
  show "fold apply_update (map removal removed @ map addition added) m =
      (\<lambda>x. if x \<in> set added then Some 1 else None)"
    using assms(4) by (auto simp: fold_removals fold_additions fun_eq_iff dom_def)
qed

subsection \<open>Migration to a sequencer\<close>

lemma sequencer_zero_updates_eq:
  assumes "\<forall>v\<in>set vals. mx_UpdateZero e v = Inr (removal (key v))"
    and "\<forall>v\<in>set vals. mx_any_Equal e (Some (val_ConsensusPubkey v)) (seq_ConsensusPubkey seq) \<longleftrightarrow> key v = pk"
  shows "sequencer_zero_updates e seq vals =
    Inr (map removal (filter (\<lambda>k. k \<noteq> pk) (map key vals)))"
  using assms by (induction vals) auto



lemma migrateToSequencer_ok:
  assumes pk: "Sequencer_TmConsPublicKey e (em_Sequencer m) = Inr pk"
    and zero: "\<forall>v\<in>set vals. mx_UpdateZero e v = Inr (removal (key v))"
    and same: "\<forall>v\<in>set vals. mx_any_Equal e (Some (val_ConsensusPubkey v))
      (seq_ConsensusPubkey (em_Sequencer m)) \<longleftrightarrow> key v = pk"
    and dist: "distinct (map key vals)" and dom: "dom m0 = key ` set vals"
  shows "\<exists>us. migrateToSequencer e m vals = Inr us \<and> updates_valid us m0 \<and>
    fold apply_update us m0 = [pk \<mapsto> 1]"
proof -
  let ?rm = "filter (\<lambda>k. k \<noteq> pk) (map key vals)"
  let ?us = "map removal ?rm @ map addition [pk]"
  have "migrateToSequencer e m vals = Inr ?us"
    by (simp add: migrateToSequencer_def pk sequencer_zero_updates_eq [OF zero same])
  moreover have "updates_valid ?us m0 \<and> fold apply_update ?us m0 = (\<lambda>x. if x \<in> set [pk] then Some 1 else None)"
    by (intro conjI apply_replace) (use dist dom in auto)
  moreover have "(\<lambda>x. if x \<in> set [pk] then Some 1 else None) = [pk \<mapsto> (1::int64)]" by auto
  ultimately show ?thesis by metis
qed


text \<open>
  C15: migrating to a single sequencer replaces the validator set. At the migration height,
  with no attesters named, the end block returns updates the consensus engine can apply (no key
  twice, no removal of an unknown key), applying them to the current validators leaves exactly
  the sequencer with power 1, and the sequencer is recorded. The hypotheses are on the external
  code: the sequencer's key resolves and converts, the validators' keys convert, and \<open>Any\<close>
  equality agrees with equality of the converted keys.
\<close>

theorem migration_to_sequencer:
  assumes mig: "mg_Migration k = Some m0" and dec: "mx_decode (me_ext env) m0 = m"
    and at_start: "em_BlockHeight m = to_uint64 (BlockHeight ctx)"
      "em_BlockHeight m \<noteq> - 1" "em_Attesters m = []"
    and unpack: "Sequencer_UnpackInterfaces (me_ext env) (em_Sequencer m) = Inr seq"
    and pk: "Sequencer_TmConsPublicKey (me_ext env) seq = Inr pk"
    and vals: "me_GetLastValidators env = Inr vals"
    and zero: "\<forall>v\<in>set vals. mx_UpdateZero (me_ext env) v = Inr (removal (key v))"
    and same: "\<forall>v\<in>set vals. mx_any_Equal (me_ext env) (Some (val_ConsensusPubkey v))
      (seq_ConsensusPubkey seq) \<longleftrightarrow> key v = pk"
    and dist: "distinct (map key vals)" and dom: "dom vset = key ` set vals"
  shows "\<exists>us. migration_EndBlock env ctx k = (Inr us, k\<lparr>mg_Sequencer := Some seq\<rparr>) \<and>
    updates_valid us vset \<and> fold apply_update us vset = [pk \<mapsto> 1]"
proof -
  let ?m = "m\<lparr>em_Sequencer := seq\<rparr>"
  obtain us where us: "migrateToSequencer (me_ext env) ?m vals = Inr us" "updates_valid us vset"
    "fold apply_update us vset = [pk \<mapsto> 1]"
    using migrateToSequencer_ok [of "me_ext env" ?m pk vals key vset] pk zero same dist dom by auto
  have "em_BlockHeight m \<le> em_BlockHeight m + 1"
    using at_start(2) by (rule word_le_inc)
  then have "migration_EndBlock env ctx k = migrateNow env m vals k"
    using mig dec at_start(1) vals
    by (simp add: migration_EndBlock_def IsMigrating_def Migration_Get_def Let_def)
  then show ?thesis
    using us unpack at_start(3) by (simp add: migrateNow_def Let_def)
qed


subsection \<open>Keys that were not resolved\<close>

lemma attester_updates_unresolved:
  "as \<noteq> [] \<Longrightarrow> \<forall>a\<in>set as. \<exists>x. att_ConsensusPubkey a = Some x \<and> any_cached x = None \<Longrightarrow>
     is_err (attester_updates e as)"
  by (cases as) (auto simp: Attester_TmConsPublicKey_def any_TmConsPublicKey_def)

text \<open>
  C39: only the sequencer's key is resolved before a migration. If reading the migration back
  from the store leaves the attesters' \<open>Any\<close> values unresolved, which is what the codec does for
  a message that does not implement \<open>UnpackInterfaces\<close>, then a migration that names attesters
  fails at its height: the end block returns an error and no validator update.
\<close>

theorem migration_attester_keys_unresolved:
  assumes "mg_Migration k = Some m0" "mx_decode (me_ext env) m0 = m"
    and "em_BlockHeight m = to_uint64 (BlockHeight ctx)" "em_BlockHeight m \<noteq> - 1"
    and some: "em_Attesters m \<noteq> []"
    and raw: "\<forall>a\<in>set (em_Attesters m). \<exists>x. att_ConsensusPubkey a = Some x \<and> any_cached x = None"
  shows "is_err (fst (migration_EndBlock env ctx k)) \<and> snd (migration_EndBlock env ctx k) = k"
proof -
  have "em_BlockHeight m \<le> em_BlockHeight m + 1" using assms(4) by (rule word_le_inc)
  then have eb: "migration_EndBlock env ctx k =
      (case me_GetLastValidators env of Inl err \<Rightarrow> (Inl err, k) | Inr vals \<Rightarrow> migrateNow env m vals k)"
    using assms(1-3)
    by (simp add: migration_EndBlock_def IsMigrating_def Migration_Get_def Let_def cong: sum.case_cong)
  have fails: "\<exists>err. migrateToAttesters (me_ext env) (m\<lparr>em_Sequencer := seq\<rparr>) vals = Inl err" for seq vals
  proof -
    obtain err where "attester_updates (me_ext env) (em_Attesters m) = Inl err"
      using attester_updates_unresolved [OF some raw, of "me_ext env"] unfolding is_err_iff ..
    then show ?thesis
      by (auto simp: migrateToAttesters_def and_then_def split: sum.splits)
  qed
  have "is_err (fst (migrateNow env m vals k)) \<and> snd (migrateNow env m vals k) = k" for vals
  proof (cases "Sequencer_UnpackInterfaces (me_ext env) (em_Sequencer m)")
    case (Inr seq)
    then show ?thesis
      using some fails [of seq vals] by (auto simp: migrateNow_def Let_def)
  qed (simp add: migrateNow_def)
  then show ?thesis unfolding eb by (simp split: sum.splits)
qed

subsection \<open>The schedule of a migration\<close>

text \<open>
  One block of a chain that runs the module: pre-block, the migration messages of the block's
  transactions (a failing one has no effect), end block. \<open>None\<close> is a block that fails: the
  state is not committed and the chain stands still at that height.
\<close>

definition deliver_migrate ::
    "migration_env \<Rightarrow> sdk_ctx \<Rightarrow> msg_migrate_to_evolve \<Rightarrow> migration_state \<Rightarrow> migration_state" where
  "deliver_migrate env ctx msg k =
     (case MigrateToEvolve env ctx msg k of (Inl _, _) \<Rightarrow> k | (Inr _, k') \<Rightarrow> k')"

definition mig_block ::
    "migration_env \<Rightarrow> sdk_ctx \<Rightarrow> msg_migrate_to_evolve list \<Rightarrow> migration_state \<Rightarrow>
     (val_update list \<times> migration_state) option" where
  "mig_block env ctx msgs k =
     (case PreBlock env ctx k of
        (Inl _, _) \<Rightarrow> None
      | (Inr _, k) \<Rightarrow>
     (case migration_EndBlock env ctx (fold (deliver_migrate env ctx) msgs k) of
        (Inl _, _) \<Rightarrow> None
      | (Inr us, k) \<Rightarrow> Some (us, k)))"

lemma IsMigrating_plain:
  assumes mig: "mg_Migration k = Some m0" and dec: "em_BlockHeight (mx_decode (me_ext env) m0) = H"
    and H: "uint H + 2 < 2 ^ 63" and h: "0 \<le> BlockHeight ctx" "BlockHeight ctx < 2 ^ 63"
  shows "IsMigrating env ctx k = (H, H + 1, BlockHeight ctx \<in> {uint H, uint H + 1})"
    and "(to_uint64 (BlockHeight ctx) = H) = (BlockHeight ctx = uint H)"
    and "(to_uint64 (BlockHeight ctx) = H + 1 + 1) = (BlockHeight ctx = uint H + 2)"
    and "0 < H + 1" and "(to_uint64 (BlockHeight ctx) < H) = (BlockHeight ctx < uint H)"
proof -
  let ?c = "to_uint64 (BlockHeight ctx)"
  have c: "uint ?c = BlockHeight ctx"
    using h by (simp add: to_uint64_def unsigned_of_int take_bit_int_eq_self)
  have u1: "uint (H + 1) = uint H + 1" and u2: "uint (H + 1 + 1) = uint H + 2"
    using H by (simp_all add: uint_plus_if')
  show "(?c = H) = (BlockHeight ctx = uint H)" "(?c < H) = (BlockHeight ctx < uint H)"
    using c by (auto simp: word_uint_eq_iff word_less_def)
  show "(?c = H + 1 + 1) = (BlockHeight ctx = uint H + 2)"
    unfolding word_uint_eq_iff u2 c ..
  show "0 < H + 1" by (simp add: word_less_def u1)
  have "(H \<le> ?c \<and> ?c \<le> H + 1) = (BlockHeight ctx \<in> {uint H, uint H + 1})"
    unfolding word_le_def u1 c by auto
  then show "IsMigrating env ctx k = (H, H + 1, BlockHeight ctx \<in> {uint H, uint H + 1})"
    using mig dec by (simp add: IsMigrating_def Migration_Get_def Let_def)
qed

text \<open>
  C18: the schedule of a stored migration for height \<open>H\<close>. Before \<open>H\<close> a block changes
  nothing; block \<open>H\<close> performs the migration and returns its updates; block \<open>H + 1\<close> only reads
  the validators; block \<open>H + 2\<close> fails, and it fails again however often it is retried and
  whatever messages it carries, because the removal of the migration is not committed.
\<close>

theorem migration_schedule:
  assumes mig: "mg_Migration k = Some m0" and dec: "mx_decode (me_ext env) m0 = m"
    and H: "uint (em_BlockHeight m) + 2 < 2 ^ 63" and h: "0 \<le> BlockHeight ctx" "BlockHeight ctx < 2 ^ 63"
  shows "mig_block env ctx [] k =
      (if BlockHeight ctx = uint (em_BlockHeight m) + 2 then None
       else if BlockHeight ctx \<in> {uint (em_BlockHeight m), uint (em_BlockHeight m) + 1}
       then (case me_GetLastValidators env of
               Inl _ \<Rightarrow> None
             | Inr vals \<Rightarrow>
                 if BlockHeight ctx = uint (em_BlockHeight m)
                 then (case migrateNow env m vals k of (Inl _, _) \<Rightarrow> None | (Inr us, k') \<Rightarrow> Some (us, k'))
                 else Some ([], k))
       else Some ([], k)) \<and>
    (BlockHeight ctx = uint (em_BlockHeight m) + 2 \<longrightarrow> (\<forall>msgs. mig_block env ctx msgs k = None))"
proof -
  note plain = IsMigrating_plain [OF mig, of env "em_BlockHeight m", unfolded dec, OF refl H h]
  have pre: "PreBlock env ctx k = (if BlockHeight ctx = uint (em_BlockHeight m) + 2
      then (Inl (ErrLogic ''MIGRATE: chain migration to evolve is complete''), k\<lparr>mg_Migration := None\<rparr>)
      else (Inr (), k))"
    using plain(3,4) by (simp add: PreBlock_def plain(1) Let_def)
  have eb: "migration_EndBlock env ctx k =
      (if BlockHeight ctx \<in> {uint (em_BlockHeight m), uint (em_BlockHeight m) + 1}
       then (case me_GetLastValidators env of
               Inl err \<Rightarrow> (Inl err, k)
             | Inr vals \<Rightarrow> if BlockHeight ctx = uint (em_BlockHeight m)
                 then migrateNow env m vals k else (Inr [], k))
       else (Inr [], k))"
    using mig dec plain(2,5)
    by (auto simp: migration_EndBlock_def plain(1) Migration_Get_def not_less split: sum.splits)
  show ?thesis
    by (auto simp: mig_block_def pre eb split: sum.splits prod.splits)
qed

text \<open>
  a migration can only be scheduled by the authority and not for a past height; the
  message then replaces whatever migration was stored before.
\<close>

lemma MigrateToEvolve_guarded:
  "(fst (MigrateToEvolve env ctx msg k) = Inr () \<longleftrightarrow>
      mm_Authority msg = me_authority env \<and> to_uint64 (BlockHeight ctx) \<le> mm_BlockHeight msg) \<and>
   (if fst (MigrateToEvolve env ctx msg k) = Inr ()
    then snd (MigrateToEvolve env ctx msg k) = k\<lparr>mg_Migration := Some \<lparr>em_BlockHeight = mm_BlockHeight msg,
      em_Sequencer = mm_Sequencer msg, em_Attesters = mm_Attesters msg\<rparr>\<rparr>
    else snd (MigrateToEvolve env ctx msg k) = k)"
  by (auto simp: MigrateToEvolve_def not_less)

end
