(* ===== verification/NetworkTypes.thy ===== *)
theory NetworkTypes
  imports SdkTypes
begin

text \<open>
  The types package of the network module (\<open>modules/network/types\<close>): parameters and their
  validation (\<open>params.go\<close>), messages (\<open>msgs.go\<close>), attester records (\<open>attester.go\<close>), store keys
  (\<open>keys.go\<close>) and the genesis state with its validation (\<open>genesis.go\<close>).
\<close>

subsection \<open>Parameters\<close>

record params =
  EpochLength :: uint64
  QuorumFraction :: string
  MinParticipation :: string
  PruneAfter :: uint64
  SignMode :: int

text \<open>The zero value of the struct, which \<open>GetParams\<close> returns when nothing is stored.\<close>

definition zero_params :: params where
  "zero_params = \<lparr>EpochLength = 0, QuorumFraction = '''', MinParticipation = '''',
     PruneAfter = 0, SignMode = 0\<rparr>"

definition SIGN_MODE_UNSPECIFIED :: int where "SIGN_MODE_UNSPECIFIED = 0"
definition SIGN_MODE_CHECKPOINT :: int where "SIGN_MODE_CHECKPOINT = 1"

definition NewParams :: "ext \<Rightarrow> uint64 \<Rightarrow> dec \<Rightarrow> dec \<Rightarrow> uint64 \<Rightarrow> int \<Rightarrow> params" where
  "NewParams e epochLength quorumFraction minParticipation pruneAfter signMode =
     \<lparr>EpochLength = epochLength, QuorumFraction = ext_DecString e quorumFraction,
      MinParticipation = ext_DecString e minParticipation, PruneAfter = pruneAfter,
      SignMode = signMode\<rparr>"

definition DefaultParams :: "ext \<Rightarrow> params" where
  "DefaultParams e = NewParams e 1 (667 / 1000) (5 / 10) 1000 SIGN_MODE_CHECKPOINT"

text \<open>The validators take a value of type \<open>any\<close> and first assert its dynamic type.\<close>

datatype param_value = PV_uint64 uint64 | PV_string string | PV_SignMode int

fun validateEpochLength :: "param_value \<Rightarrow> unit result" where
  "validateEpochLength (PV_uint64 v) =
     (if v = 0 then Inl (ErrorString ''epoch length must be positive'') else Inr ())"
| "validateEpochLength _ = Inl (ErrorString ''invalid parameter type'')"

fun validateQuorumFraction :: "ext \<Rightarrow> param_value \<Rightarrow> unit result" where
  "validateQuorumFraction e (PV_string v) =
     (case ext_DecFromStr e v of
        None \<Rightarrow> Inl (ErrorString ''invalid decimal string'')
      | Some d \<Rightarrow>
          if d \<le> 0 \<or> d > 1 then Inl (ErrorString ''quorum fraction must be between 0 and 1'')
          else Inr ())"
| "validateQuorumFraction _ _ = Inl (ErrorString ''invalid parameter type'')"

fun validateMinParticipation :: "ext \<Rightarrow> param_value \<Rightarrow> unit result" where
  "validateMinParticipation e (PV_string v) =
     (case ext_DecFromStr e v of
        None \<Rightarrow> Inl (ErrorString ''invalid decimal string'')
      | Some d \<Rightarrow>
          if d \<le> 0 \<or> d > 1 then Inl (ErrorString ''min participation must be between 0 and 1'')
          else Inr ())"
| "validateMinParticipation _ _ = Inl (ErrorString ''invalid parameter type'')"

fun validatePruneAfter :: "param_value \<Rightarrow> unit result" where
  "validatePruneAfter (PV_uint64 v) =
     (if v = 0 then Inl (ErrorString ''prune after must be positive'') else Inr ())"
| "validatePruneAfter _ = Inl (ErrorString ''invalid parameter type'')"

fun validateSignMode :: "param_value \<Rightarrow> unit result" where
  "validateSignMode (PV_SignMode v) =
     (if v = SIGN_MODE_UNSPECIFIED then Inl (ErrorString ''sign mode cannot be unspecified'')
      else if v \<noteq> SIGN_MODE_CHECKPOINT then Inl (ErrorString ''invalid sign mode'')
      else Inr ())"
| "validateSignMode _ = Inl (ErrorString ''invalid parameter type'')"

definition Params_Validate :: "ext \<Rightarrow> params \<Rightarrow> unit result" where
  "Params_Validate e p =
     and_then (validateEpochLength (PV_uint64 (EpochLength p))) (\<lambda>_.
     and_then (validateQuorumFraction e (PV_string (QuorumFraction p))) (\<lambda>_.
     and_then (validateMinParticipation e (PV_string (MinParticipation p))) (\<lambda>_.
     and_then (validatePruneAfter (PV_uint64 (PruneAfter p))) (\<lambda>_.
     and_then (validateSignMode (PV_SignMode (SignMode p))) (\<lambda>_.
     Inr ())))))"

text \<open>What a valid parameter set promises the rest of the module.\<close>

definition params_ok :: "ext \<Rightarrow> params \<Rightarrow> bool" where
  "params_ok e p \<longleftrightarrow> EpochLength p \<noteq> 0 \<and> PruneAfter p \<noteq> 0 \<and> SignMode p = SIGN_MODE_CHECKPOINT \<and>
     (\<exists>d. ext_DecFromStr e (QuorumFraction p) = Some d \<and> 0 < d \<and> d \<le> 1) \<and>
     (\<exists>d. ext_DecFromStr e (MinParticipation p) = Some d \<and> 0 < d \<and> d \<le> 1)"

lemma validate_simps:
  "validateEpochLength (PV_uint64 v) = Inr u \<longleftrightarrow> v \<noteq> 0"
  "validatePruneAfter (PV_uint64 v) = Inr u \<longleftrightarrow> v \<noteq> 0"
  "validateQuorumFraction e (PV_string s) = Inr u \<longleftrightarrow>
     (\<exists>d. ext_DecFromStr e s = Some d \<and> 0 < d \<and> d \<le> 1)"
  "validateMinParticipation e (PV_string s) = Inr u \<longleftrightarrow>
     (\<exists>d. ext_DecFromStr e s = Some d \<and> 0 < d \<and> d \<le> 1)"
  "validateSignMode (PV_SignMode m) = Inr u \<longleftrightarrow> m = SIGN_MODE_CHECKPOINT"
  by (auto simp: SIGN_MODE_UNSPECIFIED_def SIGN_MODE_CHECKPOINT_def split: option.splits if_splits)

lemma Params_Validate_iff: "Params_Validate e p = Inr () \<longleftrightarrow> params_ok e p"
  unfolding Params_Validate_def params_ok_def by (simp only: result_iffs validate_simps) auto

subsection \<open>Attesters, messages, stored attestations\<close>

record attester_info =
  ai_Authority :: string
  ai_Pubkey :: "any option"
  ai_JoinedHeight :: int64
  ai_ConsensusAddress :: string

definition GetPubKey :: "attester_info \<Rightarrow> pubkey result" where
  "GetPubKey a =
     (case ai_Pubkey a of
        None \<Rightarrow> Inl (ErrorString ''pubkey not set'')
      | Some x \<Rightarrow> (case any_cached x of
            Some pk \<Rightarrow> Inr pk
          | None \<Rightarrow> Inl (ErrorString ''pubkey cached value not cryptotypes.PubKey'')))"

text \<open>\<open>NewAnyWithValue\<close> is the SDK's packing function; \<open>None\<close> is its error.\<close>

definition NewAttesterInfo ::
    "ext \<Rightarrow> (pubkey \<Rightarrow> any option) \<Rightarrow> string \<Rightarrow> pubkey \<Rightarrow> int64 \<Rightarrow> attester_info result" where
  "NewAttesterInfo e newAnyWithValue authority pk joinedHeight =
     (case newAnyWithValue pk of
        None \<Rightarrow> Inl (ErrorString ''pack pubkey'')
      | Some a \<Rightarrow> Inr \<lparr>ai_Authority = authority, ai_Pubkey = Some a, ai_JoinedHeight = joinedHeight,
          ai_ConsensusAddress = ext_ConsAddress e (ext_pk_Address e pk)\<rparr>)"

record msg_attest =
  ma_Authority :: string
  ma_ConsensusAddress :: string
  ma_Height :: int64
  ma_Vote :: bytes

record msg_join_attester_set =
  mj_Authority :: string
  mj_ConsensusAddress :: string
  mj_Pubkey :: "any option"

record msg_leave_attester_set =
  ml_Authority :: string
  ml_ConsensusAddress :: string

record msg_update_params =
  mu_Authority :: string
  mu_Params :: params

definition NewMsgAttest :: "string \<Rightarrow> string \<Rightarrow> int64 \<Rightarrow> bytes \<Rightarrow> msg_attest" where
  "NewMsgAttest authority consensusAddress height v =
     \<lparr>ma_Authority = authority, ma_ConsensusAddress = consensusAddress, ma_Height = height,
      ma_Vote = v\<rparr>"

definition NewMsgJoinAttesterSet ::
    "(pubkey \<Rightarrow> any option) \<Rightarrow> string \<Rightarrow> string \<Rightarrow> pubkey \<Rightarrow> msg_join_attester_set result" where
  "NewMsgJoinAttesterSet newAnyWithValue authority consensusAddress pk =
     (case newAnyWithValue pk of
        None \<Rightarrow> Inl (ErrorString ''pack pubkey'')
      | Some a \<Rightarrow> Inr \<lparr>mj_Authority = authority, mj_ConsensusAddress = consensusAddress,
          mj_Pubkey = Some a\<rparr>)"

definition NewMsgLeaveAttesterSet :: "string \<Rightarrow> string \<Rightarrow> msg_leave_attester_set" where
  "NewMsgLeaveAttesterSet authority consensusAddress =
     \<lparr>ml_Authority = authority, ml_ConsensusAddress = consensusAddress\<rparr>"

definition NewMsgUpdateParams :: "string \<Rightarrow> params \<Rightarrow> msg_update_params" where
  "NewMsgUpdateParams authority p = \<lparr>mu_Authority = authority, mu_Params = p\<rparr>"

record attestation_bitmap =
  ab_Height :: int64
  ab_Bitmap :: bytes
  ab_VotedPower :: uint64
  ab_TotalPower :: uint64
  ab_SoftConfirmed :: bool

record validator_index =
  vi_Address :: string
  vi_Index :: uint32
  vi_Power :: uint64

subsection \<open>Genesis state\<close>

record genesis_state =
  gs_Params :: params
  gs_ValidatorIndices :: "validator_index list"
  gs_AttestationBitmaps :: "attestation_bitmap list"
  gs_AttesterInfos :: "attester_info list"

definition DefaultGenesisState :: "ext \<Rightarrow> genesis_state" where
  "DefaultGenesisState e = \<lparr>gs_Params = DefaultParams e, gs_ValidatorIndices = [],
     gs_AttestationBitmaps = [], gs_AttesterInfos = []\<rparr>"

text \<open>The loop over the validator indices, with the two maps of what was seen so far.\<close>

fun check_indices :: "validator_index list \<Rightarrow> string set \<Rightarrow> uint32 set \<Rightarrow> unit result" where
  "check_indices [] indexMap usedIndices = Inr ()"
| "check_indices (vi # vis) indexMap usedIndices =
     (if vi_Address vi \<in> indexMap then Inl (ErrorString ''duplicate validator address'')
      else if vi_Index vi \<in> usedIndices then Inl (ErrorString ''duplicate index'')
      else check_indices vis (insert (vi_Address vi) indexMap) (insert (vi_Index vi) usedIndices))"

fun check_bitmaps :: "attestation_bitmap list \<Rightarrow> unit result" where
  "check_bitmaps [] = Inr ()"
| "check_bitmaps (ab # ab_list) =
     (if ab_Height ab \<le> 0 then Inl (ErrorString ''invalid attestation height'')
      else if ab_VotedPower ab > ab_TotalPower ab
        then Inl (ErrorString ''voted power exceeds total power'')
      else check_bitmaps ab_list)"

definition MaxUint16 :: nat where "MaxUint16 = 65535"

definition GenesisState_Validate :: "ext \<Rightarrow> genesis_state \<Rightarrow> unit result" where
  "GenesisState_Validate e gs =
     (case Params_Validate e (gs_Params gs) of
        Inl err \<Rightarrow> Inl (Wrap ''invalid params'' err)
      | Inr _ \<Rightarrow>
          and_then (guard (\<not> length (gs_ValidatorIndices gs) > MaxUint16)
                     (ErrorString ''too many validator indices'')) (\<lambda>_.
          and_then (check_indices (gs_ValidatorIndices gs) {} {}) (\<lambda>_.
          check_bitmaps (gs_AttestationBitmaps gs))))"

text \<open>\<open>UnpackInterfaces\<close>: every attester's key goes through the codec's unpacker.\<close>

fun unpack_attesters ::
    "(any option \<Rightarrow> any option result) \<Rightarrow> attester_info list \<Rightarrow> attester_info list result" where
  "unpack_attesters unpackAny [] = Inr []"
| "unpack_attesters unpackAny (a # as) =
     (case unpackAny (ai_Pubkey a) of
        Inl err \<Rightarrow> Inl (Wrap ''unpack attester'' err)
      | Inr p \<Rightarrow> and_then (unpack_attesters unpackAny as) (\<lambda>as'. Inr (a\<lparr>ai_Pubkey := p\<rparr> # as')))"

lemma check_indices_iff:
  "check_indices vis A I = Inr () \<longleftrightarrow>
     distinct (map vi_Address vis) \<and> distinct (map vi_Index vis) \<and>
     vi_Address ` set vis \<inter> A = {} \<and> vi_Index ` set vis \<inter> I = {}"
  by (induction vis arbitrary: A I) auto

lemma check_bitmaps_iff:
  "check_bitmaps ab_list = Inr () \<longleftrightarrow>
     list_all (\<lambda>ab. 0 < ab_Height ab \<and> ab_VotedPower ab \<le> ab_TotalPower ab) ab_list"
  by (induction ab_list) auto

lemma GenesisState_Validate_params:
  "GenesisState_Validate e gs = Inr () \<Longrightarrow> params_ok e (gs_Params gs)"
  unfolding GenesisState_Validate_def Params_Validate_iff [symmetric]
  by (auto split: sum.splits simp: result_iffs)

text \<open>
  genesis validation accepts exactly the states with valid parameters, at most 65535
  validator indices, pairwise distinct addresses and indices, and only bitmaps at positive
  heights whose voted power is within the total power.
\<close>

lemma GenesisState_Validate_iff:
  "GenesisState_Validate e gs = Inr () \<longleftrightarrow>
     params_ok e (gs_Params gs) \<and> length (gs_ValidatorIndices gs) \<le> 65535 \<and>
     distinct (map vi_Address (gs_ValidatorIndices gs)) \<and>
     distinct (map vi_Index (gs_ValidatorIndices gs)) \<and>
     list_all (\<lambda>ab. 0 < ab_Height ab \<and> ab_VotedPower ab \<le> ab_TotalPower ab)
       (gs_AttestationBitmaps gs)"
  unfolding GenesisState_Validate_def MaxUint16_def Params_Validate_iff [symmetric]
  by (auto split: sum.splits simp: result_iffs check_indices_iff check_bitmaps_iff)

subsection \<open>Store keys\<close>

text \<open>The raw keys of \<open>keys.go\<close>: a prefix followed by the big-endian or string key.\<close>

definition string_bytes :: "string \<Rightarrow> bytes" where
  "string_bytes s = map (\<lambda>c. of_nat (of_char c)) s"

definition be_bytes :: "nat \<Rightarrow> 'a::len word \<Rightarrow> bytes" where
  "be_bytes n w = map (\<lambda>i. ucast (drop_bit (8 * i) w)) (rev [0..<n])"

definition GetValidatorIndexKey :: "string \<Rightarrow> bytes" where
  "GetValidatorIndexKey addr = string_bytes ''validator_index'' @ string_bytes addr"

definition GetValidatorPowerKey :: "uint16 \<Rightarrow> bytes" where
  "GetValidatorPowerKey index = string_bytes ''validator_power'' @ be_bytes 2 index"

definition GetAttestationKey :: "int64 \<Rightarrow> bytes" where
  "GetAttestationKey height =
     string_bytes ''attestation_bitmap'' @ be_bytes 8 (to_uint64 height)"

definition GetSignatureKey :: "int64 \<Rightarrow> string \<Rightarrow> bytes" where
  "GetSignatureKey height addr =
     (string_bytes ''signature'' @ be_bytes 8 (to_uint64 height)) @ string_bytes addr"

definition GetEpochBitmapKey :: "uint64 \<Rightarrow> bytes" where
  "GetEpochBitmapKey epoch = string_bytes ''epoch_bitmap'' @ be_bytes 8 epoch"

definition GetAttesterSetKey :: "string \<Rightarrow> bytes" where
  "GetAttesterSetKey addr = string_bytes ''attester_set'' @ string_bytes addr"

definition GetAttesterInfoKey :: "string \<Rightarrow> bytes" where
  "GetAttesterInfoKey addr = string_bytes ''attester_info'' @ string_bytes addr"

lemma length_be_bytes [simp]: "length (be_bytes n w) = n"
  by (simp add: be_bytes_def)

lemma bit_ucast_drop:
  "(ucast (drop_bit k (w::'a::len word)) :: byte) = ucast (drop_bit k w') \<Longrightarrow> i < 8 \<Longrightarrow>
     bit w (k + i) = bit w' (k + i)"
  by (drule arg_cong [of _ _ "\<lambda>x. bit x i"]) (auto simp: bit_simps dest: bit_imp_le_length)

lemma be_bytes_inj:
  assumes "LENGTH('a) \<le> 8 * n" and "be_bytes n (v::'a::len word) = be_bytes n w"
  shows "v = w"
proof (rule bit_word_eqI)
  fix i assume "i < LENGTH('a)"
  then have "i div 8 < n" using assms(1) by linarith
  with assms(2) have "(ucast (drop_bit (8 * (i div 8)) v) :: byte) = ucast (drop_bit (8 * (i div 8)) w)"
    by (auto simp: be_bytes_def map_eq_conv)
  then have "bit v (8 * (i div 8) + i mod 8) = bit w (8 * (i div 8) + i mod 8)"
    by (rule bit_ucast_drop) simp
  then show "bit v i = bit w i" by simp
qed

lemma of_char_word_inj: "(of_nat (of_char c) :: byte) = of_nat (of_char d) \<Longrightarrow> c = d"
proof -
  assume "(of_nat (of_char c) :: byte) = of_nat (of_char d)"
  then have "unat (of_nat (of_char c) :: byte) = unat (of_nat (of_char d) :: byte)" by simp
  moreover have "unat (of_nat (of_char x) :: byte) = of_char x" for x
    using nat_of_char_less_256 [of x] by (simp add: unsigned_of_nat take_bit_nat_eq_self)
  ultimately show ?thesis by simp
qed

lemma string_bytes_inj: "string_bytes s = string_bytes t \<Longrightarrow> s = t"
  unfolding string_bytes_def
  by (rule map_injective) (auto intro: injI of_char_word_inj)

lemma to_uint64_inj: "int64_range h \<Longrightarrow> int64_range h' \<Longrightarrow> to_uint64 h = to_uint64 h' \<Longrightarrow> h = h'"
  using int64_wrap_id [of h] int64_wrap_id [of h'] by (simp add: int64_wrap_def to_uint64_def)

lemma be_bytes_inj_iff:
  "be_bytes 8 (v::uint64) = be_bytes 8 w \<longleftrightarrow> v = w"
  "be_bytes 2 (i::uint16) = be_bytes 2 j \<longleftrightarrow> i = j"
  using be_bytes_inj [of 8 v w] be_bytes_inj [of 2 i j] by auto

lemma key_family_disjoint:
  "distinct [GetSignatureKey h a, GetAttestationKey h1, GetEpochBitmapKey e, GetValidatorPowerKey i,
     GetValidatorIndexKey a1, GetAttesterSetKey a2, GetAttesterInfoKey a3]"
  by (simp add: GetSignatureKey_def GetAttestationKey_def GetEpochBitmapKey_def
      GetValidatorPowerKey_def GetValidatorIndexKey_def GetAttesterSetKey_def
      GetAttesterInfoKey_def string_bytes_def)

text \<open>
  The raw store keys never collide. Within each family they are injective: two signature
  keys agree only for the same height and address, and likewise the attestation, epoch, power
  and address keys; and keys of different families differ, whatever their arguments.
\<close>

lemma store_keys_injective:
  assumes "int64_range h" and "int64_range h'"
  shows "(GetSignatureKey h a = GetSignatureKey h' a' \<longleftrightarrow> h = h' \<and> a = a') \<and>
    (GetAttestationKey h = GetAttestationKey h' \<longleftrightarrow> h = h') \<and>
    (GetEpochBitmapKey e = GetEpochBitmapKey e' \<longleftrightarrow> e = e') \<and>
    (GetValidatorPowerKey i = GetValidatorPowerKey i' \<longleftrightarrow> i = i') \<and>
    (GetValidatorIndexKey a = GetValidatorIndexKey a' \<longleftrightarrow> a = a') \<and>
    (GetAttesterSetKey a = GetAttesterSetKey a' \<longleftrightarrow> a = a') \<and>
    (GetAttesterInfoKey a = GetAttesterInfoKey a' \<longleftrightarrow> a = a') \<and>
    distinct [GetSignatureKey h a, GetAttestationKey h', GetEpochBitmapKey e, GetValidatorPowerKey i,
      GetValidatorIndexKey a1, GetAttesterSetKey a2, GetAttesterInfoKey a3]"
proof -
  have "(GetSignatureKey h a = GetSignatureKey h' a' \<longleftrightarrow> h = h' \<and> a = a') \<and>
    (GetAttestationKey h = GetAttestationKey h' \<longleftrightarrow> h = h') \<and>
    (GetEpochBitmapKey e = GetEpochBitmapKey e' \<longleftrightarrow> e = e') \<and>
    (GetValidatorPowerKey i = GetValidatorPowerKey i' \<longleftrightarrow> i = i') \<and>
    (GetValidatorIndexKey a = GetValidatorIndexKey a' \<longleftrightarrow> a = a') \<and>
    (GetAttesterSetKey a = GetAttesterSetKey a' \<longleftrightarrow> a = a') \<and>
    (GetAttesterInfoKey a = GetAttesterInfoKey a' \<longleftrightarrow> a = a')"
  using to_uint64_inj [OF assms]
  by (auto simp: GetSignatureKey_def GetAttestationKey_def GetEpochBitmapKey_def
      GetValidatorPowerKey_def GetValidatorIndexKey_def GetAttesterSetKey_def
      GetAttesterInfoKey_def be_bytes_inj_iff append_eq_append_conv dest: string_bytes_inj)
  then show ?thesis using key_family_disjoint by blast
qed

end
