(* ===== verification/DemoEnv.thy ===== *)
theory DemoEnv
  imports NetworkTypes
begin

text \<open>
  A concrete instance of the external packages, for evaluating the model on examples: keys are
  their own addresses, an address string is the address bytes read as characters, a signature is
  valid when it repeats the key, and a vote is encoded by three bytes (attester, height,
  signature). It satisfies the documented laws the theorems assume (an address string decodes to
  the address it encodes).
\<close>

definition demo_vote :: "byte \<Rightarrow> byte \<Rightarrow> byte \<Rightarrow> vote" where
  "demo_vote who h s = \<lparr>vote_Type = PrecommitType, vote_Height = uint h, vote_Round = 0,
     vote_BlockID = \<lparr>bid_Hash = [h], bid_psh_Total = 1, bid_psh_Hash = [h]\<rparr>, vote_Timestamp = 0,
     vote_ValidatorAddress = [who], vote_ValidatorIndex = 0, vote_Signature = [s]\<rparr>"

definition demo_unmarshal :: "bytes \<Rightarrow> vote option" where
  "demo_unmarshal bs = (case bs of [who, h, s] \<Rightarrow> Some (demo_vote who h s) | _ \<Rightarrow> None)"

definition bytes_string :: "bytes \<Rightarrow> string" where
  "bytes_string bs = map (\<lambda>b. char_of (unat b)) bs"

definition demo_ext :: ext where
  "demo_ext = \<lparr>
     ext_pk_Address = pk_bytes,
     ext_VerifySignature = (\<lambda>pk msg sig. sig = pk_bytes pk),
     ext_ConsAddress = bytes_string,
     ext_bech32_Decode = (\<lambda>s. Some (''cosmosvalcons'', string_bytes s)),
     ext_UnmarshalVote = demo_unmarshal,
     ext_VoteSignBytes = (\<lambda>chain v. string_bytes chain @ bid_Hash (vote_BlockID v)),
     ext_BlockIDFromProto = Some,
     ext_DecFromStr = (\<lambda>s. if s = ''0.667'' then Some (667 / 1000)
        else if s = ''0.500'' then Some (5 / 10) else None),
     ext_DecString = (\<lambda>d. if d = 667 / 1000 then ''0.667'' else ''0.500''),
     ext_DecQuoInt64 = (\<lambda>d i. d / of_int i),
     ext_IntString = (\<lambda>_. ''''),
     ext_Sha256 = (\<lambda>b. b),
     ext_Base64 = bytes_string\<rparr>"

definition demo_key :: "bytes \<Rightarrow> any" where
  "demo_key bs = \<lparr>any_TypeUrl = ''ed25519'', any_Value = bs, any_cached = Some (PubKey ''ed25519'' bs)\<rparr>"

definition demo_attester :: "bytes \<Rightarrow> attester_info" where
  "demo_attester bs = \<lparr>ai_Authority = ''op'', ai_Pubkey = Some (demo_key bs), ai_JoinedHeight = 0,
     ai_ConsensusAddress = bytes_string bs\<rparr>"

lemma demo_ext_simps [simp]:
  "ext_pk_Address demo_ext = pk_bytes"
  "ext_VerifySignature demo_ext pk msg sig = (sig = pk_bytes pk)"
  "ext_ConsAddress demo_ext = bytes_string"
  "ext_bech32_Decode demo_ext s = Some (''cosmosvalcons'', string_bytes s)"
  "ext_UnmarshalVote demo_ext = demo_unmarshal"
  "ext_BlockIDFromProto demo_ext = Some"
  "ext_DecFromStr demo_ext s = (if s = ''0.667'' then Some (667 / 1000)
     else if s = ''0.500'' then Some (5 / 10) else None)"
  "ext_DecString demo_ext d = (if d = 667 / 1000 then ''0.667'' else ''0.500'')"
  by (simp_all add: demo_ext_def)

lemma string_bytes_bytes_string [simp]: "string_bytes (bytes_string bs) = bs"
proof -
  have "(of_nat (of_char (char_of (unat b) :: char)) :: byte) = b" for b :: byte
    using unsigned_less [of b, where ?'a = nat] by (simp add: of_char_of)
  then show ?thesis by (simp add: string_bytes_def bytes_string_def map_idI o_def)
qed

lemma bytes_string_inj: "bytes_string a = bytes_string b \<Longrightarrow> a = b"
  by (metis string_bytes_bytes_string)

lemma GetPubKey_demo_attester [simp]: "GetPubKey (demo_attester bs) = Inr (PubKey ''ed25519'' bs)"
  by (simp add: GetPubKey_def demo_attester_def demo_key_def)

lemma demo_attester_fields [simp]:
  "ai_ConsensusAddress (demo_attester bs) = bytes_string bs"
  "ai_Authority (demo_attester bs) = ''op''"
  by (simp_all add: demo_attester_def)

lemma demo_params_ok: "params_ok demo_ext (DefaultParams demo_ext)"
proof -
  have "\<exists>d::rat. Some (667 / 1000) = Some d \<and> 0 < d \<and> d \<le> 1"
    by (rule exI [of _ "667 / 1000"]) simp
  moreover have "\<exists>d::rat. Some (5 / 10) = Some d \<and> 0 < d \<and> d \<le> 1"
    by (rule exI [of _ "5 / 10"]) simp
  ultimately show ?thesis
    unfolding params_ok_def DefaultParams_def NewParams_def demo_ext_simps
    by (simp add: SIGN_MODE_CHECKPOINT_def del: option.inject)
qed

end
