(* ===== verification/MigrationExample.thy ===== *)
theory MigrationExample
  imports Migration DemoEnv
begin

text \<open>
  The theorems on the migration manager applied to a chain with two validators (keys 1 and 2)
  that migrates at height 10, on a concrete instance of the external code: a key converts to
  itself, an \<open>Any\<close> prints and compares by its value.
\<close>

definition demo_resolve :: "any \<Rightarrow> any" where
  "demo_resolve a = a\<lparr>any_cached := Some (PubKey (any_TypeUrl a) (any_Value a))\<rparr>"

definition demo_mig_ext :: "(evolve_migration \<Rightarrow> evolve_migration) \<Rightarrow> mig_ext" where
  "demo_mig_ext dec = \<lparr>mx_decode = dec,
     mx_UnpackAny = (\<lambda>a. Inr (map_option demo_resolve a)),
     mx_ToCmtProtoPublicKey = (\<lambda>pk. Inr (CmtPubKey (pk_type pk) (pk_bytes pk))),
     mx_any_String = (\<lambda>a. case a of None \<Rightarrow> ''nil'' | Some x \<Rightarrow> bytes_string (any_Value x)),
     mx_any_Equal = (\<lambda>a b. map_option any_Value a = map_option any_Value b),
     mx_UpdateZero = (\<lambda>v. Inr (removal (CmtPubKey ''ed25519'' (any_Value (val_ConsensusPubkey v)))))\<rparr>"

definition demo_any :: "bytes \<Rightarrow> any" where
  "demo_any bs = \<lparr>any_TypeUrl = ''ed25519'', any_Value = bs, any_cached = None\<rparr>"

definition demo_validator :: "bytes \<Rightarrow> staking_validator" where
  "demo_validator bs = \<lparr>val_Moniker = ''val'', val_ConsensusPubkey = demo_any bs, val_IsBonded = True\<rparr>"

definition demo_mig_env :: "(evolve_migration \<Rightarrow> evolve_migration) \<Rightarrow> migration_env" where
  "demo_mig_env dec = \<lparr>me_ext = demo_mig_ext dec, me_authority = ''gov'',
     me_GetLastValidators = Inr [demo_validator [1], demo_validator [2]]\<rparr>"

definition demo_migration :: "attester list \<Rightarrow> evolve_migration" where
  "demo_migration as = \<lparr>em_BlockHeight = 10,
     em_Sequencer = \<lparr>seq_Name = ''seq'', seq_ConsensusPubkey = Some (demo_any [2])\<rparr>,
     em_Attesters = as\<rparr>"

definition demo_mig_state :: "attester list \<Rightarrow> migration_state" where
  "demo_mig_state as = NewMigrationKeeper\<lparr>mg_Migration := Some (demo_migration as)\<rparr>"

definition demo_mig_ctx :: "int64 \<Rightarrow> sdk_ctx" where
  "demo_mig_ctx h = \<lparr>BlockHeight = h, ChainID = ''demo''\<rparr>"

abbreviation demo_cmt :: "bytes \<Rightarrow> cmt_pubkey" where
  "demo_cmt bs \<equiv> CmtPubKey ''ed25519'' bs"

lemmas demo_mig_defs = demo_mig_ext_def demo_mig_env_def demo_migration_def demo_mig_state_def
  demo_mig_ctx_def demo_validator_def demo_any_def demo_resolve_def NewMigrationKeeper_def

theorem migration_to_sequencer_witness:
  "\<exists>us k'. migration_EndBlock (demo_mig_env id) (demo_mig_ctx 10) (demo_mig_state []) = (Inr us, k') \<and>
     fold apply_update us [demo_cmt [1] \<mapsto> 5, demo_cmt [2] \<mapsto> 7] = [demo_cmt [2] \<mapsto> 1]"
  using migration_to_sequencer [of "demo_mig_state []" "demo_migration []" "demo_mig_env id"
      "demo_migration []" "demo_mig_ctx 10"
      "\<lparr>seq_Name = ''seq'', seq_ConsensusPubkey = Some (demo_resolve (demo_any [2]))\<rparr>"
      "demo_cmt [2]" "[demo_validator [1], demo_validator [2]]"
      "\<lambda>v. demo_cmt (any_Value (val_ConsensusPubkey v))" "[demo_cmt [1] \<mapsto> 5, demo_cmt [2] \<mapsto> 7]"]
  by (auto simp: demo_mig_defs to_uint64_def Sequencer_UnpackInterfaces_def
      Sequencer_TmConsPublicKey_def any_TmConsPublicKey_def)


definition demo_raw_attester :: attester where
  "demo_raw_attester = \<lparr>att_Name = ''a'', att_ConsensusPubkey = Some (demo_any [1])\<rparr>"

theorem migration_attester_keys_unresolved_witness:
  "is_err (fst (migration_EndBlock (demo_mig_env id) (demo_mig_ctx 10) (demo_mig_state [demo_raw_attester])))"
  using migration_attester_keys_unresolved [of "demo_mig_state [demo_raw_attester]"
      "demo_migration [demo_raw_attester]" "demo_mig_env id" "demo_migration [demo_raw_attester]"
      "demo_mig_ctx 10"]
  by (auto simp: demo_mig_defs demo_raw_attester_def to_uint64_def)

theorem migration_schedule_witness:
  "mig_block (demo_mig_env id) (demo_mig_ctx 9) [] (demo_mig_state []) = Some ([], demo_mig_state []) \<and>
   mig_block (demo_mig_env id) (demo_mig_ctx 12) [] (demo_mig_state []) = None"
  using migration_schedule [of "demo_mig_state []" "demo_migration []" "demo_mig_env id"
      "demo_migration []" "demo_mig_ctx 9"]
    migration_schedule [of "demo_mig_state []" "demo_migration []" "demo_mig_env id"
      "demo_migration []" "demo_mig_ctx 12"]
  by (simp add: demo_mig_defs)

end
