(* ===== verification/CometTypes.thy ===== *)
theory CometTypes
  imports Staking
begin

text \<open>
  The data of CometBFT and ev-node that the execution adapter and the RPC layer handle: the
  fields of the structs the code reads or writes. A time is an integer; what a struct carries
  unread is left out. Functions of those packages are parameters where they are used.
\<close>

datatype block_id_flag = BlockIDFlagAbsent | BlockIDFlagCommit | BlockIDFlagNil

record commit_sig =
  cs_BlockIDFlag :: block_id_flag
  cs_ValidatorAddress :: bytes
  cs_Timestamp :: int
  cs_Signature :: bytes

record commit =
  cm_Height :: int64
  cm_Round :: int
  cm_BlockID :: block_id
  cm_Signatures :: "commit_sig list"

record cmt_validator =
  cv_Address :: bytes
  cv_PubKey :: cmt_pubkey
  cv_VotingPower :: int64
  cv_ProposerPriority :: int64

record validator_set =
  vs_Validators :: "cmt_validator list"
  vs_Proposer :: cmt_validator

record consensus_params =
  cp_MaxBytes :: int64
  cp_MaxGas :: int64
  cp_EvidenceMaxAgeNumBlocks :: int64
  cp_EvidenceMaxAgeDuration :: int
  cp_EvidenceMaxBytes :: int64
  cp_PubKeyTypes :: "string list"
  cp_AppVersion :: uint64
  cp_VoteExtensionsEnableHeight :: int64

record cmt_state =
  st_ChainID :: string
  st_LastBlockHeight :: int64
  st_Validators :: validator_set
  st_NextValidators :: validator_set
  st_LastValidators :: validator_set
  st_LastHeightValidatorsChanged :: int64
  st_ConsensusParams :: consensus_params
  st_LastHeightConsensusParamsChanged :: int64
  st_AppHash :: bytes

record cmt_header =
  hd_VersionBlock :: uint64
  hd_VersionApp :: uint64
  hd_Height :: int64
  hd_Time :: int
  hd_LastBlockID :: block_id
  hd_LastCommitHash :: bytes
  hd_DataHash :: bytes
  hd_ConsensusHash :: bytes
  hd_AppHash :: bytes
  hd_LastResultsHash :: bytes
  hd_EvidenceHash :: bytes
  hd_ProposerAddress :: bytes
  hd_ChainID :: string
  hd_ValidatorsHash :: bytes
  hd_NextValidatorsHash :: bytes

record cmt_block =
  bk_Header :: cmt_header
  bk_Txs :: "bytes list"
  bk_Evidence :: "bytes list"
  bk_LastCommit :: commit

record ev_header =
  eh_Height :: uint64
  eh_Time :: int
  eh_ChainID :: string
  eh_VersionApp :: uint64
  eh_DataHash :: bytes
  eh_AppHash :: bytes
  eh_ValidatorHash :: bytes
  eh_ProposerAddress :: bytes
  eh_Signature :: bytes

record exec_tx_result =
  tr_Code :: uint32
  tr_Data :: bytes
  tr_Log :: string

record finalize_response =
  fb_Events :: "event list"
  fb_TxResults :: "exec_tx_result list"
  fb_ValidatorUpdates :: "val_update list"
  fb_ConsensusParamUpdates :: "consensus_params option"
  fb_AppHash :: bytes

text \<open>The genesis document of the application.\<close>

record genesis_validator =
  gv_Address :: bytes
  gv_PubKey :: cmt_pubkey
  gv_Power :: int64

record app_genesis =
  ag_GenesisTime :: int
  ag_ChainID :: string
  ag_InitialHeight :: int64
  ag_Validators :: "genesis_validator list"
  ag_Params :: "consensus_params option"
  ag_AppState :: bytes

text \<open>The zero block ID.\<close>

definition empty_block_id :: block_id where
  "empty_block_id = \<lparr>bid_Hash = [], bid_psh_Total = 0, bid_psh_Hash = []\<rparr>"

end
