(* ===== verification/ExecStore.thy ===== *)
theory ExecStore
  imports CometTypes
begin

text \<open>
  The ABCI execution store (\<open>pkg/store/store.go\<close>): the state, the block IDs and the block
  responses under string keys of a datastore, and their pruning. The datastore is a finite map
  whose \<open>Get\<close> answers \<open>ErrNotFound\<close> for a missing key, never a nil value, and whose
  writes succeed; the protobuf
  codecs are the fields of \<open>store_ext\<close>. Heights are printed and parsed in decimal, as
  \<open>strconv\<close> does. The pruning loop counts up in \<open>uint64\<close>; a loop that does not end is \<open>None\<close>.
\<close>

subsection \<open>Decimal numbers\<close>

definition digit_char :: "nat \<Rightarrow> char" where
  "digit_char d = char_of (48 + d)"

fun FormatUint :: "nat \<Rightarrow> string" where
  "FormatUint n = (if n < 10 then [digit_char n] else FormatUint (n div 10) @ [digit_char (n mod 10)])"

declare FormatUint.simps [simp del]

definition char_digit :: "char \<Rightarrow> nat option" where
  "char_digit c = (let n = of_char c in if 48 \<le> n \<and> n \<le> (57::nat) then Some (n - 48) else None)"

text \<open>\<open>ParseUint(s, 10, 64)\<close>: the accumulator; a value past 64 bits is a range error.\<close>

fun parse_digits :: "string \<Rightarrow> nat \<Rightarrow> nat result" where
  "parse_digits [] n = Inr n"
| "parse_digits (c # s) n =
     (case char_digit c of
        None \<Rightarrow> Inl (ErrorString ''invalid syntax'')
      | Some d \<Rightarrow> if 10 * n + d \<ge> 2 ^ 64 then Inl (ErrorString ''value out of range'')
          else parse_digits s (10 * n + d))"

definition ParseUint :: "string \<Rightarrow> nat result" where
  "ParseUint s = (if s = [] then Inl (ErrorString ''invalid syntax'') else parse_digits s 0)"

lemma char_digit_digit_char [simp]: "d < 10 \<Longrightarrow> char_digit (digit_char d) = Some d"
  by (simp add: char_digit_def digit_char_def Let_def)

lemma parse_digits_append:
  "parse_digits (s @ t) n = and_then (parse_digits s n) (parse_digits t)"
  by (induction s n rule: parse_digits.induct) (auto split: option.splits)

lemma parse_FormatUint: "n < 2 ^ 64 \<Longrightarrow> parse_digits (FormatUint n) 0 = Inr n"
proof (induction n rule: FormatUint.induct)
  case (1 n)
  show ?case
  proof (cases "n < 10")
    case False
    then have "parse_digits (FormatUint (n div 10)) 0 = Inr (n div 10)" using 1 by simp
    then show ?thesis
      using False "1.prems" by (subst FormatUint.simps) (simp add: parse_digits_append)
  qed (use "1.prems" in \<open>subst FormatUint.simps, simp\<close>)
qed

lemma FormatUint_not_empty [simp]: "FormatUint n \<noteq> []"
  by (subst FormatUint.simps) simp

lemma ParseUint_FormatUint [simp]: "n < 2 ^ 64 \<Longrightarrow> ParseUint (FormatUint n) = Inr n"
  by (simp add: ParseUint_def parse_FormatUint)

lemma FormatUint_unat_inj [simp]:
  "FormatUint (unat (a::uint64)) = FormatUint (unat b) \<longleftrightarrow> a = b"
proof
  assume eq: "FormatUint (unat a) = FormatUint (unat b)"
  have "unat a < 2 ^ 64" "unat b < 2 ^ 64"
    using unsigned_less [of a, where ?'a = nat] unsigned_less [of b, where ?'a = nat] by simp_all
  then have "Inr (unat a) = (Inr (unat b) :: nat result)"
    using ParseUint_FormatUint eq by metis
  then show "a = b" by (simp add: word_unat_eq_iff)
qed simp

subsection \<open>The store\<close>

record store_ext =
  sx_MarshalState :: "cmt_state \<Rightarrow> bytes result"
  sx_UnmarshalState :: "bytes \<Rightarrow> cmt_state result"
  sx_MarshalBlockID :: "block_id \<Rightarrow> bytes result"
  sx_UnmarshalBlockID :: "bytes \<Rightarrow> block_id result"
  sx_MarshalResponse :: "finalize_response \<Rightarrow> bytes result"
  sx_UnmarshalResponse :: "bytes \<Rightarrow> finalize_response result"

type_synonym datastore = "(string, bytes) fmap"

definition stateKey :: string where "stateKey = ''/s''"
definition lastPrunedHeightKey :: string where "lastPrunedHeightKey = ''/lphk''"

definition blockResponseKey :: "uint64 \<Rightarrow> string" where
  "blockResponseKey height = ''/br/'' @ FormatUint (unat height)"

definition blockIDKey :: "uint64 \<Rightarrow> string" where
  "blockIDKey height = ''/bid/'' @ FormatUint (unat height)"

definition ds_Get :: "datastore \<Rightarrow> string \<Rightarrow> bytes result" where
  "ds_Get m key = (case fmlookup m key of None \<Rightarrow> Inl (ErrNotFound ''datastore: key not found'') | Some d \<Rightarrow> Inr d)"

definition LoadState :: "store_ext \<Rightarrow> datastore \<Rightarrow> cmt_state result" where
  "LoadState e m =
     (case ds_Get m stateKey of
        Inl err \<Rightarrow> Inl (Wrap ''failed to get state metadata'' err)
      | Inr data \<Rightarrow> sx_UnmarshalState e data)"

definition SaveState :: "store_ext \<Rightarrow> cmt_state \<Rightarrow> datastore \<Rightarrow> unit result \<times> datastore" where
  "SaveState e state m =
     (case sx_MarshalState e state of
        Inl err \<Rightarrow> (Inl (Wrap ''failed to marshal state'' err), m)
      | Inr data \<Rightarrow> (Inr (), fmupd stateKey data m))"

definition SaveBlockID ::
    "store_ext \<Rightarrow> uint64 \<Rightarrow> block_id \<Rightarrow> datastore \<Rightarrow> unit result \<times> datastore" where
  "SaveBlockID e height blockID m =
     (case sx_MarshalBlockID e blockID of
        Inl err \<Rightarrow> (Inl (Wrap ''failed to marshal block ID'' err), m)
      | Inr data \<Rightarrow> (Inr (), fmupd (blockIDKey height) data m))"

definition GetBlockID :: "store_ext \<Rightarrow> uint64 \<Rightarrow> datastore \<Rightarrow> block_id result" where
  "GetBlockID e height m =
     (case ds_Get m (blockIDKey height) of
        Inl err \<Rightarrow> Inl (Wrap ''failed to get block ID'' err)
      | Inr data \<Rightarrow> (case sx_UnmarshalBlockID e data of
          Inl err \<Rightarrow> Inl (Wrap ''failed to unmarshal block ID'' err)
        | Inr blockID \<Rightarrow> Inr blockID))"

definition SaveBlockResponse ::
    "store_ext \<Rightarrow> uint64 \<Rightarrow> finalize_response \<Rightarrow> datastore \<Rightarrow> unit result \<times> datastore" where
  "SaveBlockResponse e height resp m =
     (case sx_MarshalResponse e resp of
        Inl err \<Rightarrow> (Inl (Wrap ''failed to marshal block response'' err), m)
      | Inr data \<Rightarrow> (Inr (), fmupd (blockResponseKey height) data m))"

definition GetBlockResponse :: "store_ext \<Rightarrow> uint64 \<Rightarrow> datastore \<Rightarrow> finalize_response result" where
  "GetBlockResponse e height m =
     (case ds_Get m (blockResponseKey height) of
        Inl err \<Rightarrow> Inl (Wrap ''failed to get block response'' err)
      | Inr data \<Rightarrow> (case sx_UnmarshalResponse e data of
          Inl err \<Rightarrow> Inl (Wrap ''failed to unmarshal block response'' err)
        | Inr resp \<Rightarrow> Inr resp))"

text \<open>The batch of deletions is built by the loop and committed at once.\<close>

partial_function (option) prune_loop :: "uint64 \<Rightarrow> uint64 \<Rightarrow> datastore \<Rightarrow> datastore option" where
  "prune_loop h height m =
     (if h \<le> height
      then prune_loop (h + 1) height (fmdrop (blockResponseKey h) (fmdrop (blockIDKey h) m))
      else Some m)"

definition lastPruned :: "datastore \<Rightarrow> nat result" where
  "lastPruned m =
     (case ds_Get m lastPrunedHeightKey of
        Inl _ \<Rightarrow> Inr 0
      | Inr data \<Rightarrow> if data = [] then Inr 0 else ParseUint (map (\<lambda>b. char_of (unat b)) data))"

definition Prune :: "uint64 \<Rightarrow> datastore \<Rightarrow> (unit result \<times> datastore) option" where
  "Prune height m =
     (case lastPruned m of
        Inl err \<Rightarrow> Some (Inl (Wrap ''invalid last pruned height value'' err), m)
      | Inr lp \<Rightarrow>
          if unat height \<le> lp then Some (Inr (), m)
          else (case prune_loop (of_nat lp + 1) height m of
                  None \<Rightarrow> None
                | Some batch \<Rightarrow> Some (Inr (),
                    fmupd lastPrunedHeightKey
                      (map (\<lambda>c. of_nat (of_char c)) (FormatUint (unat height))) batch)))"

subsection \<open>Keys\<close>

lemma key_simps [simp]:
  "blockIDKey h = blockIDKey h' \<longleftrightarrow> h = h'" "blockResponseKey h = blockResponseKey h' \<longleftrightarrow> h = h'"
  "blockIDKey h \<noteq> blockResponseKey h'" "blockResponseKey h' \<noteq> blockIDKey h"
  "blockIDKey h \<noteq> stateKey" "stateKey \<noteq> blockIDKey h" "blockResponseKey h \<noteq> stateKey"
  "stateKey \<noteq> blockResponseKey h" "blockIDKey h \<noteq> lastPrunedHeightKey"
  "lastPrunedHeightKey \<noteq> blockIDKey h" "blockResponseKey h \<noteq> lastPrunedHeightKey"
  "lastPrunedHeightKey \<noteq> blockResponseKey h" "stateKey \<noteq> lastPrunedHeightKey"
  "lastPrunedHeightKey \<noteq> stateKey"
  by (simp_all add: blockIDKey_def blockResponseKey_def stateKey_def lastPrunedHeightKey_def)

subsection \<open>The pruning loop\<close>

definition below_keys :: "uint64 \<Rightarrow> uint64 \<Rightarrow> string \<Rightarrow> bool" where
  "below_keys h height key \<longleftrightarrow>
     (\<exists>g. h \<le> g \<and> g \<le> height \<and> (key = blockIDKey g \<or> key = blockResponseKey g))"

lemma below_keys_step:
  assumes "h \<le> height" "height \<noteq> - 1"
  shows "below_keys h height key \<longleftrightarrow>
    key = blockIDKey h \<or> key = blockResponseKey h \<or> below_keys (h + 1) height key"
proof -
  have "h \<noteq> - 1" using assms by (metis max_word_max order_antisym)
  then have "h \<le> g \<longleftrightarrow> g = h \<or> h + 1 \<le> g" for g
    by (auto simp: word_le_nat_alt unat_inc word_unat_eq_iff [of g])
  then show ?thesis using assms(1) by (auto simp: below_keys_def)
qed

lemma prune_loop_ends:
  assumes "height \<noteq> - 1"
  shows "\<exists>m'. prune_loop h height m = Some m' \<and>
    (\<forall>key. fmlookup m' key = (if below_keys h height key then None else fmlookup m key))"
proof (induction "unat height + 1 - unat h" arbitrary: h m rule: less_induct)
  case less
  show ?case
  proof (cases "h \<le> height")
    case True
    then have "h \<noteq> - 1" using assms by (metis max_word_max order_antisym)
    then have "unat height + 1 - unat (h + 1) < unat height + 1 - unat h"
      using True by (simp add: word_le_nat_alt unat_inc)
    from less [OF this] obtain m' where m': "prune_loop (h + 1) height
        (fmdrop (blockResponseKey h) (fmdrop (blockIDKey h) m)) = Some m'"
      "\<forall>key. fmlookup m' key = (if below_keys (h + 1) height key then None
         else fmlookup (fmdrop (blockResponseKey h) (fmdrop (blockIDKey h) m)) key)" by blast
    then show ?thesis
      using True by (subst prune_loop.simps) (auto simp: below_keys_step [OF True assms])
  next
    case False
    then have "\<not> below_keys h height key" for key by (auto simp: below_keys_def)
    then show ?thesis using False by (subst prune_loop.simps) simp
  qed
qed

text \<open>Counting up to the largest height never ends.\<close>

lemma prune_loop_height: "prune_loop h height m = Some m' \<Longrightarrow> height \<noteq> - 1"
  by (rule prune_loop.raw_induct [where P = "\<lambda>h height m r. height \<noteq> - 1"])
    (auto split: if_splits)

lemma prune_loop_max: "prune_loop h (- 1) m = None"
  using prune_loop_height [of h "- 1" m] by (cases "prune_loop h (- 1) m") auto

subsection \<open>What the store promises\<close>

text \<open>The codecs read back what they wrote; what a store relies on.\<close>

definition codec_ok :: "store_ext \<Rightarrow> bool" where
  "codec_ok e \<longleftrightarrow>
     (\<forall>s d. sx_MarshalState e s = Inr d \<longrightarrow> sx_UnmarshalState e d = Inr s) \<and>
     (\<forall>b d. sx_MarshalBlockID e b = Inr d \<longrightarrow> sx_UnmarshalBlockID e d = Inr b) \<and>
     (\<forall>r d. sx_MarshalResponse e r = Inr d \<longrightarrow> sx_UnmarshalResponse e d = Inr r)"

lemma codec_okD:
  assumes "codec_ok e"
  shows "sx_MarshalState e s = Inr d \<Longrightarrow> sx_UnmarshalState e d = Inr s"
    "sx_MarshalBlockID e b = Inr d \<Longrightarrow> sx_UnmarshalBlockID e d = Inr b"
    "sx_MarshalResponse e r = Inr d \<Longrightarrow> sx_UnmarshalResponse e d = Inr r"
  using assms by (auto simp: codec_ok_def)

text \<open>
  The contract of a record store with three independent parts, and its interpretation on the
  definitions above; the execution adapter's proofs rest on it.
\<close>

locale exec_store =
  fixes load :: "'m \<Rightarrow> 's result" and save :: "'s \<Rightarrow> 'm \<Rightarrow> unit result \<times> 'm"
    and get_id :: "uint64 \<Rightarrow> 'm \<Rightarrow> 'i result" and put_id :: "uint64 \<Rightarrow> 'i \<Rightarrow> 'm \<Rightarrow> unit result \<times> 'm"
    and get_resp :: "uint64 \<Rightarrow> 'm \<Rightarrow> 'r result"
    and put_resp :: "uint64 \<Rightarrow> 'r \<Rightarrow> 'm \<Rightarrow> unit result \<times> 'm"
    and law :: bool
  assumes load_save: "law \<Longrightarrow> save s m = (Inr (), m') \<Longrightarrow> load m' = Inr s"
    and get_put_id: "law \<Longrightarrow> put_id h i m = (Inr (), m') \<Longrightarrow>
      get_id g m' = (if g = h then Inr i else get_id g m)"
    and get_put_resp: "law \<Longrightarrow> put_resp h r m = (Inr (), m') \<Longrightarrow>
      get_resp g m' = (if g = h then Inr r else get_resp g m)"
    and frame_save: "save s m = (res, m') \<Longrightarrow> get_id g m' = get_id g m \<and> get_resp g m' = get_resp g m"
    and frame_put_id: "put_id h i m = (res, m') \<Longrightarrow> load m' = load m \<and> get_resp g m' = get_resp g m"
    and frame_put_resp: "put_resp h r m = (res, m') \<Longrightarrow> load m' = load m \<and> get_id g m' = get_id g m"
begin

text \<open>The three writes of a block, in the order of the adapter, are all read back.\<close>

lemma block_written:
  assumes "law" "save s m = (Inr (), m1)" "put_id h i m1 = (Inr (), m2)" "put_resp h r m2 = (Inr (), m3)"
  shows "load m3 = Inr s" "get_id h m3 = Inr i" "get_resp h m3 = Inr r"
    "g \<noteq> h \<Longrightarrow> get_id g m3 = get_id g m" "g \<noteq> h \<Longrightarrow> get_resp g m3 = get_resp g m"
  using load_save [OF assms(1,2)] get_put_id [OF assms(1,3)] get_put_resp [OF assms(1,4)]
    frame_save [OF assms(2)] frame_put_id [OF assms(3)] frame_put_resp [OF assms(4)]
  by simp_all

end

interpretation es: exec_store "LoadState e" "SaveState e" "\<lambda>h. GetBlockID e h" "SaveBlockID e"
    "\<lambda>h. GetBlockResponse e h" "SaveBlockResponse e" "codec_ok e" for e
proof
qed (auto simp: LoadState_def SaveState_def GetBlockID_def SaveBlockID_def GetBlockResponse_def
    SaveBlockResponse_def ds_Get_def codec_okD split: sum.splits option.splits if_splits)

subsection \<open>Pruning\<close>

lemma char_bytes: "map (\<lambda>b::byte. (char_of (unat b) :: char)) (map (\<lambda>c. of_nat (of_char c)) s) = s"
proof -
  have "(char_of (unat (of_nat (of_char c) :: byte)) :: char) = c" for c :: char
    by (simp add: unsigned_of_nat take_bit_nat_eq_self)
  then show ?thesis by (simp add: comp_def map_idI)
qed

lemma lastPruned_written:
  "lastPruned (fmupd lastPrunedHeightKey (map (\<lambda>c. of_nat (of_char c)) (FormatUint (unat h))) m) =
     Inr (unat (h::uint64))"
  using unsigned_less [of h, where ?'a = nat]
  by (simp add: lastPruned_def ds_Get_def char_bytes ParseUint_FormatUint del: map_map)

lemma lastPruned_less: "lastPruned m = Inr lp \<Longrightarrow> lp < 2 ^ 64"
proof -
  have "n < 2 ^ 64 \<Longrightarrow> parse_digits s n = Inr r \<Longrightarrow> r < 2 ^ 64" for s n r
    by (induction s n rule: parse_digits.induct) (auto split: option.splits if_splits)
  from this [of 0] show "lastPruned m = Inr lp \<Longrightarrow> lp < 2 ^ 64"
    by (auto simp: lastPruned_def ParseUint_def split: sum.splits if_splits)
qed

lemma below_keys_lookup:
  assumes "lp < 2 ^ 64" "lp < unat height"
  shows "below_keys (of_nat lp + 1) height (blockIDKey g) \<longleftrightarrow> lp < unat g \<and> unat g \<le> unat height"
    "below_keys (of_nat lp + 1) height (blockResponseKey g) \<longleftrightarrow> lp < unat g \<and> unat g \<le> unat height"
    "\<not> below_keys h height stateKey" "\<not> below_keys h height lastPrunedHeightKey"
proof -
  have u: "unat (of_nat lp :: uint64) = lp" using assms(1) by (simp add: unsigned_of_nat take_bit_nat_eq_self)
  moreover have "lp < 2 ^ 64 - 1" using assms(2) unsigned_less [of height, where ?'a = nat] by simp
  ultimately have "(of_nat lp :: uint64) \<noteq> - 1" by (auto simp: word_unat_eq_iff unsigned_minus_1_eq_mask mask_eq_exp_minus_1)
  then have "unat (of_nat lp + 1 :: uint64) = Suc lp" by (simp add: unat_inc u)
  then show "below_keys (of_nat lp + 1) height (blockIDKey g) \<longleftrightarrow> lp < unat g \<and> unat g \<le> unat height"
    "below_keys (of_nat lp + 1) height (blockResponseKey g) \<longleftrightarrow> lp < unat g \<and> unat g \<le> unat height"
    by (auto simp: below_keys_def word_le_nat_alt)
qed (auto simp: below_keys_def)

text \<open>
  C31: pruning the execution store. For every height below the largest \<open>uint64\<close> pruning
  returns; it removes exactly the block IDs and responses of the heights above the last pruned
  one up to the target, keeps the state and every other height, and pruning again up to any
  height that is not above the target changes nothing.
\<close>

theorem Prune_exact:
  assumes lp: "lastPruned m = Inr lp" and height: "height \<noteq> - 1"
  shows "\<exists>m'. Prune height m = Some (Inr (), m') \<and> LoadState e m' = LoadState e m \<and>
    (\<forall>g. fmlookup m' (blockIDKey g) =
       (if lp < unat g \<and> unat g \<le> unat height then None else fmlookup m (blockIDKey g)) \<and>
     fmlookup m' (blockResponseKey g) =
       (if lp < unat g \<and> unat g \<le> unat height then None else fmlookup m (blockResponseKey g))) \<and>
    (\<forall>h. unat h \<le> unat height \<longrightarrow> Prune h m' = Some (Inr (), m'))"
proof (cases "unat height \<le> lp")
  case True
  then show ?thesis using lp by (auto simp: Prune_def)
next
  case False
  then have lt: "lp < unat height" by simp
  obtain b where b: "prune_loop (of_nat lp + 1) height m = Some b"
    "\<forall>key. fmlookup b key = (if below_keys (of_nat lp + 1) height key then None else fmlookup m key)"
    using prune_loop_ends [OF height] by blast
  let ?m' = "fmupd lastPrunedHeightKey (map (\<lambda>c. of_nat (of_char c)) (FormatUint (unat height))) b"
  note keys = below_keys_lookup [OF lastPruned_less [OF lp] lt]
  have "Prune height m = Some (Inr (), ?m')" using lp False b(1) by (simp add: Prune_def)
  moreover have "LoadState e ?m' = LoadState e m"
    using b(2) keys by (simp add: LoadState_def ds_Get_def)
  moreover have "Prune h ?m' = Some (Inr (), ?m')" if "unat h \<le> unat height" for h
    using that by (simp add: Prune_def lastPruned_written)
  ultimately show ?thesis using b(2) keys by (intro exI [of _ ?m']) auto
qed

text \<open>
  Pruning up to the largest \<open>uint64\<close> never returns: the loop variable wraps around and
  stays at or below the bound.
\<close>

lemma Prune_max_diverges:
  assumes "lastPruned m = Inr lp" and "lp < 2 ^ 64 - 1"
  shows "Prune (- 1) m = None"
  using assms by (simp add: Prune_def prune_loop_max unsigned_minus_1_eq_mask mask_eq_exp_minus_1)

text \<open>
  Loading the state of a fresh store is an error, not the empty state.
\<close>

lemma LoadState_fresh_fails: "is_err (LoadState e fmempty)"
  by (simp add: LoadState_def ds_Get_def)

end
