(* ===== verification/Convert.thy ===== *)
theory Convert
  imports ExecStore
begin

text \<open>
  Conversion between ev-node and CometBFT data (\<open>pkg/adapter/convert.go\<close>), the last commit of
  a block (\<open>GetLastCommit\<close>) and the bytes the sequencer and the syncing nodes sign or verify
  (\<open>pkg/adapter/providers.go\<close>). Functions of CometBFT and of libp2p are the fields of
  \<open>cmt_ext\<close>; the ev-node store's headers are the argument \<open>getHeader\<close>.
\<close>

datatype libp2p_key_type = Ed25519 | RSA | Secp256k1 | ECDSA

record libp2p_key =
  lk_Type :: libp2p_key_type
  lk_Raw :: "bytes result"

record block_meta =
  bm_BlockID :: block_id
  bm_BlockSize :: int
  bm_Header :: cmt_header
  bm_NumTxs :: nat

record cmt_ext =
  x_header_Hash :: "cmt_header \<Rightarrow> bytes"
  x_commit_Hash :: "commit \<Rightarrow> bytes"
  x_EvidenceData_Hash :: bytes
  x_valset_Hash :: "validator_set \<Rightarrow> bytes"
  x_NewValidatorSet :: "cmt_validator list \<Rightarrow> validator_set"
  x_NewValidator :: "cmt_pubkey \<Rightarrow> int64 \<Rightarrow> cmt_validator"
  x_IncrementProposerPriority :: "validator_set \<Rightarrow> validator_set"
  x_UpdateWithChangeSet :: "validator_set \<Rightarrow> cmt_validator list \<Rightarrow> validator_set result"
  x_PB2TM_ValidatorUpdates :: "val_update list \<Rightarrow> cmt_validator list result"
  x_TM2PB_ValidatorUpdates :: "validator_set \<Rightarrow> val_update list"
  x_MakeBlock :: "cmt_state \<Rightarrow> int64 \<Rightarrow> bytes list \<Rightarrow> commit \<Rightarrow> bytes \<Rightarrow> cmt_block result"
  x_PartSetHeader :: "cmt_block \<Rightarrow> (uint32 \<times> bytes) result"
  x_block_Size :: "cmt_block \<Rightarrow> int"
  x_params_Update :: "consensus_params \<Rightarrow> consensus_params \<Rightarrow> consensus_params"
  x_params_ValidateBasic :: "consensus_params \<Rightarrow> unit result"
  x_params_ValidateUpdate :: "consensus_params \<Rightarrow> consensus_params \<Rightarrow> int64 \<Rightarrow> unit result"
  x_VoteSignBytes :: "string \<Rightarrow> vote \<Rightarrow> bytes"
  x_BlockProtocol :: uint64
  x_UnmarshalEd25519PublicKey :: "bytes \<Rightarrow> libp2p_key result"

subsection \<open>Headers and blocks\<close>

definition ToABCIHeader :: "cmt_ext \<Rightarrow> ev_header \<Rightarrow> commit \<Rightarrow> cmt_header result" where
  "ToABCIHeader x header lastCommit =
     (if eh_ProposerAddress header = [] then Inl (ErrorString ''sequencer address is not set'')
      else Inr \<lparr>hd_VersionBlock = x_BlockProtocol x, hd_VersionApp = eh_VersionApp header,
        hd_Height = to_int64 (eh_Height header), hd_Time = eh_Time header,
        hd_LastBlockID = cm_BlockID lastCommit, hd_LastCommitHash = x_commit_Hash x lastCommit,
        hd_DataHash = eh_DataHash header, hd_ConsensusHash = replicate 32 0,
        hd_AppHash = eh_AppHash header, hd_LastResultsHash = [],
        hd_EvidenceHash = x_EvidenceData_Hash x, hd_ProposerAddress = eh_ProposerAddress header,
        hd_ChainID = eh_ChainID header, hd_ValidatorsHash = eh_ValidatorHash header,
        hd_NextValidatorsHash = eh_ValidatorHash header\<rparr>)"

definition ToABCIBlock :: "cmt_header \<Rightarrow> commit \<Rightarrow> bytes list \<Rightarrow> cmt_block result" where
  "ToABCIBlock header lastCommit data_Txs =
     Inr \<lparr>bk_Header = header, bk_Txs = data_Txs, bk_Evidence = [], bk_LastCommit = lastCommit\<rparr>"

definition ToABCIBlockMeta :: "cmt_ext \<Rightarrow> cmt_block \<Rightarrow> block_meta result" where
  "ToABCIBlockMeta x abciBlock =
     (case x_PartSetHeader x abciBlock of
        Inl err \<Rightarrow> Inl (Wrap ''make part set'' err)
      | Inr (tot, h) \<Rightarrow> Inr \<lparr>
          bm_BlockID = \<lparr>bid_Hash = x_header_Hash x (bk_Header abciBlock), bid_psh_Total = tot, bid_psh_Hash = h\<rparr>,
          bm_BlockSize = x_block_Size x abciBlock, bm_Header = bk_Header abciBlock,
          bm_NumTxs = length (bk_Txs abciBlock)\<rparr>)"

definition MakeABCIBlock ::
    "cmt_ext \<Rightarrow> uint64 \<Rightarrow> bytes list \<Rightarrow> cmt_state \<Rightarrow> cmt_header \<Rightarrow> commit \<Rightarrow> (cmt_block \<times> block_id) result"
  where
  "MakeABCIBlock x blockHeight cmtTxs currentState abciHeader lastCommit =
     (case x_MakeBlock x currentState (to_int64 blockHeight) cmtTxs lastCommit
             (cv_Address (vs_Proposer (st_Validators currentState))) of
        Inl err \<Rightarrow> Inl (Wrap ''make block'' err)
      | Inr abciBlock \<Rightarrow>
     (case x_PartSetHeader x abciBlock of
        Inl err \<Rightarrow> Inl (Wrap ''make part set'' err)
      | Inr (tot, h) \<Rightarrow>
          let currentBlockID = \<lparr>bid_Hash = x_header_Hash x abciHeader, bid_psh_Total = tot, bid_psh_Hash = h\<rparr>
          in Inr (abciBlock, currentBlockID)))"

subsection \<open>The last commit\<close>

definition GetLastCommit ::
    "store_ext \<Rightarrow> (uint64 \<Rightarrow> ev_header result) \<Rightarrow> app_genesis option \<Rightarrow> uint64 \<Rightarrow> datastore \<Rightarrow>
     commit result" where
  "GetLastCommit e getHeader appGenesis blockHeight m =
     (if blockHeight > 1 then
       (case getHeader (blockHeight - 1) of
          Inl err \<Rightarrow> Inl (Wrap ''get previous block data'' err)
        | Inr header \<Rightarrow>
       (case GetBlockID e (blockHeight - 1) m of
          Inl err \<Rightarrow> Inl (Wrap ''get previous block ID'' err)
        | Inr blockID \<Rightarrow>
          let validatorAddress = (case appGenesis of
                None \<Rightarrow> eh_ProposerAddress header
              | Some g \<Rightarrow> (case ag_Validators g of
                    [] \<Rightarrow> eh_ProposerAddress header | v # _ \<Rightarrow> gv_Address v))
          in Inr \<lparr>cm_Height = to_int64 (eh_Height header), cm_Round = 0, cm_BlockID = blockID,
               cm_Signatures = [\<lparr>cs_BlockIDFlag = BlockIDFlagCommit,
                 cs_ValidatorAddress = validatorAddress, cs_Timestamp = eh_Time header,
                 cs_Signature = eh_Signature header\<rparr>]\<rparr>))
      else Inr \<lparr>cm_Height = 0, cm_Round = 0, cm_BlockID = empty_block_id, cm_Signatures = []\<rparr>)"

record vote_info =
  vi_ValidatorAddress :: bytes
  vi_ValidatorPower :: int64
  vi_BlockIdFlag :: block_id_flag

record commit_info =
  ci_Round :: int
  ci_Votes :: "vote_info list"

definition cometCommitToABCICommitInfo :: "commit \<Rightarrow> commit_info" where
  "cometCommitToABCICommitInfo c =
     (if cm_Signatures c = [] then \<lparr>ci_Round = cm_Round c, ci_Votes = []\<rparr>
      else \<lparr>ci_Round = cm_Round c, ci_Votes = map (\<lambda>s. \<lparr>vi_ValidatorAddress = cs_ValidatorAddress s,
             vi_ValidatorPower = 1, vi_BlockIdFlag = cs_BlockIDFlag s\<rparr>) (cm_Signatures c)\<rparr>)"

subsection \<open>Signed bytes\<close>

definition createVote :: "cmt_ext \<Rightarrow> ev_header \<Rightarrow> block_id \<Rightarrow> bytes" where
  "createVote x header blockID =
     (let v = \<lparr>vote_Type = PrecommitType, vote_Height = to_int64 (eh_Height header), vote_Round = 0,
            vote_BlockID = blockID, vote_Timestamp = eh_Time header,
            vote_ValidatorAddress = eh_ProposerAddress header, vote_ValidatorIndex = 0, vote_Signature = []\<rparr>
      in x_VoteSignBytes x (eh_ChainID header) v)"

definition SequencerNodeSignatureBytesProvider ::
    "cmt_ext \<Rightarrow> store_ext \<Rightarrow> datastore \<Rightarrow> ev_header \<Rightarrow> bytes result" where
  "SequencerNodeSignatureBytesProvider x e m header =
     (if eh_Height header = 1 then Inr (createVote x header empty_block_id)
      else (case GetBlockID e (eh_Height header) m of
              Inl err \<Rightarrow> Inl (Wrap ''get block ID'' err)
            | Inr blockID \<Rightarrow> Inr (createVote x header blockID)))"

definition SyncNodeSignatureBytesProvider ::
    "cmt_ext \<Rightarrow> store_ext \<Rightarrow> (uint64 \<Rightarrow> ev_header result) \<Rightarrow> app_genesis option \<Rightarrow> datastore \<Rightarrow>
     ev_header \<Rightarrow> bytes list \<Rightarrow> bytes result" where
  "SyncNodeSignatureBytesProvider x e getHeader appGenesis m header data_Txs =
     (let blockHeight = eh_Height header in
      if blockHeight = 1 then Inr (createVote x header empty_block_id)
      else (case GetLastCommit e getHeader appGenesis blockHeight m of
              Inl err \<Rightarrow> Inl (Wrap ''get last commit'' err)
            | Inr lastCommit \<Rightarrow>
           (case ToABCIHeader x header lastCommit of
              Inl err \<Rightarrow> Inl (Wrap ''compute header hash'' err)
            | Inr abciHeader \<Rightarrow>
           (case LoadState e m of
              Inl err \<Rightarrow> Inl (Wrap ''load state'' err)
            | Inr currentState \<Rightarrow>
           (case MakeABCIBlock x blockHeight data_Txs currentState abciHeader lastCommit of
              Inl err \<Rightarrow> Inl (Wrap ''make ABCI block'' err)
            | Inr (_, blockID) \<Rightarrow> Inr (createVote x header blockID))))))"

subsection \<open>Validator hashes\<close>

definition cometbft_key :: "libp2p_key \<Rightarrow> cmt_pubkey result" where
  "cometbft_key pubKey =
     (if lk_Type pubKey = Ed25519
      then (case lk_Raw pubKey of
              Inl err \<Rightarrow> Inl (Wrap ''failed to get raw bytes from libp2p public key'' err)
            | Inr rawKey \<Rightarrow> if length rawKey \<noteq> 32
                then Inl (ErrorString ''libp2p public key size does not match CometBFT Ed25519 PubKeySize'')
                else Inr (CmtPubKey ''ed25519'' rawKey))
      else Inl (ErrorString ''unsupported public key type''))"

text \<open>\<open>copy\<close> into a fresh slice of 32 bytes.\<close>

definition copy_hash :: "bytes \<Rightarrow> bytes" where
  "copy_hash h = take 32 (h @ replicate 32 0)"

definition ValidatorHasherProvider :: "cmt_ext \<Rightarrow> bytes \<Rightarrow> libp2p_key \<Rightarrow> bytes result" where
  "ValidatorHasherProvider x sequencerAddress pubKey =
     and_then (cometbft_key pubKey) (\<lambda>cometBftPubKey.
     let sequencerValidator = x_NewValidator x cometBftPubKey 1 in
     if cv_Address sequencerValidator \<noteq> sequencerAddress
     then Inl (ErrorString ''CRITICAL MISMATCH - derived validator address does not match expected sequencer address'')
     else Inr (copy_hash (x_valset_Hash x (x_NewValidatorSet x [sequencerValidator]))))"

fun hasher_loop :: "cmt_ext \<Rightarrow> libp2p_key list \<Rightarrow> bytes \<Rightarrow> bool \<Rightarrow> (cmt_validator list \<times> bool) result" where
  "hasher_loop x [] sequencerAddress sequencerFound = Inr ([], sequencerFound)"
| "hasher_loop x (pubKey # pks) sequencerAddress sequencerFound =
     and_then (cometbft_key pubKey) (\<lambda>cometBftPubKey.
     let sequencerValidator = x_NewValidator x cometBftPubKey 1 in
     and_then (hasher_loop x pks sequencerAddress
         (sequencerFound \<or> cv_Address sequencerValidator = sequencerAddress)) (\<lambda>(vals, found).
     Inr (sequencerValidator # vals, found)))"

definition ValidatorsHasher :: "cmt_ext \<Rightarrow> libp2p_key list \<Rightarrow> bytes \<Rightarrow> bytes result" where
  "ValidatorsHasher x validators sequencerAddress =
     (if validators = [] then Inr (x_valset_Hash x (x_NewValidatorSet x []))
      else and_then (hasher_loop x validators sequencerAddress False) (\<lambda>(tmValidators, sequencerFound).
        if \<not> sequencerFound then Inl (ErrorString ''sequencer not found in the validator set'')
        else Inr (copy_hash (x_valset_Hash x (x_NewValidatorSet x tmValidators)))))"

fun to_libp2p_keys :: "cmt_ext \<Rightarrow> cmt_validator list \<Rightarrow> libp2p_key list result" where
  "to_libp2p_keys x [] = Inr []"
| "to_libp2p_keys x (val # vals) =
     (if cmt_type (cv_PubKey val) = ''ed25519''
      then (case x_UnmarshalEd25519PublicKey x (cmt_bytes (cv_PubKey val)) of
              Inl err \<Rightarrow> Inl (Wrap ''failed to convert validator pubkey to libp2p'' err)
            | Inr k \<Rightarrow> and_then (to_libp2p_keys x vals) (\<lambda>ks. Inr (k # ks)))
      else Inl (ErrorString ''validator has unsupported pubkey type''))"

definition ValidatorHasherFromStoreProvider ::
    "cmt_ext \<Rightarrow> store_ext \<Rightarrow> datastore \<Rightarrow> bytes \<Rightarrow> libp2p_key \<Rightarrow> bytes result" where
  "ValidatorHasherFromStoreProvider x e m sequencerAddress pubKey =
     (case LoadState e m of
        Inl err \<Rightarrow> Inl (Wrap ''failed to load state from store'' err)
      | Inr state \<Rightarrow>
          if vs_Validators (st_Validators state) = [] then ValidatorsHasher x [pubKey] sequencerAddress
          else and_then (to_libp2p_keys x (vs_Validators (st_Validators state)))
            (\<lambda>validators. ValidatorsHasher x validators sequencerAddress))"

subsection \<open>Lemmas\<close>

lemma GetLastCommit_previous:
  "GetLastCommit e getHeader g h m = Inr c \<Longrightarrow> 1 < h \<Longrightarrow> GetBlockID e (h - 1) m = Inr (cm_BlockID c)"
  by (auto simp: GetLastCommit_def Let_def split: sum.splits)

lemma ToABCIHeader_last: "ToABCIHeader x header c = Inr hdr \<Longrightarrow> hd_LastBlockID hdr = cm_BlockID c"
  by (auto simp: ToABCIHeader_def split: if_splits)

lemma MakeABCIBlock_hash: "MakeABCIBlock x h txs s hdr c = Inr (block, bid) \<Longrightarrow> bid_Hash bid = x_header_Hash x hdr"
  by (auto simp: MakeABCIBlock_def Let_def split: sum.splits)

text \<open>
  the two ways to hash a validator set agree, and neither accepts a set without the
  sequencer. For one key the hasher of a centralised sequencer returns a hash exactly when the
  general one does, and the same hash; the general hasher on any keys returns a hash only if
  the address of one of them is the sequencer's.
\<close>

lemma validator_hashers_agree:
  "(ValidatorHasherProvider x addr pk = Inr h \<longleftrightarrow> ValidatorsHasher x [pk] addr = Inr h) \<and>
   (is_err (ValidatorsHasher x pks addr) \<or> pks = [] \<or>
     (\<exists>pk\<in>set pks. \<exists>k. cometbft_key pk = Inr k \<and> cv_Address (x_NewValidator x k 1) = addr))"
proof
  show "ValidatorHasherProvider x addr pk = Inr h \<longleftrightarrow> ValidatorsHasher x [pk] addr = Inr h"
    by (auto simp: ValidatorHasherProvider_def ValidatorsHasher_def and_then_Inr_iff Let_def)
  have "hasher_loop x pks addr found = Inr (vals, True) \<Longrightarrow> found \<or>
      (\<exists>pk\<in>set pks. \<exists>k. cometbft_key pk = Inr k \<and> cv_Address (x_NewValidator x k 1) = addr)" for found vals
    by (induction pks arbitrary: found vals) (fastforce simp: and_then_Inr_iff Let_def)+
  then show "is_err (ValidatorsHasher x pks addr) \<or> pks = [] \<or>
     (\<exists>pk\<in>set pks. \<exists>k. cometbft_key pk = Inr k \<and> cv_Address (x_NewValidator x k 1) = addr)"
    by (cases "hasher_loop x pks addr False") (auto simp: ValidatorsHasher_def split: if_splits)
qed

end
