(* ===== verification/Bitmap.thy ===== *)
theory Bitmap
  imports Prelude
begin

unbundle bit_operations_syntax

text \<open>
  The validator bitmaps of \<open>modules/network/keeper/bitmap.go\<close>: one definition per method
  of \<open>BitmapHelper\<close>. The methods that write a slice in place return the slice they leave.
  An index is a Go \<open>int\<close>, so it may be negative or past the end; the guards are the code's.
  The lemmas read a bitmap as the set of indices whose bit is set (\<open>bits_of\<close>) and give
  each operation's effect on that set.
\<close>

subsection \<open>The operations\<close>

definition NewBitmap :: "int \<Rightarrow> bytes" where
  "NewBitmap n = replicate (nat ((n + 7) div 8)) 0"

definition SetBit :: "bytes \<Rightarrow> int \<Rightarrow> bytes" where
  "SetBit bitmap index =
     (if index < 0 \<or> index \<ge> int (length bitmap) * 8 then bitmap
      else let byteIndex = nat (index div 8); bitIndex = nat (index mod 8)
           in bitmap[byteIndex := bitmap ! byteIndex OR push_bit bitIndex 1])"

definition IsSet :: "bytes \<Rightarrow> int \<Rightarrow> bool" where
  "IsSet bitmap index =
     (if index < 0 \<or> index \<ge> int (length bitmap) * 8 then False
      else let byteIndex = nat (index div 8); bitIndex = nat (index mod 8)
           in bitmap ! byteIndex AND push_bit bitIndex 1 \<noteq> 0)"

text \<open>\<open>bits.OnesCount8\<close> of the standard library: the number of one bits of a byte.\<close>

definition OnesCount8 :: "byte \<Rightarrow> nat" where
  "OnesCount8 b = length (filter (bit b) [0..<8])"

primrec PopCount :: "bytes \<Rightarrow> nat" where
  "PopCount [] = 0"
| "PopCount (b # bs) = OnesCount8 b + PopCount bs"

text \<open>The first \<open>min (len src) (len dst)\<close> bytes of \<open>dst\<close> are combined with those of \<open>src\<close>.\<close>

fun OR_bitmap :: "bytes \<Rightarrow> bytes \<Rightarrow> bytes" where
  "OR_bitmap (d # dst) (s # src) = (d OR s) # OR_bitmap dst src"
| "OR_bitmap dst src = dst"

fun AND_bitmap :: "bytes \<Rightarrow> bytes \<Rightarrow> bytes" where
  "AND_bitmap (d # dst) (s # src) = (d AND s) # AND_bitmap dst src"
| "AND_bitmap dst src = dst"

definition Clear_bitmap :: "bytes \<Rightarrow> bytes" where
  "Clear_bitmap bitmap = map (\<lambda>_. 0) bitmap"

text \<open>A nil slice stays nil; any other slice is copied.\<close>

definition Copy_bitmap :: "bytes option \<Rightarrow> bytes option" where
  "Copy_bitmap bitmap =
     (case bitmap of None \<Rightarrow> None | Some b \<Rightarrow> Some (take (length b) b))"

function CountInRange :: "bytes \<Rightarrow> int \<Rightarrow> int \<Rightarrow> nat" where
  "CountInRange bitmap i end_i =
     (if i < end_i \<and> i < int (length bitmap) * 8
      then (if IsSet bitmap i then 1 else 0) + CountInRange bitmap (i + 1) end_i
      else 0)"
  by pat_completeness auto
termination
  by (relation "measure (\<lambda>(bm, i, e). nat (e - i))") auto

declare CountInRange.simps [simp del]

subsection \<open>A bitmap as a set of indices\<close>

definition bits_of :: "bytes \<Rightarrow> nat set" where
  "bits_of bitmap = {i. IsSet bitmap (int i)}"

lemma IsSet_nat:
  "IsSet bitmap (int i) \<longleftrightarrow> i < 8 * length bitmap \<and> bit (bitmap ! (i div 8)) (i mod 8)"
proof -
  have "\<not> int (length bitmap) * 8 \<le> int i \<longleftrightarrow> i < 8 * length bitmap" by linarith
  then show ?thesis
    by (auto simp: IsSet_def Let_def and_exp_eq_0_iff_not_bit nat_div_distrib nat_mod_distrib)
qed

lemma IsSet_negative [simp]: "i < 0 \<Longrightarrow> \<not> IsSet bitmap i"
  by (simp add: IsSet_def)

lemma mem_bits_of: "i \<in> bits_of bitmap \<longleftrightarrow> IsSet bitmap (int i)"
  by (simp add: bits_of_def)

lemma bits_of_bound: "i \<in> bits_of bitmap \<Longrightarrow> i < 8 * length bitmap"
  by (simp add: mem_bits_of IsSet_nat)

lemma finite_bits_of [simp]: "finite (bits_of bitmap)"
  by (rule finite_subset [of _ "{..<8 * length bitmap}"]) (auto dest: bits_of_bound)

lemma length_SetBit [simp]: "length (SetBit bitmap i) = length bitmap"
  by (simp add: SetBit_def Let_def)

lemma length_NewBitmap: "0 \<le> n \<Longrightarrow> length (NewBitmap n) = (nat n + 7) div 8"
  by (simp add: NewBitmap_def nat_div_distrib nat_add_distrib)

lemma NewBitmap_holds: "0 \<le> n \<Longrightarrow> i < nat n \<Longrightarrow> i < 8 * length (NewBitmap n)"
  by (simp add: length_NewBitmap)

lemma bits_of_NewBitmap [simp]: "bits_of (NewBitmap n) = {}"
proof -
  have "\<not> bit (NewBitmap n ! k) j" if "k < length (NewBitmap n)" for k j
    using that by (simp add: NewBitmap_def)
  then show ?thesis by (auto simp: bits_of_def IsSet_nat less_mult_imp_div_less mult.commute)
qed

lemma byte_index_less: "i < 8 * length (bm :: bytes) \<Longrightarrow> i div 8 < length bm"
  by (simp add: less_mult_imp_div_less mult.commute)

lemma SetBit_nat:
  "SetBit bitmap (int i) =
     (if i < 8 * length bitmap
      then bitmap[i div 8 := bitmap ! (i div 8) OR push_bit (i mod 8) 1] else bitmap)"
proof -
  have "int (length bitmap) * 8 \<le> int i \<longleftrightarrow> \<not> i < 8 * length bitmap" by linarith
  then show ?thesis
    by (simp add: SetBit_def Let_def nat_div_distrib nat_mod_distrib)
qed

lemma IsSet_SetBit:
  "IsSet (SetBit bitmap (int i)) (int j) \<longleftrightarrow>
     IsSet bitmap (int j) \<or> (j = i \<and> i < 8 * length bitmap)"
proof (cases "i < 8 * length bitmap \<and> j < 8 * length bitmap")
  case True
  then have di: "i div 8 < length bitmap" and dj: "j div 8 < length bitmap"
    by (simp_all add: byte_index_less)
  show ?thesis
  proof (cases "i div 8 = j div 8")
    case same: True
    have "j mod 8 = i mod 8 \<longleftrightarrow> j = i"
      using same by (metis div_mult_mod_eq)
    then show ?thesis using True di same
      by (auto simp: IsSet_nat SetBit_nat bit_simps)
  next
    case False
    then show ?thesis using True di
      by (auto simp: IsSet_nat SetBit_nat)
  qed
next
  case False
  then show ?thesis by (auto simp: IsSet_nat SetBit_nat)
qed

lemma bits_of_SetBit:
  "bits_of (SetBit bitmap (int i)) =
     (if i < 8 * length bitmap then insert i (bits_of bitmap) else bits_of bitmap)"
  by (auto simp: bits_of_def IsSet_SetBit)

subsection \<open>Counting\<close>

lemma OnesCount8_card: "OnesCount8 b = card {i. i < 8 \<and> bit b i}"
  unfolding OnesCount8_def by (rule card_filter_upt)

lemma bits_of_Cons:
  "bits_of (b # bs) = {i. i < 8 \<and> bit b i} \<union> (\<lambda>i. i + 8) ` bits_of bs"
proof (rule set_eqI)
  fix i
  show "i \<in> bits_of (b # bs) \<longleftrightarrow> i \<in> {i. i < 8 \<and> bit b i} \<union> (\<lambda>i. i + 8) ` bits_of bs"
  proof (cases "i < 8")
    case True
    then show ?thesis by (auto simp: bits_of_def IsSet_nat)
  next
    case False
    then obtain j where j: "i = j + 8" by (metis add.commute le_Suc_ex not_less)
    then show ?thesis by (auto simp: bits_of_def IsSet_nat)
  qed
qed

lemma PopCount_card: "PopCount bitmap = card (bits_of bitmap)"
proof (induction bitmap)
  case Nil
  then show ?case by (simp add: bits_of_def IsSet_nat)
next
  case (Cons b bs)
  have "card (bits_of (b # bs)) =
      card {i. i < 8 \<and> bit b i} + card ((\<lambda>i. i + 8) ` bits_of bs)"
    unfolding bits_of_Cons by (rule card_Un_disjoint) auto
  also have "card ((\<lambda>i. i + 8) ` bits_of bs) = card (bits_of bs)"
    by (rule card_image) simp
  finally show ?case using Cons.IH by (simp add: OnesCount8_card)
qed

lemma CountInRange_card:
  "CountInRange bitmap i end_i =
     card {j. i \<le> j \<and> j < end_i \<and> IsSet bitmap j}"
proof (induction bitmap i end_i rule: CountInRange.induct)
  case (1 bitmap i end_i)
  let ?S = "\<lambda>i. {j. i \<le> j \<and> j < end_i \<and> IsSet bitmap j}"
  show ?case
  proof (cases "i < end_i \<and> i < int (length bitmap) * 8")
    case True
    have fin: "finite (?S (i + 1))"
      by (rule finite_subset [of _ "{i..<end_i}"]) auto
    have "?S i = (if IsSet bitmap i then insert i (?S (i + 1)) else ?S (i + 1))"
    proof (rule set_eqI)
      fix j show "j \<in> ?S i \<longleftrightarrow>
          j \<in> (if IsSet bitmap i then insert i (?S (i + 1)) else ?S (i + 1))"
        using True by (cases "j = i") auto
    qed
    then have "card (?S i) = (if IsSet bitmap i then 1 else 0) + card (?S (i + 1))"
      using fin by simp
    then show ?thesis
      using True "1.IH" by (simp add: CountInRange.simps [of bitmap i end_i])
  next
    case False
    then have "?S i = {}" by (auto simp: IsSet_def)
    then have "card (?S i) = 0" by (simp only: card.empty)
    moreover have "CountInRange bitmap i end_i = 0"
      using False by (subst CountInRange.simps) auto
    ultimately show ?thesis by simp
  qed
qed

lemma CountInRange_all:
  "CountInRange bitmap 0 (int (length bitmap) * 8) = PopCount bitmap"
proof -
  have "{j. 0 \<le> j \<and> j < int (length bitmap) * 8 \<and> IsSet bitmap j} = int ` bits_of bitmap"
  proof (rule set_eqI)
    fix j
    show "j \<in> {j. 0 \<le> j \<and> j < int (length bitmap) * 8 \<and> IsSet bitmap j} \<longleftrightarrow>
        j \<in> int ` bits_of bitmap"
      by (cases j) (auto simp: bits_of_def IsSet_nat image_iff)
  qed
  then show ?thesis by (simp add: CountInRange_card PopCount_card card_image)
qed

subsection \<open>Bitwise combination\<close>

lemma length_OR_bitmap [simp]: "length (OR_bitmap dst src) = length dst"
  by (induction dst src rule: OR_bitmap.induct) auto

lemma length_AND_bitmap [simp]: "length (AND_bitmap dst src) = length dst"
  by (induction dst src rule: AND_bitmap.induct) auto

lemma nth_OR_bitmap:
  "k < length dst \<Longrightarrow>
     OR_bitmap dst src ! k = (if k < length src then dst ! k OR src ! k else dst ! k)"
  by (induction dst src arbitrary: k rule: OR_bitmap.induct) (auto simp: nth_Cons split: nat.splits)

lemma nth_AND_bitmap:
  "k < length dst \<Longrightarrow>
     AND_bitmap dst src ! k = (if k < length src then dst ! k AND src ! k else dst ! k)"
  by (induction dst src arbitrary: k rule: AND_bitmap.induct) (auto simp: nth_Cons split: nat.splits)

lemma bits_of_OR:
  "bits_of (OR_bitmap dst src) =
     bits_of dst \<union> {i \<in> bits_of src. i < 8 * length dst}"
proof (rule set_eqI)
  fix i
  have "i div 8 < length src \<longleftrightarrow> i < 8 * length src" by auto
  then show "i \<in> bits_of (OR_bitmap dst src) \<longleftrightarrow>
      i \<in> bits_of dst \<union> {i \<in> bits_of src. i < 8 * length dst}"
    by (auto simp: mem_bits_of IsSet_nat nth_OR_bitmap byte_index_less bit_simps)
qed

lemma bits_of_AND:
  "bits_of (AND_bitmap dst src) =
     {i \<in> bits_of dst. i < 8 * length src \<longrightarrow> i \<in> bits_of src}"
proof (rule set_eqI)
  fix i
  have "i div 8 < length src \<longleftrightarrow> i < 8 * length src" by auto
  then show "i \<in> bits_of (AND_bitmap dst src) \<longleftrightarrow>
      i \<in> {i \<in> bits_of dst. i < 8 * length src \<longrightarrow> i \<in> bits_of src}"
    by (auto simp: mem_bits_of IsSet_nat nth_AND_bitmap byte_index_less bit_simps)
qed

lemma bits_of_Clear: "bits_of (Clear_bitmap bitmap) = {}"
  by (auto simp: bits_of_def IsSet_nat Clear_bitmap_def byte_index_less)

lemma Copy_bitmap_id [simp]: "Copy_bitmap bitmap = bitmap"
  by (simp add: Copy_bitmap_def split: option.splits)

subsection \<open>The interface the keeper relies on\<close>

text \<open>
  What the keeper needs of a bitmap: a fresh one is empty and large enough, setting a bit in
  range adds exactly that index, setting one out of range does nothing, and the population
  count is the number of set indices. The lemmas of the locale are what the vote counting
  uses; the interpretation below discharges the contract for the code's bitmaps.
\<close>

locale index_set =
  fixes fresh :: "int \<Rightarrow> 'b"
    and add :: "'b \<Rightarrow> int \<Rightarrow> 'b"
    and test :: "'b \<Rightarrow> int \<Rightarrow> bool"
    and count :: "'b \<Rightarrow> nat"
    and capacity :: "'b \<Rightarrow> nat"
  assumes fresh_capacity: "0 \<le> n \<Longrightarrow> nat n \<le> capacity (fresh n)"
    and test_fresh: "\<not> test (fresh n) (int i)"
    and test_add: "test (add b (int i)) (int j) \<longleftrightarrow> test b (int j) \<or> (j = i \<and> i < capacity b)"
    and capacity_add: "capacity (add b k) = capacity b"
    and test_capacity: "test b (int i) \<Longrightarrow> i < capacity b"
    and count_test: "count b = card {i. test b (int i)}"
begin

lemma finite_test: "finite {i. test b (int i)}"
  by (rule finite_subset [of _ "{..<capacity b}"]) (auto dest: test_capacity)

lemma count_fresh: "count (fresh n) = 0"
  by (simp add: count_test test_fresh)

lemma test_after_add: "i < capacity b \<Longrightarrow> test (add b (int i)) (int i)"
  by (simp add: test_add)

lemma test_add_mono: "test b (int j) \<Longrightarrow> test (add b (int i)) (int j)"
  by (simp add: test_add)

lemma test_add_out: "capacity b \<le> i \<Longrightarrow> test (add b (int i)) (int j) = test b (int j)"
  by (simp add: test_add)

lemma count_add_new:
  assumes "i < capacity b" and "\<not> test b (int i)"
  shows "count (add b (int i)) = Suc (count b)"
proof -
  have "{j. test (add b (int i)) (int j)} = insert i {j. test b (int j)}"
    using assms(1) by (auto simp: test_add)
  then show ?thesis using assms(2) finite_test by (simp add: count_test)
qed

lemma count_add_old: "test b (int i) \<Longrightarrow> count (add b (int i)) = count b"
  unfolding count_test by (rule arg_cong [of _ _ card]) (auto simp: test_add)

lemma count_le: "{i. test b (int i)} \<subseteq> {..<n} \<Longrightarrow> count b \<le> n"
  unfolding count_test using card_mono [of "{..<n}"] by simp

end

interpretation bm: index_set NewBitmap SetBit IsSet PopCount "\<lambda>b. 8 * length b"
proof unfold_locales
  show "0 \<le> n \<Longrightarrow> nat n \<le> 8 * length (NewBitmap n)" for n
    by (simp add: length_NewBitmap)
  show "\<not> IsSet (NewBitmap n) (int i)" for n i
    using bits_of_NewBitmap [of n] by (auto simp: bits_of_def)
  show "IsSet b (int i) \<Longrightarrow> i < 8 * length b" for b i
    by (simp add: IsSet_nat)
qed (simp_all add: IsSet_SetBit PopCount_card bits_of_def)

end
