(* ===== verification/NetworkKeeper.thy ===== *)
theory NetworkKeeper
  imports NetworkTypes Bitmap
begin

text \<open>
  The keeper of the network module (\<open>modules/network/keeper/keeper.go\<close>): its collections as
  the fields of a record and one definition per method, in the order of the file.
  The collections decode what they stored (the codec's round trip), so a read fails only with
  \<open>ErrNotFound\<close>; a missing bitmap is Go's nil slice.
\<close>

subsection \<open>State\<close>

type_synonym block_id_provider = "uint64 \<Rightarrow> block_id option result"

record network_state =
  ValidatorIndex :: "(string, uint16) fmap"
  ValidatorPower :: "(uint16, uint64) fmap"
  AttestationBitmap :: "(int64, bytes) fmap"
  EpochBitmap :: "(uint64, bytes) fmap"
  AttesterSet :: "string fset"
  AttesterInfo :: "(string, attester_info) fmap"
  Signatures :: "(int64 \<times> string, bytes) fmap"
  StoredAttestationInfo :: "(int64, attestation_bitmap) fmap"
  LastAttestedHeight :: "int64 option"
  Params :: "params option"
  mut :: "block_id_provider option option"
  events :: "event list"

text \<open>
  What the keeper is constructed with, beside its store: the external packages, the module
  authority and the staking keeper (the only method called is \<open>GetLastValidators\<close>).
\<close>

record keeper_env =
  env_ext :: ext
  env_authority :: string
  env_GetLastValidators :: "staking_validator list result"

text \<open>A fresh store with a fresh \<open>mutableState\<close>, as \<open>NewKeeper\<close> leaves them.\<close>

definition NewKeeper :: network_state where
  "NewKeeper = \<lparr>ValidatorIndex = fmempty, ValidatorPower = fmempty, AttestationBitmap = fmempty,
     EpochBitmap = fmempty, AttesterSet = {||}, AttesterInfo = fmempty, Signatures = fmempty,
     StoredAttestationInfo = fmempty, LastAttestedHeight = None, Params = None,
     mut = Some None, events = []\<rparr>"

definition GetAuthority :: "keeper_env \<Rightarrow> string" where
  "GetAuthority env = env_authority env"

definition SetBlockIDProvider ::
    "block_id_provider option \<Rightarrow> network_state \<Rightarrow> unit result \<times> network_state" where
  "SetBlockIDProvider p k =
     (case mut k of
        None \<Rightarrow> (Inl (Panic ''nil pointer dereference''), k)
      | Some _ \<Rightarrow> (Inr (), k\<lparr>mut := Some p\<rparr>))"

definition blockIDProvider :: "network_state \<Rightarrow> block_id_provider option" where
  "blockIDProvider k = (case mut k of None \<Rightarrow> None | Some p \<Rightarrow> p)"

subsection \<open>Parameters, indices, powers, bitmaps\<close>

definition GetParams :: "network_state \<Rightarrow> params" where
  "GetParams k = (case Params k of None \<Rightarrow> zero_params | Some p \<Rightarrow> p)"

definition SetParams :: "params \<Rightarrow> network_state \<Rightarrow> network_state" where
  "SetParams p k = k\<lparr>Params := Some p\<rparr>"

definition SetValidatorIndex ::
    "string \<Rightarrow> uint16 \<Rightarrow> uint64 \<Rightarrow> network_state \<Rightarrow> network_state" where
  "SetValidatorIndex addr index pw k =
     (let k = k\<lparr>ValidatorIndex := fmupd addr index (ValidatorIndex k)\<rparr>
      in k\<lparr>ValidatorPower := fmupd index pw (ValidatorPower k)\<rparr>)"

definition GetValidatorIndex :: "network_state \<Rightarrow> string \<Rightarrow> uint16 \<times> bool" where
  "GetValidatorIndex k addr =
     (case fmlookup (ValidatorIndex k) addr of None \<Rightarrow> (0, False) | Some i \<Rightarrow> (i, True))"

definition GetValidatorPower :: "network_state \<Rightarrow> uint16 \<Rightarrow> uint64 result" where
  "GetValidatorPower k index =
     (case fmlookup (ValidatorPower k) index of None \<Rightarrow> Inl CollectionsNotFound | Some p \<Rightarrow> Inr p)"

definition SetAttestationBitmap :: "int64 \<Rightarrow> bytes \<Rightarrow> network_state \<Rightarrow> network_state" where
  "SetAttestationBitmap height bitmap k =
     k\<lparr>AttestationBitmap := fmupd height bitmap (AttestationBitmap k)\<rparr>"

definition GetAttestationBitmap :: "network_state \<Rightarrow> int64 \<Rightarrow> bytes option" where
  "GetAttestationBitmap k height = fmlookup (AttestationBitmap k) height"

definition SetEpochBitmap :: "uint64 \<Rightarrow> bytes \<Rightarrow> network_state \<Rightarrow> network_state" where
  "SetEpochBitmap epoch bitmap k = k\<lparr>EpochBitmap := fmupd epoch bitmap (EpochBitmap k)\<rparr>"

definition GetEpochBitmap :: "network_state \<Rightarrow> uint64 \<Rightarrow> bytes option" where
  "GetEpochBitmap k epoch = fmlookup (EpochBitmap k) epoch"

definition IsInAttesterSet :: "network_state \<Rightarrow> string \<Rightarrow> bool" where
  "IsInAttesterSet k addr \<longleftrightarrow> addr |\<in>| AttesterSet k"

definition SetAttesterSetMember :: "string \<Rightarrow> network_state \<Rightarrow> network_state" where
  "SetAttesterSetMember addr k = k\<lparr>AttesterSet := finsert addr (AttesterSet k)\<rparr>"

definition RemoveAttesterSetMember :: "string \<Rightarrow> network_state \<Rightarrow> network_state" where
  "RemoveAttesterSetMember addr k = k\<lparr>AttesterSet := AttesterSet k |-| {|addr|}\<rparr>"

definition GetAllAttesters :: "network_state \<Rightarrow> string list" where
  "GetAllAttesters k = sorted_list_of_fset (AttesterSet k)"

subsection \<open>Epochs\<close>

text \<open>Integer division by zero panics in Go; it happens exactly when no parameters are set.\<close>

definition go_div :: "uint64 \<Rightarrow> uint64 \<Rightarrow> uint64 result" where
  "go_div a b = (if b = 0 then Inl (Panic ''integer divide by zero'') else Inr (a div b))"

definition GetCurrentEpoch :: "sdk_ctx \<Rightarrow> network_state \<Rightarrow> uint64 result" where
  "GetCurrentEpoch ctx k = go_div (to_uint64 (BlockHeight ctx)) (EpochLength (GetParams k))"

definition IsCheckpointHeight :: "network_state \<Rightarrow> int64 \<Rightarrow> bool result" where
  "IsCheckpointHeight k height =
     (case Params k of
        None \<Rightarrow> Inr False
      | Some p \<Rightarrow> (if EpochLength p = 0 then Inl (Panic ''integer divide by zero'')
          else Inr (to_uint64 height mod EpochLength p = 0)))"

subsection \<open>Vote counting\<close>

text \<open>The loop over the bit positions, from \<open>i\<close> on; the sum is a \<open>uint64\<close> and wraps.\<close>

function voted_power_loop ::
    "network_state \<Rightarrow> bytes \<Rightarrow> nat \<Rightarrow> uint64 \<Rightarrow> uint64 result" where
  "voted_power_loop k bitmap i votedPower =
     (if i < length bitmap * 8
      then if IsSet bitmap (int i)
           then case GetValidatorPower k (of_nat i) of
                  Inl err \<Rightarrow> Inl (Wrap ''get validator power'' err)
                | Inr pw \<Rightarrow> voted_power_loop k bitmap (Suc i) (votedPower + pw)
           else voted_power_loop k bitmap (Suc i) votedPower
      else Inr votedPower)"
  by pat_completeness auto
termination
  by (relation "measure (\<lambda>(k, bm, i, v). length bm * 8 - i)") auto

declare voted_power_loop.simps [simp del]

definition CalculateVotedPower :: "network_state \<Rightarrow> bytes \<Rightarrow> uint64 result" where
  "CalculateVotedPower k bitmap = voted_power_loop k bitmap 0 0"

definition GetTotalPower :: "network_state \<Rightarrow> uint64" where
  "GetTotalPower k = of_nat (length (GetAllAttesters k))"

definition CheckQuorum :: "keeper_env \<Rightarrow> network_state \<Rightarrow> uint64 \<Rightarrow> uint64 \<Rightarrow> bool result" where
  "CheckQuorum env k votedPower totalPower =
     (case ext_DecFromStr (env_ext env) (QuorumFraction (GetParams k)) of
        None \<Rightarrow> Inl (ErrorString ''invalid quorum fraction'')
      | Some _ \<Rightarrow> Inr (votedPower * 3 > totalPower * 2))"

definition IsSoftConfirmed :: "keeper_env \<Rightarrow> network_state \<Rightarrow> int64 \<Rightarrow> bool result" where
  "IsSoftConfirmed env k height =
     (case GetAttestationBitmap k height of
        None \<Rightarrow> Inr False
      | Some bitmap \<Rightarrow>
          and_then (CalculateVotedPower k bitmap) (\<lambda>votedPower.
          CheckQuorum env k votedPower (GetTotalPower k)))"

subsection \<open>Retention\<close>

record retention_boundary =
  firstRetainedEpoch :: uint64
  firstRetainedHeight :: int64

definition prunesHeight :: "retention_boundary \<Rightarrow> int64 \<Rightarrow> bool" where
  "prunesHeight b height \<longleftrightarrow> height < firstRetainedHeight b"

definition attestationRetentionBoundary ::
    "network_state \<Rightarrow> uint64 \<Rightarrow> retention_boundary option" where
  "attestationRetentionBoundary k currentEpoch =
     (let p = GetParams k in
      if PruneAfter p = 0 \<or> EpochLength p = 0 then None
      else if currentEpoch \<le> PruneAfter p then None
      else let first = currentEpoch - PruneAfter p
           in Some \<lparr>firstRetainedEpoch = first,
                    firstRetainedHeight = to_int64 (first * EpochLength p)\<rparr>)"

definition PruneOldBitmaps :: "uint64 \<Rightarrow> network_state \<Rightarrow> network_state" where
  "PruneOldBitmaps currentEpoch k =
     (case attestationRetentionBoundary k currentEpoch of
        None \<Rightarrow> k
      | Some b \<Rightarrow>
          let k = k\<lparr>AttestationBitmap := clear_range
                (\<lambda>h. 0 \<le> h \<and> h < firstRetainedHeight b) (AttestationBitmap k)\<rparr>;
              k = k\<lparr>StoredAttestationInfo := clear_range
                (\<lambda>h. 0 \<le> h \<and> h < firstRetainedHeight b) (StoredAttestationInfo k)\<rparr>;
              k = k\<lparr>EpochBitmap := clear_range
                (\<lambda>ep. 0 \<le> ep \<and> ep < firstRetainedEpoch b) (EpochBitmap k)\<rparr>
          in k\<lparr>Signatures := clear_range
                (\<lambda>(h, addr). h < firstRetainedHeight b \<or>
                   (h = firstRetainedHeight b \<and> addr < '''')) (Signatures k)\<rparr>)"

subsection \<open>Signatures\<close>

definition SetSignature :: "int64 \<Rightarrow> string \<Rightarrow> bytes \<Rightarrow> network_state \<Rightarrow> network_state" where
  "SetSignature height validatorAddr signature k =
     k\<lparr>Signatures := fmupd (height, validatorAddr) signature (Signatures k)\<rparr>"

definition GetSignature :: "network_state \<Rightarrow> int64 \<Rightarrow> string \<Rightarrow> bytes result" where
  "GetSignature k height validatorAddr =
     (case fmlookup (Signatures k) (height, validatorAddr) of
        None \<Rightarrow> Inl CollectionsNotFound | Some s \<Rightarrow> Inr s)"

definition HasSignature :: "network_state \<Rightarrow> int64 \<Rightarrow> string \<Rightarrow> bool" where
  "HasSignature k height validatorAddr \<longleftrightarrow>
     fmlookup (Signatures k) (height, validatorAddr) \<noteq> None"

text \<open>One attester of the loop: out-of-range indices and unset bits are skipped.\<close>

definition collect_signature ::
    "network_state \<Rightarrow> int64 \<Rightarrow> bytes \<Rightarrow> string \<times> uint16 \<Rightarrow> (string, bytes) fmap \<Rightarrow> (string, bytes) fmap"
  where
  "collect_signature k height bitmap att signatures =
     (let addr = fst att; index = snd att in
      if int (unat index) \<ge> int (length bitmap) * 8 then signatures
      else if IsSet bitmap (int (unat index))
      then (case GetSignature k height addr of
              Inl _ \<Rightarrow> signatures
            | Inr signature \<Rightarrow> fmupd addr signature signatures)
      else signatures)"

definition GetAllSignaturesForHeight :: "network_state \<Rightarrow> int64 \<Rightarrow> (string, bytes) fmap" where
  "GetAllSignaturesForHeight k height =
     (case GetAttestationBitmap k height of
        None \<Rightarrow> fmempty
      | Some bitmap \<Rightarrow>
          fold (collect_signature k height bitmap) (sort_key snd (walk (ValidatorIndex k))) fmempty)"

subsection \<open>Last attested height, attester info\<close>

definition GetLastAttestedHeight :: "network_state \<Rightarrow> int64" where
  "GetLastAttestedHeight k = (case LastAttestedHeight k of None \<Rightarrow> 0 | Some h \<Rightarrow> h)"

definition SetLastAttestedHeight :: "int64 \<Rightarrow> network_state \<Rightarrow> network_state" where
  "SetLastAttestedHeight height k = k\<lparr>LastAttestedHeight := Some height\<rparr>"

definition UpdateLastAttestedHeight :: "int64 \<Rightarrow> network_state \<Rightarrow> network_state" where
  "UpdateLastAttestedHeight height k =
     (if height > GetLastAttestedHeight k then SetLastAttestedHeight height k else k)"

definition SetAttesterInfo :: "string \<Rightarrow> attester_info \<Rightarrow> network_state \<Rightarrow> network_state" where
  "SetAttesterInfo addr info k = k\<lparr>AttesterInfo := fmupd addr info (AttesterInfo k)\<rparr>"

definition GetAttesterInfo :: "network_state \<Rightarrow> string \<Rightarrow> attester_info result" where
  "GetAttesterInfo k addr =
     (case fmlookup (AttesterInfo k) addr of None \<Rightarrow> Inl CollectionsNotFound | Some i \<Rightarrow> Inr i)"

end
