(* ===== verification/NetworkVotes.thy ===== *)
theory NetworkVotes
  imports NetworkKeeper
begin

text \<open>
  What the keeper's operations compute: the voted power of a bitmap as a sum over its set
  indices, the two-thirds rule at \<open>uint64\<close> width, the signatures of a height, the effect of
  pruning. The invariant of the attester set (\<open>attester_set_ok\<close>) is what genesis establishes
  and every later operation keeps.
\<close>

subsection \<open>Voted power\<close>

lemma voted_power_loop_sum:
  assumes "\<And>j. j \<in> bits_of bitmap \<Longrightarrow> fmlookup (ValidatorPower k) (of_nat j) = Some (pw j)"
  shows "voted_power_loop k bitmap i v = Inr (v + (\<Sum>j\<in>{j \<in> bits_of bitmap. i \<le> j}. pw j))"
  using assms
proof (induction k bitmap i v rule: voted_power_loop.induct)
  case (1 k bitmap i v)
  let ?S = "\<lambda>i. {j \<in> bits_of bitmap. i \<le> j}"
  show ?case
  proof (cases "i < length bitmap * 8")
    case inr: True
    have split: "?S i = (if IsSet bitmap (int i) then insert i (?S (Suc i)) else ?S (Suc i))"
    proof (rule set_eqI)
      fix j show "j \<in> ?S i \<longleftrightarrow>
          j \<in> (if IsSet bitmap (int i) then insert i (?S (Suc i)) else ?S (Suc i))"
        by (cases "j = i") (auto simp: mem_bits_of)
    qed
    show ?thesis
    proof (cases "IsSet bitmap (int i)")
      case True
      then have pw: "GetValidatorPower k (of_nat i) = Inr (pw i)"
        using "1.prems" [of i] by (simp add: GetValidatorPower_def mem_bits_of)
      from "1.IH"(1) [OF inr True pw "1.prems"] show ?thesis
        using inr True pw split
        by (subst voted_power_loop.simps) (simp add: add.assoc)
    next
      case False
      from "1.IH"(2) [OF inr False "1.prems"] show ?thesis
        using inr False split by (subst voted_power_loop.simps) simp
    qed
  next
    case False
    then have "?S i = {}" by (auto dest: bits_of_bound)
    then have "sum pw (?S i) = 0" by (simp only: sum.empty)
    then show ?thesis using False by (subst voted_power_loop.simps) simp
  qed
qed

lemma CalculateVotedPower_sum:
  assumes "\<And>j. j \<in> bits_of bitmap \<Longrightarrow> fmlookup (ValidatorPower k) (of_nat j) = Some (pw j)"
  shows "CalculateVotedPower k bitmap = Inr (\<Sum>j\<in>bits_of bitmap. pw j)"
  using voted_power_loop_sum [OF assms, of bitmap 0 0] by (simp add: CalculateVotedPower_def)

lemma CalculateVotedPower_one:
  assumes "\<And>j. j \<in> bits_of bitmap \<Longrightarrow> fmlookup (ValidatorPower k) (of_nat j) = Some 1"
  shows "CalculateVotedPower k bitmap = Inr (of_nat (PopCount bitmap))"
  using CalculateVotedPower_sum [OF assms] by (simp add: PopCount_card)

text \<open>A set bit whose index has no stored power makes the count fail.\<close>

lemma voted_power_loop_missing:
  "j \<in> bits_of bitmap \<Longrightarrow> i \<le> j \<Longrightarrow> fmlookup (ValidatorPower k) (of_nat j) = None \<Longrightarrow>
     voted_power_loop k bitmap i v = Inl (Wrap ''get validator power'' CollectionsNotFound)"
proof (induction k bitmap i v rule: voted_power_loop.induct)
  case (1 k bitmap i v)
  have inr: "i < length bitmap * 8"
    using "1.prems" by (auto dest: bits_of_bound)
  show ?case
  proof (cases "IsSet bitmap (int i)")
    case True
    show ?thesis
    proof (cases "GetValidatorPower k (of_nat i)")
      case (Inl err)
      then have "err = CollectionsNotFound"
        by (auto simp: GetValidatorPower_def split: option.splits)
      then show ?thesis using inr True Inl by (subst voted_power_loop.simps) simp
    next
      case (Inr p)
      then have "i \<noteq> j" using "1.prems"(3) by (auto simp: GetValidatorPower_def)
      then have "Suc i \<le> j" using "1.prems"(2) by simp
      from "1.IH"(1) [OF inr True Inr "1.prems"(1) this "1.prems"(3)] show ?thesis
        using inr True Inr by (subst voted_power_loop.simps) simp
    qed
  next
    case False
    then have "Suc i \<le> j" using "1.prems" by (cases "i = j") (auto simp: mem_bits_of)
    from "1.IH"(2) [OF inr False "1.prems"(1) this "1.prems"(3)] show ?thesis
      using inr False by (subst voted_power_loop.simps) simp
  qed
qed

lemma voted_power_loop_cong:
  "ValidatorPower k' = ValidatorPower k \<Longrightarrow>
     voted_power_loop k' bitmap i v = voted_power_loop k bitmap i v"
proof (induction k bitmap i v rule: voted_power_loop.induct)
  case (1 k bitmap i v)
  then have "GetValidatorPower k' = GetValidatorPower k"
    by (simp add: GetValidatorPower_def fun_eq_iff)
  with 1 show ?case by (subst (1 2) voted_power_loop.simps) (auto split: sum.splits)
qed

subsection \<open>The attester set\<close>

definition attester_count :: "network_state \<Rightarrow> nat" where
  "attester_count k = fcard (AttesterSet k)"

definition index_of :: "network_state \<Rightarrow> string \<Rightarrow> nat" where
  "index_of k addr = unat (fst (GetValidatorIndex k addr))"

text \<open>
  The three collections describe one set; the indices number it from 0 without gaps; every
  index carries power 1; the set fits the 16-bit indices.
\<close>

definition attester_set_ok :: "network_state \<Rightarrow> bool" where
  "attester_set_ok k \<longleftrightarrow>
     fmdom (AttesterInfo k) = AttesterSet k \<and> fmdom (ValidatorIndex k) = AttesterSet k \<and>
     attester_count k \<le> 2 ^ 16 \<and>
     bij_betw (index_of k) (fset (AttesterSet k)) {..<attester_count k} \<and>
     (\<forall>i < attester_count k. fmlookup (ValidatorPower k) (of_nat i) = Some 1)"

lemma attester_set_okD:
  assumes "attester_set_ok k"
  shows "fmdom (AttesterInfo k) = AttesterSet k" "fmdom (ValidatorIndex k) = AttesterSet k"
    "attester_count k \<le> 2 ^ 16"
    "bij_betw (index_of k) (fset (AttesterSet k)) {..<attester_count k}"
    "i < attester_count k \<Longrightarrow> fmlookup (ValidatorPower k) (of_nat i) = Some 1"
  using assms by (auto simp: attester_set_ok_def)

lemma length_GetAllAttesters: "length (GetAllAttesters k) = attester_count k"
  by (simp add: GetAllAttesters_def attester_count_def sorted_list_of_fset.rep_eq fcard.rep_eq)

lemma set_GetAllAttesters [simp]: "set (GetAllAttesters k) = fset (AttesterSet k)"
  by (simp add: GetAllAttesters_def sorted_list_of_fset.rep_eq)

lemma GetTotalPower_eq: "GetTotalPower k = of_nat (attester_count k)"
  by (simp add: GetTotalPower_def length_GetAllAttesters)

lemma index_of_lookup: "fmlookup (ValidatorIndex k) addr = Some i \<Longrightarrow> index_of k addr = unat i"
  by (simp add: index_of_def GetValidatorIndex_def)

lemma index_of_less:
  "attester_set_ok k \<Longrightarrow> addr |\<in>| AttesterSet k \<Longrightarrow> index_of k addr < attester_count k"
  by (auto dest!: attester_set_okD(4) bij_betwE)

lemma index_of_inj:
  "attester_set_ok k \<Longrightarrow> a |\<in>| AttesterSet k \<Longrightarrow> b |\<in>| AttesterSet k \<Longrightarrow>
     index_of k a = index_of k b \<Longrightarrow> a = b"
  by (auto dest!: attester_set_okD(4) simp: bij_betw_def dest: inj_onD)

lemma attester_index_exists:
  assumes "attester_set_ok k" and "addr |\<in>| AttesterSet k"
  obtains i where "fmlookup (ValidatorIndex k) addr = Some i"
    and "GetValidatorIndex k addr = (i, True)" and "unat i < attester_count k"
proof -
  from assms have "addr |\<in>| fmdom (ValidatorIndex k)" by (simp add: attester_set_okD(2))
  then obtain i where i: "fmlookup (ValidatorIndex k) addr = Some i" by (auto elim: fmdomE)
  moreover have "unat i < attester_count k"
    using index_of_less [OF assms] by (simp add: index_of_lookup [OF i])
  ultimately show ?thesis using that by (simp add: GetValidatorIndex_def)
qed

text \<open>A bitmap made for the set: it has a bit for every attester and no others set.\<close>

definition bitmap_ok :: "network_state \<Rightarrow> bytes \<Rightarrow> bool" where
  "bitmap_ok k bitmap \<longleftrightarrow>
     attester_count k \<le> 8 * length bitmap \<and> bits_of bitmap \<subseteq> {..<attester_count k}"

definition voters :: "network_state \<Rightarrow> bytes \<Rightarrow> string set" where
  "voters k bitmap = {a. a |\<in>| AttesterSet k \<and> index_of k a \<in> bits_of bitmap}"

lemma bitmap_ok_new:
  "bitmap_ok k (NewBitmap (int (length (GetAllAttesters k))))"
  using bm.fresh_capacity [of "int (length (GetAllAttesters k))"]
  by (simp add: bitmap_ok_def length_GetAllAttesters)

lemma bitmap_ok_SetBit:
  "bitmap_ok k bitmap \<Longrightarrow> i < attester_count k \<Longrightarrow> bitmap_ok k (SetBit bitmap (int i))"
  by (auto simp: bitmap_ok_def bits_of_SetBit)

lemma bitmap_ok_power:
  assumes "attester_set_ok k" and "bitmap_ok k bitmap"
  shows "CalculateVotedPower k bitmap = Inr (of_nat (PopCount bitmap))"
  using assms by (intro CalculateVotedPower_one) (auto simp: bitmap_ok_def attester_set_okD(5))

lemma card_voters:
  assumes "attester_set_ok k" and "bitmap_ok k bitmap"
  shows "card (voters k bitmap) = PopCount bitmap"
proof -
  have bij: "bij_betw (index_of k) (fset (AttesterSet k)) {..<attester_count k}"
    using assms(1) by (rule attester_set_okD(4))
  have "index_of k ` voters k bitmap = bits_of bitmap"
  proof
    show "index_of k ` voters k bitmap \<subseteq> bits_of bitmap" by (auto simp: voters_def)
    show "bits_of bitmap \<subseteq> index_of k ` voters k bitmap"
    proof
      fix i assume i: "i \<in> bits_of bitmap"
      then have "i \<in> index_of k ` fset (AttesterSet k)"
        using assms(2) bij by (auto simp: bitmap_ok_def bij_betw_def)
      with i show "i \<in> index_of k ` voters k bitmap" by (auto simp: voters_def)
    qed
  qed
  moreover have "inj_on (index_of k) (voters k bitmap)"
    using bij by (rule inj_on_subset [OF bij_betw_imp_inj_on]) (auto simp: voters_def)
  ultimately show ?thesis using card_image [of "index_of k" "voters k bitmap"]
    by (simp add: PopCount_card)
qed

lemma finite_voters [simp]: "finite (voters k bitmap)"
  by (rule finite_subset [of _ "fset (AttesterSet k)"]) (auto simp: voters_def)

lemma PopCount_le_count: "bitmap_ok k bitmap \<Longrightarrow> PopCount bitmap \<le> attester_count k"
  by (rule bm.count_le) (auto simp: bitmap_ok_def bits_of_def)

subsection \<open>Quorum\<close>

lemma of_nat_less_uint64:
  "a < 2 ^ 64 \<Longrightarrow> b < 2 ^ 64 \<Longrightarrow> ((of_nat a :: uint64) < of_nat b) = (a < b)"
  by (simp add: word_less_nat_alt unsigned_of_nat take_bit_nat_eq_self)

text \<open>At the sizes an attester set can have, the wrapping multiplication does not wrap.\<close>

lemma quorum_no_overflow:
  assumes "a \<le> 2 ^ 60" and "n \<le> 2 ^ 60"
  shows "((of_nat n :: uint64) * 2 < of_nat a * 3) = (2 * n < 3 * a)"
proof -
  have "((of_nat (2 * n) :: uint64) < of_nat (3 * a)) = (2 * n < 3 * a)"
    by (rule of_nat_less_uint64) (use assms in simp_all)
  then show ?thesis by (simp add: mult.commute)
qed

lemma CheckQuorum_iff:
  assumes "ext_DecFromStr (env_ext env) (QuorumFraction (GetParams k)) = Some d"
    and "a \<le> 2 ^ 60" and "n \<le> 2 ^ 60"
  shows "CheckQuorum env k (of_nat a) (of_nat n) = Inr (2 * n < 3 * a)"
  using assms(1) quorum_no_overflow [OF assms(2,3)] by (simp add: CheckQuorum_def)

text \<open>
  The contract of a quorum rule over a finite set of voters and what it gives: any two quorums
  share more than a third of the set, so at least one voter that is in both.
\<close>

locale quorum_rule =
  fixes quorum :: "nat \<Rightarrow> nat \<Rightarrow> bool"
  assumes two_thirds: "quorum a n \<Longrightarrow> 2 * n < 3 * a"
begin

lemma intersect:
  assumes "finite S" "A \<subseteq> S" "B \<subseteq> S" "quorum (card A) (card S)" "quorum (card B) (card S)"
  shows "card S < 3 * card (A \<inter> B)"
proof -
  have fin: "finite A" "finite B" using assms(1-3) by (auto intro: finite_subset)
  have "card (A \<union> B) \<le> card S" using assms(1-3) by (intro card_mono) auto
  moreover have "card A + card B = card (A \<union> B) + card (A \<inter> B)"
    using fin by (rule card_Un_Int)
  ultimately show ?thesis
    using two_thirds [OF assms(4)] two_thirds [OF assms(5)] by linarith
qed

lemma nonempty: "quorum (card A) n \<Longrightarrow> A \<noteq> {}"
  using two_thirds by fastforce

end

text \<open>The rule of \<open>CheckQuorum\<close> for sets that fit the 16-bit indices.\<close>

definition code_quorum :: "keeper_env \<Rightarrow> network_state \<Rightarrow> nat \<Rightarrow> nat \<Rightarrow> bool" where
  "code_quorum env k a n \<longleftrightarrow> a \<le> n \<and> n \<le> 2 ^ 16 \<and>
     CheckQuorum env k (of_nat a) (of_nat n) = Inr True"

interpretation cq: quorum_rule "code_quorum env k" for env k
proof
  fix a n assume q: "code_quorum env k a n"
  then obtain d where "ext_DecFromStr (env_ext env) (QuorumFraction (GetParams k)) = Some d"
    by (auto simp: code_quorum_def CheckQuorum_def split: option.splits)
  from CheckQuorum_iff [OF this, of a n] q show "2 * n < 3 * a"
    by (auto simp: code_quorum_def)
qed

text \<open>
  the quorum test is the exact two-thirds rule. For power totals up to \<open>2^60\<close> the \<open>uint64\<close>
  products do not wrap, and \<open>CheckQuorum\<close> answers whether more than two thirds of the total
  voted; the configured quorum fraction only has to parse.
\<close>

lemma CheckQuorum_two_thirds:
  "unat voted \<le> 2 ^ 60 \<Longrightarrow> unat tot \<le> 2 ^ 60 \<Longrightarrow>
   CheckQuorum env k voted tot =
     (case ext_DecFromStr (env_ext env) (QuorumFraction (GetParams k)) of
        None \<Rightarrow> Inl (ErrorString ''invalid quorum fraction'')
      | Some _ \<Rightarrow> Inr (2 * unat tot < 3 * unat voted))"
  using CheckQuorum_iff [of env k _ "unat voted" "unat tot"]
  by (auto simp: CheckQuorum_def split: option.splits)

text \<open>
  C9: two soft-confirmable bitmaps over one attester set share more than a third of the
  attesters: two conflicting quorums need that many attesters voting for both.
\<close>

theorem quorum_intersection:
  assumes "attester_set_ok k" "bitmap_ok k b1" "bitmap_ok k b2"
    and "CheckQuorum env k (of_nat (PopCount b1)) (GetTotalPower k) = Inr True"
    and "CheckQuorum env k (of_nat (PopCount b2)) (GetTotalPower k) = Inr True"
  shows "attester_count k < 3 * card (voters k b1 \<inter> voters k b2)"
proof -
  have q: "code_quorum env k (card (voters k b)) (card (fset (AttesterSet k)))"
    if "bitmap_ok k b" "CheckQuorum env k (of_nat (PopCount b)) (GetTotalPower k) = Inr True" for b
    using that PopCount_le_count [OF that(1)] attester_set_okD(3) [OF assms(1)]
    by (simp add: code_quorum_def card_voters [OF assms(1)] GetTotalPower_eq attester_count_def
        fcard.rep_eq)
  show ?thesis
    using cq.intersect [OF finite_fset _ _ q [OF assms(2,4)] q [OF assms(3,5)]]
    by (auto simp: voters_def attester_count_def fcard.rep_eq)
qed

end
