(* ===== verification/NetworkMsgServer.thy ===== *)
theory NetworkMsgServer
  imports NetworkVotes
begin

text \<open>
  The message server of the network module (\<open>modules/network/keeper/msg_server.go\<close>).
  A handler takes the block context, the message and the keeper state and returns its result
  together with the state it leaves, on the error paths too: \<open>Attest\<close> writes the bitmap and the
  signature before it counts the votes, so the state after a late error is not the old one.
  \<open>Attest_checks\<close> is the handler up to the first write and \<open>Attest_record\<close> the rest.
\<close>

subsection \<open>The handlers\<close>

definition assertValidValidatorAuthority ::
    "network_state \<Rightarrow> string \<Rightarrow> string \<Rightarrow> unit result" where
  "assertValidValidatorAuthority k consensusAddress authority =
     (case fmlookup (AttesterInfo k) consensusAddress of
        None \<Rightarrow> Inl (ErrUnauthorized ''consensus address not in attester set'')
      | Some v \<Rightarrow> guard (ai_Authority v = authority) (ErrUnauthorized ''address''))"

definition verifyVote ::
    "keeper_env \<Rightarrow> sdk_ctx \<Rightarrow> network_state \<Rightarrow> string \<Rightarrow> bytes \<Rightarrow> int64 \<Rightarrow> vote result" where
  "verifyVote env ctx k consensusAddress voteBytes msgHeight =
     (case ext_UnmarshalVote (env_ext env) voteBytes of
        None \<Rightarrow> Inl (ErrInvalidRequest ''unmarshal vote'')
      | Some v \<Rightarrow>
     and_then (guard (vote_Type v = PrecommitType)
       (ErrInvalidRequest ''vote type must be Precommit'')) (\<lambda>_.
     and_then (guard (vote_Height v = msgHeight)
       (ErrInvalidRequest ''vote height != msg height'')) (\<lambda>_.
     and_then (guard (vote_Round v = 0)
       (ErrInvalidRequest ''vote round must be 0'')) (\<lambda>_.
     (case fmlookup (AttesterInfo k) consensusAddress of
        None \<Rightarrow> Inl (ErrNotFound ''consensus address not registered'')
      | Some info \<Rightarrow>
     (case GetPubKey info of
        Inl err \<Rightarrow> Inl (Wrap ''decode pubkey'' err)
      | Inr pk \<Rightarrow>
     and_then (guard (vote_ValidatorAddress v = ext_pk_Address (env_ext env) pk)
       (ErrUnauthorized ''vote validator address does not match registered pubkey address'')) (\<lambda>_.
     (case ext_BlockIDFromProto (env_ext env) (vote_BlockID v) of
        None \<Rightarrow> Inl (ErrInvalidRequest ''invalid vote BlockID'')
      | Some voteBlockID \<Rightarrow>
     let sig = vote_Signature v;
         v = v\<lparr>vote_Signature := []\<rparr>;
         signBytes = ext_VoteSignBytes (env_ext env) (ChainID ctx) v in
     and_then (guard (ext_VerifySignature (env_ext env) pk signBytes sig)
       (ErrUnauthorized ''invalid vote signature'')) (\<lambda>_.
     let v = v\<lparr>vote_Signature := sig\<rparr> in
     (case blockIDProvider k of
        None \<Rightarrow> Inl (ErrLogic ''block ID provider not wired; cannot verify vote BlockID'')
      | Some provider \<Rightarrow>
     (case provider (to_uint64 msgHeight) of
        Inl _ \<Rightarrow> Inl (ErrInvalidRequest ''get block ID for height'')
      | Inr None \<Rightarrow> Inl (ErrInvalidRequest ''block ID for height not found'')
      | Inr (Some storedID) \<Rightarrow>
     and_then (guard (storedID = voteBlockID)
       (ErrInvalidRequest ''vote BlockID does not match sequencer BlockID'')) (\<lambda>_.
     Inr v))))))))))))"

text \<open>
  The prefix of \<open>Attest\<close> that only reads: it yields the attester's index and the bitmap of the
  height (a fresh one when there is none).
\<close>

definition Attest_checks ::
    "keeper_env \<Rightarrow> sdk_ctx \<Rightarrow> msg_attest \<Rightarrow> network_state \<Rightarrow> (uint16 \<times> bytes) result" where
  "Attest_checks env ctx msg k =
     and_then (assertValidValidatorAuthority k (ma_ConsensusAddress msg) (ma_Authority msg)) (\<lambda>_.
     and_then (verifyVote env ctx k (ma_ConsensusAddress msg) (ma_Vote msg) (ma_Height msg)) (\<lambda>_.
     let (index, found) = GetValidatorIndex k (ma_ConsensusAddress msg) in
     and_then (guard found (ErrNotFound ''validator index not found'')) (\<lambda>_.
     let currentHeight = BlockHeight ctx;
         maxFutureHeight = int64_wrap (currentHeight + 1) in
     and_then (guard (\<not> ma_Height msg > maxFutureHeight)
       (ErrInvalidRequest ''attestation height exceeds max allowed height'')) (\<lambda>_.
     and_then (GetCurrentEpoch ctx k) (\<lambda>currentEpoch.
     and_then (guard (\<not> (currentEpoch > 0 \<and>
         (case attestationRetentionBoundary k (currentEpoch - 1) of
            None \<Rightarrow> False | Some boundary \<Rightarrow> prunesHeight boundary (ma_Height msg))))
       (ErrInvalidRequest ''attestation height is below retention window'')) (\<lambda>_.
     let bitmap = (case GetAttestationBitmap k (ma_Height msg) of
           None \<Rightarrow> NewBitmap (int (length (GetAllAttesters k))) | Some b \<Rightarrow> b) in
     and_then (guard (\<not> IsSet bitmap (int (unat index)))
       (ErrInvalidRequest ''consensus address already attested for height'')) (\<lambda>_.
     Inr (index, bitmap))))))))"

definition EmitEvent :: "event \<Rightarrow> network_state \<Rightarrow> network_state" where
  "EmitEvent ev k = k\<lparr>events := events k @ [ev]\<rparr>"

definition attest_event :: "keeper_env \<Rightarrow> msg_attest \<Rightarrow> event" where
  "attest_event env msg = \<lparr>ev_Type = ''attest'', ev_Attributes =
     [(''consensus_address'', ma_ConsensusAddress msg), (''authority'', ma_Authority msg),
      (''height'', ext_IntString (env_ext env) (ma_Height msg))]\<rparr>"

definition Attest_record ::
    "keeper_env \<Rightarrow> sdk_ctx \<Rightarrow> msg_attest \<Rightarrow> uint16 \<Rightarrow> bytes \<Rightarrow> network_state \<Rightarrow>
       unit result \<times> network_state" where
  "Attest_record env ctx msg index bitmap k =
     (let bitmap = SetBit bitmap (int (unat index));
          k = SetAttestationBitmap (ma_Height msg) bitmap k;
          k = SetSignature (ma_Height msg) (ma_ConsensusAddress msg) (ma_Vote msg) k in
      case CalculateVotedPower k bitmap of
        Inl err \<Rightarrow> (Inl (Wrap ''calculate voted power'' err), k)
      | Inr votedPower \<Rightarrow>
     (case CheckQuorum env k votedPower (GetTotalPower k) of
        Inl err \<Rightarrow> (Inl (Wrap ''check quorum'' err), k)
      | Inr quorumReached \<Rightarrow>
      let k = (if quorumReached then UpdateLastAttestedHeight (ma_Height msg) k else k) in
     (case GetCurrentEpoch ctx k of
        Inl err \<Rightarrow> (Inl err, k)
      | Inr epoch \<Rightarrow>
      let epochBitmap = (case GetEpochBitmap k epoch of
            None \<Rightarrow> NewBitmap (int (length (GetAllAttesters k))) | Some b \<Rightarrow> b);
          epochBitmap = SetBit epochBitmap (int (unat index));
          k = SetEpochBitmap epoch epochBitmap k
      in (Inr (), EmitEvent (attest_event env msg) k))))"

definition Attest ::
    "keeper_env \<Rightarrow> sdk_ctx \<Rightarrow> msg_attest \<Rightarrow> network_state \<Rightarrow> unit result \<times> network_state" where
  "Attest env ctx msg k =
     (case Attest_checks env ctx msg k of
        Inl err \<Rightarrow> (Inl err, k)
      | Inr (index, bitmap) \<Rightarrow> Attest_record env ctx msg index bitmap k)"

definition JoinAttesterSet ::
    "msg_join_attester_set \<Rightarrow> network_state \<Rightarrow> unit result \<times> network_state" where
  "JoinAttesterSet msg k =
     (Inl (ErrInvalidRequest ''attester set changes disabled; the set is fixed at genesis''), k)"

definition LeaveAttesterSet ::
    "msg_leave_attester_set \<Rightarrow> network_state \<Rightarrow> unit result \<times> network_state" where
  "LeaveAttesterSet msg k =
     (Inl (ErrInvalidRequest ''attester set changes disabled; the set is fixed at genesis''), k)"

definition UpdateParams ::
    "keeper_env \<Rightarrow> msg_update_params \<Rightarrow> network_state \<Rightarrow> unit result \<times> network_state" where
  "UpdateParams env msg k =
     (if GetAuthority env \<noteq> mu_Authority msg then (Inl (ErrInvalidSigner ''invalid authority''), k)
      else case Params_Validate (env_ext env) (mu_Params msg) of
        Inl err \<Rightarrow> (Inl err, k)
      | Inr _ \<Rightarrow> (Inr (), EmitEvent \<lparr>ev_Type = ''update_params'',
            ev_Attributes = [(''authority'', mu_Authority msg)]\<rparr> (SetParams (mu_Params msg) k)))"

subsection \<open>Vote verification\<close>

text \<open>What an accepted vote is, independently of the code's order of checks.\<close>

definition vote_accepted ::
    "ext \<Rightarrow> string \<Rightarrow> pubkey \<Rightarrow> int64 \<Rightarrow> block_id \<Rightarrow> vote \<Rightarrow> bool" where
  "vote_accepted e chain pk h bid v \<longleftrightarrow>
     vote_Type v = PrecommitType \<and> vote_Height v = h \<and> vote_Round v = 0 \<and>
     vote_ValidatorAddress v = ext_pk_Address e pk \<and>
     ext_BlockIDFromProto e (vote_BlockID v) = Some bid \<and>
     ext_VerifySignature e pk (ext_VoteSignBytes e chain (v\<lparr>vote_Signature := []\<rparr>)) (vote_Signature v)"

definition vote_backed ::
    "keeper_env \<Rightarrow> string \<Rightarrow> network_state \<Rightarrow> int64 \<Rightarrow> string \<Rightarrow> bytes \<Rightarrow> bool" where
  "vote_backed env chain k h addr voteBytes \<longleftrightarrow>
     (\<exists>v info pk provider bid.
        ext_UnmarshalVote (env_ext env) voteBytes = Some v \<and>
        fmlookup (AttesterInfo k) addr = Some info \<and> GetPubKey info = Inr pk \<and>
        blockIDProvider k = Some provider \<and> provider (to_uint64 h) = Inr (Some bid) \<and>
        vote_accepted (env_ext env) chain pk h bid v)"

lemma verifyVote_Inr_iff:
  "verifyVote env ctx k addr voteBytes h = Inr v \<longleftrightarrow>
     (\<exists>info pk provider bid.
        ext_UnmarshalVote (env_ext env) voteBytes = Some v \<and>
        fmlookup (AttesterInfo k) addr = Some info \<and> GetPubKey info = Inr pk \<and>
        blockIDProvider k = Some provider \<and> provider (to_uint64 h) = Inr (Some bid) \<and>
        vote_accepted (env_ext env) (ChainID ctx) pk h bid v)"
  unfolding verifyVote_def vote_accepted_def Let_def
  by (auto split: option.splits sum.splits simp: result_iffs)

text \<open>
  C10: vote verification accepts exactly the votes that decode to a round-0 precommit of the
  message height, name the address of the key registered for the attester, carry a valid
  signature of that key over the sign bytes of this chain, and whose block ID is well formed
  and equal to the sequencer's block ID at that height.
\<close>

theorem verifyVote_accepts:
  "(\<exists>v. verifyVote env ctx k addr voteBytes h = Inr v) \<longleftrightarrow>
     vote_backed env (ChainID ctx) k h addr voteBytes"
  unfolding verifyVote_Inr_iff vote_backed_def by blast

subsection \<open>The state invariant\<close>

text \<open>
  The invariant of the module's store: the attester set is consistent, the stored parameters
  are valid, every bitmap was made for this set, and every set bit of a height's bitmap is
  backed by a stored, verified vote of that attester for that height. Heights are block
  heights, hence not negative; the pruning ranges start at 0.
\<close>

definition network_inv :: "keeper_env \<Rightarrow> string \<Rightarrow> network_state \<Rightarrow> bool" where
  "network_inv env chain k \<longleftrightarrow>
     attester_set_ok k \<and>
     (\<exists>p. Params k = Some p \<and> params_ok (env_ext env) p) \<and>
     (\<forall>h bm. fmlookup (AttestationBitmap k) h = Some bm \<longrightarrow> bitmap_ok k bm) \<and>
     (\<forall>ep bm. fmlookup (EpochBitmap k) ep = Some bm \<longrightarrow> bitmap_ok k bm) \<and>
     (\<forall>h bm addr. 0 \<le> h \<longrightarrow> fmlookup (AttestationBitmap k) h = Some bm \<longrightarrow> addr \<in> voters k bm \<longrightarrow>
        (\<exists>sig. fmlookup (Signatures k) (h, addr) = Some sig \<and> vote_backed env chain k h addr sig))"

lemma network_invD:
  assumes "network_inv env chain k"
  shows "attester_set_ok k"
    "\<exists>p. Params k = Some p \<and> params_ok (env_ext env) p"
    "fmlookup (AttestationBitmap k) h = Some bm \<Longrightarrow> bitmap_ok k bm"
    "fmlookup (EpochBitmap k) ep = Some bm \<Longrightarrow> bitmap_ok k bm"
    "0 \<le> h \<Longrightarrow> fmlookup (AttestationBitmap k) h = Some bm \<Longrightarrow> addr \<in> voters k bm \<Longrightarrow>
       \<exists>sig. fmlookup (Signatures k) (h, addr) = Some sig \<and> vote_backed env chain k h addr sig"
  using assms by (auto simp: network_inv_def)

lemma network_inv_params:
  assumes "network_inv env chain k"
  shows "EpochLength (GetParams k) \<noteq> 0" "PruneAfter (GetParams k) \<noteq> 0"
    "\<exists>d. ext_DecFromStr (env_ext env) (QuorumFraction (GetParams k)) = Some d"
    "\<exists>d. ext_DecFromStr (env_ext env) (MinParticipation (GetParams k)) = Some d"
  using network_invD(2) [OF assms] by (auto simp: GetParams_def params_ok_def)

text \<open>The parts of the state that the votes and their checks depend on.\<close>

definition same_attesters :: "network_state \<Rightarrow> network_state \<Rightarrow> bool" where
  "same_attesters k k' \<longleftrightarrow> AttesterSet k' = AttesterSet k \<and> AttesterInfo k' = AttesterInfo k \<and>
     ValidatorIndex k' = ValidatorIndex k \<and> ValidatorPower k' = ValidatorPower k \<and> mut k' = mut k"

lemma same_attestersD:
  assumes "same_attesters k k'"
  shows "AttesterSet k' = AttesterSet k" "index_of k' = index_of k"
    "attester_count k' = attester_count k" "attester_set_ok k' = attester_set_ok k"
    "bitmap_ok k' = bitmap_ok k" "voters k' = voters k"
    "vote_backed env chain k' = vote_backed env chain k"
    "GetAllAttesters k' = GetAllAttesters k" "GetTotalPower k' = GetTotalPower k"
    "CalculateVotedPower k' = CalculateVotedPower k"
proof -
  show idx: "index_of k' = index_of k"
    using assms by (simp add: fun_eq_iff index_of_def GetValidatorIndex_def same_attesters_def)
  show cnt: "attester_count k' = attester_count k"
    using assms by (simp add: attester_count_def same_attesters_def)
  show "attester_set_ok k' = attester_set_ok k"
    using assms by (simp add: attester_set_ok_def idx cnt same_attesters_def)
  show "bitmap_ok k' = bitmap_ok k" "voters k' = voters k"
    using assms by (simp_all add: bitmap_ok_def voters_def idx cnt fun_eq_iff same_attesters_def)
  show "CalculateVotedPower k' = CalculateVotedPower k"
    using assms voted_power_loop_cong [of k' k]
    by (intro HOL.ext) (simp add: CalculateVotedPower_def same_attesters_def)
qed (use assms in \<open>simp_all add: same_attesters_def vote_backed_def blockIDProvider_def
    GetAllAttesters_def GetTotalPower_def fun_eq_iff\<close>)

subsection \<open>Attest\<close>

definition height_bitmap :: "network_state \<Rightarrow> int64 \<Rightarrow> bytes" where
  "height_bitmap k h = (case GetAttestationBitmap k h of
     None \<Rightarrow> NewBitmap (int (length (GetAllAttesters k))) | Some b \<Rightarrow> b)"

definition epoch_bitmap :: "network_state \<Rightarrow> uint64 \<Rightarrow> bytes" where
  "epoch_bitmap k ep = (case GetEpochBitmap k ep of
     None \<Rightarrow> NewBitmap (int (length (GetAllAttesters k))) | Some b \<Rightarrow> b)"

definition below_retention :: "sdk_ctx \<Rightarrow> network_state \<Rightarrow> int64 \<Rightarrow> bool" where
  "below_retention ctx k h \<longleftrightarrow>
     (let currentEpoch = to_uint64 (BlockHeight ctx) div EpochLength (GetParams k) in
      currentEpoch > 0 \<and> (case attestationRetentionBoundary k (currentEpoch - 1) of
        None \<Rightarrow> False | Some b \<Rightarrow> prunesHeight b h))"

text \<open>The condition under which a vote is admitted, as one formula.\<close>

definition attest_allowed :: "keeper_env \<Rightarrow> sdk_ctx \<Rightarrow> msg_attest \<Rightarrow> network_state \<Rightarrow> bool" where
  "attest_allowed env ctx msg k \<longleftrightarrow>
     (\<exists>info. fmlookup (AttesterInfo k) (ma_ConsensusAddress msg) = Some info \<and>
        ai_Authority info = ma_Authority msg) \<and>
     vote_backed env (ChainID ctx) k (ma_Height msg) (ma_ConsensusAddress msg) (ma_Vote msg) \<and>
     ma_Height msg \<le> int64_wrap (BlockHeight ctx + 1) \<and>
     \<not> below_retention ctx k (ma_Height msg) \<and>
     ma_ConsensusAddress msg \<notin> voters k (height_bitmap k (ma_Height msg))"

text \<open>The state after an admitted vote.\<close>

definition attested ::
    "keeper_env \<Rightarrow> sdk_ctx \<Rightarrow> msg_attest \<Rightarrow> network_state \<Rightarrow> network_state" where
  "attested env ctx msg k =
     (let h = ma_Height msg; addr = ma_ConsensusAddress msg;
          idx = int (index_of k addr);
          bitmap = SetBit (height_bitmap k h) idx;
          epoch = to_uint64 (BlockHeight ctx) div EpochLength (GetParams k)
      in k\<lparr>AttestationBitmap := fmupd h bitmap (AttestationBitmap k),
           Signatures := fmupd (h, addr) (ma_Vote msg) (Signatures k),
           LastAttestedHeight :=
             (if 2 * attester_count k < 3 * PopCount bitmap \<and> GetLastAttestedHeight k < h
              then Some h else LastAttestedHeight k),
           EpochBitmap := fmupd epoch (SetBit (epoch_bitmap k epoch) idx) (EpochBitmap k),
           events := events k @ [attest_event env msg]\<rparr>)"

lemma GetCurrentEpoch_ok:
  "EpochLength (GetParams k) \<noteq> 0 \<Longrightarrow>
     GetCurrentEpoch ctx k = Inr (to_uint64 (BlockHeight ctx) div EpochLength (GetParams k))"
  by (simp add: GetCurrentEpoch_def go_div_def)

lemma attester_registered:
  "attester_set_ok k \<Longrightarrow> fmlookup (AttesterInfo k) addr = Some info \<Longrightarrow> addr |\<in>| AttesterSet k"
  by (metis attester_set_okD(1) fmdomI)

lemma Attest_checks_iff:
  assumes ok: "attester_set_ok k" and ep: "EpochLength (GetParams k) \<noteq> 0"
  shows "Attest_checks env ctx msg k = Inr (i, bitmap) \<longleftrightarrow>
     attest_allowed env ctx msg k \<and>
     fmlookup (ValidatorIndex k) (ma_ConsensusAddress msg) = Some i \<and>
     bitmap = height_bitmap k (ma_Height msg)"
proof (cases "fmlookup (AttesterInfo k) (ma_ConsensusAddress msg)")
  case None
  then show ?thesis
    by (simp add: Attest_checks_def assertValidValidatorAuthority_def attest_allowed_def)
next
  case (Some info)
  let ?a = "ma_ConsensusAddress msg"
  from Some have mem: "?a |\<in>| AttesterSet k" by (rule attester_registered [OF ok])
  obtain j where j: "fmlookup (ValidatorIndex k) ?a = Some j" "GetValidatorIndex k ?a = (j, True)"
    using attester_index_exists [OF ok mem] by blast
  have vot: "?a \<in> voters k b \<longleftrightarrow> IsSet b (int (unat j))" for b
    using mem by (simp add: voters_def index_of_lookup [OF j(1)] mem_bits_of)
  have bk: "vote_backed env (ChainID ctx) k (ma_Height msg) ?a (ma_Vote msg) \<longleftrightarrow>
      (\<exists>v. verifyVote env ctx k ?a (ma_Vote msg) (ma_Height msg) = Inr v)"
    unfolding verifyVote_Inr_iff vote_backed_def by blast
  have br: "below_retention ctx k (ma_Height msg) \<longleftrightarrow>
      to_uint64 (BlockHeight ctx) div EpochLength (GetParams k) > 0 \<and>
      (case attestationRetentionBoundary k
          (to_uint64 (BlockHeight ctx) div EpochLength (GetParams k) - 1) of
        None \<Rightarrow> False | Some b \<Rightarrow> prunesHeight b (ma_Height msg))"
    by (simp add: below_retention_def Let_def)
  show ?thesis
    unfolding Attest_checks_def attest_allowed_def bk br assertValidValidatorAuthority_def
    using Some j
    by (auto simp: Let_def result_iffs GetCurrentEpoch_ok [OF ep] vot height_bitmap_def not_less)
qed

lemma height_bitmap_ok: "network_inv env chain k \<Longrightarrow> bitmap_ok k (height_bitmap k h)"
  by (auto simp: height_bitmap_def GetAttestationBitmap_def split: option.splits
      intro: bitmap_ok_new network_invD(3))

lemma epoch_bitmap_ok: "network_inv env chain k \<Longrightarrow> bitmap_ok k (epoch_bitmap k ep)"
  by (auto simp: epoch_bitmap_def GetEpochBitmap_def split: option.splits
      intro: bitmap_ok_new network_invD(4))

lemma same_attesters_attested: "same_attesters k (attested env ctx msg k)"
  by (simp add: same_attesters_def attested_def Let_def)

lemma Attest_record_ok:
  assumes inv: "network_inv env chain k"
    and i: "fmlookup (ValidatorIndex k) (ma_ConsensusAddress msg) = Some i"
  shows "Attest_record env ctx msg i (height_bitmap k (ma_Height msg)) k =
    (Inr (), attested env ctx msg k)"
proof -
  let ?h = "ma_Height msg" and ?a = "ma_ConsensusAddress msg"
  let ?bm = "SetBit (height_bitmap k ?h) (int (unat i))"
  let ?k1 = "SetSignature ?h ?a (ma_Vote msg) (SetAttestationBitmap ?h ?bm k)"
  have ok: "attester_set_ok k" using inv by (rule network_invD(1))
  have idx: "index_of k ?a = unat i" using i by (rule index_of_lookup)
  have mem: "?a |\<in>| AttesterSet k"
    using i attester_set_okD(2) [OF ok] by (metis fmdomI)
  have bmok: "bitmap_ok k ?bm"
    using height_bitmap_ok [OF inv] index_of_less [OF ok mem] idx
    by (intro bitmap_ok_SetBit) auto
  have same: "same_attesters k ?k1"
    by (simp add: same_attesters_def SetSignature_def SetAttestationBitmap_def)
  have par: "GetParams ?k1 = GetParams k"
    by (simp add: GetParams_def SetSignature_def SetAttestationBitmap_def)
  have vp: "CalculateVotedPower ?k1 ?bm = Inr (of_nat (PopCount ?bm))"
    using bitmap_ok_power [OF ok bmok] by (simp only: same_attestersD(10) [OF same])
  obtain d where d: "ext_DecFromStr (env_ext env) (QuorumFraction (GetParams ?k1)) = Some d"
    using network_inv_params(3) [OF inv] par by auto
  have cq: "CheckQuorum env ?k1 (of_nat (PopCount ?bm)) (GetTotalPower ?k1) =
      Inr (2 * attester_count k < 3 * PopCount ?bm)"
    using CheckQuorum_iff [OF d, of "PopCount ?bm" "attester_count k"]
      PopCount_le_count [OF bmok] attester_set_okD(3) [OF ok]
    by (simp only: same_attestersD(3) [OF same] GetTotalPower_eq) simp
  have ep: "EpochLength (GetParams k) \<noteq> 0" by (rule network_inv_params(1) [OF inv])
  show ?thesis
    unfolding Attest_record_def Let_def vp cq sum.case
    using ep idx
    by (auto simp: attested_def Let_def EmitEvent_def SetEpochBitmap_def
        UpdateLastAttestedHeight_def SetLastAttestedHeight_def GetLastAttestedHeight_def
        GetCurrentEpoch_def go_div_def GetEpochBitmap_def epoch_bitmap_def GetAllAttesters_def
        GetParams_def SetSignature_def SetAttestationBitmap_def cong: option.case_cong)
qed

lemma Attest_allowed:
  assumes inv: "network_inv env chain k" and al: "attest_allowed env ctx msg k"
  shows "Attest env ctx msg k = (Inr (), attested env ctx msg k)"
proof -
  have ok: "attester_set_ok k" using inv by (rule network_invD(1))
  from al obtain info where "fmlookup (AttesterInfo k) (ma_ConsensusAddress msg) = Some info"
    by (auto simp: attest_allowed_def)
  then have "ma_ConsensusAddress msg |\<in>| AttesterSet k" by (rule attester_registered [OF ok])
  then obtain i where i: "fmlookup (ValidatorIndex k) (ma_ConsensusAddress msg) = Some i"
    using attester_index_exists [OF ok] by blast
  have "Attest_checks env ctx msg k = Inr (i, height_bitmap k (ma_Height msg))"
    using Attest_checks_iff [OF ok network_inv_params(1) [OF inv]] al i by blast
  then show ?thesis
    by (simp add: Attest_def Attest_record_ok [OF inv i])
qed

lemma Attest_not_allowed:
  assumes inv: "network_inv env chain k" and al: "\<not> attest_allowed env ctx msg k"
  shows "\<exists>err. Attest env ctx msg k = (Inl err, k)"
proof (cases "Attest_checks env ctx msg k")
  case (Inl err)
  then show ?thesis by (simp add: Attest_def)
next
  case (Inr r)
  obtain i b where "r = (i, b)" by (cases r)
  with Inr al show ?thesis
    using Attest_checks_iff [OF network_invD(1) [OF inv] network_inv_params(1) [OF inv]] by blast
qed

lemma Attest_accepted:
  assumes "network_inv env chain k" and "Attest env ctx msg k = (Inr (), k')"
  shows "attest_allowed env ctx msg k" and "k' = attested env ctx msg k"
proof -
  show al: "attest_allowed env ctx msg k"
    using assms(2) Attest_not_allowed [OF assms(1), of ctx msg] by fastforce
  show "k' = attested env ctx msg k"
    using assms(2) Attest_allowed [OF assms(1) al] by simp
qed

text \<open>
  C2: in every consistent state \<open>Attest\<close> is all or nothing. A vote that meets the admission
  condition is recorded: exactly the bitmap and the signature of its height, the epoch bitmap,
  the last attested height (when more than two thirds now voted and the height is new) and one
  event change. Any other message is rejected with the store untouched, although the handler
  writes before its last error returns.
\<close>

theorem Attest_spec:
  assumes "network_inv env (ChainID ctx) k"
  shows "if attest_allowed env ctx msg k
         then Attest env ctx msg k = (Inr (), attested env ctx msg k)
         else \<exists>err. Attest env ctx msg k = (Inl err, k)"
  using Attest_allowed [OF assms] Attest_not_allowed [OF assms] by simp

subsection \<open>The invariant is kept\<close>

lemma voters_SetBit:
  assumes "attester_set_ok k" "addr |\<in>| AttesterSet k" "bitmap_ok k bitmap"
  shows "voters k (SetBit bitmap (int (index_of k addr))) = insert addr (voters k bitmap)"
proof -
  have "index_of k addr < 8 * length bitmap"
    using index_of_less [OF assms(1,2)] assms(3) by (simp add: bitmap_ok_def)
  then show ?thesis
    using assms(2) index_of_inj [OF assms(1) _ assms(2)] by (auto simp: voters_def bits_of_SetBit)
qed

lemma voters_NewBitmap [simp]: "voters k (NewBitmap n) = {}"
  by (simp add: voters_def)

lemma attested_fields:
  "Params (attested env ctx msg k) = Params k"
  "fmlookup (AttestationBitmap (attested env ctx msg k)) h =
     (if h = ma_Height msg
      then Some (SetBit (height_bitmap k h) (int (index_of k (ma_ConsensusAddress msg))))
      else fmlookup (AttestationBitmap k) h)"
  "fmlookup (Signatures (attested env ctx msg k)) (h, a) =
     (if h = ma_Height msg \<and> a = ma_ConsensusAddress msg then Some (ma_Vote msg)
      else fmlookup (Signatures k) (h, a))"
  "fmlookup (EpochBitmap (attested env ctx msg k)) ep =
     (if ep = to_uint64 (BlockHeight ctx) div EpochLength (GetParams k)
      then Some (SetBit (epoch_bitmap k ep) (int (index_of k (ma_ConsensusAddress msg))))
      else fmlookup (EpochBitmap k) ep)"
  "StoredAttestationInfo (attested env ctx msg k) = StoredAttestationInfo k"
  by (auto simp: attested_def Let_def)

lemma attested_inv:
  assumes inv: "network_inv env chain k" and ch: "ChainID ctx = chain"
    and al: "attest_allowed env ctx msg k"
  shows "network_inv env chain (attested env ctx msg k)"
proof -
  let ?k = "attested env ctx msg k" and ?a = "ma_ConsensusAddress msg" and ?h = "ma_Height msg"
  note same = same_attestersD [OF same_attesters_attested [of k env ctx msg]]
  have ok: "attester_set_ok k" using inv by (rule network_invD(1))
  have mem: "?a |\<in>| AttesterSet k"
    using al attester_registered [OF ok] by (auto simp: attest_allowed_def)
  have less: "index_of k ?a < attester_count k" by (rule index_of_less [OF ok mem])
  have new_voters: "voters k (SetBit (height_bitmap k ?h) (int (index_of k ?a))) =
      insert ?a (voters k (height_bitmap k ?h))"
    by (rule voters_SetBit [OF ok mem height_bitmap_ok [OF inv]])
  have old: "\<exists>sig. fmlookup (Signatures k) (?h, a) = Some sig \<and> vote_backed env chain k ?h a sig"
    if "0 \<le> ?h" "a \<in> voters k (height_bitmap k ?h)" for a
    using that network_invD(5) [OF inv that(1)]
    by (auto simp: height_bitmap_def GetAttestationBitmap_def split: option.splits)
  have "\<exists>sig. fmlookup (Signatures ?k) (h, a) = Some sig \<and> vote_backed env chain k h a sig"
    if "0 \<le> h" "fmlookup (AttestationBitmap ?k) h = Some bm" "a \<in> voters k bm" for h bm a
    using that al ch old [of a] network_invD(5) [OF inv that(1), of bm a] new_voters
    by (auto simp: attested_fields attest_allowed_def split: if_splits)
  then show ?thesis
    unfolding network_inv_def
    using ok network_invD(2) [OF inv] network_invD(3,4) [OF inv] less
      height_bitmap_ok [OF inv] epoch_bitmap_ok [OF inv]
    by (auto simp: same attested_fields split: if_splits intro!: bitmap_ok_SetBit)
qed

lemma Attest_inv:
  assumes "network_inv env chain k" and "ChainID ctx = chain"
  shows "network_inv env chain (snd (Attest env ctx msg k))"
proof (cases "attest_allowed env ctx msg k")
  case True
  then show ?thesis using attested_inv [OF assms True] by (simp add: Attest_allowed [OF assms(1)])
next
  case False
  then show ?thesis using Attest_not_allowed [OF assms(1) False] assms(1) by auto
qed

lemma EmitEvent_same [simp]: "same_attesters k (EmitEvent ev k)" "Params (EmitEvent ev k) = Params k"
  by (simp_all add: same_attesters_def EmitEvent_def)

lemma network_inv_cong:
  assumes "same_attesters k k'" "AttestationBitmap k' = AttestationBitmap k"
    "EpochBitmap k' = EpochBitmap k" "Signatures k' = Signatures k"
    "\<exists>p. Params k' = Some p \<and> params_ok (env_ext env) p" "network_inv env chain k"
  shows "network_inv env chain k'"
  using assms(5,6) unfolding network_inv_def same_attestersD(4-7) [OF assms(1)] assms(2-4)
  by (elim conjE) (intro conjI, assumption+)

lemma UpdateParams_inv:
  assumes "network_inv env chain k"
  shows "network_inv env chain (snd (UpdateParams env msg k))"
proof (cases "GetAuthority env = mu_Authority msg \<and> Params_Validate (env_ext env) (mu_Params msg) = Inr ()")
  case True
  then show ?thesis
    by (intro network_inv_cong [OF _ _ _ _ _ assms])
      (auto simp: UpdateParams_def EmitEvent_def SetParams_def same_attesters_def
        Params_Validate_iff [symmetric])
next
  case False
  then show ?thesis using assms by (auto simp: UpdateParams_def split: sum.splits)
qed

text \<open>
  Installing a block ID provider that answers at least what the installed one answers (any
  provider, when there was none) keeps the stored votes backed.
\<close>

definition provider_extends :: "network_state \<Rightarrow> block_id_provider option \<Rightarrow> bool" where
  "provider_extends k p \<longleftrightarrow>
     (case blockIDProvider k of
        None \<Rightarrow> True
      | Some q \<Rightarrow> (case p of
          None \<Rightarrow> False
        | Some q' \<Rightarrow> (\<forall>h bid. q h = Inr (Some bid) \<longrightarrow> q' h = Inr (Some bid))))"

lemma mut_update_simps [simp]:
  "index_of (k\<lparr>mut := m\<rparr>) = index_of k" "attester_count (k\<lparr>mut := m\<rparr>) = attester_count k"
  "attester_set_ok (k\<lparr>mut := m\<rparr>) = attester_set_ok k"
  "bitmap_ok (k\<lparr>mut := m\<rparr>) = bitmap_ok k" "voters (k\<lparr>mut := m\<rparr>) = voters k"
  "blockIDProvider (k\<lparr>mut := Some p\<rparr>) = p"
proof -
  show idx: "index_of (k\<lparr>mut := m\<rparr>) = index_of k"
    by (simp add: fun_eq_iff index_of_def GetValidatorIndex_def)
  show cnt: "attester_count (k\<lparr>mut := m\<rparr>) = attester_count k" by (simp add: attester_count_def)
  show "attester_set_ok (k\<lparr>mut := m\<rparr>) = attester_set_ok k"
    by (simp add: attester_set_ok_def idx cnt)
  show "bitmap_ok (k\<lparr>mut := m\<rparr>) = bitmap_ok k" "voters (k\<lparr>mut := m\<rparr>) = voters k"
    by (simp_all add: fun_eq_iff bitmap_ok_def voters_def idx cnt)
qed (simp add: blockIDProvider_def)

lemma vote_backed_extends:
  "vote_backed env chain k h addr sig \<Longrightarrow> provider_extends k p \<Longrightarrow>
   vote_backed env chain (k\<lparr>mut := Some p\<rparr>) h addr sig"
  by (fastforce simp: vote_backed_def provider_extends_def split: option.splits)

lemma SetBlockIDProvider_inv:
  assumes inv: "network_inv env chain k" and "provider_extends k p"
  shows "network_inv env chain (snd (SetBlockIDProvider p k))"
  using inv vote_backed_extends [OF _ assms(2), of env chain]
  unfolding network_inv_def SetBlockIDProvider_def
  by (cases "mut k") (auto; metis)+

subsection \<open>Soft confirmation\<close>

lemma IsSoftConfirmed_inv:
  assumes inv: "network_inv env chain k"
  shows "IsSoftConfirmed env k h =
    Inr (case fmlookup (AttestationBitmap k) h of None \<Rightarrow> False
         | Some bm \<Rightarrow> 2 * attester_count k < 3 * card (voters k bm))"
proof (cases "fmlookup (AttestationBitmap k) h")
  case None
  then show ?thesis by (simp add: IsSoftConfirmed_def GetAttestationBitmap_def)
next
  case (Some bm)
  have ok: "attester_set_ok k" and bmok: "bitmap_ok k bm"
    using network_invD(1,3) [OF inv] Some by auto
  obtain d where d: "ext_DecFromStr (env_ext env) (QuorumFraction (GetParams k)) = Some d"
    using network_inv_params(3) [OF inv] by auto
  have "CheckQuorum env k (of_nat (PopCount bm)) (GetTotalPower k) =
      Inr (2 * attester_count k < 3 * PopCount bm)"
    unfolding GetTotalPower_eq
    by (rule CheckQuorum_iff [OF d])
      (use PopCount_le_count [OF bmok] attester_set_okD(3) [OF ok] in simp_all)
  then show ?thesis
    using Some bitmap_ok_power [OF ok bmok]
    by (simp add: IsSoftConfirmed_def GetAttestationBitmap_def card_voters [OF ok bmok])
qed

text \<open>
  An accepted vote counts once. After \<open>Attest\<close> accepted a vote of an attester for a
  height, the height has one voter more than before, and every later message for the same
  attester and height is rejected without effect, whatever vote it carries.
\<close>

lemma Attest_counts_once:
  assumes inv: "network_inv env (ChainID ctx) k"
    and acc: "Attest env ctx msg k = (Inr (), k')"
    and msg': "ma_Height msg' = ma_Height msg" "ma_ConsensusAddress msg' = ma_ConsensusAddress msg"
  shows "card (voters k' (height_bitmap k' (ma_Height msg))) =
      Suc (card (voters k (height_bitmap k (ma_Height msg)))) \<and>
    (\<exists>err. Attest env ctx' msg' k' = (Inl err, k'))"
proof -
  let ?a = "ma_ConsensusAddress msg" and ?h = "ma_Height msg"
  note al = Attest_accepted(1) [OF inv acc] and k' = Attest_accepted(2) [OF inv acc]
  note same = same_attestersD [OF same_attesters_attested [of k env ctx msg]]
  have ok: "attester_set_ok k" using inv by (rule network_invD(1))
  have mem: "?a |\<in>| AttesterSet k"
    using al attester_registered [OF ok] by (auto simp: attest_allowed_def)
  have "voters k' (height_bitmap k' ?h) = insert ?a (voters k (height_bitmap k ?h))"
    using voters_SetBit [OF ok mem height_bitmap_ok [OF inv]]
    by (simp add: k' same height_bitmap_def [of "attested env ctx msg k"] GetAttestationBitmap_def
        attested_fields)
  moreover have "network_inv env (ChainID ctx) k'"
    unfolding k' by (rule attested_inv [OF inv refl al])
  moreover have "?a \<notin> voters k (height_bitmap k ?h)" using al by (simp add: attest_allowed_def)
  ultimately show ?thesis
    using Attest_not_allowed [of env "ChainID ctx" k' ctx' msg'] msg'
    by (simp add: attest_allowed_def)
qed

text \<open>
  the last attested height. Accepting a vote never lowers it; it moves only to the
  height voted on, and exactly when that height is above it and is soft-confirmed in the
  resulting state.
\<close>

lemma Attest_last_attested_height:
  assumes inv: "network_inv env (ChainID ctx) k"
    and acc: "Attest env ctx msg k = (Inr (), k')"
  shows "GetLastAttestedHeight k' =
      (if IsSoftConfirmed env k' (ma_Height msg) = Inr True
       then max (GetLastAttestedHeight k) (ma_Height msg) else GetLastAttestedHeight k)"
proof -
  let ?a = "ma_ConsensusAddress msg" and ?h = "ma_Height msg"
  note al = Attest_accepted(1) [OF inv acc] and k' = Attest_accepted(2) [OF inv acc]
  note same = same_attestersD [OF same_attesters_attested [of k env ctx msg]]
  let ?bm = "SetBit (height_bitmap k ?h) (int (index_of k ?a))"
  have inv': "network_inv env (ChainID ctx) k'"
    unfolding k' by (rule attested_inv [OF inv refl al])
  have look: "fmlookup (AttestationBitmap k') ?h = Some ?bm" by (simp add: k' attested_fields)
  have "IsSoftConfirmed env k' ?h = Inr (2 * attester_count k < 3 * PopCount ?bm)"
    using IsSoftConfirmed_inv [OF inv'] look
      card_voters [OF network_invD(1) [OF inv'] network_invD(3) [OF inv' look]]
    by (simp add: k' same)
  then show ?thesis
    by (auto simp: k' attested_def Let_def GetLastAttestedHeight_def split: option.splits)
qed

text \<open>
  the set of attesters never changes after genesis and the parameters change only by the
  authority: joining and leaving are always refused without effect, and \<open>UpdateParams\<close> succeeds
  exactly for the module authority with a valid parameter set, which it then stores.
\<close>

lemma membership_and_params_guarded:
  "is_err (fst (JoinAttesterSet mj k)) \<and> snd (JoinAttesterSet mj k) = k \<and>
   is_err (fst (LeaveAttesterSet ml k)) \<and> snd (LeaveAttesterSet ml k) = k \<and>
   (fst (UpdateParams env mu k) = Inr () \<longleftrightarrow>
      mu_Authority mu = env_authority env \<and> params_ok (env_ext env) (mu_Params mu)) \<and>
   (if fst (UpdateParams env mu k) = Inr ()
    then Params (snd (UpdateParams env mu k)) = Some (mu_Params mu) \<and>
         same_attesters k (snd (UpdateParams env mu k))
    else snd (UpdateParams env mu k) = k)"
  unfolding Params_Validate_iff [symmetric]
  by (auto simp: JoinAttesterSet_def LeaveAttesterSet_def UpdateParams_def GetAuthority_def
      SetParams_def EmitEvent_def same_attesters_def split: sum.splits)

end
