(* ===== verification/NetworkQuery.thy ===== *)
theory NetworkQuery
  imports NetworkMsgServer
begin

text \<open>
  The query server of the network module (\<open>modules/network/keeper/grpc_query.go\<close>). A request
  is an option of its field (\<open>None\<close> is the nil request). The server ranges over a Go map once,
  in an order the language leaves open; that order is the argument \<open>iter\<close> of
  \<open>Query_AttesterSignatures\<close>. The lemmas show that the answers describe one attester set and
  that the signatures a client fetches are exactly the verified votes behind the bitmap.
\<close>

subsection \<open>The handlers\<close>

definition nil_request :: go_error where
  "nil_request = StatusError InvalidArgument ''invalid request''"

definition Query_Params :: "unit option \<Rightarrow> network_state \<Rightarrow> params result" where
  "Query_Params req k = (case req of None \<Rightarrow> Inl nil_request | Some _ \<Rightarrow> Inr (GetParams k))"

definition Query_AttestationBitmap ::
    "keeper_env \<Rightarrow> int64 option \<Rightarrow> network_state \<Rightarrow> attestation_bitmap result" where
  "Query_AttestationBitmap env req k =
     (case req of None \<Rightarrow> Inl nil_request | Some height \<Rightarrow>
     (case GetAttestationBitmap k height of
        None \<Rightarrow> Inl (StatusError NotFound ''attestation bitmap not found for height'')
      | Some bitmapBytes \<Rightarrow>
     and_then (CalculateVotedPower k bitmapBytes) (\<lambda>votedPower.
      let totalPower = GetTotalPower k in
     and_then (IsSoftConfirmed env k height) (\<lambda>softConfirmed.
     Inr \<lparr>ab_Height = height, ab_Bitmap = bitmapBytes, ab_VotedPower = votedPower,
          ab_TotalPower = totalPower, ab_SoftConfirmed = softConfirmed\<rparr>))))"

record epoch_info_response =
  ei_Epoch :: uint64
  ei_StartHeight :: int64
  ei_EndHeight :: int64
  ei_ParticipationBitmap :: bytes
  ei_ActiveValidators :: uint64
  ei_ParticipatingValidators :: uint64

definition Query_EpochInfo ::
    "keeper_env \<Rightarrow> uint64 option \<Rightarrow> network_state \<Rightarrow> epoch_info_response result" where
  "Query_EpochInfo env req k =
     (case req of None \<Rightarrow> Inl nil_request | Some epoch \<Rightarrow>
      let prs = GetParams k;
          startHeight = to_int64 (epoch * EpochLength prs);
          endHeight = to_int64 ((epoch + 1) * EpochLength prs - 1) in
     (case GetEpochBitmap k epoch of
        None \<Rightarrow> Inr \<lparr>ei_Epoch = epoch, ei_StartHeight = startHeight, ei_EndHeight = endHeight,
          ei_ParticipationBitmap = [], ei_ActiveValidators = 0, ei_ParticipatingValidators = 0\<rparr>
      | Some epochBitmap \<Rightarrow>
     and_then (env_GetLastValidators env) (\<lambda>validators.
     Inr \<lparr>ei_Epoch = epoch, ei_StartHeight = startHeight, ei_EndHeight = endHeight,
          ei_ParticipationBitmap = epochBitmap,
          ei_ActiveValidators = of_nat (length (filter val_IsBonded validators)),
          ei_ParticipatingValidators = of_nat (PopCount epochBitmap)\<rparr>)))"

definition Query_ValidatorIndex ::
    "string option \<Rightarrow> network_state \<Rightarrow> validator_index result" where
  "Query_ValidatorIndex req k =
     (case req of None \<Rightarrow> Inl nil_request | Some address \<Rightarrow>
     (case GetValidatorIndex k address of (index, found) \<Rightarrow>
      if \<not> found then Inl (StatusError NotFound ''validator index not found'')
      else (case GetValidatorPower k index of
              Inl err \<Rightarrow> Inl (Wrap ''get validator power'' err)
            | Inr pw \<Rightarrow> Inr \<lparr>vi_Address = address, vi_Index = ucast index, vi_Power = pw\<rparr>)))"

record soft_confirmation_response =
  sc_IsSoftConfirmed :: bool
  sc_VotedPower :: uint64
  sc_TotalPower :: uint64
  sc_QuorumFraction :: string

definition Query_SoftConfirmationStatus ::
    "keeper_env \<Rightarrow> int64 option \<Rightarrow> network_state \<Rightarrow> soft_confirmation_response result" where
  "Query_SoftConfirmationStatus env req k =
     (case req of None \<Rightarrow> Inl nil_request | Some height \<Rightarrow>
     and_then (IsSoftConfirmed env k height) (\<lambda>isSoftConfirmed.
      let totalPower = GetTotalPower k in
     and_then (case GetAttestationBitmap k height of
         None \<Rightarrow> Inr 0 | Some bitmap \<Rightarrow> CalculateVotedPower k bitmap) (\<lambda>votedPower.
     Inr \<lparr>sc_IsSoftConfirmed = isSoftConfirmed, sc_VotedPower = votedPower,
          sc_TotalPower = totalPower, sc_QuorumFraction = QuorumFraction (GetParams k)\<rparr>)))"

record attester_signature =
  as_ValidatorAddress :: string
  as_Signature :: bytes

definition Query_AttesterSignatures ::
    "((string, bytes) fmap \<Rightarrow> (string \<times> bytes) list) \<Rightarrow> int64 option \<Rightarrow> network_state \<Rightarrow>
     attester_signature list result" where
  "Query_AttesterSignatures iter req k =
     (case req of None \<Rightarrow> Inl nil_request | Some height \<Rightarrow>
      let signatures = GetAllSignaturesForHeight k height in
      Inr (map (\<lambda>(validatorAddr, signature).
             \<lparr>as_ValidatorAddress = validatorAddr, as_Signature = signature\<rparr>) (iter signatures)))"

definition Query_LastAttestedHeight :: "unit option \<Rightarrow> network_state \<Rightarrow> int64 result" where
  "Query_LastAttestedHeight req k =
     (case req of None \<Rightarrow> Inl nil_request | Some _ \<Rightarrow> Inr (GetLastAttestedHeight k))"

record attester_set_entry =
  ase_Authority :: string
  ase_ConsensusAddress :: string
  ase_Index :: uint32
  ase_Pubkey :: "any option"

text \<open>The walk over the indices; a missing info aborts it.\<close>

fun attester_entries ::
    "network_state \<Rightarrow> (string \<times> uint16) list \<Rightarrow> attester_set_entry list result" where
  "attester_entries k [] = Inr []"
| "attester_entries k ((addr, idx) # rest) =
     and_then (GetAttesterInfo k addr) (\<lambda>info.
     and_then (attester_entries k rest) (\<lambda>entries.
     Inr (\<lparr>ase_Authority = ai_Authority info, ase_ConsensusAddress = addr, ase_Index = ucast idx,
           ase_Pubkey = ai_Pubkey info\<rparr> # entries)))"

definition Query_AttesterSet ::
    "unit option \<Rightarrow> network_state \<Rightarrow> attester_set_entry list result" where
  "Query_AttesterSet req k =
     (case req of None \<Rightarrow> Inl nil_request | Some _ \<Rightarrow>
     and_then (attester_entries k (walk (ValidatorIndex k))) (\<lambda>entries.
     Inr (sort_key ase_Index entries)))"

definition Query_AttesterInfo :: "string option \<Rightarrow> network_state \<Rightarrow> attester_info result" where
  "Query_AttesterInfo req k =
     (case req of None \<Rightarrow> Inl nil_request | Some addr \<Rightarrow>
     (case GetAttesterInfo k addr of
        Inl err \<Rightarrow> (if err = CollectionsNotFound
          then Inl (StatusError NotFound ''attester info not found'')
          else Inl (Wrap ''get attester info'' err))
      | Inr info \<Rightarrow> Inr info))"

subsection \<open>The signatures of a height\<close>

lemma collect_signature_lookup:
  "fmlookup (collect_signature k h bm (addr, i) m) a =
     (if a = addr \<and> IsSet bm (int (unat i)) \<and> fmlookup (Signatures k) (h, addr) \<noteq> None
      then fmlookup (Signatures k) (h, addr) else fmlookup m a)"
proof -
  have "IsSet bm (int (unat i)) \<Longrightarrow> int (unat i) < int (length bm) * 8"
    by (auto simp: IsSet_def split: if_splits)
  then show ?thesis
    by (auto simp: collect_signature_def GetSignature_def Let_def not_le split: option.splits)
qed

lemma fold_collect_lookup:
  assumes "distinct (map fst l)"
  shows "fmlookup (fold (collect_signature k h bm) l m) a =
    (if \<exists>i. (a, i) \<in> set l \<and> IsSet bm (int (unat i)) \<and> fmlookup (Signatures k) (h, a) \<noteq> None
     then fmlookup (Signatures k) (h, a) else fmlookup m a)"
  using assms
proof (induction l arbitrary: m)
  case Nil
  then show ?case by simp
next
  case (Cons x l)
  obtain addr i where x: "x = (addr, i)" by (cases x)
  show ?case
    using Cons.prems
    by (auto simp: x Cons.IH collect_signature_lookup simp del: of_nat_unat)
qed

lemma GetAllSignaturesForHeight_lookup:
  "fmlookup (GetAllSignaturesForHeight k h) a =
     (case fmlookup (AttestationBitmap k) h of
        None \<Rightarrow> None
      | Some bm \<Rightarrow> (case fmlookup (ValidatorIndex k) a of
          None \<Rightarrow> None
        | Some i \<Rightarrow> if IsSet bm (int (unat i)) then fmlookup (Signatures k) (h, a) else None))"
proof -
  have "distinct (map fst (walk (ValidatorIndex k)))" by (simp add: walk_def comp_def)
  then have "distinct (map fst (sort_key snd (walk (ValidatorIndex k))))"
    by (metis distinct_map distinct_sort set_sort)
  from fold_collect_lookup [OF this] show ?thesis
    by (auto simp: GetAllSignaturesForHeight_def GetAttestationBitmap_def set_walk
        simp del: of_nat_unat split: option.splits)
qed

lemma GetAllSignaturesForHeight_voters:
  assumes inv: "network_inv env chain k" and h: "0 \<le> h"
    and bm: "fmlookup (AttestationBitmap k) h = Some bm"
  shows "fset (fmdom (GetAllSignaturesForHeight k h)) = voters k bm"
    and "fmlookup (GetAllSignaturesForHeight k h) a = Some sig \<Longrightarrow> vote_backed env chain k h a sig"
proof -
  note ok = network_invD(1) [OF inv]
  note backed = network_invD(5) [OF inv h bm]
  have look: "fmlookup (GetAllSignaturesForHeight k h) a =
      (if a \<in> voters k bm then fmlookup (Signatures k) (h, a) else None)" for a
  proof (cases "fmlookup (ValidatorIndex k) a")
    case None
    then have "a |\<notin>| AttesterSet k" using attester_set_okD(2) [OF ok] by (metis fmdom_notI)
    then show ?thesis by (simp add: GetAllSignaturesForHeight_lookup bm None voters_def)
  next
    case (Some i)
    then have "a |\<in>| AttesterSet k" using attester_set_okD(2) [OF ok] by (metis fmdomI)
    then show ?thesis
      using bm Some
      by (simp add: GetAllSignaturesForHeight_lookup voters_def index_of_lookup mem_bits_of
          del: of_nat_unat)
  qed
  show "fset (fmdom (GetAllSignaturesForHeight k h)) = voters k bm"
    using backed by (fastforce simp: fmlookup_dom_iff look split: if_splits)
  show "fmlookup (GetAllSignaturesForHeight k h) a = Some sig \<Longrightarrow> vote_backed env chain k h a sig"
    using backed [of a] by (auto simp: look split: if_splits)
qed

lemma GetAllSignaturesForHeight_none:
  "fmlookup (AttestationBitmap k) h = None \<Longrightarrow> GetAllSignaturesForHeight k h = fmempty"
  by (simp add: GetAllSignaturesForHeight_def GetAttestationBitmap_def)

text \<open>
  the signatures a client fetches are the evidence for the confirmation status. In a
  consistent state the answer for a height has one entry per attester whose bit is set and no
  other, in whatever order the map is ranged over; every entry is a verified precommit of that
  attester for the sequencer's block at that height; and the height is soft-confirmed exactly
  when more than two thirds of the attesters have an entry.
\<close>

lemma AttesterSignatures_evidence:
  assumes inv: "network_inv env chain k" and h: "0 \<le> h"
    and iter: "\<And>m. mset (iter m) = mset (walk m)"
  shows "\<exists>sigs. Query_AttesterSignatures iter (Some h) k = Inr sigs \<and>
    distinct (map as_ValidatorAddress sigs) \<and>
    (\<forall>a. a \<in> set (map as_ValidatorAddress sigs) \<longleftrightarrow> a \<in> voters k (height_bitmap k h)) \<and>
    (\<forall>s\<in>set sigs. vote_backed env chain k h (as_ValidatorAddress s) (as_Signature s)) \<and>
    IsSoftConfirmed env k h = Inr (2 * attester_count k < 3 * length sigs)"
proof -
  let ?m = "GetAllSignaturesForHeight k h"
  define sigs where "sigs =
    map (\<lambda>(addr, sig). \<lparr>as_ValidatorAddress = addr, as_Signature = sig\<rparr>) (iter ?m)"
  have addrs: "map as_ValidatorAddress sigs = map fst (iter ?m)" by (simp add: sigs_def split_def)
  have ms: "mset (map fst (iter ?m)) = mset (keys_asc ?m)"
    using iter [of ?m] mset_map [of fst "iter ?m"] mset_map [of fst "walk ?m"]
    by (simp add: walk_def comp_def)
  then have dist: "distinct (map fst (iter ?m))" and set: "set (map fst (iter ?m)) = fset (fmdom ?m)"
    by (metis distinct_keys_asc mset_eq_imp_distinct_iff, metis mset_eq_setD set_keys_asc)
  have mem: "(a, sig) \<in> set (iter ?m) \<longleftrightarrow> fmlookup ?m a = Some sig" for a sig
    using iter [of ?m] set_walk [of ?m] by (metis (mono_tags) case_prodI mem_Collect_eq case_prodD mset_eq_setD)
  have len: "length sigs = card (fset (fmdom ?m))"
    using distinct_card [OF dist] set by (simp add: sigs_def)
  show ?thesis
  proof (cases "fmlookup (AttestationBitmap k) h")
    case None
    have "bits_of (NewBitmap (int n)) = {}" for n by (simp add: bits_of_def bm.test_fresh)
    then have "voters k (height_bitmap k h) = {}"
      using None by (simp add: height_bitmap_def GetAttestationBitmap_def voters_def)
    moreover have "iter ?m = []"
      using iter [of ?m] by (simp add: GetAllSignaturesForHeight_none [OF None])
    ultimately show ?thesis
      using None by (simp add: Query_AttesterSignatures_def IsSoftConfirmed_inv [OF inv])
  next
    case (Some bm)
    note v = GetAllSignaturesForHeight_voters [OF inv h Some]
    have "voters k (height_bitmap k h) = voters k bm"
      using Some by (simp add: height_bitmap_def GetAttestationBitmap_def)
    moreover have "\<forall>s\<in>set sigs. vote_backed env chain k h (as_ValidatorAddress s) (as_Signature s)"
      using v(2) mem by (auto simp: sigs_def)
    ultimately show ?thesis
      using Some v(1) dist set addrs len
      by (intro exI [of _ sigs] conjI)
        (simp_all only: addrs, simp_all add: Query_AttesterSignatures_def sigs_def [symmetric]
          IsSoftConfirmed_inv [OF inv])
  qed
qed

subsection \<open>The attester set\<close>

definition entry_of :: "network_state \<Rightarrow> string \<times> uint16 \<Rightarrow> attester_set_entry" where
  "entry_of k x = (case fmlookup (AttesterInfo k) (fst x) of
     None \<Rightarrow> undefined
   | Some info \<Rightarrow> \<lparr>ase_Authority = ai_Authority info, ase_ConsensusAddress = fst x,
       ase_Index = ucast (snd x), ase_Pubkey = ai_Pubkey info\<rparr>)"

lemma attester_entries_ok:
  "(\<And>x. x \<in> set l \<Longrightarrow> fmlookup (AttesterInfo k) (fst x) \<noteq> None) \<Longrightarrow>
     attester_entries k l = Inr (map (entry_of k) l)"
proof (induction k l rule: attester_entries.induct)
  case (2 k addr idx rest)
  then obtain info where "fmlookup (AttesterInfo k) addr = Some info" by fastforce
  then show ?case using 2 by (simp add: GetAttesterInfo_def entry_of_def)
qed simp

lemma walk_index_entry:
  assumes ok: "attester_set_ok k" and x: "x \<in> set (walk (ValidatorIndex k))"
  obtains info where "fmlookup (AttesterInfo k) (fst x) = Some info" "fst x |\<in>| AttesterSet k"
    "entry_of k x = \<lparr>ase_Authority = ai_Authority info, ase_ConsensusAddress = fst x,
       ase_Index = ucast (snd x), ase_Pubkey = ai_Pubkey info\<rparr>"
    "index_of k (fst x) = unat (snd x)"
proof -
  from x have i: "fmlookup (ValidatorIndex k) (fst x) = Some (snd x)" by (auto simp: set_walk)
  then have mem: "fst x |\<in>| AttesterSet k" using attester_set_okD(2) [OF ok] by (metis fmdomI)
  moreover from this obtain info where "fmlookup (AttesterInfo k) (fst x) = Some info"
    using attester_set_okD(1) [OF ok] by (metis fmdomE)
  ultimately show ?thesis using that by (simp add: entry_of_def index_of_lookup [OF i])
qed

lemma unat_ucast_16_32 [simp]: "unat (ucast (i :: uint16) :: uint32) = unat i"
  using unsigned_less [of i, where ?'a = nat] by (simp add: unsigned_ucast_eq take_bit_nat_eq_self)

lemma entries_numbered:
  assumes ok: "attester_set_ok k"
  shows "map (\<lambda>e. unat (ase_Index e)) (sort_key ase_Index (map (entry_of k) (walk (ValidatorIndex k))))
    = [0..<attester_count k]"
proof -
  let ?w = "walk (ValidatorIndex k)"
  have "map (\<lambda>e. unat (ase_Index e)) (map (entry_of k) ?w) = map (index_of k) (map fst ?w)"
    by (auto elim!: walk_index_entry [OF ok])
  moreover have "map fst ?w = keys_asc (ValidatorIndex k)" by (simp add: walk_def comp_def)
  ultimately have m: "map (\<lambda>e. unat (ase_Index e)) (map (entry_of k) ?w) =
      map (index_of k) (keys_asc (ValidatorIndex k))" by simp
  have bij: "bij_betw (index_of k) (fset (fmdom (ValidatorIndex k))) {..<attester_count k}"
    using attester_set_okD(2,4) [OF ok] by simp
  have "map (\<lambda>e. unat (ase_Index e)) (sort_key (\<lambda>e. unat (ase_Index e)) (map (entry_of k) ?w))
      = [0..<attester_count k]"
    using bij by (intro sort_key_numbering; simp only: m) (auto simp: bij_betw_def distinct_map)
  then show ?thesis by (simp only: sort_key_unat)
qed

text \<open>
  The answer to the attester set query is the validator set behind the bitmaps. In a
  consistent state it lists every attester once, the entry at position \<open>i\<close> is the attester
  whose bitmap index is \<open>i\<close>, and it carries the registered authority and key.
\<close>

lemma AttesterSet_query_ordered:
  assumes ok: "attester_set_ok k"
  shows "\<exists>es. Query_AttesterSet (Some ()) k = Inr es \<and> length es = attester_count k \<and>
    (\<forall>i < length es. ase_ConsensusAddress (es ! i) |\<in>| AttesterSet k \<and>
       index_of k (ase_ConsensusAddress (es ! i)) = i \<and> unat (ase_Index (es ! i)) = i \<and>
       (\<exists>info. fmlookup (AttesterInfo k) (ase_ConsensusAddress (es ! i)) = Some info \<and>
          ase_Authority (es ! i) = ai_Authority info \<and> ase_Pubkey (es ! i) = ai_Pubkey info))"
proof -
  let ?w = "walk (ValidatorIndex k)"
  let ?es = "sort_key ase_Index (map (entry_of k) ?w)"
  have "fmlookup (AttesterInfo k) (fst x) \<noteq> None" if "x \<in> set ?w" for x
    using that by (auto elim: walk_index_entry [OF ok])
  then have q: "Query_AttesterSet (Some ()) k = Inr ?es"
    by (simp add: Query_AttesterSet_def attester_entries_ok)
  have len: "length ?es = attester_count k"
    using arg_cong [OF entries_numbered [OF ok], of length] by simp
  have nth: "unat (ase_Index (?es ! i)) = i" if "i < length ?es" for i
    using arg_cong [OF entries_numbered [OF ok], of "\<lambda>l. l ! i"] that len by simp
  show ?thesis
  proof (intro exI [of _ ?es] conjI allI impI)
    show "Query_AttesterSet (Some ()) k = Inr ?es" by (rule q)
    show "length ?es = attester_count k" by (rule len)
    fix i assume i: "i < length ?es"
    then have "?es ! i \<in> set ?es" by (rule nth_mem)
    then obtain x where x: "x \<in> set ?w" "?es ! i = entry_of k x" by auto
    from walk_index_entry [OF ok x(1)] obtain info where
      info: "fmlookup (AttesterInfo k) (fst x) = Some info" "fst x |\<in>| AttesterSet k"
      "?es ! i = \<lparr>ase_Authority = ai_Authority info, ase_ConsensusAddress = fst x,
         ase_Index = ucast (snd x), ase_Pubkey = ai_Pubkey info\<rparr>"
      "index_of k (fst x) = unat (snd x)" unfolding x(2) by metis
    show "unat (ase_Index (?es ! i)) = i" by (rule nth [OF i])
    then show "index_of k (ase_ConsensusAddress (?es ! i)) = i" using info(3,4) by simp
    show "ase_ConsensusAddress (?es ! i) |\<in>| AttesterSet k"
      "\<exists>info. fmlookup (AttesterInfo k) (ase_ConsensusAddress (?es ! i)) = Some info \<and>
         ase_Authority (?es ! i) = ai_Authority info \<and> ase_Pubkey (?es ! i) = ai_Pubkey info"
      using info by auto
  qed
qed

end
