(* ===== verification/RpcEnv.thy ===== *)
theory RpcEnv
  imports Convert NetworkQuery "HOL-Library.Signed_Division"
begin

text \<open>
  The environment of the RPC handlers and their helpers (\<open>pkg/rpc/core/env.go\<close>, \<open>utils.go\<close>):
  pagination, height normalisation, the range of a block listing and the block meta data built
  from the ev-node store. The application's \<open>Query\<close>, the ev-node store, the indexers and the
  protobuf codecs are other packages: they are the fields of \<open>rpc_env\<close>. A Go \<open>int\<close> has 64 bits.
\<close>

record query_response =
  qr_Code :: uint32
  qr_Log :: string
  qr_Value :: bytes

record proto_ext =
  px_MarshalAttesterSetRequest :: "bytes result"
  px_UnmarshalAttesterSetResponse :: "bytes \<Rightarrow> attester_set_entry list result"
  px_MarshalAttesterSignaturesRequest :: "int64 \<Rightarrow> bytes result"
  px_UnmarshalAttesterSignaturesResponse :: "bytes \<Rightarrow> attester_signature list result"
  px_MarshalLastAttestedHeightRequest :: "bytes result"
  px_UnmarshalLastAttestedHeightResponse :: "bytes \<Rightarrow> int64 result"
  px_UnpackAny :: "any option \<Rightarrow> pubkey result"
  px_ToCmtPubKeyInterface :: "pubkey \<Rightarrow> cmt_pubkey result"

record rpc_env =
  re_x :: cmt_ext
  re_e :: store_ext
  re_ext :: ext
  re_px :: proto_ext
  re_Store :: datastore
  re_GetHeader :: "uint64 \<Rightarrow> ev_header result"
  re_GetBlockData :: "uint64 \<Rightarrow> (ev_header option \<times> bytes list option) result"
  re_GetBlockByHash :: "bytes \<Rightarrow> (ev_header \<times> bytes list) result"
  re_GetMetadata :: "string \<Rightarrow> bytes result"
  re_DAIncludedHeightKey :: string
  re_Height :: "uint64 result"
  re_Query :: "string \<Rightarrow> bytes \<Rightarrow> int64 \<Rightarrow> bool \<Rightarrow> query_response result"
  re_AppGenesis :: "app_genesis option"
  re_AttesterMode :: bool

subsection \<open>Pagination\<close>

definition defaultPerPage :: int64 where "defaultPerPage = 30"
definition maxPerPage :: int64 where "maxPerPage = 100"

definition validateSkipCount :: "int64 \<Rightarrow> int64 \<Rightarrow> int64" where
  "validateSkipCount page perPage =
     (let skipCount = int64_wrap ((page - 1) * perPage) in if skipCount < 0 then 0 else skipCount)"

definition validatePage :: "int64 option \<Rightarrow> int64 \<Rightarrow> int64 \<Rightarrow> int64 result" where
  "validatePage pagePtr perPage totalCount =
     (if perPage < 1 then Inl (Panic ''zero or negative perPage'')
      else (case pagePtr of
        None \<Rightarrow> Inr 1
      | Some page \<Rightarrow>
          let pages = ((totalCount - 1) sdiv perPage) + 1;
              pages = (if pages = 0 then 1 else pages) in
          if page \<le> 0 \<or> page > pages then Inl (ErrorString ''page should be within range'') else Inr page))"

definition validatePerPage :: "int64 option \<Rightarrow> int64" where
  "validatePerPage perPagePtr =
     (case perPagePtr of
        None \<Rightarrow> defaultPerPage
      | Some perPage \<Rightarrow>
          if perPage < 1 then defaultPerPage
          else if perPage > maxPerPage then maxPerPage
          else perPage)"

text \<open>
  The page of a result list: the steps that \<open>BlockSearch\<close> and \<open>TxSearch\<close> share, up to their
  loops over the page. \<open>make\<close> panics on a negative capacity.
\<close>

definition paginate :: "int64 option \<Rightarrow> int64 option \<Rightarrow> 'r list \<Rightarrow> 'r list result" where
  "paginate pagePtr perPagePtr results =
     (let totalCount = int (length results);
          perPage = validatePerPage perPagePtr in
      and_then (validatePage pagePtr perPage totalCount) (\<lambda>page.
      let skipCount = validateSkipCount page perPage;
          pageSize = min perPage (totalCount - skipCount) in
      if pageSize < 0 then Inl (Panic ''makeslice: cap out of range'')
      else Inr (take (nat pageSize) (drop (nat skipCount) results))))"

subsection \<open>Heights and block meta data\<close>

definition normalizeHeight :: "rpc_env \<Rightarrow> int64 option \<Rightarrow> uint64 result" where
  "normalizeHeight env height =
     (case height of
        None \<Rightarrow> (case re_Height env of Inl err \<Rightarrow> Inl (Wrap ''failed to get current height'' err) | Inr h \<Rightarrow> Inr h)
      | Some h \<Rightarrow> if h < 0
          then (case re_Height env of Inl err \<Rightarrow> Inl (Wrap ''failed to get current height'' err) | Inr h \<Rightarrow> Inr h)
          else Inr (to_uint64 h))"

definition rpc_GetLastCommit :: "rpc_env \<Rightarrow> uint64 \<Rightarrow> commit result" where
  "rpc_GetLastCommit env h = GetLastCommit (re_e env) (re_GetHeader env) (re_AppGenesis env) h (re_Store env)"

text \<open>\<open>None\<close> is the pair of nil pointers that every failure returns.\<close>

definition getBlockMeta :: "rpc_env \<Rightarrow> uint64 \<Rightarrow> (block_meta \<times> cmt_block) option" where
  "getBlockMeta env n =
     (case re_GetBlockData env n of
        Inr (Some header, Some data_Txs) \<Rightarrow>
         (case rpc_GetLastCommit env n of
            Inl _ \<Rightarrow> None
          | Inr lastCommit \<Rightarrow>
         (case ToABCIHeader (re_x env) header lastCommit of
            Inl _ \<Rightarrow> None
          | Inr abciHeader \<Rightarrow>
         (case ToABCIBlock abciHeader lastCommit data_Txs of
            Inl _ \<Rightarrow> None
          | Inr abciBlock \<Rightarrow>
         (case ToABCIBlockMeta (re_x env) abciBlock of
            Inl _ \<Rightarrow> None
          | Inr abciBlockMeta \<Rightarrow> Some (abciBlockMeta, abciBlock)))))
      | _ \<Rightarrow> None)"

definition filterMinMax :: "int64 \<Rightarrow> int64 \<Rightarrow> int64 \<Rightarrow> int64 \<Rightarrow> int64 \<Rightarrow> (int64 \<times> int64) result" where
  "filterMinMax base height mini maxi limit =
     (if mini < 0 \<or> maxi < 0 then Inl (ErrorString ''height must be greater than zero'')
      else
        let mini = (if mini = 0 then 1 else mini);
            maxi = (if maxi = 0 then height else maxi);
            maxi = min height maxi;
            mini = max base mini;
            mini = max mini (int64_wrap (int64_wrap (maxi - limit) + 1)) in
        if mini > maxi then Inl (ErrorString ''invalid request: min height can't be greater than max height'')
        else Inr (mini, maxi))"

text \<open>Hexadecimal node IDs.\<close>

definition NodeIDByteLength :: nat where "NodeIDByteLength = 20"

definition hex_digit :: "char \<Rightarrow> nat option" where
  "hex_digit c = (let n = (of_char c :: nat) in
     if 48 \<le> n \<and> n \<le> 57 then Some (n - 48)
     else if 97 \<le> n \<and> n \<le> 102 then Some (n - 87)
     else if 65 \<le> n \<and> n \<le> 70 then Some (n - 55) else None)"

fun hex_DecodeString :: "string \<Rightarrow> bytes result" where
  "hex_DecodeString [] = Inr []"
| "hex_DecodeString [c] = Inl (ErrorString ''encoding/hex: odd length hex string or invalid byte'')"
| "hex_DecodeString (c # d # s) =
     (case (hex_digit c, hex_digit d) of
        (Some hi, Some lo) \<Rightarrow> and_then (hex_DecodeString s) (\<lambda>bs. Inr (of_nat (16 * hi + lo) # bs))
      | _ \<Rightarrow> Inl (ErrorString ''encoding/hex: invalid byte''))"

definition hex_char :: "nat \<Rightarrow> char" where
  "hex_char n = (if n < 10 then char_of (48 + n) else char_of (87 + n))"

definition hex_EncodeToString :: "bytes \<Rightarrow> string" where
  "hex_EncodeToString bs = concat (map (\<lambda>b. [hex_char (unat b div 16), hex_char (unat b mod 16)]) bs)"

definition TruncateNodeID :: "string \<Rightarrow> string result" where
  "TruncateNodeID idStr =
     (case hex_DecodeString idStr of
        Inl err \<Rightarrow> Inl (Wrap ''failed to decode node ID'' err)
      | Inr idBytes \<Rightarrow>
          if length idBytes < NodeIDByteLength then Inl (ErrorString ''node ID too short'')
          else Inr (hex_EncodeToString (take NodeIDByteLength idBytes)))"

subsection \<open>Pages partition the results\<close>

lemma validatePerPage_bounds: "1 \<le> validatePerPage p" "validatePerPage p \<le> 100"
  by (auto simp: validatePerPage_def defaultPerPage_def maxPerPage_def split: option.splits)

definition page_count :: "int64 \<Rightarrow> nat \<Rightarrow> nat" where
  "page_count perPage n = (if n = 0 then 1 else (n - 1) div nat perPage + 1)"

lemma pages_eq:
  assumes "1 \<le> perPage"
  shows "(let pages = ((int n - 1) sdiv perPage) + 1 in if pages = 0 then 1 else pages) = int (page_count perPage n)"
proof (cases n)
  case 0
  have "(- 1 :: int) sdiv perPage = (if perPage = 1 then - 1 else 0)"
    using assms by (auto simp: signed_divide_int_def sgn_if zdiv_eq_0_iff)
  then show ?thesis using 0 by (simp add: page_count_def)
next
  case (Suc k)
  have "int k sdiv perPage = int (k div nat perPage)"
    using assms by (simp add: signed_divide_int_def sgn_if zdiv_int)
  then show ?thesis using Suc by (simp add: page_count_def Let_def)
qed

lemma int64_wrap_small: "int64_range x \<Longrightarrow> int64_wrap x = x"
  unfolding int64_wrap_def int64_range_def by (simp add: signed_of_int signed_take_bit_int_eq_self)

lemma chunks_concat:
  "concat (map (\<lambda>i. take k (drop (i * k) xs)) [0..<n]) = take (n * k) xs"
proof (induction n)
  case (Suc n)
  have "Suc n * k = n * k + k" by simp
  then show ?case using Suc by (simp add: take_add del: mult_Suc)
qed simp

lemma page_count_covers: "1 \<le> perPage \<Longrightarrow> n \<le> page_count perPage n * nat perPage"
proof (cases n)
  case (Suc k)
  assume "1 \<le> perPage"
  then have "k < nat perPage + k div nat perPage * nat perPage" by (intro dividend_less_div_times) simp
  then show ?thesis using Suc by (simp add: page_count_def)
qed simp

lemma take_min_drop:
  assumes "j \<le> length rs" "0 \<le> c"
  shows "take (nat (min c (int (length rs) - int j))) (drop j rs) = take (nat c) (drop j rs)"
proof (cases "c \<le> int (length rs) - int j")
  case False
  then have "length rs - j \<le> nat c" "nat (min c (int (length rs) - int j)) = length rs - j"
    using assms by (auto simp: min_def nat_diff_distrib')
  then show ?thesis by simp
qed (simp add: min_def)

lemma paginate_page:
  assumes len: "int (length rs) < 2 ^ 63" and p: "1 \<le> p"
    and k: "k = nat (validatePerPage perPagePtr)" and n: "n = page_count (validatePerPage perPagePtr) (length rs)"
  shows "paginate (Some p) perPagePtr rs =
    (if p \<le> int n then Inr (take k (drop ((nat p - 1) * k) rs)) else Inl (ErrorString ''page should be within range''))"
proof -
  let ?pp = "validatePerPage perPagePtr"
  note pp = validatePerPage_bounds [of perPagePtr]
  have page: "validatePage (Some p) ?pp (int (length rs)) =
      (if p \<le> int n then Inr p else Inl (ErrorString ''page should be within range''))"
    using pages_eq [OF pp(1), of "length rs"] pp(1) p n by (auto simp: validatePage_def Let_def)
  show ?thesis
  proof (cases "p \<le> int n")
    case True
    have le: "(nat p - 1) * k \<le> length rs"
    proof (cases "length rs = 0")
      case False
      then have "nat p - 1 \<le> (length rs - 1) div k" using True p n k by (auto simp: page_count_def)
      then have "(nat p - 1) * k \<le> (length rs - 1) div k * k" by (rule mult_le_mono1)
      also have "\<dots> \<le> length rs - 1" by (rule div_times_less_eq_dividend)
      finally show ?thesis by simp
    qed (use True p n in \<open>simp add: page_count_def\<close>)
    define j where "j = (nat p - 1) * k"
    have sk: "(p - 1) * ?pp = int j" using p pp k by (simp add: j_def nat_diff_distrib')
    have r: "int64_range ((p - 1) * ?pp)" unfolding sk int64_range_def using le [folded j_def] len by linarith
    have skip: "validateSkipCount p ?pp = int j"
      using int64_wrap_small [OF r] unfolding validateSkipCount_def Let_def sk by simp
    have "take (nat (min ?pp (int (length rs) - int j))) (drop j rs) = take k (drop j rs)"
      using take_min_drop [of j rs ?pp] le k pp by (simp add: j_def)
    then show ?thesis using True page skip le [folded j_def] pp unfolding j_def [symmetric] by (simp add: paginate_def Let_def)
  qed (simp add: paginate_def page Let_def)
qed

text \<open>
  C32: pagination loses and repeats nothing. For every result list, page size argument and page:
  the page size used is between 1 and 100, the pages that exist are 1 up to some \<open>n\<close>, every other
  page is refused, no page is longer than the page size, and the pages one after the other are
  the result list.
\<close>

theorem pagination_partitions:
  assumes len: "int (length rs) < 2 ^ 63"
  shows "\<exists>n\<ge>1. (\<forall>p. is_err (paginate (Some p) perPagePtr rs) \<longleftrightarrow> p < 1 \<or> int n < p) \<and>
    paginate None perPagePtr rs = paginate (Some 1) perPagePtr rs \<and>
    (\<exists>pages. length pages = n \<and> concat pages = rs \<and>
      (\<forall>i<n. paginate (Some (int i + 1)) perPagePtr rs = Inr (pages ! i) \<and>
        int (length (pages ! i)) \<le> validatePerPage perPagePtr)) \<and>
    1 \<le> validatePerPage perPagePtr \<and> validatePerPage perPagePtr \<le> 100"
proof -
  let ?pp = "validatePerPage perPagePtr"
  note pp = validatePerPage_bounds [of perPagePtr]
  define k where "k = nat ?pp"
  define n where "n = page_count ?pp (length rs)"
  let ?pages = "map (\<lambda>i. take k (drop (i * k) rs)) [0..<n]"
  have page: "1 \<le> p \<Longrightarrow> paginate (Some p) perPagePtr rs = (if p \<le> int n then Inr (take k (drop ((nat p - 1) * k) rs))
      else Inl (ErrorString ''page should be within range''))" for p
    by (rule paginate_page [OF len _ k_def n_def])
  have low: "is_err (paginate (Some p) perPagePtr rs)" if "p < 1" for p
    using that pp by (simp add: paginate_def validatePage_def Let_def)
  have n1: "1 \<le> n" by (simp add: n_def page_count_def)
  have "concat ?pages = rs" using page_count_covers [OF pp(1), of "length rs"] by (simp add: chunks_concat k_def n_def)
  moreover have "\<forall>i<n. paginate (Some (int i + 1)) perPagePtr rs = Inr (?pages ! i) \<and> int (length (?pages ! i)) \<le> ?pp"
    using page pp by (auto simp: k_def nat_add_distrib min_def)
  moreover have "is_err (paginate (Some p) perPagePtr rs) \<longleftrightarrow> p < 1 \<or> int n < p" for p
    using page [of p] low [of p] by (cases "1 \<le> p") auto
  moreover have "paginate None perPagePtr rs = paginate (Some 1) perPagePtr rs"
    using n1 pages_eq [OF pp(1), of "length rs"] by (simp add: paginate_def validatePage_def Let_def n_def)
  ultimately show ?thesis
    using n1 pp by (intro exI [of _ n] conjI exI [of _ ?pages]) simp_all
qed

theorem pagination_partitions_witness:
  "\<exists>n\<ge>1. (\<forall>p. is_err (paginate (Some p) (Some 2) [10, 20, 30::int]) \<longleftrightarrow> p < 1 \<or> int n < p) \<and>
    paginate None (Some 2) [10, 20, 30::int] = paginate (Some 1) (Some 2) [10, 20, 30]"
  using pagination_partitions [of "[10, 20, 30::int]" "Some 2"] by auto

subsection \<open>Listing bounds and node IDs\<close>

lemma filterMinMax_bounds:
  assumes "0 \<le> height" "height < 2 ^ 63" "0 < limit" "limit < 2 ^ 62" "0 \<le> base"
    and "filterMinMax base height mini maxi limit = Inr (lo, hi)"
  shows "base \<le> lo \<and> 1 \<le> lo \<and> mini \<le> lo \<and> lo \<le> hi \<and> hi \<le> height \<and> (maxi \<noteq> 0 \<longrightarrow> hi \<le> maxi) \<and> hi - lo < limit"
proof -
  define m where "m = min height (if maxi = 0 then height else maxi)"
  have nn: "0 \<le> mini" "0 \<le> maxi" using assms(6) by (auto simp: filterMinMax_def split: if_splits)
  then have "0 \<le> m" "m \<le> height" using assms(1) by (auto simp: m_def)
  then have w: "int64_wrap (m - limit) = m - limit" "int64_wrap (m - limit + 1) = m - limit + 1"
    using assms(2-4) by (auto intro!: int64_wrap_small simp: int64_range_def)
  have "lo = max (max base (if mini = 0 then 1 else mini)) (m - limit + 1)" "hi = m" "lo \<le> m"
    using assms(6) nn unfolding filterMinMax_def Let_def m_def [symmetric] w by (simp_all split: if_splits)
  moreover have "maxi \<noteq> 0 \<longrightarrow> m \<le> maxi" by (simp add: m_def)
  ultimately show ?thesis using \<open>m \<le> height\<close> assms(3) nn by (auto simp: max_def split: if_splits)
qed

lemma hex_digit_char: "n < 16 \<Longrightarrow> hex_digit (hex_char n) = Some n"
  by (auto simp: hex_digit_def hex_char_def Let_def)

lemma hex_decode_encode: "hex_DecodeString (hex_EncodeToString bs) = Inr bs"
proof (induction bs)
  case (Cons b bs)
  have "unat b div 16 < 16" using unsigned_less [of b, where ?'a = nat] by simp
  moreover have "unat b mod 16 < 16" by simp
  moreover have "of_nat (16 * (unat b div 16) + unat b mod 16) = b" by simp
  ultimately show ?case using Cons by (simp add: hex_EncodeToString_def hex_digit_char del: of_nat_add of_nat_mult)
qed (simp add: hex_EncodeToString_def)

text \<open>A truncated node ID denotes the first 20 bytes of the ID, and truncating again changes nothing.\<close>

lemma TruncateNodeID_correct:
  "TruncateNodeID s = Inr t \<Longrightarrow>
     (\<exists>bs. hex_DecodeString s = Inr bs \<and> hex_DecodeString t = Inr (take 20 bs) \<and> 20 \<le> length bs) \<and>
     TruncateNodeID t = Inr t"
  by (auto simp: TruncateNodeID_def NodeIDByteLength_def hex_decode_encode split: sum.splits if_splits)

end
