(* ===== verification/RpcBlocks.thy ===== *)
theory RpcBlocks
  imports RpcEnv
begin

text \<open>
  The block, commit and validator endpoints of the RPC (\<open>pkg/rpc/core/blocks.go\<close> and
  \<open>consensus.go\<close>). In attester mode they read the attester set and the votes from the network
  module through the application's query interface. The result of \<open>cmquery.New\<close> and the block
  indexer's search is the argument \<open>found\<close> of \<open>BlockSearch\<close>.
\<close>

record result_block =
  rb_BlockID :: block_id
  rb_Block :: "cmt_block option"

subsection \<open>Blocks and headers\<close>

text \<open>The block of a height or hash, as \<open>BlockSearch\<close> and \<open>BlockByHash\<close> build it.\<close>

definition build_result_block :: "rpc_env \<Rightarrow> uint64 \<Rightarrow> ev_header \<Rightarrow> bytes list \<Rightarrow> result_block result" where
  "build_result_block env h header data_Txs =
     (case rpc_GetLastCommit env h of
        Inl err \<Rightarrow> Inl (Wrap ''failed to get last commit for block'' err)
      | Inr lastCommit \<Rightarrow>
     (case ToABCIHeader (re_x env) header lastCommit of
        Inl err \<Rightarrow> Inl (Wrap ''failed to convert header to ABCI format'' err)
      | Inr abciHeader \<Rightarrow>
     and_then (ToABCIBlock abciHeader lastCommit data_Txs) (\<lambda>abciBlock.
     (case x_PartSetHeader (re_x env) abciBlock of
        Inl err \<Rightarrow> Inl (Wrap ''make part set'' err)
      | Inr (tot, hash) \<Rightarrow>
          Inr \<lparr>rb_BlockID = \<lparr>bid_Hash = x_header_Hash (re_x env) abciHeader, bid_psh_Total = tot, bid_psh_Hash = hash\<rparr>,
               rb_Block = Some abciBlock\<rparr>))))"

fun search_blocks :: "rpc_env \<Rightarrow> int64 list \<Rightarrow> result_block list result" where
  "search_blocks env [] = Inr []"
| "search_blocks env (h # hs) =
     and_then (re_GetBlockData env (to_uint64 h)) (\<lambda>(header, data_Txs).
     (case (header, data_Txs) of
        (Some header, Some data_Txs) \<Rightarrow>
          and_then (build_result_block env (to_uint64 h) header data_Txs) (\<lambda>b.
          and_then (search_blocks env hs) (\<lambda>bs. Inr (b # bs)))
      | _ \<Rightarrow> Inl (Panic ''nil pointer dereference'')))"

definition BlockSearch ::
    "rpc_env \<Rightarrow> int64 list result \<Rightarrow> int64 option \<Rightarrow> int64 option \<Rightarrow> string \<Rightarrow> (result_block list \<times> int64) result" where
  "BlockSearch env found pagePtr perPagePtr orderBy =
     and_then found (\<lambda>results.
     and_then (if orderBy = ''desc'' then Inr (rev (sort results))
               else if orderBy = ''asc'' \<or> orderBy = '''' then Inr (sort results)
               else Inl (ErrorString ''expected order_by to be either `asc` or `desc` or empty'')) (\<lambda>results.
     and_then (paginate pagePtr perPagePtr results) (\<lambda>page.
     and_then (search_blocks env page) (\<lambda>blocks.
     Inr (blocks, int (length results))))))"

text \<open>\<open>binary.LittleEndian.Uint64\<close>.\<close>

fun le_uint64 :: "bytes \<Rightarrow> uint64" where
  "le_uint64 [] = 0"
| "le_uint64 (b # bs) = ucast b + 256 * le_uint64 bs"

definition Block :: "rpc_env \<Rightarrow> int64 option \<Rightarrow> result_block result" where
  "Block env heightPtr =
     and_then (if heightPtr = Some (- 1)
        then (case re_GetMetadata env (re_DAIncludedHeightKey env) of
                Inl err \<Rightarrow> Inl (Wrap ''failed to get DA included height'' err)
              | Inr rawVal \<Rightarrow>
                  if length rawVal \<noteq> 8 then Inl (ErrorString ''invalid finalized height data length'')
                  else Inr (le_uint64 rawVal))
        else normalizeHeight env heightPtr) (\<lambda>heightValue.
     (case getBlockMeta env heightValue of
        None \<Rightarrow> Inr \<lparr>rb_BlockID = empty_block_id, rb_Block = None\<rparr>
      | Some (blockMeta, block) \<Rightarrow>
          Inr \<lparr>rb_BlockID =
             (case GetBlockID (re_e env) heightValue (re_Store env) of
                Inl _ \<Rightarrow> empty_block_id
              | Inr storedBlockID \<Rightarrow> if heightValue \<le> 1 then empty_block_id else storedBlockID),
           rb_Block = Some block\<rparr>))"

definition BlockByHash :: "rpc_env \<Rightarrow> bytes \<Rightarrow> result_block result" where
  "BlockByHash env hash =
     and_then (re_GetBlockByHash env hash) (\<lambda>(header, data_Txs).
     build_result_block env (eh_Height header) header data_Txs)"

record result_block_results =
  rr_Height :: int64
  rr_TxsResults :: "exec_tx_result list"
  rr_FinalizeBlockEvents :: "event list"
  rr_ValidatorUpdates :: "val_update list"
  rr_ConsensusParamUpdates :: "consensus_params option"
  rr_AppHash :: bytes

definition BlockResults :: "rpc_env \<Rightarrow> int64 option \<Rightarrow> result_block_results result" where
  "BlockResults env heightPtr =
     and_then (normalizeHeight env heightPtr) (\<lambda>height.
     and_then (GetBlockResponse (re_e env) height (re_Store env)) (\<lambda>resp.
     Inr \<lparr>rr_Height = to_int64 height, rr_TxsResults = fb_TxResults resp,
          rr_FinalizeBlockEvents = fb_Events resp, rr_ValidatorUpdates = fb_ValidatorUpdates resp,
          rr_ConsensusParamUpdates = fb_ConsensusParamUpdates resp, rr_AppHash = fb_AppHash resp\<rparr>))"

definition Header :: "rpc_env \<Rightarrow> int64 option \<Rightarrow> cmt_header result" where
  "Header env heightPtr =
     and_then (normalizeHeight env heightPtr) (\<lambda>height.
     (case getBlockMeta env height of
        None \<Rightarrow> Inl (ErrorString ''block at height not found'')
      | Some (blockMeta, _) \<Rightarrow> Inr (bm_Header blockMeta)))"

definition HeaderByHash :: "rpc_env \<Rightarrow> bytes \<Rightarrow> cmt_header result" where
  "HeaderByHash env hash =
     and_then (re_GetBlockByHash env hash) (\<lambda>(header, _).
     (case rpc_GetLastCommit env (eh_Height header) of
        Inl err \<Rightarrow> Inl (Wrap ''failed to get last commit for block'' err)
      | Inr lastCommit \<Rightarrow>
     (case ToABCIHeader (re_x env) header lastCommit of
        Inl err \<Rightarrow> Inl (Wrap ''failed to convert header to ABCI format'' err)
      | Inr abciHeader \<Rightarrow> Inr abciHeader)))"

text \<open>The loop from the highest height down; a block that cannot be built is a nil entry.\<close>

function list_metas :: "rpc_env \<Rightarrow> int64 \<Rightarrow> int64 \<Rightarrow> block_meta option list" where
  "list_metas env minHeight height =
     (if height \<ge> minHeight
      then map_option fst (getBlockMeta env (to_uint64 height)) # list_metas env minHeight (height - 1)
      else [])"
  by pat_completeness auto
termination by (relation "measure (\<lambda>(env, minHeight, height). nat (height - minHeight + 1))") auto

declare list_metas.simps [simp del]

definition BlockchainInfo :: "rpc_env \<Rightarrow> int64 \<Rightarrow> int64 \<Rightarrow> (int64 \<times> block_meta option list) result" where
  "BlockchainInfo env minHeight maxHeight =
     and_then (re_Height env) (\<lambda>height.
     and_then (filterMinMax 0 (to_int64 height) minHeight maxHeight 20) (\<lambda>(minHeight, maxHeight).
     Inr (to_int64 height, list_metas env minHeight maxHeight)))"

subsection \<open>Queries to the network module\<close>

record attesterSetEntry =
  ae_ConsensusAddress :: string
  ae_ValidatorAddress :: bytes
  ae_Pubkey :: pubkey

fun unpack_entries :: "rpc_env \<Rightarrow> attester_set_entry list \<Rightarrow> attesterSetEntry list result" where
  "unpack_entries env [] = Inr []"
| "unpack_entries env (e # es) =
     (case px_UnpackAny (re_px env) (ase_Pubkey e) of
        Inl err \<Rightarrow> Inl (Wrap ''unpack pubkey'' err)
      | Inr pk \<Rightarrow> and_then (unpack_entries env es) (\<lambda>out.
          Inr (\<lparr>ae_ConsensusAddress = ase_ConsensusAddress e, ae_ValidatorAddress = ext_pk_Address (re_ext env) pk,
                ae_Pubkey = pk\<rparr> # out)))"

definition getAttesterSet :: "rpc_env \<Rightarrow> attesterSetEntry list result" where
  "getAttesterSet env =
     and_then (px_MarshalAttesterSetRequest (re_px env)) (\<lambda>req.
     and_then (re_Query env ''/evabci.network.v1.Query/AttesterSet'' req 0 False) (\<lambda>result.
     if qr_Code result \<noteq> 0 then Inl (ErrorString ''query AttesterSet failed'')
     else
     and_then (px_UnmarshalAttesterSetResponse (re_px env) (qr_Value result)) (\<lambda>entries.
     unpack_entries env (sort_key ase_Index entries))))"

definition getAttesterSignatures :: "rpc_env \<Rightarrow> int64 \<Rightarrow> (string, bytes) fmap result" where
  "getAttesterSignatures env height =
     (case px_MarshalAttesterSignaturesRequest (re_px env) height of
        Inl err \<Rightarrow> Inl (Wrap ''marshal attester signatures request'' err)
      | Inr signaturesReq \<Rightarrow>
     (case re_Query env ''/evabci.network.v1.Query/AttesterSignatures'' signaturesReq 0 False of
        Inl err \<Rightarrow> Inl (Wrap ''query attester signatures'' err)
      | Inr result \<Rightarrow>
     if qr_Code result \<noteq> 0 then Inl (ErrorString ''attester signatures query failed'')
     else
     (case px_UnmarshalAttesterSignaturesResponse (re_px env) (qr_Value result) of
        Inl err \<Rightarrow> Inl (Wrap ''unmarshal attester signatures response'' err)
      | Inr sigs \<Rightarrow>
          Inr (fold (\<lambda>sig m. fmupd (as_ValidatorAddress sig) (as_Signature sig) m) sigs fmempty))))"

subsection \<open>Commits\<close>

text \<open>The zero commit signature is the one of an absent vote; its zero time is 0.\<close>

definition absent_sig :: commit_sig where
  "absent_sig = \<lparr>cs_BlockIDFlag = BlockIDFlagAbsent, cs_ValidatorAddress = [], cs_Timestamp = 0, cs_Signature = []\<rparr>"

fun commit_loop ::
    "rpc_env \<Rightarrow> (string, bytes) fmap \<Rightarrow> attesterSetEntry list \<Rightarrow> commit_sig list \<times> nat" where
  "commit_loop env signatures [] = ([], 0)"
| "commit_loop env signatures (e # es) =
     (let (sigs, signedCount) = commit_loop env signatures es in
      case fmlookup signatures (ae_ConsensusAddress e) of
        None \<Rightarrow> (absent_sig # sigs, signedCount)
      | Some voteBytes \<Rightarrow>
         (case ext_UnmarshalVote (re_ext env) voteBytes of
            None \<Rightarrow> (absent_sig # sigs, signedCount)
          | Some v \<Rightarrow> (\<lparr>cs_BlockIDFlag = BlockIDFlagCommit, cs_ValidatorAddress = ae_ValidatorAddress e,
               cs_Timestamp = vote_Timestamp v, cs_Signature = vote_Signature v\<rparr> # sigs, signedCount + 1)))"

definition getCommitForHeight :: "rpc_env \<Rightarrow> uint64 \<Rightarrow> commit result" where
  "getCommitForHeight env height =
     (if \<not> re_AttesterMode env then rpc_GetLastCommit env (height + 1)
      else
     (case GetBlockID (re_e env) height (re_Store env) of
        Inl err \<Rightarrow> Inl (Wrap ''get block ID for height'' err)
      | Inr blockID \<Rightarrow>
     (case getAttesterSet env of
        Inl err \<Rightarrow> Inl (Wrap ''get attester set'' err)
      | Inr entries \<Rightarrow>
     (case getAttesterSignatures env (to_int64 height) of
        Inl err \<Rightarrow> Inl (Wrap ''get attester signatures'' err)
      | Inr signatures \<Rightarrow>
          let (commitSigs, signedCount) = commit_loop env signatures entries;
              tot = length entries in
          if signedCount * 3 \<le> tot * 2 then Inl (ErrorString ''height not yet attested'')
          else Inr \<lparr>cm_Height = to_int64 height, cm_Round = 0, cm_BlockID = blockID, cm_Signatures = commitSigs\<rparr>))))"

text \<open>\<open>None\<close> is the nil result without an error.\<close>

definition Commit :: "rpc_env \<Rightarrow> int64 option \<Rightarrow> (cmt_header \<times> commit) option result" where
  "Commit env heightPtr =
     and_then (normalizeHeight env heightPtr) (\<lambda>height.
     (case getBlockMeta env height of
        None \<Rightarrow> Inr None
      | Some (blockMeta, _) \<Rightarrow>
         (case getCommitForHeight env height of
            Inl err \<Rightarrow> Inl (Wrap ''failed to get commit for height'' err)
          | Inr c \<Rightarrow> Inr (Some (bm_Header blockMeta, c)))))"

subsection \<open>Validators and parameters\<close>

record result_validators =
  rv_BlockHeight :: int64
  rv_Validators :: "cmt_validator list"
  rv_Count :: int64
  rv_Total :: int64

definition getGenesisValidatorSet :: "rpc_env \<Rightarrow> uint64 \<Rightarrow> result_validators result" where
  "getGenesisValidatorSet env height =
     (case re_AppGenesis env of
        None \<Rightarrow> Inl (Panic ''nil pointer dereference'')
      | Some g \<Rightarrow>
         (case ag_Validators g of
            [v] \<Rightarrow> Inr \<lparr>rv_BlockHeight = to_int64 height,
              rv_Validators = [\<lparr>cv_Address = gv_Address v, cv_PubKey = gv_PubKey v, cv_VotingPower = gv_Power v,
                cv_ProposerPriority = 1\<rparr>], rv_Count = 1, rv_Total = 1\<rparr>
          | _ \<Rightarrow> Inl (ErrorString ''there should be exactly one validator in genesis'')))"

fun convert_entries :: "rpc_env \<Rightarrow> attesterSetEntry list \<Rightarrow> cmt_validator list result" where
  "convert_entries env [] = Inr []"
| "convert_entries env (e # es) =
     (case px_ToCmtPubKeyInterface (re_px env) (ae_Pubkey e) of
        Inl err \<Rightarrow> Inl (Wrap ''convert pubkey'' err)
      | Inr cmtPubKey \<Rightarrow> and_then (convert_entries env es) (\<lambda>vals.
          Inr (\<lparr>cv_Address = ae_ValidatorAddress e, cv_PubKey = cmtPubKey, cv_VotingPower = 1,
                cv_ProposerPriority = 0\<rparr> # vals)))"

definition buildValidatorSetFromAttesterSet :: "rpc_env \<Rightarrow> attesterSetEntry list \<Rightarrow> cmt_validator list result" where
  "buildValidatorSetFromAttesterSet env entries =
     (if entries = [] then Inl (ErrorString ''no attesters found'') else convert_entries env entries)"

definition Validators :: "rpc_env \<Rightarrow> int64 option \<Rightarrow> result_validators result" where
  "Validators env heightPtr =
     (case normalizeHeight env heightPtr of
        Inl err \<Rightarrow> Inl (Wrap ''failed to normalize height'' err)
      | Inr height \<Rightarrow>
          if re_AttesterMode env then
           (case getAttesterSet env of
              Inl err \<Rightarrow> Inl (Wrap ''get attester set'' err)
            | Inr entries \<Rightarrow>
           (case buildValidatorSetFromAttesterSet env entries of
              Inl err \<Rightarrow> Inl (Wrap ''build validator set from attesters'' err)
            | Inr validators \<Rightarrow> Inr \<lparr>rv_BlockHeight = to_int64 height, rv_Validators = validators,
                rv_Count = int (length validators), rv_Total = int (length validators)\<rparr>))
          else getGenesisValidatorSet env height)"

text \<open>The parameters of the answer; the vote extension height is not copied.\<close>

definition ConsensusParams :: "rpc_env \<Rightarrow> int64 option \<Rightarrow> (int64 \<times> consensus_params) result" where
  "ConsensusParams env heightPtr =
     (case normalizeHeight env heightPtr of
        Inl err \<Rightarrow> Inl (Wrap ''failed to normalize height'' err)
      | Inr height \<Rightarrow>
          and_then (LoadState (re_e env) (re_Store env)) (\<lambda>state.
          let p = st_ConsensusParams state in
          Inr (to_int64 height, \<lparr>cp_MaxBytes = cp_MaxBytes p, cp_MaxGas = cp_MaxGas p,
            cp_EvidenceMaxAgeNumBlocks = cp_EvidenceMaxAgeNumBlocks p,
            cp_EvidenceMaxAgeDuration = cp_EvidenceMaxAgeDuration p, cp_EvidenceMaxBytes = cp_EvidenceMaxBytes p,
            cp_PubKeyTypes = cp_PubKeyTypes p, cp_AppVersion = cp_AppVersion p, cp_VoteExtensionsEnableHeight = 0\<rparr>)))"

definition DumpConsensusState :: "unit result" where
  "DumpConsensusState = Inl (ErrorString ''consensus state not available in ev-node'')"

definition ConsensusState :: "unit result" where
  "ConsensusState = Inl (ErrorString ''consensus state not available in ev-node'')"

end
