(* ===== verification/RpcCommit.thy ===== *)
theory RpcCommit
  imports RpcBlocks
begin

text \<open>
  The commit of a height in attester mode against the network module that keeps the votes. The
  locale \<open>attested_height\<close> is what the RPC relies on: an ordered member list, one decodable vote
  per voter, and confirmation by more than two thirds. It is interpreted on the keeper of the
  network module; the application that answers the queries is described by \<open>serves_network\<close>.
\<close>

subsection \<open>What the RPC relies on\<close>

locale attested_height =
  fixes law :: bool and members :: "string list" and votes :: "(string, bytes) fmap"
    and confirmed :: bool and decode :: "bytes \<Rightarrow> vote option"
  assumes members_distinct: "law \<Longrightarrow> distinct members"
    and votes_members: "law \<Longrightarrow> fset (fmdom votes) \<subseteq> set members"
    and votes_decode: "law \<Longrightarrow> fmlookup votes a = Some bs \<Longrightarrow> decode bs \<noteq> None"
    and confirmed_iff: "law \<Longrightarrow> confirmed \<longleftrightarrow> 2 * length members < 3 * card (fset (fmdom votes))"
begin

definition signed :: "string \<Rightarrow> bool" where
  "signed a \<longleftrightarrow> (case fmlookup votes a of None \<Rightarrow> False | Some bs \<Rightarrow> decode bs \<noteq> None)"

lemma signed_iff: "law \<Longrightarrow> signed a \<longleftrightarrow> a |\<in>| fmdom votes"
  using votes_decode by (auto simp: signed_def fmlookup_dom_iff split: option.splits)

lemma signed_count: "law \<Longrightarrow> length (filter signed members) = card (fset (fmdom votes))"
proof -
  assume law
  then have "set (filter signed members) = fset (fmdom votes)"
    using signed_iff votes_members by auto
  then show ?thesis using distinct_card [of "filter signed members"] members_distinct [OF \<open>law\<close>] by simp
qed

lemma quorum_iff: "law \<Longrightarrow> length (filter signed members) * 3 \<le> length members * 2 \<longleftrightarrow> \<not> confirmed"
  using signed_count confirmed_iff by auto

end

subsection \<open>The network module provides it\<close>

definition attester_order :: "network_state \<Rightarrow> string list" where
  "attester_order k = (case Query_AttesterSet (Some ()) k of Inl _ \<Rightarrow> [] | Inr es \<Rightarrow> map ase_ConsensusAddress es)"

lemma attester_order_ok:
  assumes ok: "attester_set_ok k"
  shows "distinct (attester_order k)" "set (attester_order k) = fset (AttesterSet k)"
    "length (attester_order k) = attester_count k"
    "i < attester_count k \<Longrightarrow> index_of k (attester_order k ! i) = i"
proof -
  from AttesterSet_query_ordered [OF ok] obtain es where es: "Query_AttesterSet (Some ()) k = Inr es"
    "length es = attester_count k" "\<forall>i < length es. ase_ConsensusAddress (es ! i) |\<in>| AttesterSet k \<and>
       index_of k (ase_ConsensusAddress (es ! i)) = i" by blast
  have ord: "attester_order k = map ase_ConsensusAddress es" by (simp add: attester_order_def es(1))
  show len: "length (attester_order k) = attester_count k" by (simp add: ord es(2))
  show idx: "i < attester_count k \<Longrightarrow> index_of k (attester_order k ! i) = i" for i
    using es by (simp add: ord)
  show dist: "distinct (attester_order k)"
    using idx len by (metis distinct_conv_nth)
  have "set (attester_order k) \<subseteq> fset (AttesterSet k)" using es(3) by (auto simp: ord in_set_conv_nth)
  then show "set (attester_order k) = fset (AttesterSet k)"
    using distinct_card [OF dist] len by (intro card_subset_eq) (simp_all add: attester_count_def fcard.rep_eq)
qed

interpretation nq: attested_height "network_inv kenv chain k \<and> 0 \<le> h" "attester_order k"
    "GetAllSignaturesForHeight k h" "IsSoftConfirmed kenv k h = Inr True" "ext_UnmarshalVote (env_ext kenv)"
  for kenv chain k h
proof (unfold_locales, goal_cases)
  case 1
  then show ?case using attester_order_ok(1) network_invD(1) by blast
next
  case 2
  then have ok: "attester_set_ok k" using network_invD(1) by blast
  show ?case
  proof (cases "fmlookup (AttestationBitmap k) h")
    case None
    then show ?thesis by (simp add: GetAllSignaturesForHeight_none)
  next
    case (Some bm)
    then show ?thesis
      using 2 GetAllSignaturesForHeight_voters(1) attester_order_ok(2) [OF ok] by (auto simp: voters_def)
  qed
next
  case (3 a bs)
  then obtain bm where bm: "fmlookup (AttestationBitmap k) h = Some bm"
    by (cases "fmlookup (AttestationBitmap k) h") (auto simp: GetAllSignaturesForHeight_none)
  then have "vote_backed kenv chain k h a bs" using 3 GetAllSignaturesForHeight_voters(2) by blast
  then show ?case by (auto simp: vote_backed_def)
next
  case 4
  then have inv: "network_inv kenv chain k" "0 \<le> h" by auto
  show ?case
    using GetAllSignaturesForHeight_voters(1) [OF inv] attester_order_ok(3) [OF network_invD(1) [OF inv(1)]]
    by (cases "fmlookup (AttestationBitmap k) h")
      (simp_all add: IsSoftConfirmed_inv [OF inv(1)] GetAllSignaturesForHeight_none)
qed

subsection \<open>The queries\<close>

text \<open>
  The application answers the three queries of the RPC with the network module's handlers on
  its state \<open>k\<close>: an error is a code other than 0, a result is one the codec reads back. Every
  registered key can be unpacked, to the key the module verifies with. \<open>iter\<close> is the order in
  which the module ranges over its map of signatures.
\<close>

definition answers :: "'r result \<Rightarrow> (bytes \<Rightarrow> 'r result) \<Rightarrow> query_response result \<Rightarrow> bool" where
  "answers r decode q \<longleftrightarrow>
     (\<exists>resp. q = Inr resp \<and> (case r of Inl _ \<Rightarrow> qr_Code resp \<noteq> 0
        | Inr v \<Rightarrow> qr_Code resp = 0 \<and> decode (qr_Value resp) = Inr v))"

definition serves_network ::
    "rpc_env \<Rightarrow> keeper_env \<Rightarrow> network_state \<Rightarrow> ((string, bytes) fmap \<Rightarrow> (string \<times> bytes) list) \<Rightarrow> bool" where
  "serves_network env kenv k iter \<longleftrightarrow>
     re_ext env = env_ext kenv \<and> (\<forall>m. mset (iter m) = mset (walk m)) \<and>
     (\<exists>req. px_MarshalAttesterSetRequest (re_px env) = Inr req \<and>
        answers (Query_AttesterSet (Some ()) k) (px_UnmarshalAttesterSetResponse (re_px env))
          (re_Query env ''/evabci.network.v1.Query/AttesterSet'' req 0 False)) \<and>
     (\<forall>h. \<exists>req. px_MarshalAttesterSignaturesRequest (re_px env) h = Inr req \<and>
        answers (Query_AttesterSignatures iter (Some h) k) (px_UnmarshalAttesterSignaturesResponse (re_px env))
          (re_Query env ''/evabci.network.v1.Query/AttesterSignatures'' req 0 False)) \<and>
     (\<forall>a info. fmlookup (AttesterInfo k) a = Some info \<longrightarrow>
        (\<exists>pk. px_UnpackAny (re_px env) (ai_Pubkey info) = Inr pk \<and> (\<forall>pk'. GetPubKey info = Inr pk' \<longrightarrow> pk' = pk)))"

text \<open>The map a client rebuilds from the list is the module's map, in whatever order it came.\<close>

lemma fold_fmupd_lookup:
  "distinct (map fst l) \<Longrightarrow>
     fmlookup (fold (\<lambda>x m. fmupd (fst x) (snd x) m) l m) a = (case map_of l a of None \<Rightarrow> fmlookup m a | Some v \<Rightarrow> Some v)"
proof (induction l arbitrary: m)
  case (Cons x l)
  then have "map_of l (fst x) = None" by (simp add: map_of_eq_None_iff)
  then show ?case using Cons by (cases x) (auto split: option.splits)
qed simp

lemma rebuild_map:
  assumes "mset (iter m) = mset (walk m)"
  shows "fold (\<lambda>x m. fmupd (fst x) (snd x) m) (iter m) fmempty = (m :: (string, bytes) fmap)"
proof (rule fmap_ext)
  fix a
  have "mset (map fst (iter m)) = mset (map fst (walk m))" using assms by (metis mset_map)
  moreover have "distinct (map fst (walk m))" by (simp add: walk_def comp_def)
  ultimately have d: "distinct (map fst (iter m))" by (metis mset_eq_imp_distinct_iff)
  have "map_of (iter m) a = Some v \<longleftrightarrow> fmlookup m a = Some v" for v
    using d mset_eq_setD [OF assms] set_walk [of m] by (auto simp: map_of_eq_Some_iff)
  then have "map_of (iter m) a = fmlookup m a" by (metis not_None_eq)
  then show "fmlookup (fold (\<lambda>x m. fmupd (fst x) (snd x) m) (iter m) fmempty) a = fmlookup m a"
    by (simp add: fold_fmupd_lookup [OF d] split: option.splits)
qed

lemma getAttesterSignatures_served:
  assumes "serves_network env kenv k iter"
  shows "getAttesterSignatures env h = Inr (GetAllSignaturesForHeight k h)"
proof -
  let ?m = "GetAllSignaturesForHeight k h"
  let ?sigs = "map (\<lambda>(a, s). \<lparr>as_ValidatorAddress = a, as_Signature = s\<rparr>) (iter ?m)"
  obtain req resp where "px_MarshalAttesterSignaturesRequest (re_px env) h = Inr req"
    "re_Query env ''/evabci.network.v1.Query/AttesterSignatures'' req 0 False = Inr resp" "qr_Code resp = 0"
    "px_UnmarshalAttesterSignaturesResponse (re_px env) (qr_Value resp) = Inr ?sigs"
    using assms by (fastforce simp: serves_network_def answers_def Query_AttesterSignatures_def)
  moreover have "fold (\<lambda>sig m. fmupd (as_ValidatorAddress sig) (as_Signature sig) m) ?sigs fmempty = ?m"
    using rebuild_map [of iter ?m] assms by (simp add: serves_network_def fold_map comp_def split_def)
  ultimately show ?thesis by (simp add: getAttesterSignatures_def)
qed

definition entry_for :: "rpc_env \<Rightarrow> attester_set_entry \<Rightarrow> attesterSetEntry" where
  "entry_for env e = (case px_UnpackAny (re_px env) (ase_Pubkey e) of
     Inl _ \<Rightarrow> undefined
   | Inr pk \<Rightarrow> \<lparr>ae_ConsensusAddress = ase_ConsensusAddress e, ae_ValidatorAddress = ext_pk_Address (re_ext env) pk,
       ae_Pubkey = pk\<rparr>)"

lemma unpack_entries_ok:
  "(\<And>e. e \<in> set es \<Longrightarrow> \<exists>pk. px_UnpackAny (re_px env) (ase_Pubkey e) = Inr pk) \<Longrightarrow>
     unpack_entries env es = Inr (map (entry_for env) es)"
proof (induction es)
  case (Cons e es)
  then obtain pk where "px_UnpackAny (re_px env) (ase_Pubkey e) = Inr pk" by force
  then show ?case using Cons by (simp add: entry_for_def)
qed simp

lemma getAttesterSet_served:
  assumes srv: "serves_network env kenv k iter" and ok: "attester_set_ok k"
  shows "\<exists>es. getAttesterSet env = Inr es \<and> map ae_ConsensusAddress es = attester_order k"
proof -
  from AttesterSet_query_ordered [OF ok] obtain es where es: "Query_AttesterSet (Some ()) k = Inr es"
    "length es = attester_count k" "\<forall>i < length es. unat (ase_Index (es ! i)) = i \<and>
       (\<exists>info. fmlookup (AttesterInfo k) (ase_ConsensusAddress (es ! i)) = Some info \<and> ase_Pubkey (es ! i) = ai_Pubkey info)"
    by blast
  have "sorted (map ase_Index es)"
    using es(3) by (auto simp: sorted_iff_nth_mono word_le_nat_alt)
  then have sorted: "sort_key ase_Index es = es" by (rule sort_key_id_if_sorted)
  have keys: "\<exists>pk. px_UnpackAny (re_px env) (ase_Pubkey e) = Inr pk" if "e \<in> set es" for e
    using that es(3) srv by (fastforce simp: serves_network_def in_set_conv_nth)
  obtain req resp where "px_MarshalAttesterSetRequest (re_px env) = Inr req"
    "re_Query env ''/evabci.network.v1.Query/AttesterSet'' req 0 False = Inr resp" "qr_Code resp = 0"
    "px_UnmarshalAttesterSetResponse (re_px env) (qr_Value resp) = Inr es"
    using srv es(1) by (fastforce simp: serves_network_def answers_def)
  then have "getAttesterSet env = Inr (map (entry_for env) es)"
    using unpack_entries_ok [OF keys] by (simp add: getAttesterSet_def sorted)
  moreover have "map ae_ConsensusAddress (map (entry_for env) es) = attester_order k"
    using keys by (fastforce simp: attester_order_def es(1) entry_for_def split: sum.splits)
  ultimately show ?thesis by blast
qed

subsection \<open>The commit\<close>

definition sig_for :: "rpc_env \<Rightarrow> (string, bytes) fmap \<Rightarrow> attesterSetEntry \<Rightarrow> commit_sig" where
  "sig_for env signatures e =
     (case fmlookup signatures (ae_ConsensusAddress e) of
        None \<Rightarrow> absent_sig
      | Some bs \<Rightarrow> (case ext_UnmarshalVote (re_ext env) bs of
          None \<Rightarrow> absent_sig
        | Some v \<Rightarrow> \<lparr>cs_BlockIDFlag = BlockIDFlagCommit, cs_ValidatorAddress = ae_ValidatorAddress e,
            cs_Timestamp = vote_Timestamp v, cs_Signature = vote_Signature v\<rparr>))"

lemma commit_loop_map:
  "commit_loop env signatures es = (map (sig_for env signatures) es,
     length (filter (\<lambda>e. cs_BlockIDFlag (sig_for env signatures e) = BlockIDFlagCommit) es))"
  by (induction es) (auto simp: sig_for_def absent_sig_def Let_def split: option.splits prod.splits)

lemma convert_entries_addresses:
  "convert_entries env es = Inr vals \<Longrightarrow> map cv_Address vals = map ae_ValidatorAddress es"
  by (induction es arbitrary: vals) (auto simp: and_then_Inr_iff split: sum.splits)

lemma commit_count:
  assumes "map ae_ConsensusAddress es = attester_order k" "re_ext env = env_ext kenv"
  shows "length (filter (\<lambda>e. cs_BlockIDFlag (sig_for env (GetAllSignaturesForHeight k h) e) = BlockIDFlagCommit) es) =
    length (filter (nq.signed k h kenv) (attester_order k))"
proof -
  have "cs_BlockIDFlag (sig_for env (GetAllSignaturesForHeight k h) e) = BlockIDFlagCommit \<longleftrightarrow>
      nq.signed k h kenv (ae_ConsensusAddress e)" for e
    using assms(2) by (auto simp: sig_for_def nq.signed_def absent_sig_def split: option.splits)
  then show ?thesis by (simp add: assms(1) [symmetric] filter_map comp_def)
qed

lemma getCommitForHeight_served:
  assumes srv: "serves_network env kenv k iter" and inv: "network_inv kenv chain k" and h: "0 \<le> to_int64 h"
    and mode: "re_AttesterMode env" and bid: "GetBlockID (re_e env) h (re_Store env) = Inr bid"
    and es: "getAttesterSet env = Inr es" "map ae_ConsensusAddress es = attester_order k"
  shows "getCommitForHeight env h =
    (if IsSoftConfirmed kenv k (to_int64 h) = Inr True
     then Inr \<lparr>cm_Height = to_int64 h, cm_Round = 0, cm_BlockID = bid,
       cm_Signatures = map (sig_for env (GetAllSignaturesForHeight k (to_int64 h))) es\<rparr>
     else Inl (ErrorString ''height not yet attested''))"
proof -
  have "re_ext env = env_ext kenv" using srv by (simp add: serves_network_def)
  note cnt = commit_count [OF es(2) this, of "to_int64 h"]
  have "length es = length (attester_order k)" using arg_cong [OF es(2), of length] by simp
  then show ?thesis
    using nq.quorum_iff [of kenv chain k "to_int64 h"] inv h
    by (simp add: getCommitForHeight_def mode bid es(1) getAttesterSignatures_served [OF srv] commit_loop_map
        cnt Let_def)
qed

text \<open>The signature of one attester in the commit of a confirmed height.\<close>

lemma confirmed_signature:
  assumes inv: "network_inv kenv chain k" and h: "0 \<le> h" and conf: "IsSoftConfirmed kenv k h = Inr True"
    and ext: "re_ext env = env_ext kenv"
  shows "let sig = sig_for env (GetAllSignaturesForHeight k h) e; a = ae_ConsensusAddress e in
    if a \<in> voters k (height_bitmap k h)
    then cs_BlockIDFlag sig = BlockIDFlagCommit \<and> cs_ValidatorAddress sig = ae_ValidatorAddress e \<and>
      (\<exists>bs v. vote_backed kenv chain k h a bs \<and> ext_UnmarshalVote (env_ext kenv) bs = Some v \<and>
         cs_Signature sig = vote_Signature v)
    else sig = absent_sig"
proof -
  let ?m = "GetAllSignaturesForHeight k h" and ?a = "ae_ConsensusAddress e"
  obtain bm where bm: "fmlookup (AttestationBitmap k) h = Some bm"
    using conf by (auto simp: IsSoftConfirmed_inv [OF inv] split: option.splits)
  then have "voters k (height_bitmap k h) = fset (fmdom ?m)"
    using GetAllSignaturesForHeight_voters(1) [OF inv h bm] by (simp add: height_bitmap_def GetAttestationBitmap_def)
  then have vot: "?a \<in> voters k (height_bitmap k h) \<longleftrightarrow> fmlookup ?m ?a \<noteq> None" by (simp add: fmlookup_dom_iff)
  have backed: "fmlookup ?m ?a = Some bs \<Longrightarrow> vote_backed kenv chain k h ?a bs" for bs
    by (rule GetAllSignaturesForHeight_voters(2) [OF inv h bm])
  have "fmlookup ?m ?a = Some bs \<Longrightarrow> \<exists>v. ext_UnmarshalVote (env_ext kenv) bs = Some v" for bs
    using backed by (auto simp: vote_backed_def)
  then show ?thesis
    using backed ext by (force simp: vot sig_for_def absent_sig_def Let_def split: option.splits)
qed

text \<open>
  C6: the commit endpoint in attester mode is the network module's confirmation. For a height
  whose block ID is stored, the commit exists exactly when the module reports the height as
  soft-confirmed. It names the stored block ID and has one signature per attester, at the
  attester's bitmap index and aligned with the validators endpoint: the verified vote of that
  attester, with the address of the validator at that position, if its bit is set, and an
  absent one otherwise.
\<close>

theorem attester_commit_aligned:
  assumes srv: "serves_network env kenv k iter" and inv: "network_inv kenv chain k" and h: "0 \<le> to_int64 h"
    and mode: "re_AttesterMode env" and bid: "GetBlockID (re_e env) h (re_Store env) = Inr bid"
  shows "((\<exists>c. getCommitForHeight env h = Inr c) \<longleftrightarrow> IsSoftConfirmed kenv k (to_int64 h) = Inr True) \<and>
    (\<forall>c vs. getCommitForHeight env h = Inr c \<longrightarrow> Validators env p = Inr vs \<longrightarrow>
      cm_BlockID c = bid \<and> length (cm_Signatures c) = attester_count k \<and>
      length (rv_Validators vs) = attester_count k \<and>
      (\<forall>i < attester_count k. \<exists>a. a |\<in>| AttesterSet k \<and> index_of k a = i \<and>
        (if a \<in> voters k (height_bitmap k (to_int64 h))
         then cs_BlockIDFlag (cm_Signatures c ! i) = BlockIDFlagCommit \<and>
           cs_ValidatorAddress (cm_Signatures c ! i) = cv_Address (rv_Validators vs ! i) \<and>
           (\<exists>bs v. vote_backed kenv chain k (to_int64 h) a bs \<and> ext_UnmarshalVote (env_ext kenv) bs = Some v \<and>
              cs_Signature (cm_Signatures c ! i) = vote_Signature v)
         else cm_Signatures c ! i = absent_sig)))"
proof -
  note ok = network_invD(1) [OF inv]
  from getAttesterSet_served [OF srv ok] obtain es where
    es: "getAttesterSet env = Inr es" "map ae_ConsensusAddress es = attester_order k" by blast
  note get = getCommitForHeight_served [OF srv inv h mode bid es]
  let ?m = "GetAllSignaturesForHeight k (to_int64 h)"
  have len: "length es = attester_count k"
    using arg_cong [OF es(2), of length] attester_order_ok(3) [OF ok] by simp
  have ext: "re_ext env = env_ext kenv" using srv by (simp add: serves_network_def)
  show ?thesis
  proof (intro conjI allI impI)
    show "(\<exists>c. getCommitForHeight env h = Inr c) \<longleftrightarrow> IsSoftConfirmed kenv k (to_int64 h) = Inr True"
      by (simp add: get)
  next
    fix c vs i
    assume c: "getCommitForHeight env h = Inr c" and vs: "Validators env p = Inr vs"
    have sigs: "cm_Signatures c = map (sig_for env ?m) es" "cm_BlockID c = bid"
      using c get by (auto split: if_splits)
    have vals: "map cv_Address (rv_Validators vs) = map ae_ValidatorAddress es"
      using vs mode es(1) by (auto simp: Validators_def buildValidatorSetFromAttesterSet_def
          dest: convert_entries_addresses split: sum.splits if_splits)
    show "cm_BlockID c = bid" "length (cm_Signatures c) = attester_count k" by (simp_all add: sigs len)
    show "length (rv_Validators vs) = attester_count k" using arg_cong [OF vals, of length] len by simp
    assume i: "i < attester_count k"
    let ?a = "attester_order k ! i"
    have a: "ae_ConsensusAddress (es ! i) = ?a" using es(2) i len by (metis nth_map)
    have addr: "cv_Address (rv_Validators vs ! i) = ae_ValidatorAddress (es ! i)"
      using vals i len by (metis length_map nth_map)
    have mem: "?a |\<in>| AttesterSet k" "index_of k ?a = i"
      using attester_order_ok [OF ok] i by (metis nth_mem, simp)
    have "IsSoftConfirmed kenv k (to_int64 h) = Inr True" using c get by (auto split: if_splits)
    note sig = confirmed_signature [OF inv h this ext, of "es ! i", unfolded a Let_def]
    show "\<exists>a. a |\<in>| AttesterSet k \<and> index_of k a = i \<and>
        (if a \<in> voters k (height_bitmap k (to_int64 h))
         then cs_BlockIDFlag (cm_Signatures c ! i) = BlockIDFlagCommit \<and>
           cs_ValidatorAddress (cm_Signatures c ! i) = cv_Address (rv_Validators vs ! i) \<and>
           (\<exists>bs v. vote_backed kenv chain k (to_int64 h) a bs \<and> ext_UnmarshalVote (env_ext kenv) bs = Some v \<and>
              cs_Signature (cm_Signatures c ! i) = vote_Signature v)
         else cm_Signatures c ! i = absent_sig)"
      using mem sig i len by (intro exI [of _ ?a]) (simp add: sigs addr split: if_splits)
  qed
qed

end
