(* ===== verification/RpcNode.thy ===== *)
theory RpcNode
  imports RpcBlocks
begin

text \<open>
  The remaining endpoints of the RPC: transactions (\<open>pkg/rpc/core/tx.go\<close>), the genesis document
  in chunks (\<open>net.go\<close>), node status (\<open>status.go\<close>), application info and queries (\<open>abci.go\<close>) and
  the mempool (\<open>mempool.go\<close>). Where a handler waits for one of several channels, what it wakes up
  with is an argument. The transaction indexer, the Merkle tree, the codecs of the genesis
  document and the mempool are parameters.
\<close>

subsection \<open>Transactions\<close>

record tx_result =
  tx_Height :: int64
  tx_Index :: uint32
  tx_Tx :: bytes
  tx_Result :: exec_tx_result

record tx_proof =
  pf_RootHash :: bytes
  pf_Data :: bytes
  pf_Proof :: "bytes list"

record result_tx =
  rt_Hash :: bytes
  rt_Height :: int64
  rt_Index :: uint32
  rt_TxResult :: exec_tx_result
  rt_Tx :: bytes
  rt_Proof :: "tx_proof option"

text \<open>\<open>merkle.ProofsFromByteSlices\<close>: the root and one proof per leaf.\<close>

type_synonym merkle_ext = "bytes list \<Rightarrow> bytes \<times> bytes list list"

definition hashList :: "rpc_env \<Rightarrow> bytes list \<Rightarrow> bytes list" where
  "hashList env txs = map (ext_Sha256 (re_ext env)) txs"

definition proofTXExists :: "rpc_env \<Rightarrow> merkle_ext \<Rightarrow> bytes list \<Rightarrow> uint32 \<Rightarrow> tx_proof result" where
  "proofTXExists env merkle txs i =
     (let hl = hashList env txs; (root, proofs) = merkle hl in
      if unat i < length txs \<and> unat i < length proofs
      then Inr \<lparr>pf_RootHash = root, pf_Data = txs ! unat i, pf_Proof = proofs ! unat i\<rparr>
      else Inl (Panic ''index out of range''))"

definition buildProof :: "rpc_env \<Rightarrow> merkle_ext \<Rightarrow> int64 \<Rightarrow> uint32 \<Rightarrow> tx_proof result" where
  "buildProof env merkle blockHeight txIndex =
     (case re_GetBlockData env (to_uint64 blockHeight) of
        Inl err \<Rightarrow> Inl (Wrap ''failed to get block data'' err)
      | Inr (_, None) \<Rightarrow> Inl (Panic ''nil pointer dereference'')
      | Inr (_, Some data_Txs) \<Rightarrow> proofTXExists env merkle data_Txs txIndex)"

definition maybe_proof ::
    "rpc_env \<Rightarrow> merkle_ext \<Rightarrow> bool \<Rightarrow> int64 \<Rightarrow> uint32 \<Rightarrow> tx_proof option result" where
  "maybe_proof env merkle prove height index =
     (if prove then and_then (buildProof env merkle height index) (\<lambda>p. Inr (Some p)) else Inr None)"

definition Tx ::
    "rpc_env \<Rightarrow> merkle_ext \<Rightarrow> (bytes \<Rightarrow> tx_result option result) \<Rightarrow> bytes \<Rightarrow> bool \<Rightarrow> result_tx result" where
  "Tx env merkle indexer_Get hash prove =
     and_then (indexer_Get hash) (\<lambda>res.
     (case res of
        None \<Rightarrow> Inl (ErrorString ''tx not found'')
      | Some res \<Rightarrow>
          and_then (maybe_proof env merkle prove (tx_Height res) (tx_Index res)) (\<lambda>proof'.
          Inr \<lparr>rt_Hash = hash, rt_Height = tx_Height res, rt_Index = tx_Index res, rt_TxResult = tx_Result res,
               rt_Tx = tx_Tx res, rt_Proof = proof'\<rparr>)))"

fun search_txs :: "rpc_env \<Rightarrow> merkle_ext \<Rightarrow> bool \<Rightarrow> tx_result list \<Rightarrow> result_tx list result" where
  "search_txs env merkle prove [] = Inr []"
| "search_txs env merkle prove (r # rs) =
     and_then (maybe_proof env merkle prove (tx_Height r) (tx_Index r)) (\<lambda>proof'.
     and_then (search_txs env merkle prove rs) (\<lambda>out.
     Inr (\<lparr>rt_Hash = ext_Sha256 (re_ext env) (tx_Tx r), rt_Height = tx_Height r, rt_Index = tx_Index r,
           rt_TxResult = tx_Result r, rt_Tx = tx_Tx r, rt_Proof = proof'\<rparr> # out)))"

text \<open>The order of the results: by height, then by index, which identify a transaction.\<close>

definition tx_before :: "tx_result \<Rightarrow> tx_result \<Rightarrow> bool" where
  "tx_before a b \<longleftrightarrow> (if tx_Height a = tx_Height b then tx_Index a < tx_Index b else tx_Height a < tx_Height b)"

fun insert_tx :: "(tx_result \<Rightarrow> tx_result \<Rightarrow> bool) \<Rightarrow> tx_result \<Rightarrow> tx_result list \<Rightarrow> tx_result list" where
  "insert_tx lt r [] = [r]"
| "insert_tx lt r (x # xs) = (if lt x r then x # insert_tx lt r xs else r # x # xs)"

definition sort_txs :: "(tx_result \<Rightarrow> tx_result \<Rightarrow> bool) \<Rightarrow> tx_result list \<Rightarrow> tx_result list" where
  "sort_txs lt rs = foldr (insert_tx lt) rs []"

definition TxSearch ::
    "rpc_env \<Rightarrow> merkle_ext \<Rightarrow> tx_result list result \<Rightarrow> bool \<Rightarrow> int64 option \<Rightarrow> int64 option \<Rightarrow> string \<Rightarrow>
     (result_tx list \<times> int64) result" where
  "TxSearch env merkle found prove pagePtr perPagePtr orderBy =
     and_then found (\<lambda>results.
     and_then (if orderBy = ''desc'' then Inr (sort_txs (\<lambda>a b. tx_before b a) results)
               else if orderBy = ''asc'' \<or> orderBy = '''' then Inr (sort_txs tx_before results)
               else Inl (ErrorString ''expected order_by to be either `asc` or `desc` or empty'')) (\<lambda>results.
     and_then (paginate pagePtr perPagePtr results) (\<lambda>page.
     and_then (search_txs env merkle prove page) (\<lambda>apiResults.
     Inr (apiResults, int (length results))))))"

subsection \<open>The genesis document\<close>

definition genesisChunkSize :: nat where "genesisChunkSize = 16 * 1024 * 1024"

function chunk_loop :: "(bytes \<Rightarrow> string) \<Rightarrow> bytes \<Rightarrow> nat \<Rightarrow> string list" where
  "chunk_loop EncodeToString data i =
     (if i < length data
      then let end' = min (i + genesisChunkSize) (length data) in
        EncodeToString (take (end' - i) (drop i data)) # chunk_loop EncodeToString data (i + genesisChunkSize)
      else [])"
  by pat_completeness auto
termination
  by (relation "measure (\<lambda>(enc, data, i). length data - i)") (auto simp: genesisChunkSize_def)

declare chunk_loop.simps [simp del]

definition getGenesisChunks ::
    "app_genesis option \<Rightarrow> (app_genesis \<Rightarrow> 'd option result) \<Rightarrow> ('d \<Rightarrow> bytes result) \<Rightarrow> (bytes \<Rightarrow> string) \<Rightarrow>
     string list result" where
  "getGenesisChunks appGenesis ToGenesisDoc json_Marshal EncodeToString =
     (case appGenesis of
        None \<Rightarrow> Inl (ErrorString ''environment or adapter not initialized correctly for genesis access'')
      | Some g \<Rightarrow>
     (case ToGenesisDoc g of
        Inl err \<Rightarrow> Inl (Wrap ''error getting genesis doc'' err)
      | Inr None \<Rightarrow> Inr []
      | Inr (Some genesisDoc) \<Rightarrow>
     (case json_Marshal genesisDoc of
        Inl err \<Rightarrow> Inl (Wrap ''error marshalling genesis doc to json'' err)
      | Inr data \<Rightarrow> if data = [] then Inr [] else Inr (chunk_loop EncodeToString data 0))))"

record genesis_chunk =
  gc_TotalChunks :: int64
  gc_ChunkNumber :: int64
  gc_Data :: string

text \<open>The index is converted to a signed integer for the check and used unsigned for the access.\<close>

definition GenesisChunked :: "string list result \<Rightarrow> uint64 \<Rightarrow> genesis_chunk result" where
  "GenesisChunked chunks chunk =
     (case chunks of
        Inl err \<Rightarrow> Inl (Wrap ''error preparing genesis chunks'' err)
      | Inr allChunks \<Rightarrow>
          let numChunks = int (length allChunks) in
          if numChunks = 0 then Inl (ErrorString ''genesis document is empty or yields no chunks'')
          else if to_int64 chunk \<ge> numChunks
          then Inl (ErrorString ''requested chunk index is out of bounds'')
          else if unat chunk < length allChunks
          then Inr \<lparr>gc_TotalChunks = numChunks, gc_ChunkNumber = to_int64 chunk, gc_Data = allChunks ! unat chunk\<rparr>
          else Inl (Panic ''index out of range''))"

definition Genesis :: "app_genesis option \<Rightarrow> (app_genesis \<Rightarrow> 'd option result) \<Rightarrow> 'd option result" where
  "Genesis appGenesis ToGenesisDoc =
     (case appGenesis of None \<Rightarrow> Inl (Panic ''nil pointer dereference'') | Some g \<Rightarrow> ToGenesisDoc g)"

record peer_info =
  pi_NodeID :: string
  pi_ListenAddr :: string
  pi_Network :: string
  pi_IsOutbound :: bool
  pi_RemoteIP :: string

record net_info =
  ni_Listening :: bool
  ni_Listeners :: "string list"
  ni_NPeers :: int64
  ni_Peers :: "peer_info list"

text \<open>The P2P client, if there is one: its addresses and its peers.\<close>

definition NetInfo :: "(string list \<times> peer_info list) option \<Rightarrow> net_info result" where
  "NetInfo client =
     (case client of
        Some (addrs, peers) \<Rightarrow> Inr \<lparr>ni_Listening = True, ni_Listeners = addrs, ni_NPeers = int (length peers), ni_Peers = peers\<rparr>
      | None \<Rightarrow> Inr \<lparr>ni_Listening = True, ni_Listeners = [], ni_NPeers = 0, ni_Peers = []\<rparr>)"

subsection \<open>Status and application info\<close>

definition getLastAttestedHeight :: "rpc_env \<Rightarrow> uint64 result" where
  "getLastAttestedHeight env =
     (case px_MarshalLastAttestedHeightRequest (re_px env) of
        Inl err \<Rightarrow> Inl (Wrap ''failed to marshal request'' err)
      | Inr reqBytes \<Rightarrow>
     (case re_Query env ''/evabci.network.v1.Query/LastAttestedHeight'' reqBytes 0 False of
        Inl err \<Rightarrow> Inl (Wrap ''failed to query last attested height'' err)
      | Inr res \<Rightarrow>
          if qr_Code res \<noteq> 0 then Inl (ErrorString ''query failed'')
          else if qr_Value res \<noteq> []
          then (case px_UnmarshalLastAttestedHeightResponse (re_px env) (qr_Value res) of
                  Inl err \<Rightarrow> Inl (Wrap ''failed to unmarshal response'' err)
                | Inr h \<Rightarrow> Inr (to_uint64 h))
          else Inr 0))"

definition isAttesterNode :: "rpc_env \<Rightarrow> bool" where "isAttesterNode env = re_AttesterMode env"

text \<open>What status reads of the node: the clock, the configured block time, versions, the P2P identity.\<close>

record node_ext =
  nx_Since :: "int \<Rightarrow> int"
  nx_BlockTime :: int64
  nx_StateVersionApp :: "uint64 result"
  nx_P2PInfo :: "(string \<times> string \<times> string) result"
  nx_P2PProtocol :: uint64
  nx_BlockProtocol :: uint64
  nx_TMCoreSemVer :: string
  nx_Moniker :: string
  nx_ListenAddress :: string

record sync_info =
  sy_LatestBlockHash :: bytes
  sy_LatestAppHash :: bytes
  sy_LatestBlockHeight :: int64
  sy_LatestBlockTime :: int
  sy_EarliestBlockHash :: bytes
  sy_EarliestAppHash :: bytes
  sy_EarliestBlockHeight :: int64
  sy_EarliestBlockTime :: int
  sy_CatchingUp :: bool

record result_status =
  rs_ProtocolVersion :: "uint64 \<times> uint64 \<times> uint64"
  rs_NodeID :: string
  rs_ListenAddr :: string
  rs_Network :: string
  rs_Version :: string
  rs_Moniker :: string
  rs_TxIndex :: string
  rs_RPCAddress :: string
  rs_SyncInfo :: sync_info
  rs_ValidatorAddress :: bytes
  rs_ValidatorPubKey :: cmt_pubkey
  rs_VotingPower :: int64

definition latest_height :: "rpc_env \<Rightarrow> uint64 result" where
  "latest_height env =
     (let height = (case re_Height env of Inl err \<Rightarrow> Inl (Wrap ''failed to get latest height'' err) | Inr h \<Rightarrow> Inr h) in
      if isAttesterNode env
      then (case getLastAttestedHeight env of Inl _ \<Rightarrow> height | Inr h \<Rightarrow> Inr h)
      else height)"

definition latest_block :: "rpc_env \<Rightarrow> node_ext \<Rightarrow> uint64 \<Rightarrow> (bytes \<times> bytes \<times> int \<times> bool) result" where
  "latest_block env nx latestHeight =
     (if latestHeight \<noteq> 0
      then (case re_GetHeader env latestHeight of
              Inl err \<Rightarrow> Inl (Wrap ''failed to find latest block'' err)
            | Inr header \<Rightarrow> Inr (eh_DataHash header, eh_AppHash header, eh_Time header,
                nx_Since nx (eh_Time header) > int64_wrap (2 * nx_BlockTime nx)))
      else Inr ([], [], 0, False))"

definition Status :: "rpc_env \<Rightarrow> node_ext \<Rightarrow> result_status result" where
  "Status env nx =
     and_then (latest_height env) (\<lambda>latestHeight.
     and_then (latest_block env nx latestHeight) (\<lambda>(latestBlockHash, latestAppHash, latestBlockTime, catchingUp).
     (case re_AppGenesis env of
        None \<Rightarrow> Inl (Panic ''nil pointer dereference'')
      | Some g \<Rightarrow>
     (case re_GetHeader env (to_uint64 (ag_InitialHeight g)) of
        Inl err \<Rightarrow> Inl (Wrap ''failed to find earliest block'' err)
      | Inr initialHeader \<Rightarrow>
     (case ag_Validators g of
        [v] \<Rightarrow>
         (case nx_StateVersionApp nx of
            Inl err \<Rightarrow> Inl (Wrap ''failed to load the last saved state'' err)
          | Inr versionApp \<Rightarrow>
         (case nx_P2PInfo nx of
            Inl err \<Rightarrow> Inl (Wrap ''failed to load node p2p2 info'' err)
          | Inr (nodeId, addr, network) \<Rightarrow>
         (case TruncateNodeID nodeId of
            Inl err \<Rightarrow> Inl (Wrap ''failed to process node ID'' err)
          | Inr processedID \<Rightarrow>
              Inr \<lparr>rs_ProtocolVersion = (nx_P2PProtocol nx, nx_BlockProtocol nx, versionApp), rs_NodeID = processedID,
                rs_ListenAddr = addr, rs_Network = network, rs_Version = nx_TMCoreSemVer nx,
                rs_Moniker = nx_Moniker nx, rs_TxIndex = ''on'', rs_RPCAddress = nx_ListenAddress nx,
                rs_SyncInfo = \<lparr>sy_LatestBlockHash = latestBlockHash, sy_LatestAppHash = latestAppHash,
                  sy_LatestBlockHeight = to_int64 latestHeight, sy_LatestBlockTime = latestBlockTime,
                  sy_EarliestBlockHash = eh_DataHash initialHeader, sy_EarliestAppHash = eh_AppHash initialHeader,
                  sy_EarliestBlockHeight = to_int64 (eh_Height initialHeader), sy_EarliestBlockTime = eh_Time initialHeader,
                  sy_CatchingUp = (if re_AttesterMode env then False else catchingUp)\<rparr>,
                rs_ValidatorAddress = gv_Address v, rs_ValidatorPubKey = gv_PubKey v, rs_VotingPower = 1\<rparr>)))
      | _ \<Rightarrow> Inl (ErrorString ''there should be exactly one validator in genesis''))))))"

record abci_info =
  in_Data :: string
  in_LastBlockHeight :: int64
  in_LastBlockAppHash :: bytes

definition ABCIInfo :: "rpc_env \<Rightarrow> abci_info result \<Rightarrow> abci_info result" where
  "ABCIInfo env app_Info =
     and_then app_Info (\<lambda>info.
     if re_AttesterMode env
     then (case getLastAttestedHeight env of
             Inl _ \<Rightarrow> Inr info
           | Inr lastAttestedHeight \<Rightarrow> Inr (info\<lparr>in_LastBlockHeight := to_int64 lastAttestedHeight\<rparr>))
     else Inr info)"

definition ABCIQuery :: "rpc_env \<Rightarrow> string \<Rightarrow> bytes \<Rightarrow> int64 \<Rightarrow> bool \<Rightarrow> query_response result" where
  "ABCIQuery env path queryData height prove = re_Query env path queryData height prove"

subsection \<open>Sorted search results\<close>

text \<open>Sorting keeps the results, and puts no later transaction before an earlier one.\<close>

lemma mset_sort_txs: "mset (sort_txs lt rs) = mset rs"
proof -
  have "mset (insert_tx lt r xs) = add_mset r (mset xs)" for r xs by (induction xs) auto
  then show ?thesis by (induction rs) (simp_all add: sort_txs_def)
qed

lemma sort_txs_sorted:
  assumes asym: "\<And>a b. lt a b \<Longrightarrow> \<not> lt b a"
    and total: "\<And>a b c. \<not> lt b a \<Longrightarrow> \<not> lt c b \<Longrightarrow> \<not> lt c a"
  shows "sorted_wrt (\<lambda>a b. \<not> lt b a) (sort_txs lt rs)"
proof -
  have set: "set (insert_tx lt r xs) = insert r (set xs)" for r xs by (induction xs) auto
  have "sorted_wrt (\<lambda>a b. \<not> lt b a) xs \<Longrightarrow> sorted_wrt (\<lambda>a b. \<not> lt b a) (insert_tx lt r xs)" for r xs
  proof (induction xs)
    case (Cons x xs)
    have "\<not> lt y r" if "\<not> lt x r" "y \<in> set xs" for y using total [of x r y] that Cons.prems by simp
    then show ?case using Cons asym [of x r] by (simp add: set)
  qed simp
  then show ?thesis by (induction rs) (simp_all add: sort_txs_def)
qed

lemma tx_before_laws:
  "tx_before a b \<Longrightarrow> \<not> tx_before b a"
  "\<not> tx_before b a \<Longrightarrow> \<not> tx_before c b \<Longrightarrow> \<not> tx_before c a"
  by (auto simp: tx_before_def split: if_splits)

lemma search_txs_map:
  "search_txs env merkle prove rs = Inr out \<Longrightarrow>
     map (\<lambda>r. (rt_Height r, rt_Index r, rt_Tx r)) out = map (\<lambda>r. (tx_Height r, tx_Index r, tx_Tx r)) rs"
  by (induction rs arbitrary: out) (auto simp: and_then_Inr_iff)

subsection \<open>The chunks of the genesis document\<close>

lemma genesisChunkSize_pos: "0 < genesisChunkSize"
  by (simp add: genesisChunkSize_def)

lemma to_int64_large:
  assumes "2 ^ 63 \<le> unat (w :: uint64)"
  shows "to_int64 w < 0"
proof -
  have "int (2 ^ 63) \<le> int (unat w)" using assms by (simp only: of_nat_le_iff)
  then have u: "uint w < 2 ^ 64" "2 ^ 63 \<le> uint w" using unsigned_less [of w, where ?'a = int] by simp_all
  then have "uint w div 2 ^ 63 = 1" by auto
  then have "bit (uint w) 63" by (simp add: bit_iff_odd)
  then show ?thesis
    using u by (simp add: to_int64_def sint_uint signed_take_bit_eq_take_bit_minus take_bit_int_eq_self)
qed

lemma chunk_loop_correct:
  assumes dec: "\<And>b. dec (enc b) = b"
  shows "concat (map dec (chunk_loop enc data i)) = drop i data \<and>
    (\<forall>c\<in>set (chunk_loop enc data i). length (dec c) \<le> genesisChunkSize) \<and>
    length (chunk_loop enc data i) \<le> length data - i"
proof (induction "length data - i" arbitrary: i rule: less_induct)
  case less
  show ?case
  proof (cases "i < length data")
    case True
    let ?e = "min (i + genesisChunkSize) (length data)"
    have "length data - (i + genesisChunkSize) < length data - i" using True genesisChunkSize_pos by simp
    note IH = less [OF this]
    have "take (?e - i) (drop i data) = take genesisChunkSize (drop i data)"
      using True by (cases "i + genesisChunkSize \<le> length data") (simp_all add: min_def)
    moreover have "drop (i + genesisChunkSize) data = drop genesisChunkSize (drop i data)"
      by (simp add: add.commute)
    ultimately have "take (?e - i) (drop i data) @ drop (i + genesisChunkSize) data = drop i data"
      by (simp del: drop_drop)
    moreover have "length (take (?e - i) (drop i data)) \<le> genesisChunkSize" by simp
    moreover have "Suc (length data - (i + genesisChunkSize)) \<le> length data - i" using True genesisChunkSize_pos by simp
    ultimately show ?thesis
      using True IH dec by (subst (1 2 3) chunk_loop.simps) (auto simp: Let_def)
  qed (simp add: chunk_loop.simps)
qed

text \<open>
  The genesis document survives its transfer in chunks. The decoded chunks one after the
  other are the document, no chunk is larger than 16 MiB, and the endpoint returns chunk \<open>i\<close> for
  every index in range. An index outside is refused if it is below \<open>2^63\<close>; a larger one passes
  the check as a negative number and the access panics.
\<close>

lemma genesis_chunks_roundtrip:
  assumes dec: "\<forall>b. dec (enc b) = b" and doc: "ToGenesisDoc g = Inr (Some doc)" "json_Marshal doc = Inr data"
    and data: "data \<noteq> []" "length data < 2 ^ 63"
  shows "\<exists>cs. getGenesisChunks (Some g) ToGenesisDoc json_Marshal enc = Inr cs \<and> concat (map dec cs) = data \<and>
    (\<forall>c\<in>set cs. length (dec c) \<le> 16 * 1024 * 1024) \<and>
    (\<forall>i. GenesisChunked (Inr cs) i =
       (if unat i < length cs then Inr \<lparr>gc_TotalChunks = int (length cs), gc_ChunkNumber = int (unat i), gc_Data = cs ! unat i\<rparr>
        else if unat i < 2 ^ 63 then Inl (ErrorString ''requested chunk index is out of bounds'')
        else Inl (Panic ''index out of range'')))"
proof -
  let ?cs = "chunk_loop enc data 0"
  have cs: "concat (map dec ?cs) = data" "\<forall>c\<in>set ?cs. length (dec c) \<le> 16 * 1024 * 1024" "length ?cs < 2 ^ 63"
    using chunk_loop_correct [of dec enc data 0] dec data by (auto simp: genesisChunkSize_def)
  have "?cs \<noteq> []" using cs(1) data by auto
  moreover have "to_int64 i < 0" if "\<not> unat i < 2 ^ 63" for i using that by (intro to_int64_large) simp
  ultimately have "GenesisChunked (Inr ?cs) i =
       (if unat i < length ?cs then Inr \<lparr>gc_TotalChunks = int (length ?cs), gc_ChunkNumber = int (unat i), gc_Data = ?cs ! unat i\<rparr>
        else if unat i < 2 ^ 63 then Inl (ErrorString ''requested chunk index is out of bounds'')
        else Inl (Panic ''index out of range''))" for i
    using cs(3) to_int64_small [of i]
    by (cases "unat i < 2 ^ 63") (fastforce simp: GenesisChunked_def Let_def simp del: of_nat_unat)+
  then show ?thesis
    using cs doc data(1) by (intro exI [of _ ?cs]) (simp add: getGenesisChunks_def)
qed

end
