(* ===== verification/RpcMempool.thy ===== *)
theory RpcMempool
  imports RpcNode
begin




record ('m, 'b) submit_ops =
  so_CheckTx :: "bytes \<Rightarrow> 'm \<Rightarrow> unit result \<times> 'm"
  so_RemoveTxByKey :: "bytes \<Rightarrow> 'm \<Rightarrow> unit result \<times> 'm"
  so_Publish :: "bytes \<Rightarrow> unit result"
  so_Hash :: "bytes \<Rightarrow> bytes"
  so_NumClients :: "'b \<Rightarrow> int64"
  so_NumClientSubscriptions :: "string \<Rightarrow> 'b \<Rightarrow> int64"
  so_Subscribe :: "string \<Rightarrow> bytes \<Rightarrow> 'b \<Rightarrow> unit result \<times> 'b"
  so_Unsubscribe :: "string \<Rightarrow> bytes \<Rightarrow> 'b \<Rightarrow> unit result \<times> 'b"
  so_ReapMaxTxs :: "int64 \<Rightarrow> 'm \<Rightarrow> bytes list"
  so_Size :: "'m \<Rightarrow> int64"
  so_SizeBytes :: "'m \<Rightarrow> int64"



subsection \<open>Submission\<close>







subsection \<open>Listing\<close>

record result_unconfirmed_txs =
  ru_Count :: int64
  ru_Total :: int64
  ru_TotalBytes :: int64
  ru_Txs :: "bytes list"

definition UnconfirmedTxs :: "('m, 'b) submit_ops \<Rightarrow> int64 option \<Rightarrow> 'm \<Rightarrow> result_unconfirmed_txs result" where
  "UnconfirmedTxs ops limitPtr mp =
     (let txs = so_ReapMaxTxs ops (- 1) mp;
          limit = (case limitPtr of None \<Rightarrow> int (length txs) | Some l \<Rightarrow> max (min l (int (length txs))) 0);
          paginatedTxs = take (nat limit) txs in
      Inr \<lparr>ru_Count = int (length paginatedTxs), ru_Total = so_Size ops mp, ru_TotalBytes = so_SizeBytes ops mp,
           ru_Txs = paginatedTxs\<rparr>)"

definition NumUnconfirmedTxs :: "('m, 'b) submit_ops \<Rightarrow> 'm \<Rightarrow> result_unconfirmed_txs result" where
  "NumUnconfirmedTxs ops mp =
     Inr \<lparr>ru_Count = so_Size ops mp, ru_Total = so_Size ops mp, ru_TotalBytes = so_SizeBytes ops mp, ru_Txs = []\<rparr>"

subsection \<open>A transaction that cannot be gossiped\<close>







end
