(* ===== verification/NetworkAbci.thy ===== *)
theory NetworkAbci
  imports NetworkMsgServer
begin

text \<open>
  The end-block logic of the network module (\<open>modules/network/keeper/abci.go\<close>): checkpoints,
  epoch ends and the pruning they trigger. The lemmas show that in a consistent state the end
  blocker never fails and keeps the invariant, and state exactly what pruning removes.
\<close>

subsection \<open>The end blocker\<close>

definition emitCheckpointHashes ::
    "keeper_env \<Rightarrow> int64 \<Rightarrow> bytes \<Rightarrow> bytes \<Rightarrow> bool \<Rightarrow> network_state \<Rightarrow> network_state" where
  "emitCheckpointHashes env height validatorHash commitHash softConfirmed k =
     (let softConfirmedSt = (if softConfirmed then ''true'' else ''false'') in
      EmitEvent \<lparr>ev_Type = ''checkpoint'', ev_Attributes =
        [(''height'', ext_IntString (env_ext env) height),
         (''validator_hash'', ext_Base64 (env_ext env) validatorHash),
         (''commit_hash'', ext_Base64 (env_ext env) commitHash),
         (''soft_confirmed'', softConfirmedSt)]\<rparr> k)"

definition processCheckpoint ::
    "keeper_env \<Rightarrow> int64 \<Rightarrow> network_state \<Rightarrow> unit result \<times> network_state" where
  "processCheckpoint env height k =
     (case GetAttestationBitmap k height of
        None \<Rightarrow> (Inr (), k)
      | Some bitmapBytes \<Rightarrow>
     (case CalculateVotedPower k bitmapBytes of
        Inl err \<Rightarrow> (Inl err, k)
      | Inr votedPower \<Rightarrow>
      let totalPower = GetTotalPower k;
          validatorHash = ext_Sha256 (env_ext env) bitmapBytes;
          commitHash = ext_Sha256 (env_ext env) (string_bytes ''placeholder'') in
     (case CheckQuorum env k votedPower totalPower of
        Inl err \<Rightarrow> (Inl err, k)
      | Inr softConfirmed \<Rightarrow>
      let info = \<lparr>ab_Height = height, ab_Bitmap = bitmapBytes, ab_VotedPower = votedPower,
                  ab_TotalPower = totalPower, ab_SoftConfirmed = softConfirmed\<rparr>;
          k = k\<lparr>StoredAttestationInfo := fmupd height info (StoredAttestationInfo k)\<rparr>
      in (Inr (), emitCheckpointHashes env height validatorHash commitHash softConfirmed k))))"

text \<open>Ejection is not implemented: the method only logs.\<close>

definition ejectLowParticipants :: "bytes \<Rightarrow> network_state \<Rightarrow> network_state" where
  "ejectLowParticipants epochBitmap k = k"

definition processEpochEnd ::
    "keeper_env \<Rightarrow> uint64 \<Rightarrow> network_state \<Rightarrow> unit result \<times> network_state" where
  "processEpochEnd env epoch k =
     (let prs = GetParams k in
      case GetEpochBitmap k epoch of
        None \<Rightarrow> (Inr (), PruneOldBitmaps epoch k)
      | Some epochBitmap \<Rightarrow>
     (case env_GetLastValidators env of
        Inl err \<Rightarrow> (Inl (Wrap ''getting last validators'' err), k)
      | Inr validators \<Rightarrow>
      let totalBondedValidators = length (filter val_IsBonded validators) in
      if totalBondedValidators > 0 then
        let participated = PopCount epochBitmap in
       (case ext_DecFromStr (env_ext env) (MinParticipation prs) of
          None \<Rightarrow> (Inl (ErrorString ''parsing MinParticipation parameter''), k)
        | Some minParticipation \<Rightarrow>
          let participationRate = ext_DecQuoInt64 (env_ext env) (of_nat participated)
                (int totalBondedValidators);
              k = (if participationRate < minParticipation
                   then ejectLowParticipants epochBitmap k else k)
          in (Inr (), PruneOldBitmaps epoch k))
      else (Inr (), PruneOldBitmaps epoch k)))"

definition EndBlocker ::
    "keeper_env \<Rightarrow> sdk_ctx \<Rightarrow> network_state \<Rightarrow> unit result \<times> network_state" where
  "EndBlocker env ctx k =
     (let height = BlockHeight ctx; prs = GetParams k in
      case IsCheckpointHeight k height of
        Inl panic \<Rightarrow> (Inl panic, k)
      | Inr isCheckpoint \<Rightarrow>
     (case (if isCheckpoint then processCheckpoint env height k else (Inr (), k)) of
        (Inl err, k) \<Rightarrow> (Inl (Wrap ''processing checkpoint'' err), k)
      | (Inr _, k) \<Rightarrow>
     (case GetCurrentEpoch ctx k of
        Inl panic \<Rightarrow> (Inl panic, k)
      | Inr epoch \<Rightarrow>
      let nextHeight = int64_wrap (height + 1) in
     (case go_div (to_uint64 nextHeight) (EpochLength prs) of
        Inl panic \<Rightarrow> (Inl panic, k)
      | Inr nextEpoch \<Rightarrow>
      if epoch \<noteq> nextEpoch then
       (case processEpochEnd env epoch k of
          (Inl err, k) \<Rightarrow> (Inl (Wrap ''processing epoch end'' err), k)
        | (Inr _, k) \<Rightarrow> (Inr (), k))
      else (Inr (), k)))))"

subsection \<open>Pruning\<close>

lemma PruneOldBitmaps_same [simp]:
  "same_attesters k (PruneOldBitmaps ep k)" "Params (PruneOldBitmaps ep k) = Params k"
  "LastAttestedHeight (PruneOldBitmaps ep k) = LastAttestedHeight k"
  "events (PruneOldBitmaps ep k) = events k"
  by (simp_all add: PruneOldBitmaps_def same_attesters_def Let_def split: option.splits)

lemma not_less_empty_string [simp]: "\<not> (s :: string) < ''''"
  by simp

lemma PruneOldBitmaps_lookup:
  assumes "attestationRetentionBoundary k ep = Some b"
  shows "fmlookup (AttestationBitmap (PruneOldBitmaps ep k)) h =
      (if 0 \<le> h \<and> prunesHeight b h then None else fmlookup (AttestationBitmap k) h)"
    "fmlookup (StoredAttestationInfo (PruneOldBitmaps ep k)) h =
      (if 0 \<le> h \<and> prunesHeight b h then None else fmlookup (StoredAttestationInfo k) h)"
    "fmlookup (EpochBitmap (PruneOldBitmaps ep k)) q =
      (if q < firstRetainedEpoch b then None else fmlookup (EpochBitmap k) q)"
    "fmlookup (Signatures (PruneOldBitmaps ep k)) (h, a) =
      (if prunesHeight b h then None else fmlookup (Signatures k) (h, a))"
  using assms by (auto simp: PruneOldBitmaps_def prunesHeight_def Let_def)

lemma PruneOldBitmaps_none:
  "attestationRetentionBoundary k ep = None \<Longrightarrow> PruneOldBitmaps ep k = k"
  by (simp add: PruneOldBitmaps_def)

lemma PruneOldBitmaps_inv:
  assumes inv: "network_inv env chain k"
  shows "network_inv env chain (PruneOldBitmaps ep k)"
proof (cases "attestationRetentionBoundary k ep")
  case None
  then show ?thesis using inv by (simp add: PruneOldBitmaps_none)
next
  case (Some b)
  note look = PruneOldBitmaps_lookup [OF Some]
  show ?thesis
    unfolding network_inv_def same_attestersD(4-7) [OF PruneOldBitmaps_same(1)]
    using inv by (auto simp: look network_inv_def split: if_splits)
qed

text \<open>
  The boundary in plain numbers, for block heights below \<open>2^63\<close>: the first height of the epoch
  \<open>PruneAfter\<close> before the current one.
\<close>

lemma retention_boundary_nat:
  assumes "attestationRetentionBoundary k ep = Some b"
    and "unat ep * unat (EpochLength (GetParams k)) < 2 ^ 63"
  shows "firstRetainedHeight b =
      int ((unat ep - unat (PruneAfter (GetParams k))) * unat (EpochLength (GetParams k)))"
    and "unat (firstRetainedEpoch b) = unat ep - unat (PruneAfter (GetParams k))"
proof -
  let ?p = "GetParams k"
  let ?first = "ep - PruneAfter ?p"
  from assms(1) have le: "PruneAfter ?p \<le> ep" and
    b: "firstRetainedEpoch b = ?first" "firstRetainedHeight b = to_int64 (?first * EpochLength ?p)"
    by (auto simp: attestationRetentionBoundary_def Let_def split: if_splits)
  have u: "unat ?first = unat ep - unat (PruneAfter ?p)"
    using le by (rule unat_sub)
  then show "unat (firstRetainedEpoch b) = unat ep - unat (PruneAfter ?p)" by (simp add: b)
  have small: "unat ?first * unat (EpochLength ?p) < 2 ^ 63"
    using assms(2) u by (metis diff_le_self le_less_trans mult_le_mono1)
  then have "unat (?first * EpochLength ?p) = unat ?first * unat (EpochLength ?p)"
    by (simp add: unat_word_ariths)
  with small show "firstRetainedHeight b =
      int ((unat ep - unat (PruneAfter ?p)) * unat (EpochLength ?p))"
    by (simp add: b to_int64_small u)
qed

subsection \<open>The end blocker in a consistent state\<close>

definition checkpointed ::
    "keeper_env \<Rightarrow> int64 \<Rightarrow> network_state \<Rightarrow> network_state" where
  "checkpointed env height k = snd (processCheckpoint env height k)"

lemma processCheckpoint_ok:
  assumes inv: "network_inv env chain k"
  shows "processCheckpoint env height k = (Inr (), checkpointed env height k)"
proof (cases "fmlookup (AttestationBitmap k) height")
  case None
  then show ?thesis by (simp add: checkpointed_def processCheckpoint_def GetAttestationBitmap_def)
next
  case (Some bm)
  have "CalculateVotedPower k bm = Inr (of_nat (PopCount bm))"
    by (rule bitmap_ok_power [OF network_invD(1,3) [OF inv]]) (use Some in auto)
  then show ?thesis
    using Some network_inv_params(3) [OF inv]
    by (auto simp: checkpointed_def processCheckpoint_def GetAttestationBitmap_def CheckQuorum_def
        Let_def)
qed

lemma checkpointed_same [simp]:
  "same_attesters k (checkpointed env height k)" "Params (checkpointed env height k) = Params k"
  "AttestationBitmap (checkpointed env height k) = AttestationBitmap k"
  "EpochBitmap (checkpointed env height k) = EpochBitmap k"
  "Signatures (checkpointed env height k) = Signatures k"
  "LastAttestedHeight (checkpointed env height k) = LastAttestedHeight k"
  by (auto simp: checkpointed_def processCheckpoint_def emitCheckpointHashes_def EmitEvent_def
      same_attesters_def Let_def split: option.splits sum.splits)

lemma checkpointed_inv:
  "network_inv env chain k \<Longrightarrow> network_inv env chain (checkpointed env height k)"
  by (rule network_inv_cong [of k]) (auto dest: network_invD(2))

lemma processEpochEnd_ok:
  assumes "network_inv env chain k" and "env_GetLastValidators env = Inr vals"
  shows "processEpochEnd env epoch k = (Inr (), PruneOldBitmaps epoch k)"
  using assms(2) network_inv_params(4) [OF assms(1)]
  by (auto simp: processEpochEnd_def Let_def ejectLowParticipants_def split: option.splits)

text \<open>The state after the end blocker: an optional checkpoint, then an optional prune.\<close>

definition end_blocked :: "keeper_env \<Rightarrow> sdk_ctx \<Rightarrow> network_state \<Rightarrow> network_state" where
  "end_blocked env ctx k =
     (let el = EpochLength (GetParams k); h = BlockHeight ctx;
          epoch = to_uint64 h div el;
          k = (if to_uint64 h mod el = 0 then checkpointed env h k else k)
      in if epoch \<noteq> to_uint64 (int64_wrap (h + 1)) div el then PruneOldBitmaps epoch k else k)"

lemma EndBlocker_ok:
  assumes inv: "network_inv env chain k" and vals: "env_GetLastValidators env = Inr vals"
  shows "EndBlocker env ctx k = (Inr (), end_blocked env ctx k)"
proof -
  from network_invD(2) [OF inv] obtain p where p: "Params k = Some p" by auto
  then have gp: "GetParams k = p" by (simp add: GetParams_def)
  have el: "EpochLength p \<noteq> 0" using network_inv_params(1) [OF inv] gp by simp
  have gp': "GetParams (checkpointed env h k) = p" for h by (simp add: GetParams_def p)
  show ?thesis
    using el processCheckpoint_ok [OF inv]
      processEpochEnd_ok [OF inv vals] processEpochEnd_ok [OF checkpointed_inv [OF inv] vals]
    by (simp add: EndBlocker_def IsCheckpointHeight_def p gp gp' GetCurrentEpoch_def go_div_def
        end_blocked_def Let_def)
qed

lemma end_blocked_inv:
  "network_inv env chain k \<Longrightarrow> network_inv env chain (end_blocked env ctx k)"
  by (simp add: end_blocked_def Let_def checkpointed_inv PruneOldBitmaps_inv)

lemma same_attesters_trans:
  "same_attesters a b \<Longrightarrow> same_attesters b c \<Longrightarrow> same_attesters a c"
  by (simp add: same_attesters_def)

lemma same_attesters_refl [simp]: "same_attesters k k"
  by (simp add: same_attesters_def)

lemma end_blocked_same [simp]:
  "same_attesters k (end_blocked env ctx k)" "Params (end_blocked env ctx k) = Params k"
  "LastAttestedHeight (end_blocked env ctx k) = LastAttestedHeight k"
  by (auto simp: end_blocked_def Let_def
      intro: same_attesters_trans [OF checkpointed_same(1) PruneOldBitmaps_same(1)])

text \<open>
  The end blocker cannot halt the chain. In a consistent state, with the staking
  keeper able to list the validators, it returns without error or panic and leaves a consistent
  state with the same attester set, parameters and last attested height.
\<close>

lemma EndBlocker_total:
  assumes "network_inv env chain k" and "env_GetLastValidators env = Inr vals"
  shows "\<exists>k'. EndBlocker env ctx k = (Inr (), k') \<and> network_inv env chain k' \<and>
    same_attesters k k' \<and> Params k' = Params k \<and> LastAttestedHeight k' = LastAttestedHeight k"
  using EndBlocker_ok [OF assms] end_blocked_inv [OF assms(1)] by auto

text \<open>
  C14: retention. At an epoch boundary past the retention period the end blocker removes
  exactly the attestation data below the boundary: bitmaps and stored infos of the heights from
  0 up to the boundary, every signature below it, and the epoch bitmaps of the epochs before the
  first retained one. Everything at or above the boundary is as before, except the checkpoint
  entry of the current height.
\<close>

theorem EndBlocker_retention:
  assumes inv: "network_inv env chain k" and vals: "env_GetLastValidators env = Inr vals"
    and epoch: "ep = to_uint64 (BlockHeight ctx) div EpochLength (GetParams k)"
    and last: "ep \<noteq> to_uint64 (int64_wrap (BlockHeight ctx + 1)) div EpochLength (GetParams k)"
    and b: "attestationRetentionBoundary k ep = Some b"
    and k': "EndBlocker env ctx k = (Inr (), k')"
  shows "fmlookup (AttestationBitmap k') h =
      (if 0 \<le> h \<and> h < firstRetainedHeight b then None else fmlookup (AttestationBitmap k) h) \<and>
    fmlookup (Signatures k') (h, a) =
      (if h < firstRetainedHeight b then None else fmlookup (Signatures k) (h, a)) \<and>
    fmlookup (EpochBitmap k') q =
      (if q < firstRetainedEpoch b then None else fmlookup (EpochBitmap k) q) \<and>
    (h \<noteq> BlockHeight ctx \<longrightarrow> fmlookup (StoredAttestationInfo k') h =
      (if 0 \<le> h \<and> h < firstRetainedHeight b then None else fmlookup (StoredAttestationInfo k) h))"
proof -
  have k'_eq: "k' = end_blocked env ctx k" using k' EndBlocker_ok [OF inv vals] by simp
  have bnd: "attestationRetentionBoundary (checkpointed env hh k) ep = Some b" for hh
    using b by (simp add: attestationRetentionBoundary_def GetParams_def)
  have stored: "h \<noteq> hh \<Longrightarrow> fmlookup (StoredAttestationInfo (checkpointed env hh k)) h =
      fmlookup (StoredAttestationInfo k) h" for hh
    by (auto simp: checkpointed_def processCheckpoint_def emitCheckpointHashes_def EmitEvent_def
        Let_def split: option.splits sum.splits)
  show ?thesis
    using last epoch PruneOldBitmaps_lookup [OF b] PruneOldBitmaps_lookup [OF bnd] stored
    by (simp add: k'_eq end_blocked_def Let_def prunesHeight_def)
qed

end
