(* ===== verification/NetworkGenesis.thy ===== *)
theory NetworkGenesis
  imports NetworkAbci DemoEnv
begin

text \<open>
  Genesis import and export of the network module (\<open>modules/network/genesis.go\<close>): attesters
  are checked against their keys, normalised, ordered by the bytes of the key's address and
  numbered from 0; historical bitmaps are loaded. The lemmas show that a successful import
  leaves a consistent attester set, that more than 65536 attesters break it, and that export
  and re-import give the same registry back.
\<close>

subsection \<open>Import\<close>

text \<open>The validation loop: \<open>i\<close> is the position, \<open>seen\<close> the addresses accepted so far.\<close>

fun load_attesters ::
    "ext \<Rightarrow> attester_info list \<Rightarrow> nat \<Rightarrow> (string, nat) fmap \<Rightarrow> attester_info list result" where
  "load_attesters e [] i seen = Inr []"
| "load_attesters e (info # rest) i seen =
     (case GetPubKey info of
        Inl err \<Rightarrow> Inl (Wrap ''attester'' err)
      | Inr pk \<Rightarrow>
     (case ext_bech32_Decode e (ai_ConsensusAddress info) of
        None \<Rightarrow> Inl (ErrorString ''attester: decode consensus_address'')
      | Some (_, rawAddr) \<Rightarrow>
     and_then (guard (rawAddr = ext_pk_Address e pk)
       (ErrorString ''attester: pubkey address mismatch'')) (\<lambda>_.
      let derived = ext_ConsAddress e (ext_pk_Address e pk) in
     and_then (guard (fmlookup seen derived = None)
       (ErrorString ''attester: duplicate consensus address after normalization'')) (\<lambda>_.
     and_then (load_attesters e rest (Suc i) (fmupd derived i seen)) (\<lambda>rest'.
     Inr (info\<lparr>ai_ConsensusAddress := derived\<rparr> # rest'))))))"

text \<open>The sort key; the \<open>_\<close> in \<open>pki, _ := GetPubKey()\<close> drops an error that cannot occur here.\<close>

definition attester_sort_key :: "ext \<Rightarrow> attester_info \<Rightarrow> bytes" where
  "attester_sort_key e info =
     (case GetPubKey info of Inl _ \<Rightarrow> [] | Inr pk \<Rightarrow> ext_pk_Address e pk)"

fun insert_attesters :: "nat \<Rightarrow> attester_info list \<Rightarrow> network_state \<Rightarrow> network_state" where
  "insert_attesters idx [] k = k"
| "insert_attesters idx (info # rest) k =
     (let k = SetAttesterInfo (ai_ConsensusAddress info) info k;
          k = SetAttesterSetMember (ai_ConsensusAddress info) k;
          k = SetValidatorIndex (ai_ConsensusAddress info) (of_nat idx) 1 k
      in insert_attesters (Suc idx) rest k)"

definition setSoftConfirmed :: "int64 \<Rightarrow> network_state \<Rightarrow> unit result \<times> network_state" where
  "setSoftConfirmed height k =
     (case fmlookup (StoredAttestationInfo k) height of
        None \<Rightarrow> (Inl CollectionsNotFound, k)
      | Some ab \<Rightarrow> (Inr (), k\<lparr>StoredAttestationInfo :=
            fmupd height (ab\<lparr>ab_SoftConfirmed := True\<rparr>) (StoredAttestationInfo k)\<rparr>))"

fun load_bitmaps ::
    "attestation_bitmap list \<Rightarrow> network_state \<Rightarrow> unit result \<times> network_state" where
  "load_bitmaps [] k = (Inr (), k)"
| "load_bitmaps (ab # rest) k =
     (let k = SetAttestationBitmap (ab_Height ab) (ab_Bitmap ab) k;
          k = k\<lparr>StoredAttestationInfo := fmupd (ab_Height ab) ab (StoredAttestationInfo k)\<rparr>
      in if ab_SoftConfirmed ab
         then (case setSoftConfirmed (ab_Height ab) k of
                 (Inl err, k) \<Rightarrow> (Inl err, k)
               | (Inr _, k) \<Rightarrow> load_bitmaps rest k)
         else load_bitmaps rest k)"

definition InitGenesis ::
    "ext \<Rightarrow> genesis_state \<Rightarrow> network_state \<Rightarrow> unit result \<times> network_state" where
  "InitGenesis e genState k =
     (let k = SetParams (gs_Params genState) k in
      case load_attesters e (gs_AttesterInfos genState) 0 fmempty of
        Inl err \<Rightarrow> (Inl err, k)
      | Inr attesters \<Rightarrow>
          let attesters = sort_key (attester_sort_key e) attesters;
              k = insert_attesters 0 attesters k
          in load_bitmaps (gs_AttestationBitmaps genState) k)"

subsection \<open>Export\<close>

text \<open>
  Sorting two or more attesters calls \<open>Address()\<close> on each key, which panics on a nil key.
\<close>

definition ExportGenesis :: "ext \<Rightarrow> network_state \<Rightarrow> genesis_state result" where
  "ExportGenesis e k =
     (let genesis = (DefaultGenesisState e)\<lparr>gs_Params := GetParams k\<rparr>;
          attesters = map snd (walk (AttesterInfo k)) in
      if 2 \<le> length attesters \<and> (\<exists>a\<in>set attesters. is_err (GetPubKey a))
      then Inl (Panic ''nil pointer dereference'')
      else
        let attesters = sort_key (attester_sort_key e) attesters;
            attestationBitmaps = map snd (walk (StoredAttestationInfo k))
        in Inr (genesis\<lparr>gs_AttesterInfos := attesters,
             gs_AttestationBitmaps := attestationBitmaps, gs_ValidatorIndices := []\<rparr>))"

subsection \<open>The validation loop\<close>

definition attester_valid :: "ext \<Rightarrow> attester_info \<Rightarrow> bool" where
  "attester_valid e info \<longleftrightarrow>
     (\<exists>pk hrp. GetPubKey info = Inr pk \<and>
        ext_bech32_Decode e (ai_ConsensusAddress info) = Some (hrp, ext_pk_Address e pk))"

definition normalize_attester :: "ext \<Rightarrow> attester_info \<Rightarrow> attester_info" where
  "normalize_attester e info =
     info\<lparr>ai_ConsensusAddress := ext_ConsAddress e (attester_sort_key e info)\<rparr>"

lemma GetPubKey_normalize_attester [simp]: "GetPubKey (normalize_attester e info) = GetPubKey info"
  by (simp add: normalize_attester_def GetPubKey_def)

lemma attester_sort_key_normalize_attester [simp]:
  "attester_sort_key e (normalize_attester e info) = attester_sort_key e info"
  by (simp add: attester_sort_key_def)

lemma load_attesters_iff:
  "load_attesters e infos i seen = Inr out \<longleftrightarrow>
     list_all (attester_valid e) infos \<and>
     out = map (normalize_attester e) infos \<and>
     distinct (map ai_ConsensusAddress out) \<and>
     (\<forall>a \<in> set out. fmlookup seen (ai_ConsensusAddress a) = None)"
proof (induction infos arbitrary: i seen out)
  case Nil
  then show ?case by auto
next
  case (Cons info infos)
  show ?case
  proof (cases "attester_valid e info")
    case False
    then show ?thesis
      by (auto simp: attester_valid_def result_iffs Let_def split: sum.splits option.splits)
  next
    case True
    then obtain pk hrp where pk: "GetPubKey info = Inr pk"
      "ext_bech32_Decode e (ai_ConsensusAddress info) = Some (hrp, ext_pk_Address e pk)"
      by (auto simp: attester_valid_def)
    then have n: "normalize_attester e info = info\<lparr>ai_ConsensusAddress := ext_ConsAddress e (ext_pk_Address e pk)\<rparr>"
      by (simp add: normalize_attester_def attester_sort_key_def)
    show ?thesis using True pk
      by (auto simp: result_iffs Let_def Cons.IH n)
  qed
qed

subsection \<open>The numbering loop\<close>

lemma insert_attesters_frame [simp]:
  "Params (insert_attesters n l k) = Params k"
  "AttestationBitmap (insert_attesters n l k) = AttestationBitmap k"
  "EpochBitmap (insert_attesters n l k) = EpochBitmap k"
  "Signatures (insert_attesters n l k) = Signatures k"
  "StoredAttestationInfo (insert_attesters n l k) = StoredAttestationInfo k"
  "LastAttestedHeight (insert_attesters n l k) = LastAttestedHeight k"
  "mut (insert_attesters n l k) = mut k"
  by (induction l arbitrary: n k)
    (simp_all add: Let_def SetAttesterInfo_def SetAttesterSetMember_def SetValidatorIndex_def)

lemma AttesterSet_insert_attesters:
  "AttesterSet (insert_attesters n l k) =
     AttesterSet k |\<union>| fset_of_list (map ai_ConsensusAddress l)"
  by (induction l arbitrary: n k)
    (auto simp: Let_def SetAttesterInfo_def SetAttesterSetMember_def SetValidatorIndex_def)

lemma insert_attesters_other:
  "a \<notin> ai_ConsensusAddress ` set l \<Longrightarrow>
     fmlookup (AttesterInfo (insert_attesters n l k)) a = fmlookup (AttesterInfo k) a \<and>
     fmlookup (ValidatorIndex (insert_attesters n l k)) a = fmlookup (ValidatorIndex k) a"
  by (induction l arbitrary: n k)
    (auto simp: Let_def SetAttesterInfo_def SetAttesterSetMember_def SetValidatorIndex_def)

lemma insert_attesters_nth:
  assumes "distinct (map ai_ConsensusAddress l)" and "i < length l"
  shows "fmlookup (AttesterInfo (insert_attesters n l k)) (ai_ConsensusAddress (l ! i)) = Some (l ! i) \<and>
    fmlookup (ValidatorIndex (insert_attesters n l k)) (ai_ConsensusAddress (l ! i)) =
      Some (of_nat (n + i))"
  using assms
proof (induction l arbitrary: n k i)
  case Nil
  then show ?case by simp
next
  case (Cons info l)
  show ?case
  proof (cases i)
    case 0
    then show ?thesis using Cons.prems
      by (simp add: Let_def insert_attesters_other SetAttesterInfo_def SetAttesterSetMember_def
          SetValidatorIndex_def)
  next
    case (Suc j)
    then show ?thesis using Cons.prems Cons.IH [of j "Suc n"] by (simp add: Let_def)
  qed
qed

lemma insert_attesters_power:
  "fmlookup (ValidatorPower (insert_attesters n l k)) w =
     (if w \<in> of_nat ` {n..<n + length l} then Some 1 else fmlookup (ValidatorPower k) w)"
proof (induction l arbitrary: n k)
  case Nil
  then show ?case by auto
next
  case (Cons info l)
  have "{n..<n + length (info # l)} = insert n {Suc n..<Suc n + length l}" by auto
  then show ?case
    by (simp add: Let_def Cons.IH SetAttesterInfo_def SetAttesterSetMember_def SetValidatorIndex_def)
qed

subsection \<open>A numbered registry is consistent\<close>

lemma of_nat_uint16_small: "i < 2 ^ 16 \<Longrightarrow> unat (of_nat i :: uint16) = i"
  by (simp add: unsigned_of_nat take_bit_nat_eq_self)

lemma empty_registry [simp]:
  "AttesterSet NewKeeper = {||}" "AttesterInfo NewKeeper = fmempty"
  "ValidatorIndex NewKeeper = fmempty" "ValidatorPower NewKeeper = fmempty"
  "AttestationBitmap NewKeeper = fmempty" "EpochBitmap NewKeeper = fmempty"
  "Signatures NewKeeper = fmempty" "StoredAttestationInfo NewKeeper = fmempty"
  by (simp_all add: NewKeeper_def)

definition empty_attesters :: "network_state \<Rightarrow> bool" where
  "empty_attesters k \<longleftrightarrow> AttesterSet k = {||} \<and> AttesterInfo k = fmempty \<and> ValidatorIndex k = fmempty"

lemma registry_lookups:
  assumes "empty_attesters k" and "distinct (map ai_ConsensusAddress l)"
  defines "r \<equiv> insert_attesters 0 l k"
  shows "AttesterSet r = fset_of_list (map ai_ConsensusAddress l)"
    "fmdom (AttesterInfo r) = AttesterSet r" "fmdom (ValidatorIndex r) = AttesterSet r"
    "attester_count r = length l"
    "i < length l \<Longrightarrow> index_of r (ai_ConsensusAddress (l ! i)) = unat (of_nat i :: uint16)"
proof -
  note emp = assms(1) [unfolded empty_attesters_def]
  show set: "AttesterSet r = fset_of_list (map ai_ConsensusAddress l)"
    using emp by (simp add: r_def AttesterSet_insert_attesters)
  have dom: "(a |\<in>| fmdom (AttesterInfo r) \<longleftrightarrow> a |\<in>| AttesterSet r) \<and>
      (a |\<in>| fmdom (ValidatorIndex r) \<longleftrightarrow> a |\<in>| AttesterSet r)" for a
  proof (cases "a \<in> ai_ConsensusAddress ` set l")
    case True
    then obtain i where "i < length l" "a = ai_ConsensusAddress (l ! i)"
      by (auto simp: in_set_conv_nth)
    then show ?thesis
      using insert_attesters_nth [OF assms(2), of i 0 k] True set
      by (auto simp: r_def fset_of_list_elem intro: fmdomI)
  next
    case False
    then show ?thesis using insert_attesters_other [OF False, of 0 k] emp set
      by (auto simp: r_def fset_of_list_elem fmlookup_dom_iff)
  qed
  then show "fmdom (AttesterInfo r) = AttesterSet r" "fmdom (ValidatorIndex r) = AttesterSet r"
    by (auto simp: fset_eq_iff)
  show "attester_count r = length l"
    using distinct_card [OF assms(2)]
    by (simp add: attester_count_def set fcard.rep_eq fset_of_list.rep_eq)
  show "i < length l \<Longrightarrow> index_of r (ai_ConsensusAddress (l ! i)) = unat (of_nat i :: uint16)"
    using insert_attesters_nth [OF assms(2), of i 0 k] by (simp add: index_of_lookup r_def)
qed

lemma registry_ok:
  assumes "empty_attesters k" and "distinct (map ai_ConsensusAddress l)" and "length l \<le> 2 ^ 16"
  shows "attester_set_ok (insert_attesters 0 l k)"
proof -
  let ?r = "insert_attesters 0 l k"
  note reg = registry_lookups [OF assms(1,2)]
  have idx: "index_of ?r (ai_ConsensusAddress (l ! i)) = i" if "i < length l" for i
    using reg(5) [OF that] that assms(3) by (simp add: of_nat_uint16_small)
  have "bij_betw (index_of ?r) (fset (AttesterSet ?r)) {..<attester_count ?r}"
  proof (rule bij_betw_byWitness [where f' = "\<lambda>i. ai_ConsensusAddress (l ! i)"])
    show "\<forall>a\<in>fset (AttesterSet ?r). ai_ConsensusAddress (l ! index_of ?r a) = a"
      by (auto simp: reg(1) fset_of_list.rep_eq in_set_conv_nth idx)
    show "\<forall>i\<in>{..<attester_count ?r}. index_of ?r (ai_ConsensusAddress (l ! i)) = i"
      by (simp add: reg(4) idx)
    show "index_of ?r ` fset (AttesterSet ?r) \<subseteq> {..<attester_count ?r}"
      by (auto simp: reg(1,4) fset_of_list.rep_eq in_set_conv_nth idx)
    show "(\<lambda>i. ai_ConsensusAddress (l ! i)) ` {..<attester_count ?r} \<subseteq> fset (AttesterSet ?r)"
      by (auto simp: reg(1,4) fset_of_list.rep_eq)
  qed
  then show ?thesis
    using assms(3) reg(2-4) by (auto simp: attester_set_ok_def insert_attesters_power)
qed

subsection \<open>Loading historical bitmaps\<close>

definition with_bitmap :: "attestation_bitmap \<Rightarrow> network_state \<Rightarrow> network_state" where
  "with_bitmap ab k =
     k\<lparr>AttestationBitmap := fmupd (ab_Height ab) (ab_Bitmap ab) (AttestationBitmap k),
       StoredAttestationInfo := fmupd (ab_Height ab) ab (StoredAttestationInfo k)\<rparr>"

lemma fmupd_idem [simp]: "fmupd k v (fmupd k w m) = fmupd k v m"
  by (rule fmap_ext) simp

lemma load_bitmaps_Cons: "load_bitmaps (ab # rest) k = load_bitmaps rest (with_bitmap ab k)"
proof (cases "ab_SoftConfirmed ab")
  case True
  then have eq: "ab\<lparr>ab_SoftConfirmed := True\<rparr> = ab" by simp
  show ?thesis
    using True by (simp add: Let_def setSoftConfirmed_def SetAttestationBitmap_def with_bitmap_def eq)
next
  case False
  then show ?thesis by (simp add: Let_def SetAttestationBitmap_def with_bitmap_def)
qed

lemma with_bitmap_lookup [simp]:
  "fmlookup (StoredAttestationInfo (with_bitmap ab k)) h =
     (if h = ab_Height ab then Some ab else fmlookup (StoredAttestationInfo k) h)"
  "fmlookup (AttestationBitmap (with_bitmap ab k)) h =
     (if h = ab_Height ab then Some (ab_Bitmap ab) else fmlookup (AttestationBitmap k) h)"
  by (simp_all add: with_bitmap_def)

lemma load_bitmaps_eq: "load_bitmaps abm k = (Inr (), fold with_bitmap abm k)"
  by (induction abm arbitrary: k) (simp_all add: load_bitmaps_Cons del: load_bitmaps.simps(2))

lemma fold_with_bitmap_frame [simp]:
  "AttesterSet (fold with_bitmap abm k) = AttesterSet k"
  "AttesterInfo (fold with_bitmap abm k) = AttesterInfo k"
  "ValidatorIndex (fold with_bitmap abm k) = ValidatorIndex k"
  "ValidatorPower (fold with_bitmap abm k) = ValidatorPower k"
  "Params (fold with_bitmap abm k) = Params k"
  "mut (fold with_bitmap abm k) = mut k"
  "EpochBitmap (fold with_bitmap abm k) = EpochBitmap k"
  "Signatures (fold with_bitmap abm k) = Signatures k"
  "LastAttestedHeight (fold with_bitmap abm k) = LastAttestedHeight k"
  by (induction abm arbitrary: k) (simp_all add: with_bitmap_def)

lemma fold_with_bitmap_other:
  "h \<notin> ab_Height ` set abm \<Longrightarrow>
     fmlookup (StoredAttestationInfo (fold with_bitmap abm k)) h = fmlookup (StoredAttestationInfo k) h \<and>
     fmlookup (AttestationBitmap (fold with_bitmap abm k)) h = fmlookup (AttestationBitmap k) h"
  by (induction abm arbitrary: k) simp_all

lemma fold_with_bitmap_mem:
  "distinct (map ab_Height abm) \<Longrightarrow> ab \<in> set abm \<Longrightarrow>
     fmlookup (StoredAttestationInfo (fold with_bitmap abm k)) (ab_Height ab) = Some ab \<and>
     fmlookup (AttestationBitmap (fold with_bitmap abm k)) (ab_Height ab) = Some (ab_Bitmap ab)"
proof (induction abm arbitrary: k)
  case (Cons x abm)
  then show ?case
    using fold_with_bitmap_other [of "ab_Height ab" abm "with_bitmap x k"] by auto
qed simp

subsection \<open>Import gives a consistent registry\<close>

text \<open>The registry of a state was built by numbering the ascending list \<open>l\<close> of valid attesters.\<close>

definition registry_from :: "ext \<Rightarrow> attester_info list \<Rightarrow> network_state \<Rightarrow> bool" where
  "registry_from e l k \<longleftrightarrow>
     AttesterSet k = AttesterSet (insert_attesters 0 l NewKeeper) \<and>
     AttesterInfo k = AttesterInfo (insert_attesters 0 l NewKeeper) \<and>
     ValidatorIndex k = ValidatorIndex (insert_attesters 0 l NewKeeper) \<and>
     ValidatorPower k = ValidatorPower (insert_attesters 0 l NewKeeper) \<and>
     sorted_wrt (<) (map (attester_sort_key e) l) \<and>
     list_all (\<lambda>a. \<not> is_err (GetPubKey a) \<and>
       ai_ConsensusAddress a = ext_ConsAddress e (attester_sort_key e a)) l \<and>
     distinct (map ai_ConsensusAddress l)"

lemma insert_attesters_cong:
  "AttesterSet k = AttesterSet k' \<Longrightarrow> AttesterInfo k = AttesterInfo k' \<Longrightarrow>
   ValidatorIndex k = ValidatorIndex k' \<Longrightarrow> ValidatorPower k = ValidatorPower k' \<Longrightarrow>
     AttesterSet (insert_attesters n l k) = AttesterSet (insert_attesters n l k') \<and>
     AttesterInfo (insert_attesters n l k) = AttesterInfo (insert_attesters n l k') \<and>
     ValidatorIndex (insert_attesters n l k) = ValidatorIndex (insert_attesters n l k') \<and>
     ValidatorPower (insert_attesters n l k) = ValidatorPower (insert_attesters n l k')"
  by (induction l arbitrary: n k k')
    (simp_all add: Let_def SetAttesterInfo_def SetAttesterSetMember_def SetValidatorIndex_def)

lemma registry_from_ok:
  assumes "registry_from e l k" and "length l \<le> 2 ^ 16"
  shows "attester_set_ok k"
proof -
  let ?r = "insert_attesters 0 l NewKeeper"
  have "attester_set_ok ?r"
    using assms by (intro registry_ok) (auto simp: registry_from_def empty_attesters_def)
  moreover have "index_of k = index_of ?r" "attester_count k = attester_count ?r"
    using assms(1)
    by (auto simp: registry_from_def index_of_def GetValidatorIndex_def attester_count_def fun_eq_iff)
  ultimately show ?thesis using assms(1) by (simp add: attester_set_ok_def registry_from_def)
qed

lemma sorted_distinct_strict: "sorted xs \<Longrightarrow> distinct xs \<Longrightarrow> sorted_wrt (<) xs"
  by (simp add: strict_sorted_iff)

lemma distinct_sort_keys:
  assumes "distinct (map ai_ConsensusAddress l)"
    and "\<forall>a\<in>set l. ai_ConsensusAddress a = ext_ConsAddress e (attester_sort_key e a)"
  shows "distinct (map (attester_sort_key e) l)"
  using assms by (auto simp: distinct_map inj_on_def)

lemma distinct_map_sort_key:
  "distinct (map g (sort_key f xs)) = distinct (map g xs)"
proof -
  have "mset (map g (sort_key f xs)) = mset (map g xs)" by simp
  then show ?thesis by (rule mset_eq_imp_distinct_iff)
qed

lemma InitGenesis_registry:
  assumes "InitGenesis e gs NewKeeper = (Inr (), k)"
  defines "l \<equiv> sort_key (attester_sort_key e) (map (normalize_attester e) (gs_AttesterInfos gs))"
  shows "registry_from e l k" and "Params k = Some (gs_Params gs)"
    and "k = fold with_bitmap (gs_AttestationBitmaps gs)
      (insert_attesters 0 l (SetParams (gs_Params gs) NewKeeper))"
    and "list_all (attester_valid e) (gs_AttesterInfos gs)"
proof -
  from assms(1) obtain out where out: "load_attesters e (gs_AttesterInfos gs) 0 fmempty = Inr out"
    by (auto simp: InitGenesis_def Let_def split: sum.splits)
  then have valid: "list_all (attester_valid e) (gs_AttesterInfos gs)"
    and map: "out = map (normalize_attester e) (gs_AttesterInfos gs)"
    and dist: "distinct (map ai_ConsensusAddress out)"
    by (auto simp: load_attesters_iff)
  then show "list_all (attester_valid e) (gs_AttesterInfos gs)" by simp
  show k: "k = fold with_bitmap (gs_AttestationBitmaps gs)
      (insert_attesters 0 l (SetParams (gs_Params gs) NewKeeper))"
    using assms(1) out by (simp add: InitGenesis_def Let_def load_bitmaps_eq map l_def)
  then show "Params k = Some (gs_Params gs)" by (simp add: SetParams_def)
  have l: "l = sort_key (attester_sort_key e) out" by (simp add: l_def map)
  have addr: "\<forall>a\<in>set l. ai_ConsensusAddress a = ext_ConsAddress e (attester_sort_key e a)"
    by (auto simp: l map normalize_attester_def attester_sort_key_def GetPubKey_def)
  have dl: "distinct (map ai_ConsensusAddress l)" using dist by (simp add: l distinct_map_sort_key)
  have pk: "\<forall>a\<in>set l. \<not> is_err (GetPubKey a)"
    using valid by (auto simp: l map list_all_iff attester_valid_def)
  have "sorted_wrt (<) (map (attester_sort_key e) l)"
    by (rule sorted_distinct_strict [OF _ distinct_sort_keys [OF dl addr]]) (simp add: l)
  then show "registry_from e l k"
    using insert_attesters_cong [of "SetParams (gs_Params gs) NewKeeper" NewKeeper 0 l] dl addr pk
    by (auto simp: registry_from_def k SetParams_def list_all_iff)
qed

lemma registry_index_order:
  assumes "registry_from e l k" and "length l \<le> 2 ^ 16"
    and "fmlookup (AttesterInfo k) a = Some ia" and "fmlookup (AttesterInfo k) b = Some ib"
  shows "index_of k a < index_of k b \<longleftrightarrow> attester_sort_key e ia < attester_sort_key e ib"
proof -
  let ?r = "insert_attesters 0 l NewKeeper"
  have reg: "AttesterInfo k = AttesterInfo ?r" "index_of k = index_of ?r"
    "distinct (map ai_ConsensusAddress l)" "sorted_wrt (<) (map (attester_sort_key e) l)"
    using assms(1) by (auto simp: registry_from_def index_of_def GetValidatorIndex_def fun_eq_iff)
  have emp: "empty_attesters NewKeeper" by (simp add: empty_attesters_def)
  have pos: "\<exists>i < length l. c = ai_ConsensusAddress (l ! i) \<and> ic = l ! i \<and> index_of k c = i"
    if "fmlookup (AttesterInfo k) c = Some ic" for c ic
  proof -
    have "c |\<in>| AttesterSet ?r"
      using that registry_lookups(2) [OF emp reg(3)] by (metis reg(1) fmdomI)
    then obtain i where i: "i < length l" "c = ai_ConsensusAddress (l ! i)"
      by (auto simp: registry_lookups(1) [OF emp reg(3)] fset_of_list.rep_eq in_set_conv_nth)
    then show ?thesis
      using that insert_attesters_nth [OF reg(3) i(1), of 0 NewKeeper] assms(2)
        registry_lookups(5) [OF emp reg(3) i(1)]
      by (auto simp: reg(1,2) of_nat_uint16_small)
  qed
  obtain i j where i: "i < length l" "ia = l ! i" "index_of k a = i"
    and j: "j < length l" "ib = l ! j" "index_of k b = j"
    using pos [OF assms(3)] pos [OF assms(4)] by auto
  have lt: "p < q \<Longrightarrow> q < length l \<Longrightarrow>
      attester_sort_key e (l ! p) < attester_sort_key e (l ! q)" for p q
    using reg(4) by (simp add: sorted_wrt_iff_nth_less)
  show ?thesis
    using lt [of i j] lt [of j i] i j by (cases i j rule: linorder_cases) auto
qed

text \<open>
  C20: a successful genesis import of at most 65536 attesters into a fresh store gives a
  consistent attester set: the registered infos, the membership set and the indices agree, the
  indices number the attesters without gaps in ascending order of their key address (the order
  CometBFT gives a validator set), and every attester has power 1.
\<close>

theorem InitGenesis_consistent:
  assumes "InitGenesis e gs NewKeeper = (Inr (), k)" and "length (gs_AttesterInfos gs) \<le> 2 ^ 16"
  shows "attester_set_ok k \<and> attester_count k = length (gs_AttesterInfos gs) \<and>
    (\<forall>a b ia ib. fmlookup (AttesterInfo k) a = Some ia \<longrightarrow> fmlookup (AttesterInfo k) b = Some ib \<longrightarrow>
       (index_of k a < index_of k b \<longleftrightarrow> attester_sort_key e ia < attester_sort_key e ib))"
proof -
  let ?l = "sort_key (attester_sort_key e) (map (normalize_attester e) (gs_AttesterInfos gs))"
  have reg: "registry_from e ?l k" by (rule InitGenesis_registry(1) [OF assms(1)])
  have len: "length ?l \<le> 2 ^ 16" using assms(2) by simp
  have "attester_count k = length ?l"
    using reg registry_lookups(4) [of NewKeeper ?l]
    by (simp add: registry_from_def attester_count_def empty_attesters_def)
  then show ?thesis
    using registry_from_ok [OF reg len] registry_index_order [OF reg len] by simp
qed

text \<open>A genesis without historical bitmaps and with valid parameters starts in the invariant.\<close>

lemma InitGenesis_inv:
  assumes init: "InitGenesis (env_ext env) gs NewKeeper = (Inr (), k)"
    and "length (gs_AttesterInfos gs) \<le> 2 ^ 16" "params_ok (env_ext env) (gs_Params gs)"
    and "gs_AttestationBitmaps gs = []"
  shows "network_inv env chain k"
proof -
  let ?l = "sort_key (attester_sort_key (env_ext env)) (map (normalize_attester (env_ext env)) (gs_AttesterInfos gs))"
  have "attester_set_ok k"
    by (rule registry_from_ok [OF InitGenesis_registry(1) [OF init]]) (use assms(2) in simp)
  moreover have "AttestationBitmap k = fmempty" "EpochBitmap k = fmempty"
    using InitGenesis_registry(3) [OF init] assms(4) by (auto simp: SetParams_def)
  ultimately show ?thesis
    using InitGenesis_registry(2) [OF init] assms(3) by (simp add: network_inv_def)
qed

subsection \<open>Too many attesters\<close>

text \<open>
  the import does not bound the attester list, and the index is the loop position cut to
  16 bits. With more than 65536 attesters a successful import gives two different attesters the
  same bitmap index, so the vote of one is taken for the vote of the other.
\<close>

lemma InitGenesis_index_collision:
  assumes "InitGenesis e gs NewKeeper = (Inr (), k)" and "2 ^ 16 < length (gs_AttesterInfos gs)"
  shows "\<exists>a b. a \<noteq> b \<and> a |\<in>| AttesterSet k \<and> b |\<in>| AttesterSet k \<and>
    GetValidatorIndex k a = GetValidatorIndex k b"
proof -
  let ?l = "sort_key (attester_sort_key e) (map (normalize_attester e) (gs_AttesterInfos gs))"
  let ?addr = "\<lambda>i. ai_ConsensusAddress (?l ! i)"
  have reg: "registry_from e ?l k" by (rule InitGenesis_registry(1) [OF assms(1)])
  then have dist: "distinct (map ai_ConsensusAddress ?l)" by (simp add: registry_from_def)
  have len: "2 ^ 16 < length ?l" "0 < length ?l" using assms(2) by auto
  have idx: "fmlookup (ValidatorIndex k) (?addr i) = Some (of_nat i)" if "i < length ?l" for i
    using insert_attesters_nth [OF dist that, of 0 NewKeeper] reg
    by (simp add: registry_from_def)
  have mem: "?addr i |\<in>| AttesterSet k" if "i < length ?l" for i
    using fmdomI [OF idx [OF that]] reg registry_lookups(3) [of NewKeeper ?l] dist
    by (simp add: registry_from_def empty_attesters_def)
  have "?addr 0 \<noteq> ?addr (2 ^ 16)"
    using nth_eq_iff_index_eq [OF dist, of 0 "2 ^ 16"] len by (auto simp: nth_map)
  moreover have "(of_nat (2 ^ 16) :: uint16) = 0" by simp
  ultimately show ?thesis
    using idx [OF len(1)] idx [OF len(2)] mem [OF len(1)] mem [OF len(2)]
    by (intro exI [of _ "?addr 0"] exI [of _ "?addr (2 ^ 16)"]) (simp add: GetValidatorIndex_def)
qed

subsection \<open>Export and import\<close>

lemma load_attesters_registry:
  assumes "registry_from e l k"
    and bech32: "\<And>a. \<exists>hrp. ext_bech32_Decode e (ext_ConsAddress e a) = Some (hrp, a)"
  shows "load_attesters e l 0 fmempty = Inr l"
proof -
  have norm: "normalize_attester e a = a \<and> attester_valid e a" if "a \<in> set l" for a
  proof -
    from assms(1) that have a: "\<not> is_err (GetPubKey a)"
      "ai_ConsensusAddress a = ext_ConsAddress e (attester_sort_key e a)"
      by (auto simp: registry_from_def list_all_iff)
    then obtain pk where pk: "GetPubKey a = Inr pk" by (auto simp: not_is_err_iff)
    have "normalize_attester e a = a" using a(2) by (simp add: normalize_attester_def)
    moreover have "attester_valid e a"
      using bech32 [of "ext_pk_Address e pk"] pk a(2)
      by (auto simp: attester_valid_def attester_sort_key_def)
    ultimately show ?thesis by simp
  qed
  then have "map (normalize_attester e) l = l" by (simp add: map_idI)
  then show ?thesis
    using assms(1) norm by (auto simp: load_attesters_iff list_all_iff registry_from_def)
qed

lemma walk_registry:
  assumes "registry_from e l k"
  shows "mset (map snd (walk (AttesterInfo k))) = mset l"
proof -
  let ?r = "insert_attesters 0 l NewKeeper"
  have ai: "AttesterInfo k = AttesterInfo ?r" and dist: "distinct (map ai_ConsensusAddress l)"
    using assms by (auto simp: registry_from_def)
  have emp: "empty_attesters NewKeeper" by (simp add: empty_attesters_def)
  have look: "fmlookup (AttesterInfo ?r) a = Some x \<longleftrightarrow> x \<in> set l \<and> a = ai_ConsensusAddress x"
    for a x
  proof -
    have dom: "fmlookup (AttesterInfo ?r) a \<noteq> None \<longleftrightarrow> a \<in> ai_ConsensusAddress ` set l"
      using registry_lookups(1,2) [OF emp dist]
      by (metis (mono_tags) fmdom_notD fmdom_notI fset_of_list_elem list.set_map)
    have "fmlookup (AttesterInfo ?r) (ai_ConsensusAddress y) = Some y" if "y \<in> set l" for y
      using that insert_attesters_nth [OF dist, of _ 0 NewKeeper] by (auto simp: in_set_conv_nth)
    with dom show ?thesis by auto
  qed
  have "set (map snd (walk (AttesterInfo k))) = set l"
    by (force simp: set_walk ai look image_iff)
  moreover have "distinct (map snd (walk (AttesterInfo k)))"
  proof -
    have "map snd (walk (AttesterInfo ?r)) = map (\<lambda>a. the (fmlookup (AttesterInfo ?r) a)) (keys_asc (AttesterInfo ?r))"
      by (simp add: walk_def)
    moreover have "inj_on (\<lambda>a. the (fmlookup (AttesterInfo ?r) a)) (set (keys_asc (AttesterInfo ?r)))"
    proof (rule inj_on_inverseI [where g = ai_ConsensusAddress])
      fix a assume "a \<in> set (keys_asc (AttesterInfo ?r))"
      then obtain x where x: "fmlookup (AttesterInfo ?r) a = Some x" by (auto simp: fmlookup_dom_iff)
      then show "ai_ConsensusAddress (the (fmlookup (AttesterInfo ?r) a)) = a"
        using look [of a x] by simp
    qed
    ultimately show ?thesis by (simp add: ai distinct_map)
  qed
  moreover have "distinct l" using dist by (simp add: distinct_map)
  ultimately show ?thesis by (metis set_eq_iff_mset_eq_distinct)
qed

lemma sort_walk_registry:
  assumes "registry_from e l k"
  shows "sort_key (attester_sort_key e) (map snd (walk (AttesterInfo k))) = l"
proof -
  have sl: "sorted_wrt (<) (map (attester_sort_key e) l)" using assms by (simp add: registry_from_def)
  then have "sorted (map (attester_sort_key e) l)" "inj_on (attester_sort_key e) (set l)"
    by (auto simp: strict_sorted_iff distinct_map)
  then show ?thesis
    using sort_key_eqI [OF walk_registry [OF assms], of "attester_sort_key e"]
      walk_registry [OF assms]
    by (metis mset_eq_setD sorted_distinct_sort_key_id)
qed

text \<open>The stored infos are keyed by their own height.\<close>

definition stored_keys_ok :: "network_state \<Rightarrow> bool" where
  "stored_keys_ok k \<longleftrightarrow>
     (\<forall>h ab. fmlookup (StoredAttestationInfo k) h = Some ab \<longrightarrow> ab_Height ab = h)"

lemma reload_bitmaps:
  assumes "stored_keys_ok k" and "StoredAttestationInfo k0 = fmempty" "AttestationBitmap k0 = fmempty"
  defines "k1 \<equiv> fold with_bitmap (map snd (walk (StoredAttestationInfo k))) k0"
  shows "StoredAttestationInfo k1 = StoredAttestationInfo k"
    and "AttestationBitmap k1 = fmmap ab_Bitmap (StoredAttestationInfo k)"
proof -
  let ?m = "StoredAttestationInfo k" and ?l = "map snd (walk (StoredAttestationInfo k))"
  have set: "ab \<in> set ?l \<longleftrightarrow> fmlookup ?m (ab_Height ab) = Some ab" for ab
    using assms(1) by (force simp: set_walk stored_keys_ok_def image_iff)
  have "map ab_Height ?l = keys_asc ?m"
    using assms(1) by (auto simp: walk_def stored_keys_ok_def fmlookup_dom_iff intro!: map_idI)
  then have dist: "distinct (map ab_Height ?l)" by simp
  have look: "fmlookup (StoredAttestationInfo k1) h = fmlookup ?m h \<and>
      fmlookup (AttestationBitmap k1) h = map_option ab_Bitmap (fmlookup ?m h)" for h
  proof (cases "fmlookup ?m h")
    case None
    then have "h \<notin> ab_Height ` set ?l" using set by (metis imageE option.distinct(1))
    then show ?thesis
      using None fold_with_bitmap_other [of h ?l k0] assms(2,3) by (simp add: k1_def)
  next
    case (Some ab)
    then have "ab \<in> set ?l" "ab_Height ab = h" using assms(1) set by (auto simp: stored_keys_ok_def)
    then show ?thesis
      using Some fold_with_bitmap_mem [OF dist, of ab k0] by (simp add: k1_def)
  qed
  then show "StoredAttestationInfo k1 = ?m" "AttestationBitmap k1 = fmmap ab_Bitmap ?m"
    by (auto intro!: fmap_ext)
qed

text \<open>
  C25: exporting and re-importing. For a state whose registry came from genesis, export
  succeeds, and importing the exported genesis into a fresh store succeeds and restores the
  parameters, the attester infos, the attester set, every index, every power and the stored
  attestation infos; the bitmaps that come back are those of the stored infos. The votes
  themselves, the epoch bitmaps and the last attested height are not exported: they restart
  empty.
\<close>

theorem genesis_roundtrip:
  assumes reg: "registry_from e l k" and st: "stored_keys_ok k" and p: "Params k = Some p"
    and bech32: "\<And>a. \<exists>hrp. ext_bech32_Decode e (ext_ConsAddress e a) = Some (hrp, a)"
  shows "\<exists>gs k'. ExportGenesis e k = Inr gs \<and> InitGenesis e gs NewKeeper = (Inr (), k') \<and>
    Params k' = Params k \<and> AttesterInfo k' = AttesterInfo k \<and> AttesterSet k' = AttesterSet k \<and>
    ValidatorIndex k' = ValidatorIndex k \<and> ValidatorPower k' = ValidatorPower k \<and>
    StoredAttestationInfo k' = StoredAttestationInfo k \<and>
    AttestationBitmap k' = fmmap ab_Bitmap (StoredAttestationInfo k) \<and>
    Signatures k' = fmempty \<and> EpochBitmap k' = fmempty \<and> LastAttestedHeight k' = None"
proof -
  have "set (map snd (walk (AttesterInfo k))) = set l"
    using walk_registry [OF reg] by (rule mset_eq_setD)
  then have "\<forall>a\<in>set (map snd (walk (AttesterInfo k))). \<not> is_err (GetPubKey a)"
    using reg by (auto simp: registry_from_def list_all_iff)
  then obtain gs where gs: "ExportGenesis e k = Inr gs" "gs_AttesterInfos gs = l"
    "gs_Params gs = p" "gs_AttestationBitmaps gs = map snd (walk (StoredAttestationInfo k))"
    using sort_walk_registry [OF reg] p
    by (auto simp: ExportGenesis_def Let_def DefaultGenesisState_def GetParams_def)
  let ?k0 = "insert_attesters 0 l (SetParams p NewKeeper)"
  let ?k' = "fold with_bitmap (map snd (walk (StoredAttestationInfo k))) ?k0"
  have "sort_key (attester_sort_key e) l = l"
    using reg by (intro sorted_distinct_sort_key_id) (simp add: registry_from_def strict_sorted_iff)
  then have init: "InitGenesis e gs NewKeeper = (Inr (), ?k')"
    by (simp add: InitGenesis_def gs(2-) load_attesters_registry [OF reg bech32] load_bitmaps_eq)
  have k0: "StoredAttestationInfo ?k0 = fmempty" "AttestationBitmap ?k0 = fmempty"
    by (simp_all add: SetParams_def)
  have "Params ?k' = Params k" "Signatures ?k' = fmempty" "EpochBitmap ?k' = fmempty"
    "LastAttestedHeight ?k' = None"
    using p by (simp_all add: SetParams_def NewKeeper_def)
  then show ?thesis
    using gs(1) init reload_bitmaps [OF st k0] reg
      insert_attesters_cong [of "SetParams p NewKeeper" NewKeeper 0 l]
    by (intro exI [of _ gs] exI [of _ ?k'] conjI) (auto simp: registry_from_def SetParams_def)
qed

end
