(* ===== verification/NetworkSystem.thy ===== *)
theory NetworkSystem
  imports NetworkQuery NetworkGenesis
begin

text \<open>
  The network module as a state machine: a chain started from a genesis delivers transactions
  to the message server, wires the block ID provider as the sequencer's store grows, and ends
  blocks. A transaction whose handler fails is discarded by the SDK, one that succeeds is
  committed; a failing end blocker halts the chain, so there is no step. The theorems are about
  every state such a chain reaches.
\<close>

subsection \<open>Steps\<close>

datatype net_action =
    TxAttest msg_attest
  | TxJoin msg_join_attester_set
  | TxLeave msg_leave_attester_set
  | TxUpdateParams msg_update_params
  | Wire "block_id_provider option"
  | EndBlock

type_synonym net_config = "int64 \<times> network_state"

definition deliver :: "unit result \<times> network_state \<Rightarrow> network_state \<Rightarrow> network_state" where
  "deliver r k = (case r of (Inl _, _) \<Rightarrow> k | (Inr _, k') \<Rightarrow> k')"

abbreviation at_height :: "int64 \<Rightarrow> string \<Rightarrow> sdk_ctx" where
  "at_height h chain \<equiv> \<lparr>BlockHeight = h, ChainID = chain\<rparr>"

inductive net_step ::
    "keeper_env \<Rightarrow> string \<Rightarrow> net_config \<Rightarrow> net_action \<Rightarrow> net_config \<Rightarrow> bool" for env chain where
  attest: "net_step env chain (h, k) (TxAttest m)
    (h, deliver (Attest env (at_height h chain) m k) k)"
| join: "net_step env chain (h, k) (TxJoin mj) (h, deliver (JoinAttesterSet mj k) k)"
| leave: "net_step env chain (h, k) (TxLeave ml) (h, deliver (LeaveAttesterSet ml k) k)"
| update_params: "net_step env chain (h, k) (TxUpdateParams mu) (h, deliver (UpdateParams env mu k) k)"
| wire: "provider_extends k p \<Longrightarrow>
    net_step env chain (h, k) (Wire p) (h, snd (SetBlockIDProvider p k))"
| end_block: "EndBlocker env (at_height h chain) k = (Inr (), k') \<Longrightarrow> h + 1 < 2 ^ 63 \<Longrightarrow>
    net_step env chain (h, k) EndBlock (h + 1, k')"

inductive_cases net_stepE: "net_step env chain (h, k) a s'"

inductive net_run ::
    "keeper_env \<Rightarrow> string \<Rightarrow> net_config \<Rightarrow> net_action list \<Rightarrow> net_config \<Rightarrow> bool" for env chain where
  start: "net_run env chain s [] s"
| more: "net_run env chain s acts s' \<Longrightarrow> net_step env chain s' a s'' \<Longrightarrow>
    net_run env chain s (acts @ [a]) s''"

text \<open>The chain starts from a validated genesis that fits the indices and has no history.\<close>

definition net_init :: "keeper_env \<Rightarrow> genesis_state \<Rightarrow> net_config \<Rightarrow> bool" where
  "net_init env gs s \<longleftrightarrow>
     GenesisState_Validate (env_ext env) gs = Inr () \<and> length (gs_AttesterInfos gs) \<le> 2 ^ 16 \<and>
     gs_AttestationBitmaps gs = [] \<and> 0 \<le> fst s \<and> fst s < 2 ^ 63 \<and>
     InitGenesis (env_ext env) gs NewKeeper = (Inr (), snd s)"

subsection \<open>The invariant along a run\<close>

lemma deliver_inv:
  assumes "network_inv env chain k" and "network_inv env chain (snd r)"
  shows "network_inv env chain (deliver r k)"
  using assms by (cases r) (simp add: deliver_def split: sum.splits)

lemma membership_noop [simp]:
  "deliver (JoinAttesterSet mj k) k = k" "deliver (LeaveAttesterSet ml k) k = k"
  by (simp_all add: deliver_def JoinAttesterSet_def LeaveAttesterSet_def)

lemma deliver_Attest:
  assumes "network_inv env chain k"
  shows "deliver (Attest env ctx m k) k =
    (if attest_allowed env ctx m k then attested env ctx m k else k)"
proof (cases "attest_allowed env ctx m k")
  case True
  then show ?thesis by (simp add: Attest_allowed [OF assms] deliver_def)
next
  case False
  then obtain err where "Attest env ctx m k = (Inl err, k)"
    using Attest_not_allowed [OF assms] by blast
  then show ?thesis using False by (simp add: deliver_def)
qed

definition config_ok :: "keeper_env \<Rightarrow> string \<Rightarrow> net_config \<Rightarrow> bool" where
  "config_ok env chain s \<longleftrightarrow> network_inv env chain (snd s) \<and> 0 \<le> fst s \<and> fst s < 2 ^ 63"

lemma processEpochEnd_result:
  "processEpochEnd env epoch k = (Inr (), k') \<Longrightarrow> k' = PruneOldBitmaps epoch k"
  by (auto simp: processEpochEnd_def Let_def ejectLowParticipants_def
      split: option.splits sum.splits if_splits)

lemma EndBlocker_result:
  assumes inv: "network_inv env chain k" and res: "EndBlocker env ctx k = (Inr (), k')"
  shows "k' = end_blocked env ctx k"
proof -
  from network_invD(2) [OF inv] obtain p where p: "Params k = Some p" by auto
  then have gp: "GetParams k = p" by (simp add: GetParams_def)
  have el: "EpochLength p \<noteq> 0" using network_inv_params(1) [OF inv] gp by simp
  have gp': "GetParams (checkpointed env h k) = p" for h by (simp add: GetParams_def p)
  let ?ep = "to_uint64 (BlockHeight ctx) div EpochLength p"
  let ?k1 = "if to_uint64 (BlockHeight ctx) mod EpochLength p = 0
    then checkpointed env (BlockHeight ctx) k else k"
  have "EndBlocker env ctx k =
      (if ?ep \<noteq> to_uint64 (int64_wrap (BlockHeight ctx + 1)) div EpochLength p
       then (case processEpochEnd env ?ep ?k1 of
               (Inl err, k) \<Rightarrow> (Inl (Wrap ''processing epoch end'' err), k)
             | (Inr _, k) \<Rightarrow> (Inr (), k))
       else (Inr (), ?k1))"
    using el processCheckpoint_ok [OF inv]
    by (simp add: EndBlocker_def IsCheckpointHeight_def p gp gp' GetCurrentEpoch_def go_div_def Let_def)
  then show ?thesis
    using res processEpochEnd_result [of env ?ep ?k1]
    by (simp add: end_blocked_def gp Let_def split: prod.splits sum.splits if_splits)
qed

lemma net_step_ok:
  assumes "net_step env chain s a s'" and "config_ok env chain s"
  shows "config_ok env chain s'"
  using assms
proof (induction rule: net_step.induct)
  case (attest h k m)
  then show ?case
    using Attest_inv [of env chain k "at_height h chain" m]
    by (auto simp: config_ok_def intro: deliver_inv)
next
  case (update_params h k mu)
  then show ?case by (auto simp: config_ok_def intro: deliver_inv UpdateParams_inv)
next
  case (wire k p h)
  then show ?case by (auto simp: config_ok_def intro: SetBlockIDProvider_inv)
next
  case (end_block h k k')
  then show ?case
    by (auto simp: config_ok_def dest: EndBlocker_result intro: end_blocked_inv)
qed simp_all

lemma net_run_ok:
  "net_run env chain s acts s' \<Longrightarrow> config_ok env chain s \<Longrightarrow> config_ok env chain s'"
  by (induction rule: net_run.induct) (auto dest: net_step_ok)

lemma net_init_ok: "net_init env gs s \<Longrightarrow> config_ok env chain s"
  using GenesisState_Validate_params [of "env_ext env" gs]
  by (auto simp: net_init_def config_ok_def intro: InitGenesis_inv)

text \<open>Names, keys, indices and powers are those of genesis in every later state.\<close>

definition same_registry :: "network_state \<Rightarrow> network_state \<Rightarrow> bool" where
  "same_registry k k' \<longleftrightarrow> AttesterSet k' = AttesterSet k \<and> AttesterInfo k' = AttesterInfo k \<and>
     ValidatorIndex k' = ValidatorIndex k \<and> ValidatorPower k' = ValidatorPower k"

lemma net_step_registry:
  assumes "net_step env chain s a s'" and "config_ok env chain s"
  shows "same_registry (snd s) (snd s')"
  using assms
proof (induction rule: net_step.induct)
  case (attest h k m)
  then have "network_inv env chain k" by (simp add: config_ok_def)
  then show ?case
    using same_attesters_attested [of k env "at_height h chain" m]
    by (simp add: deliver_Attest same_registry_def same_attesters_def)
next
  case (update_params h k mu)
  then show ?case
    by (auto simp: deliver_def UpdateParams_def same_registry_def SetParams_def EmitEvent_def
        split: sum.splits if_splits)
next
  case (wire k p h)
  then show ?case by (auto simp: SetBlockIDProvider_def same_registry_def split: option.splits)
next
  case (end_block h k k')
  then show ?case
    using end_blocked_same(1) [of k env "at_height h chain"]
    by (auto simp: config_ok_def same_registry_def same_attesters_def dest!: EndBlocker_result)
qed (simp_all add: same_registry_def)

lemma net_run_registry:
  "net_run env chain s acts s' \<Longrightarrow> config_ok env chain s \<Longrightarrow> same_registry (snd s) (snd s')"
proof (induction rule: net_run.induct)
  case (more s acts s' a s'')
  then show ?case
    using net_run_ok [OF more.hyps(1) more.prems] net_step_registry [OF more.hyps(2)]
    by (auto simp: same_registry_def)
qed (simp add: same_registry_def)

subsection \<open>What a reachable state guarantees\<close>



subsection \<open>Retention along a run\<close>

text \<open>
  The first retained height while block \<open>h\<close> is executed, in plain integers: nothing below it
  is accepted any more, and the end blocks before \<open>h\<close> have pruned nothing at or above it.
\<close>

definition retention_floor :: "params \<Rightarrow> int64 \<Rightarrow> int" where
  "retention_floor p h =
     int ((nat h div unat (EpochLength p) - 1 - unat (PruneAfter p)) * unat (EpochLength p))"

lemma retention_floor_mono: "h \<le> h' \<Longrightarrow> retention_floor p h \<le> retention_floor p h'"
  unfolding retention_floor_def of_nat_le_iff
  by (intro mult_le_mono1 diff_le_mono div_le_mono nat_mono)

lemma unat_epoch: "0 \<le> h \<Longrightarrow> h < 2 ^ 63 \<Longrightarrow> unat (to_uint64 h div el) = nat h div unat el"
  by (simp add: to_uint64_def unat_div unsigned_of_int take_bit_int_eq_self)

lemma boundary_prunes_iff:
  assumes ok: "EpochLength (GetParams k) \<noteq> 0" "PruneAfter (GetParams k) \<noteq> 0"
    and ep: "unat ep * unat (EpochLength (GetParams k)) < 2 ^ 63" and h: "0 \<le> h"
  shows "(case attestationRetentionBoundary k ep of None \<Rightarrow> False | Some b \<Rightarrow> prunesHeight b h) \<longleftrightarrow>
    h < int ((unat ep - unat (PruneAfter (GetParams k))) * unat (EpochLength (GetParams k)))"
proof (cases "attestationRetentionBoundary k ep")
  case None
  then have "unat ep \<le> unat (PruneAfter (GetParams k))"
    using ok by (auto simp: attestationRetentionBoundary_def Let_def word_le_nat_alt split: if_splits)
  then show ?thesis using None h by simp
next
  case (Some b)
  then show ?thesis using retention_boundary_nat(1) [OF Some ep] by (simp add: prunesHeight_def)
qed

lemma below_retention_iff:
  assumes ok: "EpochLength (GetParams k) \<noteq> 0" "PruneAfter (GetParams k) \<noteq> 0"
    and H: "0 \<le> H" "H < 2 ^ 63" and h: "0 \<le> h"
  shows "below_retention (at_height H chain) k h \<longleftrightarrow> h < retention_floor (GetParams k) H"
proof -
  let ?p = "GetParams k"
  let ?e = "to_uint64 H div EpochLength ?p"
  have e: "unat ?e = nat H div unat (EpochLength ?p)" by (rule unat_epoch [OF H])
  show ?thesis
  proof (cases "?e = 0")
    case True
    then show ?thesis using e h by (simp add: below_retention_def retention_floor_def)
  next
    case False
    then have pos: "0 < ?e" by (simp add: word_gt_0)
    have e1: "unat (?e - 1) = nat H div unat (EpochLength ?p) - 1"
      using pos e by (simp add: unat_minus_one word_neq_0_conv)
    have "(nat H div unat (EpochLength ?p) - 1) * unat (EpochLength ?p) \<le> nat H"
      by (meson diff_le_self div_times_less_eq_dividend le_trans mult_le_mono1)
    then have "unat (?e - 1) * unat (EpochLength ?p) < 2 ^ 63" using H e1 by simp
    from boundary_prunes_iff [OF ok this h] show ?thesis
      using pos e1 by (simp add: below_retention_def retention_floor_def Let_def)
  qed
qed

lemma end_blocked_bitmap:
  assumes inv: "network_inv env chain k" and H: "0 \<le> H" "H + 1 < 2 ^ 63" and h: "0 \<le> h"
  shows "fmlookup (AttestationBitmap (end_blocked env (at_height H chain) k)) h =
      fmlookup (AttestationBitmap k) h \<or>
    (fmlookup (AttestationBitmap (end_blocked env (at_height H chain) k)) h = None \<and>
     h < retention_floor (GetParams k) (H + 1))"
proof -
  let ?p = "GetParams k" and ?el = "unat (EpochLength (GetParams k))"
  let ?e = "to_uint64 H div EpochLength ?p"
  note ok = network_inv_params(1,2) [OF inv]
  have wrap: "int64_wrap (H + 1) = H + 1" using H by (intro int64_wrap_id) (simp add: int64_range_def)
  have e: "unat ?e = nat H div ?el" "unat (to_uint64 (H + 1) div EpochLength ?p) = nat (H + 1) div ?el"
    using H by (intro unat_epoch; simp)+
  have small: "unat ?e * ?el < 2 ^ 63"
    unfolding e(1) by (rule le_less_trans [OF div_times_less_eq_dividend]) (use H in simp)
  show ?thesis
  proof (cases "?e = to_uint64 (H + 1) div EpochLength ?p")
    case True
    then show ?thesis by (simp add: end_blocked_def wrap Let_def)
  next
    case False
    then have "nat (H + 1) div ?el \<noteq> nat H div ?el" using e by (metis word_unat_eq_iff)
    moreover have "nat (H + 1) = Suc (nat H)" using H by simp
    ultimately have next_epoch: "nat (H + 1) div ?el = Suc (nat H div ?el)"
      by (simp add: div_Suc split: if_splits)
    have gp: "GetParams (checkpointed env hh k) = ?p" for hh by (simp add: GetParams_def)
    have bnd: "attestationRetentionBoundary (checkpointed env hh k) ep =
        attestationRetentionBoundary k ep" for hh ep
      by (simp add: attestationRetentionBoundary_def gp)
    show ?thesis
    proof (cases "attestationRetentionBoundary k ?e")
      case None
      then show ?thesis
        using False bnd by (simp add: end_blocked_def wrap Let_def PruneOldBitmaps_none)
    next
      case (Some b)
      from boundary_prunes_iff [OF ok small h] Some have
        "prunesHeight b h \<longleftrightarrow> h < retention_floor ?p (H + 1)"
        using e(1) next_epoch by (simp add: retention_floor_def)
      then show ?thesis
        using False Some bnd PruneOldBitmaps_lookup(1) [OF Some]
          PruneOldBitmaps_lookup(1) [of "checkpointed env H k" ?e b]
        by (simp add: end_blocked_def wrap Let_def)
    qed
  qed
qed

text \<open>
  What a height's bitmap can become while the parameters stay \<open>p\<close>: it keeps the votes \<open>V\<close>,
  or it is gone and the height is below the floor.
\<close>

definition settled :: "params \<Rightarrow> int64 \<Rightarrow> string set \<Rightarrow> net_config \<Rightarrow> bool" where
  "settled p hc V s \<longleftrightarrow> Params (snd s) = Some p \<and>
     (case fmlookup (AttestationBitmap (snd s)) hc of
        Some bm \<Rightarrow> V \<subseteq> voters (snd s) bm
      | None \<Rightarrow> hc < retention_floor p (fst s))"

lemma settled_UNIV:
  "settled p hc UNIV s \<longleftrightarrow> Params (snd s) = Some p \<and>
     fmlookup (AttestationBitmap (snd s)) hc = None \<and> hc < retention_floor p (fst s)"
proof -
  have "\<not> UNIV \<subseteq> voters k bm" for k bm
    using finite_voters [of k bm] infinite_UNIV_listI by (metis rev_finite_subset)
  then show ?thesis by (auto simp: settled_def split: option.splits)
qed

lemma attest_allowed_floor:
  assumes "config_ok env chain (h, k)" "Params k = Some p" "0 \<le> hc" "hc < retention_floor p h"
  shows "attest_allowed env (at_height h chain) m k \<Longrightarrow> ma_Height m \<noteq> hc"
  using assms below_retention_iff [of k h hc chain] network_inv_params(1,2) [of env chain k]
  by (auto simp: attest_allowed_def config_ok_def GetParams_def)

lemma attested_bitmap:
  assumes inv: "network_inv env chain k" and al: "attest_allowed env ctx m k"
  shows "fmlookup (AttestationBitmap (attested env ctx m k)) hc = fmlookup (AttestationBitmap k) hc \<or>
    (hc = ma_Height m \<and> (\<exists>bm'. fmlookup (AttestationBitmap (attested env ctx m k)) hc = Some bm' \<and>
      voters k (height_bitmap k hc) \<subseteq> voters (attested env ctx m k) bm'))"
proof (cases "hc = ma_Height m")
  case True
  have ok: "attester_set_ok k" by (rule network_invD(1) [OF inv])
  have "ma_ConsensusAddress m |\<in>| AttesterSet k"
    using al attester_registered [OF ok] by (auto simp: attest_allowed_def)
  from voters_SetBit [OF ok this height_bitmap_ok [OF inv]] show ?thesis
    using True by (auto simp: attested_fields same_attestersD(6) [OF same_attesters_attested])
next
  case False
  then show ?thesis by (simp add: attested_fields)
qed

lemma provider_frame [simp]:
  "Params (snd (SetBlockIDProvider p k)) = Params k"
  "AttestationBitmap (snd (SetBlockIDProvider p k)) = AttestationBitmap k"
  "voters (snd (SetBlockIDProvider p k)) = voters k"
  by (simp_all add: SetBlockIDProvider_def split: option.splits)

lemma attested_params [simp]: "Params (attested env ctx m k) = Params k"
  by (simp add: attested_def Let_def)

lemma net_step_settled:
  assumes "net_step env chain s a s'" "config_ok env chain s" "settled p hc V s" "0 \<le> hc"
    and "\<nexists>m. a = TxUpdateParams m"
  shows "settled p hc V s'"
  using assms
proof (induction rule: net_step.induct)
  case (attest h k m)
  then have inv: "network_inv env chain k" and p: "Params k = Some p"
    by (auto simp: config_ok_def settled_def)
  show ?case
  proof (cases "attest_allowed env (at_height h chain) m k")
    case True
    note vot = same_attestersD(6) [OF same_attesters_attested [of k env "at_height h chain" m]]
    show ?thesis
      using attest p True attested_bitmap [OF inv True, of hc]
        attest_allowed_floor [of env chain h k p hc m]
      by (auto simp: settled_def deliver_Attest [OF inv] vot height_bitmap_def
          GetAttestationBitmap_def split: option.splits)
  next
    case False
    then show ?thesis using attest by (simp add: settled_def deliver_Attest [OF inv])
  qed
next
  case (wire k p h)
  then show ?case by (simp add: settled_def split: option.splits)
next
  case (end_block h k k')
  then have inv: "network_inv env chain k" and p: "Params k = Some p" "GetParams k = p"
    by (auto simp: config_ok_def settled_def GetParams_def)
  have k': "k' = end_blocked env (at_height h chain) k"
    by (rule EndBlocker_result [OF inv end_block.hyps(1)])
  note vot = same_attestersD(6) [OF end_blocked_same(1) [of k env "at_height h chain"]]
  show ?case
    using end_block.prems end_block.hyps end_blocked_bitmap [OF inv, of h hc]
      retention_floor_mono [of h "h + 1" p] p
    by (auto simp: settled_def k' config_ok_def vot split: option.splits)
qed (simp_all add: settled_def)

lemma net_run_settled:
  "net_run env chain s acts s' \<Longrightarrow> config_ok env chain s \<Longrightarrow> settled p hc V s \<Longrightarrow> 0 \<le> hc \<Longrightarrow>
     (\<forall>m. TxUpdateParams m \<notin> set acts) \<Longrightarrow> settled p hc V s'"
proof (induction rule: net_run.induct)
  case (more s acts s' a s'')
  then have "settled p hc V s'" "\<nexists>m. a = TxUpdateParams m" by auto
  then show ?case
    using net_step_settled [OF more.hyps(2)] net_run_ok [OF more.hyps(1)] more.prems by blast
qed simp

text \<open>
  C5: votes are not lost before they are pruned, and pruned heights do not come back. While
  no parameter change is executed, the bitmap of a height keeps every vote it had, so a height
  once soft-confirmed stays soft-confirmed; or the height has been pruned, and then it has no
  bitmap and every further vote for it is refused without effect.
\<close>

theorem votes_kept_until_pruned:
  assumes init: "net_init env gs s0" and run: "net_run env chain s0 acts (h, k)"
    and run2: "net_run env chain (h, k) acts2 (h', k')"
    and params: "\<forall>m. TxUpdateParams m \<notin> set acts2"
    and hc: "0 \<le> hc" "GetAttestationBitmap k hc = Some bm"
  shows "(\<exists>bm'. GetAttestationBitmap k' hc = Some bm' \<and> voters k bm \<subseteq> voters k' bm' \<and>
        (IsSoftConfirmed env k hc = Inr True \<longrightarrow> IsSoftConfirmed env k' hc = Inr True)) \<or>
    (GetAttestationBitmap k' hc = None \<and>
      (\<forall>m. ma_Height m = hc \<longrightarrow> (\<exists>err. Attest env (at_height h' chain) m k' = (Inl err, k'))))"
proof -
  have ok: "config_ok env chain (h, k)" by (rule net_run_ok [OF run net_init_ok [OF init]])
  have ok': "config_ok env chain (h', k')" by (rule net_run_ok [OF run2 ok])
  have inv: "network_inv env chain k" "network_inv env chain k'"
    using ok ok' by (auto simp: config_ok_def)
  obtain p where p: "Params k = Some p" using network_invD(2) [OF inv(1)] by blast
  have "settled p hc (voters k bm) (h, k)"
    using hc(2) p by (simp add: settled_def GetAttestationBitmap_def)
  from net_run_settled [OF run2 ok this hc(1) params]
  have st: "settled p hc (voters k bm) (h', k')" .
  have cnt: "attester_count k' = attester_count k"
    using net_run_registry [OF run2 ok] by (simp add: same_registry_def attester_count_def)
  show ?thesis
  proof (cases "fmlookup (AttestationBitmap k') hc")
    case None
    then have p': "Params k' = Some p" and fl: "hc < retention_floor p h'"
      using st by (auto simp: settled_def)
    have "\<exists>err. Attest env (at_height h' chain) m k' = (Inl err, k')" if "ma_Height m = hc" for m
      using Attest_not_allowed [OF inv(2)] attest_allowed_floor [OF ok' p' hc(1) fl] that by blast
    then show ?thesis using None by (simp add: GetAttestationBitmap_def)
  next
    case (Some bm')
    then have sub: "voters k bm \<subseteq> voters k' bm'" using st by (simp add: settled_def)
    then have "card (voters k bm) \<le> card (voters k' bm')" by (simp add: card_mono)
    then show ?thesis
      using Some sub hc(2) cnt
      by (auto simp: GetAttestationBitmap_def IsSoftConfirmed_inv [OF inv(1)]
          IsSoftConfirmed_inv [OF inv(2)])
  qed
qed

text \<open>
  C13: a pruned height is never recreated. When the end blocker of a reachable state removes
  the bitmap of a height, the height has no bitmap in any later state of the run, as long as no
  parameter change is executed.
\<close>

theorem pruned_never_recreated:
  assumes init: "net_init env gs s0" and run: "net_run env chain s0 acts (h, k)"
    and step: "net_step env chain (h, k) EndBlock (h1, k1)"
    and run2: "net_run env chain (h1, k1) acts2 (h', k')"
    and params: "\<forall>m. TxUpdateParams m \<notin> set acts2"
    and hc: "0 \<le> hc" "GetAttestationBitmap k hc = Some bm" "GetAttestationBitmap k1 hc = None"
  shows "GetAttestationBitmap k' hc = None"
proof -
  have ok: "config_ok env chain (h, k)" by (rule net_run_ok [OF run net_init_ok [OF init]])
  have ok1: "config_ok env chain (h1, k1)" by (rule net_step_ok [OF step ok])
  obtain p where p: "Params k = Some p"
    using ok network_invD(2) by (fastforce simp: config_ok_def)
  have "settled p hc (voters k bm) (h, k)"
    using hc(2) p by (simp add: settled_def GetAttestationBitmap_def)
  then have "settled p hc (voters k bm) (h1, k1)"
    by (rule net_step_settled [OF step ok _ hc(1)]) simp
  then have "settled p hc UNIV (h1, k1)"
    using hc(3) by (simp add: settled_UNIV) (simp add: settled_def GetAttestationBitmap_def)
  from net_run_settled [OF run2 ok1 this hc(1) params] show ?thesis
    by (simp add: settled_UNIV GetAttestationBitmap_def)
qed

lemma net_step_last_attested:
  assumes "net_step env chain s a s'" "config_ok env chain s"
  shows "GetLastAttestedHeight (snd s) \<le> GetLastAttestedHeight (snd s')"
  using assms
proof (induction rule: net_step.induct)
  case (attest h k m)
  then have "network_inv env chain k" by (simp add: config_ok_def)
  then show ?case
    by (auto simp: deliver_Attest attested_def Let_def GetLastAttestedHeight_def split: option.splits)
next
  case (end_block h k k')
  then show ?case
    by (auto simp: config_ok_def GetLastAttestedHeight_def dest!: EndBlocker_result)
qed (auto simp: deliver_def JoinAttesterSet_def LeaveAttesterSet_def UpdateParams_def SetParams_def EmitEvent_def SetBlockIDProvider_def
    GetLastAttestedHeight_def split: sum.splits option.splits prod.splits if_splits)

text \<open>
  the last attested height never goes back along a run, parameter changes included.
\<close>

lemma last_attested_height_monotone:
  assumes "net_run env chain s acts s'" and "net_init env gs s"
  shows "GetLastAttestedHeight (snd s) \<le> GetLastAttestedHeight (snd s')"
proof -
  have "config_ok env chain s \<Longrightarrow> GetLastAttestedHeight (snd s) \<le> GetLastAttestedHeight (snd s')"
    using assms(1)
    by (induction rule: net_run.induct)
      (auto dest: net_run_ok net_step_last_attested intro: order_trans)
  then show ?thesis using net_init_ok [OF assms(2)] by blast
qed

end
