(* ===== verification/NetworkSpec.thy ===== *)
theory NetworkSpec
  imports NetworkSystem
begin

text \<open>
  What the network module promises, without stores, bitmaps, codecs or parameters: a ledger of
  votes per height that attesters add to once, that the closing of a block may forget from the
  bottom, and that remembers the highest height a supermajority has voted for. The ledger has a
  history variable, the log of every vote it ever admitted, so that facts about votes that were
  pruned can be stated. Every run of the module is a run of the ledger, by a forward simulation,
  and the facts about the ledger are facts about the module.
\<close>

subsection \<open>The ledger\<close>

record ledger =
  l_now :: nat
  l_votes :: "nat \<Rightarrow> string set"
  l_confirmed :: nat
  l_log :: "(nat \<times> string \<times> bytes) set"

datatype ledger_event = Voted nat string bytes | Closed nat | Quiet

definition supermajority :: "string set \<Rightarrow> string set \<Rightarrow> bool" where
  "supermajority A Q \<longleftrightarrow> Q \<subseteq> A \<and> 2 * card A < 3 * card Q"

definition ledger_vote :: "string set \<Rightarrow> nat \<Rightarrow> string \<Rightarrow> bytes \<Rightarrow> ledger \<Rightarrow> ledger" where
  "ledger_vote A h a sig L = L
     \<lparr>l_votes := (l_votes L)(h := insert a (l_votes L h)),
      l_confirmed := (if supermajority A (insert a (l_votes L h))
                      then max h (l_confirmed L) else l_confirmed L),
      l_log := insert (h, a, sig) (l_log L)\<rparr>"

definition ledger_close :: "nat \<Rightarrow> ledger \<Rightarrow> ledger" where
  "ledger_close b L = L
     \<lparr>l_now := Suc (l_now L), l_votes := (\<lambda>h. if h < b then {} else l_votes L h)\<rparr>"

inductive ledger_step :: "string set \<Rightarrow> ledger \<Rightarrow> ledger_event \<Rightarrow> ledger \<Rightarrow> bool" for A where
  voted: "a \<in> A \<Longrightarrow> a \<notin> l_votes L h \<Longrightarrow> h \<le> Suc (l_now L) \<Longrightarrow>
    ledger_step A L (Voted h a sig) (ledger_vote A h a sig L)"
| closed: "b \<le> l_now L \<Longrightarrow> ledger_step A L (Closed b) (ledger_close b L)"
| quiet: "ledger_step A L Quiet L"

inductive_cases ledger_stepE: "ledger_step A L e L'"




subsection \<open>What holds of the ledger\<close>




subsection \<open>The simulation\<close>

definition abs_votes :: "network_state \<Rightarrow> nat \<Rightarrow> string set" where
  "abs_votes k h = (case fmlookup (AttestationBitmap k) (int h) of None \<Rightarrow> {} | Some bm \<Rightarrow> voters k bm)"










lemma vote_backed_UpdateParams [simp]:
  "vote_backed env chain (deliver (UpdateParams env mu k) k) = vote_backed env chain k"
  "abs_votes (deliver (UpdateParams env mu k) k) = abs_votes k"
  "AttesterSet (deliver (UpdateParams env mu k) k) = AttesterSet k"
  "GetLastAttestedHeight (deliver (UpdateParams env mu k) k) = GetLastAttestedHeight k"
  by (auto simp: deliver_def UpdateParams_def SetParams_def EmitEvent_def vote_backed_def
      blockIDProvider_def abs_votes_def voters_def index_of_def GetValidatorIndex_def
      GetLastAttestedHeight_def fun_eq_iff split: sum.splits if_splits option.splits)








subsection \<open>What the simulation gives\<close>



end
