(* ===== verification/NetworkExample.thy ===== *)
theory NetworkExample
  imports NetworkSpec
begin

text \<open>
  A small network on the concrete instance of \<open>DemoEnv\<close>: three attesters with the keys 1, 2
  and 3 imported from a genesis that lists them out of order, a sequencer that produced a block
  at every height, and the theorems on the network module applied to it.
\<close>

subsection \<open>The example network\<close>

definition demo_env :: keeper_env where
  "demo_env = \<lparr>env_ext = demo_ext, env_authority = ''gov'', env_GetLastValidators = Inr []\<rparr>"

definition demo_genesis :: genesis_state where
  "demo_genesis = (DefaultGenesisState demo_ext)
     \<lparr>gs_AttesterInfos := map demo_attester [[3], [1], [2]]\<rparr>"

definition demo_provider :: block_id_provider where
  "demo_provider h =
     Inr (Some \<lparr>bid_Hash = [of_nat (unat h)], bid_psh_Total = 1, bid_psh_Hash = [of_nat (unat h)]\<rparr>)"

definition demo_state :: network_state where
  "demo_state = (insert_attesters 0 (map demo_attester [[1], [2], [3]])
     (SetParams (DefaultParams demo_ext) NewKeeper))\<lparr>mut := Some (Some demo_provider)\<rparr>"

definition demo_msg :: "byte \<Rightarrow> msg_attest" where
  "demo_msg who = \<lparr>ma_Authority = ''op'', ma_ConsensusAddress = bytes_string [who],
     ma_Height = 1, ma_Vote = [who, 1, who]\<rparr>"

definition demo_ctx :: "int64 \<Rightarrow> sdk_ctx" where
  "demo_ctx h = \<lparr>BlockHeight = h, ChainID = ''demo''\<rparr>"

lemma demo_env_simps [simp]:
  "env_ext demo_env = demo_ext" "env_authority demo_env = ''gov''"
  "env_GetLastValidators demo_env = Inr []"
  by (simp_all add: demo_env_def)

lemma demo_ctx_simps [simp]: "BlockHeight (demo_ctx h) = h" "ChainID (demo_ctx h) = ''demo''"
  by (simp_all add: demo_ctx_def)

lemma demo_genesis_simps [simp]:
  "gs_AttesterInfos demo_genesis = map demo_attester [[3], [1], [2]]"
  "gs_AttestationBitmaps demo_genesis = []" "gs_Params demo_genesis = DefaultParams demo_ext"
  by (simp_all add: demo_genesis_def DefaultGenesisState_def)

lemma attester_sort_key_demo [simp]: "attester_sort_key demo_ext (demo_attester bs) = bs"
  by (simp add: attester_sort_key_def)

lemma normalize_demo_attester [simp]: "normalize_attester demo_ext (demo_attester bs) = demo_attester bs"
  by (simp add: normalize_attester_def demo_attester_def attester_sort_key_def GetPubKey_def demo_key_def)

lemma attester_valid_demo [simp]: "attester_valid demo_ext (demo_attester bs)"
  by (simp add: attester_valid_def)

lemma demo_attester_inj [simp]: "demo_attester a = demo_attester b \<longleftrightarrow> a = b"
  by (metis bytes_string_inj demo_attester_fields(1))

lemma bytes_string_eq_iff [simp]: "bytes_string a = bytes_string b \<longleftrightarrow> a = b"
  by (auto dest: bytes_string_inj)

lemma InitGenesis_demo:
  assumes "gs_AttesterInfos gs = map demo_attester l" "distinct l" "gs_AttestationBitmaps gs = []"
  shows "InitGenesis demo_ext gs NewKeeper = (Inr (),
    insert_attesters 0 (map demo_attester (sort l)) (SetParams (gs_Params gs) NewKeeper))"
proof -
  have load: "load_attesters demo_ext (map demo_attester l) 0 fmempty = Inr (map demo_attester l)"
    using assms(2)
    by (auto simp: load_attesters_iff list_all_iff distinct_map comp_def inj_on_def)
  have "sort_key (attester_sort_key demo_ext) (map demo_attester l) = map demo_attester (sort l)"
    by (simp add: sort_key_map)
  with load show ?thesis by (simp add: InitGenesis_def assms)
qed

lemma demo_keys_sorted: "sort [[3], [1], [2]] = [[1], [2], [3::byte]]"
  by simp

lemma InitGenesis_demo_genesis:
  "InitGenesis demo_ext demo_genesis NewKeeper = (Inr (), insert_attesters 0
     (map demo_attester [[1], [2], [3]]) (SetParams (DefaultParams demo_ext) NewKeeper))"
  using InitGenesis_demo [of demo_genesis "[[3], [1], [2]]"] demo_keys_sorted
  by (simp del: insert_attesters.simps)

lemma demo_state_inv: "network_inv demo_env ''demo'' demo_state"
proof -
  let ?k = "insert_attesters 0 (map demo_attester [[1], [2], [3]])
    (SetParams (DefaultParams demo_ext) NewKeeper)"
  have inv: "network_inv demo_env ''demo'' ?k"
    by (rule InitGenesis_inv [where gs = demo_genesis])
      (simp_all only: InitGenesis_demo_genesis demo_params_ok demo_genesis_simps demo_env_simps,
        simp_all)
  moreover have "mut ?k = Some None" by (simp add: SetParams_def NewKeeper_def SetAttesterInfo_def
      SetAttesterSetMember_def SetValidatorIndex_def)
  ultimately show ?thesis
    using SetBlockIDProvider_inv [OF inv, of "Some demo_provider"]
    by (simp add: SetBlockIDProvider_def demo_state_def provider_extends_def blockIDProvider_def
        del: insert_attesters.simps list.map)
qed

lemma demo_state_registry: "registry_from demo_ext (map demo_attester [[1], [2], [3]]) demo_state"
  using InitGenesis_registry(1) [OF InitGenesis_demo_genesis]
  by (simp add: registry_from_def demo_state_def sort_key_map
      del: insert_attesters.simps)

lemma demo_state_fields:
  "ValidatorIndex demo_state = fmupd (bytes_string [3]) 2 (fmupd (bytes_string [2]) 1
     (fmupd (bytes_string [1]) 0 fmempty))"
  "AttesterInfo demo_state = fmupd (bytes_string [3]) (demo_attester [3])
     (fmupd (bytes_string [2]) (demo_attester [2])
     (fmupd (bytes_string [1]) (demo_attester [1]) fmempty))"
  "AttesterSet demo_state = {|bytes_string [3], bytes_string [2], bytes_string [1]|}"
  "AttestationBitmap demo_state = fmempty" "Params demo_state = Some (DefaultParams demo_ext)"
  "mut demo_state = Some (Some demo_provider)" "StoredAttestationInfo demo_state = fmempty"
  "LastAttestedHeight demo_state = None"
  by (simp_all add: demo_state_def NewKeeper_def SetParams_def SetAttesterInfo_def
      SetAttesterSetMember_def SetValidatorIndex_def)

lemma demo_params [simp]:
  "GetParams demo_state = DefaultParams demo_ext" "EpochLength (DefaultParams demo_ext) = 1"
  "PruneAfter (DefaultParams demo_ext) = 1000"
  "QuorumFraction (DefaultParams demo_ext) = ''0.667''"
  by (simp_all add: GetParams_def demo_state_fields DefaultParams_def NewParams_def)

lemma demo_index: "index_of demo_state (bytes_string [1]) = 0"
  "index_of demo_state (bytes_string [2]) = 1" "index_of demo_state (bytes_string [3]) = 2"
  by (simp_all add: index_of_def GetValidatorIndex_def demo_state_fields)

lemma demo_count: "attester_count demo_state = 3"
  by (simp add: attester_count_def demo_state_fields fcard_finsert_if)

lemma demo_msg_allowed: "attest_allowed demo_env (demo_ctx 5) (demo_msg 1) demo_state"
proof -
  have bm: "height_bitmap demo_state 1 = NewBitmap 3"
    using length_GetAllAttesters [of demo_state] demo_count
    by (simp add: height_bitmap_def GetAttestationBitmap_def demo_state_fields)
  have "bytes_string [1] \<notin> voters demo_state (NewBitmap 3)"
    by (auto simp: voters_def bits_of_def bm.test_fresh)
  moreover have "vote_backed demo_env ''demo'' demo_state 1 (bytes_string [1]) [1, 1, 1]"
    by (simp add: vote_backed_def vote_accepted_def demo_unmarshal_def demo_vote_def
        demo_state_fields blockIDProvider_def demo_provider_def to_uint64_def)
  moreover have "\<not> below_retention (demo_ctx 5) demo_state 1"
    by (simp add: below_retention_def attestationRetentionBoundary_def Let_def to_uint64_def)
  ultimately show ?thesis
    by (simp add: attest_allowed_def demo_msg_def bm demo_state_fields conv_defs)
qed

subsection \<open>The theorems on the example\<close>

lemma store_keys_injective_example:
  "int64_range 1 \<and> int64_range 2 \<and>
   (GetSignatureKey 1 ''a'' = GetSignatureKey 2 ''a'' \<longleftrightarrow> (1::int) = 2 \<and> ''a'' = ''a'')"
  using store_keys_injective [of 1 2 "''a''" "''a''"] by (simp add: int64_range_def)

lemma CheckQuorum_two_thirds_example:
  "CheckQuorum demo_env demo_state 2 3 = Inr False \<and> CheckQuorum demo_env demo_state 3 3 = Inr True"
  using CheckQuorum_two_thirds [of 2 3 demo_env demo_state]
    CheckQuorum_two_thirds [of 3 3 demo_env demo_state] by simp

lemma demo_bits: "bits_of [7] = {0, 1, 2}"
proof (rule set_eqI)
  fix i
  show "i \<in> bits_of [7] \<longleftrightarrow> i \<in> {0, 1, 2}"
  proof (cases "i < 8")
    case True
    then have "i \<in> {0, 1, 2, 3, 4, 5, 6, 7}" by auto
    then show ?thesis by (auto simp: mem_bits_of IsSet_def)
  next
    case False
    then show ?thesis by (auto dest: bits_of_bound)
  qed
qed

lemma demo_full_count: "PopCount [7] = 3"
  by (simp only: PopCount_card demo_bits) simp

lemma demo_full_bitmap: "bitmap_ok demo_state [7]"
  by (auto simp: bitmap_ok_def demo_count demo_bits)

theorem quorum_intersection_witness:
  "CheckQuorum demo_env demo_state (of_nat (PopCount [7])) (GetTotalPower demo_state) = Inr True \<and>
   attester_count demo_state < 3 * card (voters demo_state [7] \<inter> voters demo_state [7])"
proof -
  have "CheckQuorum demo_env demo_state (of_nat (PopCount [7])) (GetTotalPower demo_state) = Inr True"
    by (simp only: demo_full_count GetTotalPower_eq demo_count CheckQuorum_def) simp
  then show ?thesis
    using quorum_intersection [OF network_invD(1) [OF demo_state_inv] demo_full_bitmap
      demo_full_bitmap] by blast
qed

theorem Attest_spec_witness:
  "attest_allowed demo_env (demo_ctx 5) (demo_msg 1) demo_state \<and>
   Attest demo_env (demo_ctx 5) (demo_msg 1) demo_state =
     (Inr (), attested demo_env (demo_ctx 5) (demo_msg 1) demo_state)"
  using Attest_spec [of demo_env "demo_ctx 5" demo_state "demo_msg 1"] demo_state_inv
    demo_msg_allowed by simp

lemma demo_accepted: "Attest demo_env (demo_ctx 5) (demo_msg 1) demo_state =
    (Inr (), attested demo_env (demo_ctx 5) (demo_msg 1) demo_state)"
  by (rule Attest_allowed [OF demo_state_inv demo_msg_allowed])

lemma Attest_counts_once_example:
  "\<exists>err. Attest demo_env (demo_ctx 6) (demo_msg 1) (attested demo_env (demo_ctx 5) (demo_msg 1) demo_state)
     = (Inl err, attested demo_env (demo_ctx 5) (demo_msg 1) demo_state)"
  using Attest_counts_once [OF _ demo_accepted refl refl, of "demo_ctx 6"] demo_state_inv by simp

lemma demo_one_vote:
  "IsSoftConfirmed demo_env (attested demo_env (demo_ctx 5) (demo_msg 1) demo_state) 1 = Inr False"
proof -
  let ?k = "attested demo_env (demo_ctx 5) (demo_msg 1) demo_state"
  have inv: "network_inv demo_env ''demo'' ?k"
    by (rule attested_inv [OF demo_state_inv _ demo_msg_allowed]) simp
  have bm: "fmlookup (AttestationBitmap ?k) 1 = Some (SetBit (NewBitmap 3) 0)"
    using length_GetAllAttesters [of demo_state] demo_count
    by (simp add: attested_fields demo_msg_def height_bitmap_def GetAttestationBitmap_def
        demo_state_fields(4) demo_index)
  have "bits_of (NewBitmap 3) = {}" "length (NewBitmap 3) = 1"
    by (simp_all add: bits_of_def bm.test_fresh) (simp add: NewBitmap_def)
  then have "PopCount (SetBit (NewBitmap 3) 0) = 1"
    using bits_of_SetBit [of "NewBitmap 3" 0] by (simp add: PopCount_card)
  then have "card (voters ?k (SetBit (NewBitmap 3) 0)) = 1"
    using card_voters [OF network_invD(1) [OF inv] network_invD(3) [OF inv bm]] by simp
  moreover have "attester_count ?k = 3"
    using same_attestersD(3) [OF same_attesters_attested] demo_count by metis
  ultimately show ?thesis by (simp add: IsSoftConfirmed_inv [OF inv] bm)
qed

lemma Attest_last_attested_height_example:
  "GetLastAttestedHeight (attested demo_env (demo_ctx 5) (demo_msg 1) demo_state) = 0"
  using Attest_last_attested_height [OF _ demo_accepted] demo_state_inv demo_one_vote
  by (simp add: demo_msg_def GetLastAttestedHeight_def [of demo_state] demo_state_fields)

lemma EndBlocker_total_example:
  "\<exists>k'. EndBlocker demo_env (demo_ctx 5) demo_state = (Inr (), k') \<and> Params k' = Params demo_state"
  using EndBlocker_total [OF demo_state_inv, of "[]" "demo_ctx 5"] by auto

theorem EndBlocker_retention_witness:
  "\<exists>k'. EndBlocker demo_env (demo_ctx 2000) demo_state = (Inr (), k') \<and>
     fmlookup (AttestationBitmap k') 5 = None"
proof -
  have b: "attestationRetentionBoundary demo_state 2000 =
      Some \<lparr>firstRetainedEpoch = 1000, firstRetainedHeight = 1000\<rparr>"
    by (simp add: attestationRetentionBoundary_def Let_def to_int64_def)
  obtain k' where k': "EndBlocker demo_env (demo_ctx 2000) demo_state = (Inr (), k')"
    using EndBlocker_ok [OF demo_state_inv, of "[]"] by simp
  show ?thesis
    using EndBlocker_retention [OF demo_state_inv _ _ _ b k', of "[]" 5] k'
    by (simp add: conv_defs)
qed

theorem InitGenesis_consistent_witness:
  "\<exists>k. InitGenesis demo_ext demo_genesis NewKeeper = (Inr (), k) \<and> attester_set_ok k \<and>
     attester_count k = 3"
  using InitGenesis_consistent [OF InitGenesis_demo_genesis] InitGenesis_demo_genesis by simp

definition crowded_genesis :: genesis_state where
  "crowded_genesis = (DefaultGenesisState demo_ext)\<lparr>gs_AttesterInfos :=
     map demo_attester (map (\<lambda>i. be_bytes 8 (of_nat i :: uint64)) [0..<65537])\<rparr>"

lemma InitGenesis_index_collision_example:
  "\<exists>k a b. InitGenesis demo_ext crowded_genesis NewKeeper = (Inr (), k) \<and> a \<noteq> b \<and>
     a |\<in>| AttesterSet k \<and> b |\<in>| AttesterSet k \<and> GetValidatorIndex k a = GetValidatorIndex k b"
proof -
  have "inj_on (\<lambda>i. be_bytes 8 (of_nat i :: uint64)) {0..<65537}"
    by (auto simp: inj_on_def be_bytes_inj_iff word_of_nat_eq_iff take_bit_nat_eq_self)
  then have "distinct (map (\<lambda>i. be_bytes 8 (of_nat i :: uint64)) [0..<65537])"
    by (simp add: distinct_map)
  then obtain k where k: "InitGenesis demo_ext crowded_genesis NewKeeper = (Inr (), k)"
    using InitGenesis_demo [of crowded_genesis "map (\<lambda>i. be_bytes 8 (of_nat i :: uint64)) [0..<65537]"]
    by (simp add: crowded_genesis_def DefaultGenesisState_def del: upt.simps upt_rec_numeral)
  show ?thesis
    using InitGenesis_index_collision [OF k] k
    by (simp add: crowded_genesis_def DefaultGenesisState_def del: upt.simps upt_rec_numeral)
qed

theorem genesis_roundtrip_witness:
  "\<exists>gs k'. ExportGenesis demo_ext demo_state = Inr gs \<and>
     InitGenesis demo_ext gs NewKeeper = (Inr (), k') \<and>
     ValidatorIndex k' = ValidatorIndex demo_state"
proof -
  have "stored_keys_ok demo_state" by (simp add: stored_keys_ok_def demo_state_fields)
  from genesis_roundtrip [OF demo_state_registry this demo_state_fields(5)] show ?thesis
    by fastforce
qed

subsection \<open>A chain with one attester\<close>

text \<open>
  The chain starts at height 1002 with one attester, wires the provider, and the attester votes
  for height 1, the lowest height still retained; the next end block prunes it.
\<close>

definition solo_genesis :: genesis_state where
  "solo_genesis = (DefaultGenesisState demo_ext)\<lparr>gs_AttesterInfos := map demo_attester [[1]]\<rparr>"

definition solo0 :: network_state where
  "solo0 = insert_attesters 0 (map demo_attester [[1]]) (SetParams (DefaultParams demo_ext) NewKeeper)"

definition solo1 :: network_state where
  "solo1 = solo0\<lparr>mut := Some (Some demo_provider)\<rparr>"

definition solo2 :: network_state where
  "solo2 = attested demo_env (demo_ctx 1002) (demo_msg 1) solo1"

lemma solo1_fields:
  "ValidatorIndex solo1 = fmupd (bytes_string [1]) 0 fmempty"
  "AttesterInfo solo1 = fmupd (bytes_string [1]) (demo_attester [1]) fmempty"
  "AttesterSet solo1 = {|bytes_string [1]|}" "AttestationBitmap solo1 = fmempty"
  "Params solo1 = Some (DefaultParams demo_ext)" "mut solo0 = Some None"
  "mut solo1 = Some (Some demo_provider)" "LastAttestedHeight solo1 = None"
  by (simp_all add: solo1_def solo0_def NewKeeper_def SetParams_def SetAttesterInfo_def
      SetAttesterSetMember_def SetValidatorIndex_def)

lemma solo_init: "net_init demo_env solo_genesis (1002, solo0)"
proof -
  have "InitGenesis demo_ext solo_genesis NewKeeper = (Inr (), solo0)"
    using InitGenesis_demo [of solo_genesis "[[1]]"]
    by (simp add: solo_genesis_def solo0_def DefaultGenesisState_def del: insert_attesters.simps)
  moreover have "Params_Validate demo_ext (DefaultParams demo_ext) = Inr ()"
    using demo_params_ok Params_Validate_iff by blast
  ultimately show ?thesis
    by (simp add: net_init_def GenesisState_Validate_def solo_genesis_def DefaultGenesisState_def)
qed

lemma solo_run1: "net_run demo_env ''demo'' (1002, solo0) [Wire (Some demo_provider)] (1002, solo1)"
proof -
  have "net_step demo_env ''demo'' (1002, solo0) (Wire (Some demo_provider))
      (1002, snd (SetBlockIDProvider (Some demo_provider) solo0))"
    by (rule net_step.wire) (simp add: provider_extends_def blockIDProvider_def solo1_fields)
  then have "net_step demo_env ''demo'' (1002, solo0) (Wire (Some demo_provider)) (1002, solo1)"
    by (simp add: SetBlockIDProvider_def solo1_fields solo1_def)
  from net_run.more [OF net_run.start this] show ?thesis by simp
qed

lemma solo1_inv: "network_inv demo_env ''demo'' solo1"
  using net_run_ok [OF solo_run1 net_init_ok [OF solo_init]] by (simp add: config_ok_def)

lemma solo_allowed: "attest_allowed demo_env (demo_ctx 1002) (demo_msg 1) solo1"
proof -
  have "length (GetAllAttesters solo1) = 1"
    by (simp add: length_GetAllAttesters attester_count_def solo1_fields fcard_finsert_if)
  then have bm: "height_bitmap solo1 1 = NewBitmap 1"
    by (simp add: height_bitmap_def GetAttestationBitmap_def solo1_fields)
  have "bytes_string [1] \<notin> voters solo1 (NewBitmap 1)"
    by (auto simp: voters_def bits_of_def bm.test_fresh)
  moreover have "vote_backed demo_env ''demo'' solo1 1 (bytes_string [1]) [1, 1, 1]"
    by (simp add: vote_backed_def vote_accepted_def demo_unmarshal_def demo_vote_def
        solo1_fields blockIDProvider_def demo_provider_def to_uint64_def)
  moreover have "\<not> below_retention (demo_ctx 1002) solo1 1"
    by (simp add: below_retention_def attestationRetentionBoundary_def Let_def conv_defs
        GetParams_def solo1_fields prunesHeight_def)
  ultimately show ?thesis
    by (simp add: attest_allowed_def demo_msg_def bm solo1_fields conv_defs)
qed

lemma solo_run2: "net_run demo_env ''demo'' (1002, solo0)
    [Wire (Some demo_provider), TxAttest (demo_msg 1)] (1002, solo2)"
  using net_run.more [OF solo_run1 net_step.attest [of _ _ 1002 solo1 "demo_msg 1"]] solo_allowed
  by (simp add: deliver_Attest [OF solo1_inv] solo2_def demo_ctx_def)

lemma solo2_inv: "network_inv demo_env ''demo'' solo2"
  using net_run_ok [OF solo_run2 net_init_ok [OF solo_init]] by (simp add: config_ok_def)

lemma solo2_bitmap: "\<exists>bm. GetAttestationBitmap solo2 1 = Some bm"
  by (simp add: solo2_def attested_fields demo_msg_def GetAttestationBitmap_def)

lemma solo2_confirmed: "IsSoftConfirmed demo_env solo2 1 = Inr True"
proof -
  let ?a = "bytes_string [1]" and ?bm = "SetBit (height_bitmap solo1 1) (int (index_of solo1 (bytes_string [1])))"
  have same: "same_attesters solo1 solo2" unfolding solo2_def by (rule same_attesters_attested)
  have "voters solo1 ?bm = insert ?a (voters solo1 (height_bitmap solo1 1))"
    by (rule voters_SetBit [OF network_invD(1) [OF solo1_inv] _ height_bitmap_ok [OF solo1_inv]])
      (simp add: solo1_fields)
  moreover have "voters solo1 b \<subseteq> {?a}" for b by (auto simp: voters_def solo1_fields)
  ultimately have "voters solo2 ?bm = {?a}" by (auto simp: same_attestersD(6) [OF same])
  moreover have "fmlookup (AttestationBitmap solo2) 1 = Some ?bm"
    by (simp add: solo2_def attested_fields demo_msg_def)
  moreover have "attester_count solo2 = 1"
    by (simp add: same_attestersD(3) [OF same] attester_count_def [of solo1] solo1_fields fcard_finsert_if)
  ultimately show ?thesis by (simp add: IsSoftConfirmed_inv [OF solo2_inv])
qed

lemma solo_end_block: "net_step demo_env ''demo'' (1002, solo2) EndBlock
    (1003, end_blocked demo_env (demo_ctx 1002) solo2)"
  using net_step.end_block [of demo_env 1002 "''demo''" solo2]
    EndBlocker_ok [OF solo2_inv, of "[]" "demo_ctx 1002"]
  by (simp add: demo_ctx_def)

lemma solo_end_run: "net_run demo_env ''demo'' (1002, solo2) [EndBlock]
    (1003, end_blocked demo_env (demo_ctx 1002) solo2)"
  using net_run.more [OF net_run.start solo_end_block] by simp

lemma solo2_pruned:
  "GetAttestationBitmap (end_blocked demo_env (demo_ctx 1002) solo2) 1 = None"
proof -
  have gp: "GetParams solo2 = DefaultParams demo_ext"
    by (simp add: solo2_def attested_def Let_def GetParams_def solo1_fields)
  then have gc: "GetParams (checkpointed demo_env 1002 solo2) = DefaultParams demo_ext"
    by (simp add: GetParams_def)
  have "attestationRetentionBoundary (checkpointed demo_env 1002 solo2) 1002 =
      Some \<lparr>firstRetainedEpoch = 2, firstRetainedHeight = 2\<rparr>"
    by (simp add: attestationRetentionBoundary_def Let_def to_int64_def gc)
  from PruneOldBitmaps_lookup(1) [OF this, of 1] show ?thesis
    by (simp add: end_blocked_def Let_def gp GetAttestationBitmap_def prunesHeight_def conv_defs)
qed



theorem votes_kept_until_pruned_witness:
  "\<exists>err. Attest demo_env (demo_ctx 1003) (demo_msg 1) (end_blocked demo_env (demo_ctx 1002) solo2) =
     (Inl err, end_blocked demo_env (demo_ctx 1002) solo2)"
proof -
  obtain bm where bm: "GetAttestationBitmap solo2 1 = Some bm" using solo2_bitmap by blast
  show ?thesis
    using votes_kept_until_pruned [OF solo_init solo_run2 solo_end_run _ _ bm] solo2_pruned
    by (simp add: demo_ctx_def demo_msg_def)
qed

theorem pruned_never_recreated_witness:
  "GetAttestationBitmap (end_blocked demo_env (demo_ctx 1002) solo2) 1 = None"
proof -
  obtain bm where bm: "GetAttestationBitmap solo2 1 = Some bm" using solo2_bitmap by blast
  show ?thesis
    using pruned_never_recreated [OF solo_init solo_run2 solo_end_block net_run.start _ _ bm
      solo2_pruned] by simp
qed





lemma last_attested_height_monotone_example:
  "GetLastAttestedHeight solo0 \<le> GetLastAttestedHeight solo2"
  using last_attested_height_monotone [OF solo_run2 solo_init] by simp

lemma AttesterSignatures_evidence_example:
  "\<exists>sigs. Query_AttesterSignatures walk (Some 1) solo2 = Inr sigs \<and>
     2 * attester_count solo2 < 3 * length sigs"
  using AttesterSignatures_evidence [OF solo2_inv, of 1 walk] solo2_confirmed by auto

lemma AttesterSet_query_ordered_example:
  "\<exists>es. Query_AttesterSet (Some ()) demo_state = Inr es \<and> length es = 3"
  using AttesterSet_query_ordered [OF network_invD(1) [OF demo_state_inv]] demo_count by auto

end
