(* ===== verification/FilterTxs.thy ===== *)
theory FilterTxs
  imports CometTypes
begin

text \<open>
  The transaction filter of the adapter (\<open>FilterTxs\<close> of \<open>pkg/adapter/adapter.go\<close>), which the
  block builder calls with mempool and force-included transactions. The application's
  \<open>CheckTx\<close> is the argument \<open>chk\<close>: it may change the application's check state. Sizes and gas
  are added in \<open>uint64\<close>.
\<close>

datatype filter_status = FilterOK | FilterRemove | FilterPostpone

record check_tx_response =
  ct_Code :: uint32
  ct_GasWanted :: int64

type_synonym 'app check_tx = "'app \<Rightarrow> bytes \<Rightarrow> check_tx_response result \<times> 'app"

text \<open>The loop over the transactions, with the running totals and the flag.\<close>

fun filter_loop ::
    "'app check_tx \<Rightarrow> uint64 \<Rightarrow> uint64 \<Rightarrow> bytes list \<Rightarrow> uint64 \<Rightarrow> uint64 \<Rightarrow> bool \<Rightarrow> 'app \<Rightarrow>
     filter_status list \<times> 'app" where
  "filter_loop chk maxBytes maxGas [] cumulativeBytes cumulativeGas limitReached app = ([], app)"
| "filter_loop chk maxBytes maxGas (tx # txs) cumulativeBytes cumulativeGas limitReached app =
     (if tx = [] then
        (let (r, app) = filter_loop chk maxBytes maxGas txs cumulativeBytes cumulativeGas limitReached app
         in (FilterRemove # r, app))
      else
        let txBytes = of_nat (length tx); (resp, app) = chk app tx;
            go = (\<lambda>status cb cg limit. let (r, app) = filter_loop chk maxBytes maxGas txs cb cg limit app
                    in (status # r, app)) in
        case resp of
          Inl _ \<Rightarrow> go FilterRemove cumulativeBytes cumulativeGas limitReached
        | Inr checkTxResp \<Rightarrow>
            if ct_Code checkTxResp \<noteq> 0
            then go FilterRemove cumulativeBytes cumulativeGas limitReached
            else let txGas = to_uint64 (ct_GasWanted checkTxResp) in
              if maxGas > 0 \<and> txGas > maxGas
              then go FilterRemove cumulativeBytes cumulativeGas limitReached
              else if maxBytes > 0 \<and> txBytes > maxBytes
              then go FilterRemove cumulativeBytes cumulativeGas limitReached
              else if limitReached
              then go FilterPostpone cumulativeBytes cumulativeGas limitReached
              else if maxBytes > 0 \<and> cumulativeBytes + txBytes > maxBytes
              then go FilterPostpone cumulativeBytes cumulativeGas True
              else if maxGas > 0 \<and> cumulativeGas + txGas > maxGas
              then go FilterPostpone cumulativeBytes cumulativeGas True
              else go FilterOK (cumulativeBytes + txBytes) (cumulativeGas + txGas) limitReached)"

definition FilterTxs ::
    "'app check_tx \<Rightarrow> bytes list \<Rightarrow> uint64 \<Rightarrow> uint64 \<Rightarrow> bool \<Rightarrow> 'app \<Rightarrow> filter_status list result \<times> 'app"
  where
  "FilterTxs chk txs maxBytes maxGas hasForceIncludedTransaction app =
     (if \<not> hasForceIncludedTransaction then (Inr (replicate (length txs) FilterOK), app)
      else case filter_loop chk maxBytes maxGas txs 0 0 False app of (r, app) \<Rightarrow> (Inr r, app))"

subsection \<open>The loop over checked transactions\<close>

text \<open>
  The answers of \<open>CheckTx\<close> in the order the loop asks for them; an empty transaction is not
  asked. With the answers known, the loop is a function of them.
\<close>

fun tx_answers :: "'app check_tx \<Rightarrow> bytes list \<Rightarrow> 'app \<Rightarrow> check_tx_response option list" where
  "tx_answers chk [] app = []"
| "tx_answers chk (tx # txs) app =
     (if tx = [] then None # tx_answers chk txs app
      else (case chk app tx of (resp, app') \<Rightarrow>
        (case resp of Inl _ \<Rightarrow> None | Inr r \<Rightarrow> Some r) # tx_answers chk txs app'))"

text \<open>A transaction that can be in some block: checked, and within the limits by itself.\<close>

definition admissible :: "uint64 \<Rightarrow> uint64 \<Rightarrow> bytes \<times> check_tx_response option \<Rightarrow> bool" where
  "admissible maxBytes maxGas x \<longleftrightarrow>
     (case snd x of
        None \<Rightarrow> False
      | Some r \<Rightarrow> fst x \<noteq> [] \<and> ct_Code r = 0 \<and>
          (maxGas = 0 \<or> to_uint64 (ct_GasWanted r) \<le> maxGas) \<and>
          (maxBytes = 0 \<or> of_nat (length (fst x)) \<le> maxBytes))"

definition tx_gas :: "bytes \<times> check_tx_response option \<Rightarrow> uint64" where
  "tx_gas x = (case snd x of None \<Rightarrow> 0 | Some r \<Rightarrow> to_uint64 (ct_GasWanted r))"

definition tx_size :: "bytes \<times> check_tx_response option \<Rightarrow> uint64" where
  "tx_size x = of_nat (length (fst x))"

fun statuses ::
    "uint64 \<Rightarrow> uint64 \<Rightarrow> (bytes \<times> check_tx_response option) list \<Rightarrow> uint64 \<Rightarrow> uint64 \<Rightarrow> bool \<Rightarrow>
     filter_status list" where
  "statuses maxBytes maxGas [] cb cg limit = []"
| "statuses maxBytes maxGas (x # xs) cb cg limit =
     (if \<not> admissible maxBytes maxGas x then FilterRemove # statuses maxBytes maxGas xs cb cg limit
      else if limit \<or> maxBytes > 0 \<and> cb + tx_size x > maxBytes \<or> maxGas > 0 \<and> cg + tx_gas x > maxGas
      then FilterPostpone # statuses maxBytes maxGas xs cb cg True
      else FilterOK # statuses maxBytes maxGas xs (cb + tx_size x) (cg + tx_gas x) False)"

lemma length_tx_answers [simp]: "length (tx_answers chk txs app) = length txs"
  by (induction chk txs app rule: tx_answers.induct) (auto split: prod.splits)

lemma filter_loop_statuses:
  "fst (filter_loop chk maxBytes maxGas txs cb cg limit app) =
     statuses maxBytes maxGas (zip txs (tx_answers chk txs app)) cb cg limit"
proof (induction txs arbitrary: cb cg limit app)
  case (Cons tx txs)
  obtain resp app' where chk: "chk app tx = (resp, app')" by (cases "chk app tx")
  have fst_let: "fst (case p of (r, x) \<Rightarrow> (st # r, x)) = st # fst p"
    for p :: "filter_status list \<times> 'a" and st by (simp add: split_def)
  show ?case
  proof (cases "tx = []")
    case True
    then show ?thesis by (simp add: admissible_def fst_let Cons.IH)
  next
    case tx: False
    show ?thesis
    proof (cases resp)
      case (Inl err)
      then show ?thesis using tx by (simp add: chk admissible_def fst_let Cons.IH)
    next
      case (Inr r)
      have adm: "admissible maxBytes maxGas (tx, Some r) \<longleftrightarrow> ct_Code r = 0 \<and>
          \<not> (maxGas > 0 \<and> to_uint64 (ct_GasWanted r) > maxGas) \<and>
          \<not> (maxBytes > 0 \<and> of_nat (length tx) > maxBytes)"
        using tx by (auto simp: admissible_def not_less word_gt_0)
      show ?thesis
        using tx unfolding filter_loop.simps tx_answers.simps chk Inr
        by (simp add: fst_let Cons.IH adm tx_size_def tx_gas_def Let_def if_distrib [of fst]
            cong: if_cong)
    qed
  qed
qed simp

subsection \<open>Limits and order\<close>

lemma length_statuses [simp]: "length (statuses maxBytes maxGas xs cb cg limit) = length xs"
  by (induction maxBytes maxGas xs cb cg limit rule: statuses.induct) auto

lemma statuses_remove_iff:
  "i < length xs \<Longrightarrow>
     statuses maxBytes maxGas xs cb cg limit ! i = FilterRemove \<longleftrightarrow> \<not> admissible maxBytes maxGas (xs ! i)"
  by (induction maxBytes maxGas xs cb cg limit arbitrary: i rule: statuses.induct)
    (auto simp: nth_Cons split: nat.splits)

lemma statuses_limit_no_ok: "FilterOK \<notin> set (statuses maxBytes maxGas xs cb cg True)"
  by (induction xs) auto

lemma statuses_order:
  "i < j \<Longrightarrow> j < length xs \<Longrightarrow> statuses maxBytes maxGas xs cb cg limit ! i = FilterPostpone \<Longrightarrow>
     statuses maxBytes maxGas xs cb cg limit ! j \<noteq> FilterOK"
proof (induction xs arbitrary: i j cb cg limit)
  case (Cons x xs)
  obtain j' where j: "j = Suc j'" using Cons.prems(1) by (cases j) auto
  have no_ok: "statuses maxBytes maxGas xs cb cg True ! j' \<noteq> FilterOK" for cb cg
    using statuses_limit_no_ok [of maxBytes maxGas xs cb cg] Cons.prems(2) j by (metis length_Cons length_statuses not_less_eq nth_mem)
  show ?case
  proof (cases i)
    case 0
    then show ?thesis using Cons.prems(3) no_ok j by (auto split: if_splits)
  next
    case (Suc i')
    then show ?thesis using Cons.prems j Cons.IH [of i' j'] by (auto split: if_splits)
  qed
qed simp





lemma statuses_first_ok:
  "\<exists>x\<in>set xs. admissible maxBytes maxGas x \<Longrightarrow>
     \<exists>i < length xs. statuses maxBytes maxGas xs 0 0 False ! i = FilterOK \<and>
       (\<forall>j < i. \<not> admissible maxBytes maxGas (xs ! j))"
proof (induction xs)
  case (Cons x xs)
  show ?case
  proof (cases "admissible maxBytes maxGas x")
    case True
    then have "tx_size x \<le> maxBytes \<or> maxBytes = 0" "tx_gas x \<le> maxGas \<or> maxGas = 0"
      by (auto simp: admissible_def tx_size_def tx_gas_def split: option.splits)
    then show ?thesis using True by (intro exI [of _ 0]) (auto simp: not_less)
  next
    case False
    then obtain i where "i < length xs" "statuses maxBytes maxGas xs 0 0 False ! i = FilterOK"
      "\<forall>j < i. \<not> admissible maxBytes maxGas (xs ! j)" using Cons by auto
    then show ?thesis using False by (intro exI [of _ "Suc i"]) (auto simp: nth_Cons split: nat.splits)
  qed
qed simp

lemma FilterTxs_forced:
  "fst (FilterTxs chk txs maxBytes maxGas True app) =
     Inr (statuses maxBytes maxGas (zip txs (tx_answers chk txs app)) 0 0 False)"
  using filter_loop_statuses [of chk maxBytes maxGas txs 0 0 False app]
  by (auto simp: FilterTxs_def split: prod.splits)


text \<open>
  what the filter does with each transaction. It removes exactly the inadmissible ones
  (empty, refused by \<open>CheckTx\<close>, or over a limit by themselves); nothing is accepted after a
  postponed one, so the order of acceptance is kept; and if some transaction is admissible, the
  first admissible one is accepted, so a block is never blocked by a transaction that fits.
\<close>

lemma FilterTxs_statuses:
  assumes res: "fst (FilterTxs chk txs maxBytes maxGas True app) = Inr r"
  shows "(\<forall>i < length txs. r ! i = FilterRemove \<longleftrightarrow>
      \<not> admissible maxBytes maxGas (txs ! i, tx_answers chk txs app ! i)) \<and>
    (\<forall>i j. i < j \<longrightarrow> j < length txs \<longrightarrow> r ! i = FilterPostpone \<longrightarrow> r ! j \<noteq> FilterOK) \<and>
    ((\<exists>i < length txs. r ! i \<noteq> FilterRemove) \<longrightarrow>
       (\<exists>i < length txs. r ! i = FilterOK \<and> (\<forall>j < i. r ! j = FilterRemove)))"
proof -
  let ?xs = "zip txs (tx_answers chk txs app)"
  have r: "r = statuses maxBytes maxGas ?xs 0 0 False" using res by (simp add: FilterTxs_forced)
  have rem: "r ! i = FilterRemove \<longleftrightarrow> \<not> admissible maxBytes maxGas (?xs ! i)" if "i < length txs" for i
    using that statuses_remove_iff [of i ?xs maxBytes maxGas 0 0 False] by (simp add: r)
  have "\<exists>i < length txs. r ! i = FilterOK \<and> (\<forall>j < i. r ! j = FilterRemove)"
    if "i < length txs" "r ! i \<noteq> FilterRemove" for i
  proof -
    have "\<exists>x\<in>set ?xs. admissible maxBytes maxGas x"
      using that rem [of i] nth_mem [of i ?xs] by (intro bexI [of _ "?xs ! i"]) auto
    from statuses_first_ok [OF this] obtain n where n: "n < length txs" "r ! n = FilterOK"
      "\<forall>j < n. \<not> admissible maxBytes maxGas (?xs ! j)" by (auto simp: r)
    then show ?thesis using rem by (intro exI [of _ n]) auto
  qed
  then show ?thesis
    using rem statuses_order [of _ _ ?xs maxBytes maxGas 0 0 False] by (auto simp: r)
qed

subsection \<open>An example\<close>

text \<open>
  Three transactions of 2, 3 and 1 bytes, each wanting 5 gas, against a limit of 4 bytes: the
  first is accepted, the second is postponed, and so is the third although it would fit.
\<close>

definition demo_chk :: "unit check_tx" where
  "demo_chk app tx = (Inr \<lparr>ct_Code = 0, ct_GasWanted = 5\<rparr>, app)"

lemma demo_filter:
  "fst (FilterTxs demo_chk [[1, 2], [1, 2, 3], [1]] 4 100 True ()) =
     Inr [FilterOK, FilterPostpone, FilterPostpone]"
  by (simp add: FilterTxs_def demo_chk_def to_uint64_def)


lemma FilterTxs_statuses_example:
  "\<exists>i < length [[1, 2], [1, 2, 3], [1::byte]].
     [FilterOK, FilterPostpone, FilterPostpone] ! i = FilterOK"
  using FilterTxs_statuses [OF demo_filter] by auto

end
