(* ===== verification/Events.thy ===== *)
theory Events
  imports FilterTxs
begin

text \<open>
  The event bus of the adapter (\<open>fireEvents\<close> of \<open>pkg/adapter/adapter.go\<close>). The bus is the list
  of the events published so far; the argument \<open>can\<close> says whether the bus accepts the next
  one, so that every publication may fail. The lemmas show that the events of a block are
  published in a fixed order, and that a failure has published a prefix of them.
\<close>

datatype bus_event =
    NewBlock cmt_block block_id finalize_response
  | NewBlockHeader cmt_header
  | NewBlockEvents int64 "event list" int64
  | NewEvidence bytes int64
  | TxEvent int64 uint32 bytes exec_tx_result
  | ValidatorSetUpdates "cmt_validator list"

type_synonym bus_ext = "bus_event list \<Rightarrow> bus_event \<Rightarrow> unit result"

definition wrap :: "string \<Rightarrow> 'a result \<Rightarrow> 'a result" where
  "wrap msg r = (case r of Inl err \<Rightarrow> Inl (Wrap msg err) | Inr a \<Rightarrow> Inr a)"

lemma wrap_simps [simp]: "wrap msg (Inl err) = Inl (Wrap msg err)" "wrap msg (Inr a) = Inr a"
  by (simp_all add: wrap_def)

lemma wrap_Inr_iff [simp]: "wrap msg r = Inr a \<longleftrightarrow> r = Inr a"
  by (cases r) auto

definition publish ::
    "bus_ext \<Rightarrow> string \<Rightarrow> bus_event \<Rightarrow> bus_event list \<Rightarrow> unit result \<times> bus_event list" where
  "publish can msg ev bus =
     (case can bus ev of Inl err \<Rightarrow> (Inl (Wrap msg err), bus) | Inr _ \<Rightarrow> (Inr (), bus @ [ev]))"

fun fire_evidence ::
    "bus_ext \<Rightarrow> int64 \<Rightarrow> bytes list \<Rightarrow> bus_event list \<Rightarrow> unit result \<times> bus_event list" where
  "fire_evidence can h [] bus = (Inr (), bus)"
| "fire_evidence can h (ev # evs) bus =
     run_then (publish can ''publish new evidence event'' (NewEvidence ev h) bus)
       (\<lambda>_ bus. fire_evidence can h evs bus)"

text \<open>The loop over the transactions; a result that is missing is an index out of range.\<close>

fun fire_txs ::
    "bus_ext \<Rightarrow> int64 \<Rightarrow> exec_tx_result list \<Rightarrow> nat \<Rightarrow> bytes list \<Rightarrow> bus_event list \<Rightarrow>
     unit result \<times> bus_event list" where
  "fire_txs can h results i [] bus = (Inr (), bus)"
| "fire_txs can h results i (tx # txs) bus =
     (if i < length results then
        run_then (publish can ''publish event TX'' (TxEvent h (of_nat i) tx (results ! i)) bus)
          (\<lambda>_ bus. fire_txs can h results (Suc i) txs bus)
      else (Inl (Panic ''index out of range''), bus))"

definition fireEvents ::
    "bus_ext \<Rightarrow> cmt_block \<Rightarrow> block_id \<Rightarrow> finalize_response \<Rightarrow> cmt_validator list \<Rightarrow>
     bus_event list \<Rightarrow> unit result \<times> bus_event list" where
  "fireEvents can block blockID abciResponse validatorUpdates bus =
     (let height = hd_Height (bk_Header block) in
      run_then (publish can ''publish new block event'' (NewBlock block blockID abciResponse) bus) (\<lambda>_ bus.
      run_then (publish can ''publish new block header event'' (NewBlockHeader (bk_Header block)) bus) (\<lambda>_ bus.
      run_then (publish can ''publish block events''
        (NewBlockEvents height (fb_Events abciResponse) (int (length (bk_Txs block)))) bus) (\<lambda>_ bus.
      run_then (if bk_Evidence block \<noteq> [] then fire_evidence can height (bk_Evidence block) bus
                else (Inr (), bus)) (\<lambda>_ bus.
      run_then (fire_txs can height (fb_TxResults abciResponse) 0 (bk_Txs block) bus) (\<lambda>_ bus.
      if validatorUpdates \<noteq> []
      then publish can ''publish valset update event'' (ValidatorSetUpdates validatorUpdates) bus
      else (Inr (), bus)))))))"

subsection \<open>The events of a block\<close>

definition tx_events :: "int64 \<Rightarrow> exec_tx_result list \<Rightarrow> nat \<Rightarrow> bytes list \<Rightarrow> bus_event list" where
  "tx_events h results i txs =
     map (\<lambda>j. TxEvent h (of_nat (i + j)) (txs ! j) (results ! (i + j)))
       [0..<min (length txs) (length results - i)]"

definition block_events ::
    "cmt_block \<Rightarrow> block_id \<Rightarrow> finalize_response \<Rightarrow> cmt_validator list \<Rightarrow> bus_event list" where
  "block_events block blockID resp updates =
     (let h = hd_Height (bk_Header block) in
      [NewBlock block blockID resp, NewBlockHeader (bk_Header block),
       NewBlockEvents h (fb_Events resp) (int (length (bk_Txs block)))] @
      map (\<lambda>ev. NewEvidence ev h) (bk_Evidence block) @
      tx_events h (fb_TxResults resp) 0 (bk_Txs block) @
      (if updates \<noteq> [] then [ValidatorSetUpdates updates] else []))"

text \<open>
  \<open>publishes p bus evs\<close>: the call \<open>p\<close> from \<open>bus\<close> publishes a prefix of \<open>evs\<close>, and all of it
  when it succeeds.
\<close>

definition publishes :: "unit result \<times> bus_event list \<Rightarrow> bus_event list \<Rightarrow> bus_event list \<Rightarrow> bool" where
  "publishes p bus evs \<longleftrightarrow>
     (\<exists>k. snd p = bus @ take k evs \<and> (fst p = Inr () \<longrightarrow> length evs \<le> k))"

lemma publishes_nil: "publishes (Inr (), bus) bus []"
  by (simp add: publishes_def)

lemma publishes_publish: "publishes (publish can msg ev bus) bus [ev]"
  by (auto simp: publishes_def publish_def split: sum.splits intro: exI [of _ 0] exI [of _ 1])

lemma publishes_fail: "publishes (Inl err, bus) bus evs"
  by (auto simp: publishes_def intro: exI [of _ 0])

lemma publishes_run_then:
  assumes p: "publishes p bus evs" and f: "\<And>b. publishes (f () b) b evs'"
  shows "publishes (run_then p f) bus (evs @ evs')"
proof (cases p)
  case (Pair r b)
  obtain k where k: "b = bus @ take k evs" "r = Inr () \<longrightarrow> length evs \<le> k"
    using p Pair by (auto simp: publishes_def)
  show ?thesis
  proof (cases r)
    case (Inl err)
    then show ?thesis
      using Pair k by (auto simp: publishes_def min_def intro!: exI [of _ "min k (length evs)"])
  next
    case (Inr u)
    then have b: "b = bus @ evs" using k by simp
    obtain n where n: "snd (f () b) = b @ take n evs'" "fst (f () b) = Inr () \<longrightarrow> length evs' \<le> n"
      using f [of b] by (auto simp: publishes_def)
    then show ?thesis
      using Pair Inr b
      by (auto simp: publishes_def intro!: exI [of _ "length evs + n"])
  qed
qed

lemma publishes_evidence:
  "publishes (fire_evidence can h evs bus) bus (map (\<lambda>ev. NewEvidence ev h) evs)"
proof (induction evs arbitrary: bus)
  case (Cons ev evs)
  have "publishes (fire_evidence can h (ev # evs) bus) bus
      ([NewEvidence ev h] @ map (\<lambda>ev. NewEvidence ev h) evs)"
    unfolding fire_evidence.simps by (rule publishes_run_then) (simp_all add: publishes_publish Cons)
  then show ?case by simp
qed (simp add: publishes_nil)

lemma tx_events_Cons:
  "i < length results \<Longrightarrow>
     tx_events h results i (tx # txs) = TxEvent h (of_nat i) tx (results ! i) # tx_events h results (Suc i) txs"
proof -
  assume "i < length results"
  then have "min (length (tx # txs)) (length results - i) = Suc (min (length txs) (length results - Suc i))"
    by (auto simp: min_def)
  then show ?thesis
    by (simp add: tx_events_def upt_conv_Cons map_Suc_upt [symmetric] comp_def del: upt_Suc min_Suc_Suc)
qed

lemma publishes_txs: "publishes (fire_txs can h results i txs bus) bus (tx_events h results i txs)"
proof (induction txs arbitrary: i bus)
  case (Cons tx txs)
  show ?case
  proof (cases "i < length results")
    case True
    have "publishes (fire_txs can h results i (tx # txs) bus) bus
        ([TxEvent h (of_nat i) tx (results ! i)] @ tx_events h results (Suc i) txs)"
      using True by (simp only: fire_txs.simps if_True)
        (rule publishes_run_then, simp_all add: publishes_publish Cons)
    then show ?thesis using True by (simp add: tx_events_Cons)
  qed (simp add: publishes_fail)
qed (simp add: publishes_nil tx_events_def)

lemma publishes_fireEvents:
  "publishes (fireEvents can block bid resp updates bus) bus (block_events block bid resp updates)"
proof -
  let ?h = "hd_Height (bk_Header block)"
  have ev: "publishes (if bk_Evidence block \<noteq> [] then fire_evidence can ?h (bk_Evidence block) b
      else (Inr (), b)) b (map (\<lambda>ev. NewEvidence ev ?h) (bk_Evidence block))" for b
    by (simp add: publishes_evidence publishes_nil)
  have up: "publishes (if updates \<noteq> [] then publish can ''publish valset update event'' (ValidatorSetUpdates updates) b
      else (Inr (), b)) b (if updates \<noteq> [] then [ValidatorSetUpdates updates] else [])" for b
    by (simp add: publishes_publish publishes_nil)
  have "publishes (fireEvents can block bid resp updates bus) bus
     ([NewBlock block bid resp] @ [NewBlockHeader (bk_Header block)] @
      [NewBlockEvents ?h (fb_Events resp) (int (length (bk_Txs block)))] @
      map (\<lambda>ev. NewEvidence ev ?h) (bk_Evidence block) @
      tx_events ?h (fb_TxResults resp) 0 (bk_Txs block) @
      (if updates \<noteq> [] then [ValidatorSetUpdates updates] else []))"
    unfolding fireEvents_def Let_def
    by (intro publishes_run_then publishes_publish ev publishes_txs up)
  then show ?thesis by (simp add: block_events_def Let_def)
qed

lemma fire_txs_ok: "fst (fire_txs can h results i txs bus) = Inr () \<Longrightarrow> txs = [] \<or> i + length txs \<le> length results"
  by (induction can h results i txs bus rule: fire_txs.induct)
    (fastforce simp: run_then_def split: if_splits prod.splits sum.splits)+

lemma fireEvents_ok:
  assumes "fireEvents can block bid resp updates bus = (Inr (), bus')"
  shows "bus' = bus @ block_events block bid resp updates"
  using publishes_fireEvents [of can block bid resp updates bus] assms by (auto simp: publishes_def)

lemma fireEvents_prefix:
  "\<exists>k. snd (fireEvents can block bid resp updates bus) = bus @ take k (block_events block bid resp updates)"
  using publishes_fireEvents [of can block bid resp updates bus] by (auto simp: publishes_def)

end
