(* ===== verification/MempoolIds.thy ===== *)
theory MempoolIds
  imports SdkTypes
begin

text \<open>
  The numbering of peers for the mempool (\<open>pkg/adapter/mempool_ids.go\<close>). A peer is known by
  its ID string, the numbers are \<open>uint16\<close> and wrap around; the search for a free number is a
  loop that would not end if every number were taken, which is the value \<open>None\<close>.
\<close>

record mempool_ids =
  peerMap :: "(string, uint16) fmap"
  nextID :: uint16
  activeIDs :: "uint16 fset"

definition maxActiveIDs :: nat where "maxActiveIDs = 65535"

definition newMempoolIDs :: mempool_ids where
  "newMempoolIDs = \<lparr>peerMap = fmempty, nextID = 1, activeIDs = {|0|}\<rparr>"

partial_function (option) next_unused :: "uint16 fset \<Rightarrow> uint16 \<Rightarrow> uint16 option" where
  "next_unused active i = (if i |\<in>| active then next_unused active (i + 1) else Some i)"

definition nextPeerID :: "mempool_ids \<Rightarrow> (uint16 result \<times> mempool_ids) option" where
  "nextPeerID ids =
     (if fcard (activeIDs ids) = maxActiveIDs
      then Some (Inl (Panic ''node has maximum active IDs and wanted to get one more''), ids)
      else (case next_unused (activeIDs ids) (nextID ids) of
              None \<Rightarrow> None
            | Some curID \<Rightarrow> Some (Inr curID, ids\<lparr>nextID := curID + 1\<rparr>)))"

definition ReserveForPeer :: "string \<Rightarrow> mempool_ids \<Rightarrow> (unit result \<times> mempool_ids) option" where
  "ReserveForPeer peer ids =
     (case nextPeerID ids of
        None \<Rightarrow> None
      | Some (Inl panic, ids) \<Rightarrow> Some (Inl panic, ids)
      | Some (Inr curID, ids) \<Rightarrow>
          Some (Inr (), ids\<lparr>peerMap := fmupd peer curID (peerMap ids),
            activeIDs := finsert curID (activeIDs ids)\<rparr>))"

definition Reclaim :: "string \<Rightarrow> mempool_ids \<Rightarrow> mempool_ids" where
  "Reclaim peer ids =
     (case fmlookup (peerMap ids) peer of
        None \<Rightarrow> ids
      | Some removedID \<Rightarrow> ids\<lparr>activeIDs := activeIDs ids |-| {|removedID|},
            peerMap := fmdrop peer (peerMap ids)\<rparr>)"

definition GetForPeer :: "string \<Rightarrow> mempool_ids \<Rightarrow> (uint16 result \<times> mempool_ids) option" where
  "GetForPeer peer ids =
     (case fmlookup (peerMap ids) peer of
        Some i \<Rightarrow> Some (Inr i, ids)
      | None \<Rightarrow>
         (case nextPeerID ids of
            None \<Rightarrow> None
          | Some (Inl panic, ids) \<Rightarrow> Some (Inl panic, ids)
          | Some (Inr i, ids) \<Rightarrow> Some (Inr i, ids\<lparr>peerMap := fmupd peer i (peerMap ids),
              activeIDs := finsert i (activeIDs ids)\<rparr>)))"

subsection \<open>The search ends\<close>

lemma next_unused_after:
  "(\<And>j. j < n \<Longrightarrow> i + of_nat j |\<in>| active) \<Longrightarrow> i + of_nat n |\<notin>| active \<Longrightarrow>
     next_unused active i = Some (i + of_nat n)"
proof (induction n arbitrary: i)
  case 0
  then show ?case by (subst next_unused.simps) simp
next
  case (Suc n)
  have "i |\<in>| active" using Suc.prems(1) [of 0] by simp
  moreover have "next_unused active (i + 1) = Some (i + 1 + of_nat n)"
  proof (rule Suc.IH)
    show "j < n \<Longrightarrow> i + 1 + of_nat j |\<in>| active" for j
      using Suc.prems(1) [of "Suc j"] by (simp add: add.assoc)
    show "i + 1 + of_nat n |\<notin>| active" using Suc.prems(2) by (simp add: add.assoc)
  qed
  ultimately show ?case by (subst next_unused.simps) (simp add: add.assoc)
qed

lemma next_unused_ends:
  assumes "\<exists>k. k |\<notin>| active"
  obtains k where "next_unused active i = Some k" and "k |\<notin>| active"
proof -
  from assms obtain k where k: "k |\<notin>| active" by blast
  have "i + of_nat (unat (k - i)) = k" by simp
  with k have ex: "\<exists>n. i + of_nat n |\<notin>| active" by metis
  define n where "n = (LEAST n. i + of_nat n |\<notin>| active)"
  have "i + of_nat n |\<notin>| active" unfolding n_def by (rule LeastI_ex [OF ex])
  moreover have "i + of_nat j |\<in>| active" if "j < n" for j
    using not_less_Least that unfolding n_def by blast
  ultimately show ?thesis using next_unused_after [of n i active] that by blast
qed

lemma not_all_active:
  assumes "fcard (active :: uint16 fset) < 65536"
  shows "\<exists>k. k |\<notin>| active"
proof (rule ccontr)
  assume "\<nexists>k. k |\<notin>| active"
  then have "fset active = UNIV" by auto
  then have "fcard active = 65536" by (simp add: fcard.rep_eq card_word)
  with assms show False by simp
qed

subsection \<open>The invariant\<close>

text \<open>
  Number 0 stays reserved for messages without a sender, every peer has a number of its own
  that is active, and at most 65535 numbers are active.
\<close>

definition ids_ok :: "mempool_ids \<Rightarrow> bool" where
  "ids_ok ids \<longleftrightarrow>
     0 |\<in>| activeIDs ids \<and> fcard (activeIDs ids) \<le> maxActiveIDs \<and>
     (\<forall>p i. fmlookup (peerMap ids) p = Some i \<longrightarrow> i \<noteq> 0 \<and> i |\<in>| activeIDs ids) \<and>
     (\<forall>p q i. fmlookup (peerMap ids) p = Some i \<longrightarrow> fmlookup (peerMap ids) q = Some i \<longrightarrow> p = q)"

lemma newMempoolIDs_ok: "ids_ok newMempoolIDs"
  by (simp add: ids_ok_def newMempoolIDs_def maxActiveIDs_def fcard.rep_eq)

lemma nextPeerID_fresh:
  assumes "ids_ok ids" "fcard (activeIDs ids) \<noteq> maxActiveIDs"
  obtains i where "nextPeerID ids = Some (Inr i, ids\<lparr>nextID := i + 1\<rparr>)" and "i |\<notin>| activeIDs ids"
proof -
  have "fcard (activeIDs ids) < 65536" using assms by (simp add: ids_ok_def maxActiveIDs_def)
  from next_unused_ends [OF not_all_active [OF this]] obtain k where
    "next_unused (activeIDs ids) (nextID ids) = Some k" "k |\<notin>| activeIDs ids" by blast
  then show ?thesis using that assms(2) by (simp add: nextPeerID_def)
qed

lemma assign_ok:
  assumes ok: "ids_ok ids" and "fcard (activeIDs ids) \<noteq> maxActiveIDs" and i: "i |\<notin>| activeIDs ids"
  shows "ids_ok (ids\<lparr>nextID := n, peerMap := fmupd peer i (peerMap ids),
    activeIDs := finsert i (activeIDs ids)\<rparr>)"
proof -
  have "i \<noteq> 0" using ok i by (auto simp: ids_ok_def)
  moreover have "fmlookup (peerMap ids) p \<noteq> Some i" for p using ok i by (auto simp: ids_ok_def)
  moreover have "fcard (finsert i (activeIDs ids)) \<le> maxActiveIDs"
    using assms by (simp add: fcard_finsert_if ids_ok_def)
  ultimately show ?thesis using ok by (auto simp: ids_ok_def)
qed

text \<open>
  looking up or assigning the number of a peer. The search for a free number always ends;
  a known peer keeps its number; a new peer gets a number that no other peer has and that is not
  0; the operation fails exactly when the peer is new and 65535 numbers are active, and then
  nothing changes. The numbers of the other peers do not change.
\<close>

lemma GetForPeer_correct:
  assumes ok: "ids_ok ids"
  shows "\<exists>r ids'. GetForPeer peer ids = Some (r, ids') \<and> ids_ok ids' \<and>
    (is_err r \<longleftrightarrow> fmlookup (peerMap ids) peer = None \<and> fcard (activeIDs ids) = maxActiveIDs) \<and>
    (if is_err r then ids' = ids
     else (\<exists>i. r = Inr i \<and> i \<noteq> 0 \<and> fmlookup (peerMap ids') peer = Some i \<and>
       (\<forall>p. p \<noteq> peer \<longrightarrow> fmlookup (peerMap ids') p = fmlookup (peerMap ids) p \<and>
         fmlookup (peerMap ids') p \<noteq> Some i)))"
proof (cases "fmlookup (peerMap ids) peer")
  case (Some i)
  then have "i \<noteq> 0 \<and> (\<forall>p. p \<noteq> peer \<longrightarrow> fmlookup (peerMap ids) p \<noteq> Some i)"
    using ok by (auto simp: ids_ok_def)
  then show ?thesis using Some ok by (simp add: GetForPeer_def)
next
  case None
  show ?thesis
  proof (cases "fcard (activeIDs ids) = maxActiveIDs")
    case True
    then show ?thesis using None ok by (simp add: GetForPeer_def nextPeerID_def)
  next
    case False
    from nextPeerID_fresh [OF ok False] obtain i where
      i: "nextPeerID ids = Some (Inr i, ids\<lparr>nextID := i + 1\<rparr>)" "i |\<notin>| activeIDs ids" .
    let ?ids' = "ids\<lparr>nextID := i + 1, peerMap := fmupd peer i (peerMap ids),
      activeIDs := finsert i (activeIDs ids)\<rparr>"
    have "GetForPeer peer ids = Some (Inr i, ?ids')" using None i(1) by (simp add: GetForPeer_def)
    moreover have "ids_ok ?ids'" by (rule assign_ok [OF ok False i(2)])
    moreover have "i \<noteq> 0" "fmlookup (peerMap ids) p \<noteq> Some i" for p
      using ok i(2) by (auto simp: ids_ok_def)
    ultimately show ?thesis using False by auto
  qed
qed

text \<open>
  Reclaiming a peer's number frees it and keeps the other peers' numbers; the numbers stay
  distinct. Reserving for a peer that already has a number does not free the old one: it stays
  active although no peer has it, and reclaiming the peer does not return it.
\<close>

lemma Reclaim_and_Reserve:
  assumes ok: "ids_ok ids" and peer: "fmlookup (peerMap ids) peer = Some old"
  shows "ids_ok (Reclaim peer ids) \<and> old |\<notin>| activeIDs (Reclaim peer ids) \<and>
    fmlookup (peerMap (Reclaim peer ids)) peer = None \<and>
    (\<forall>p. p \<noteq> peer \<longrightarrow> fmlookup (peerMap (Reclaim peer ids)) p = fmlookup (peerMap ids) p) \<and>
    (\<forall>ids'. ReserveForPeer peer ids = Some (Inr (), ids') \<longrightarrow>
       ids_ok ids' \<and> old |\<in>| activeIDs (Reclaim peer ids') \<and>
       (\<forall>p. fmlookup (peerMap (Reclaim peer ids')) p \<noteq> Some old))"
proof (intro conjI allI impI)
  have "fcard (activeIDs ids |-| {|old|}) \<le> fcard (activeIDs ids)"
    by (simp add: fcard.rep_eq card_Diff1_le)
  then show "ids_ok (Reclaim peer ids)"
    using ok peer by (auto simp: Reclaim_def ids_ok_def)
next
  fix ids' assume res: "ReserveForPeer peer ids = Some (Inr (), ids')"
  then have neq: "fcard (activeIDs ids) \<noteq> maxActiveIDs"
    by (auto simp: ReserveForPeer_def nextPeerID_def)
  from nextPeerID_fresh [OF ok neq] obtain i where
    i: "nextPeerID ids = Some (Inr i, ids\<lparr>nextID := i + 1\<rparr>)" "i |\<notin>| activeIDs ids" .
  then have ids': "ids' = ids\<lparr>nextID := i + 1, peerMap := fmupd peer i (peerMap ids),
      activeIDs := finsert i (activeIDs ids)\<rparr>"
    using res by (simp add: ReserveForPeer_def)
  show "ids_ok ids'" unfolding ids' by (rule assign_ok [OF ok neq i(2)])
  have "old |\<in>| activeIDs ids" "old \<noteq> i" using ok peer i(2) by (auto simp: ids_ok_def)
  then show "old |\<in>| activeIDs (Reclaim peer ids')" by (simp add: ids' Reclaim_def)
  show "fmlookup (peerMap (Reclaim peer ids')) p \<noteq> Some old" for p
    using ok peer by (auto simp: ids' Reclaim_def ids_ok_def)
qed (use peer in \<open>simp_all add: Reclaim_def\<close>)

subsection \<open>Witnesses\<close>

definition demo_ids :: mempool_ids where
  "demo_ids = \<lparr>peerMap = fmupd ''p'' 1 fmempty, nextID = 2, activeIDs = {|0, 1|}\<rparr>"

lemma demo_ids_ok: "ids_ok demo_ids"
  by (simp add: ids_ok_def demo_ids_def maxActiveIDs_def fcard.rep_eq)

lemma GetForPeer_correct_example:
  "ids_ok demo_ids \<and> (\<exists>r ids'. GetForPeer ''q'' demo_ids = Some (r, ids') \<and> ids_ok ids' \<and> \<not> is_err r)"
proof -
  have "fcard (activeIDs demo_ids) \<noteq> maxActiveIDs" by (simp add: demo_ids_def maxActiveIDs_def fcard.rep_eq)
  then show ?thesis using GetForPeer_correct [OF demo_ids_ok, of "''q''"] demo_ids_ok by metis
qed

lemma Reclaim_and_Reserve_example:
  "ids_ok demo_ids \<and> fmlookup (peerMap demo_ids) ''p'' = Some 1 \<and>
   ids_ok (Reclaim ''p'' demo_ids) \<and> 1 |\<notin>| activeIDs (Reclaim ''p'' demo_ids)"
  using Reclaim_and_Reserve [OF demo_ids_ok, of "''p''" 1] demo_ids_ok by (simp add: demo_ids_def)

end
