(* ===== verification/Adapter.thy ===== *)
theory Adapter
  imports Convert Events MempoolIds
begin

text \<open>
  The execution adapter (\<open>Adapter\<close> of \<open>pkg/adapter/adapter.go\<close>): it drives an ABCI application
  for the block manager of ev-node and keeps the execution store. The application, the mempool
  and the ev-node store are other packages: their operations are the fields of \<open>adapter_env\<close>
  and may fail and change their own state (\<open>'a\<close> and \<open>'m\<close>) in any way. Logging and metrics are
  left out.
\<close>

subsection \<open>State and collaborators\<close>

record init_chain_request =
  iq_Time :: int
  iq_ChainId :: string
  iq_ConsensusParams :: consensus_params
  iq_Validators :: "val_update list"
  iq_AppStateBytes :: bytes
  iq_InitialHeight :: int64

record init_chain_response =
  ir_ConsensusParams :: "consensus_params option"
  ir_Validators :: "val_update list"
  ir_AppHash :: bytes

record block_request =
  br_Hash :: bytes
  br_NextValidatorsHash :: bytes
  br_ProposerAddress :: bytes
  br_Height :: int64
  br_Time :: int
  br_LastCommit :: commit_info
  br_Txs :: "bytes list"

record prepare_request =
  pq_Txs :: "bytes list"
  pq_MaxTxBytes :: int64
  pq_Height :: int64
  pq_Time :: int
  pq_NextValidatorsHash :: bytes
  pq_ProposerAddress :: bytes

record 'a abci_app =
  app_InitChain :: "init_chain_request \<Rightarrow> 'a \<Rightarrow> init_chain_response result \<times> 'a"
  app_ProcessProposal :: "block_request \<Rightarrow> 'a \<Rightarrow> bool result \<times> 'a"
  app_FinalizeBlock :: "block_request \<Rightarrow> 'a \<Rightarrow> finalize_response result \<times> 'a"
  app_Commit :: "'a \<Rightarrow> unit result \<times> 'a"
  app_PrepareProposal :: "prepare_request \<Rightarrow> 'a \<Rightarrow> bytes list result \<times> 'a"

text \<open>
  The mempool. \<open>CheckTx\<close> returns an error or none; what its callback sends is part of the
  wake-up that the caller waits for.
\<close>

record 'm mempool_ops =
  mp_FlushAppConn :: "'m \<Rightarrow> unit result \<times> 'm"
  mp_Update :: "int64 \<Rightarrow> bytes list \<Rightarrow> exec_tx_result list \<Rightarrow> cmt_state \<Rightarrow> 'm \<Rightarrow> unit result \<times> 'm"
  mp_ReapMaxBytesMaxGas :: "int64 \<Rightarrow> int64 \<Rightarrow> 'm \<Rightarrow> bytes list"
  mp_CheckTx :: "bytes \<Rightarrow> uint16 \<Rightarrow> string \<Rightarrow> 'm \<Rightarrow> unit result \<times> 'm"

record ('a, 'm) adapter_env =
  ae_x :: cmt_ext
  ae_e :: store_ext
  ae_app :: "'a abci_app"
  ae_mempool :: "'m mempool_ops"
  ae_bus :: bus_ext
  ae_AppGenesis :: "app_genesis option"
  ae_GetHeader :: "uint64 \<Rightarrow> ev_header result"
  ae_Height :: "uint64 result"
  ae_IsPublishable :: "int64 \<Rightarrow> bool"

record stacked_event =
  se_blockID :: block_id
  se_block :: cmt_block
  se_abciResponse :: finalize_response
  se_validatorUpdates :: "cmt_validator list"

record ('a, 'm) adapter =
  ad_App :: 'a
  ad_Store :: datastore
  ad_Mempool :: "'m option"
  ad_MempoolIDs :: mempool_ids
  ad_EventBus :: "bus_event list"
  ad_stackedEvents :: "stacked_event list"

text \<open>A new adapter has no mempool, no queued event and the initial peer numbers.\<close>

definition NewABCIExecutor :: "'a \<Rightarrow> datastore \<Rightarrow> ('a, 'm) adapter" where
  "NewABCIExecutor app store =
     \<lparr>ad_App = app, ad_Store = store, ad_Mempool = None, ad_MempoolIDs = newMempoolIDs,
      ad_EventBus = [], ad_stackedEvents = []\<rparr>"

definition SetMempool :: "'m \<Rightarrow> ('a, 'm) adapter \<Rightarrow> ('a, 'm) adapter" where
  "SetMempool mempool a = a\<lparr>ad_Mempool := Some mempool\<rparr>"

text \<open>A call of the application, of the store, of the bus or of the mempool inside the adapter.\<close>

definition on_app :: "('a \<Rightarrow> 'r result \<times> 'a) \<Rightarrow> ('a, 'm) adapter \<Rightarrow> 'r result \<times> ('a, 'm) adapter" where
  "on_app f a = (case f (ad_App a) of (r, app) \<Rightarrow> (r, a\<lparr>ad_App := app\<rparr>))"

definition on_store ::
    "(datastore \<Rightarrow> 'r result \<times> datastore) \<Rightarrow> ('a, 'm) adapter \<Rightarrow> 'r result \<times> ('a, 'm) adapter" where
  "on_store f a = (case f (ad_Store a) of (r, m) \<Rightarrow> (r, a\<lparr>ad_Store := m\<rparr>))"

definition on_bus ::
    "(bus_event list \<Rightarrow> 'r result \<times> bus_event list) \<Rightarrow> ('a, 'm) adapter \<Rightarrow> 'r result \<times> ('a, 'm) adapter"
  where
  "on_bus f a = (case f (ad_EventBus a) of (r, b) \<Rightarrow> (r, a\<lparr>ad_EventBus := b\<rparr>))"

definition on_mempool ::
    "('m \<Rightarrow> 'r result \<times> 'm) \<Rightarrow> ('a, 'm) adapter \<Rightarrow> 'r result \<times> ('a, 'm) adapter" where
  "on_mempool f a =
     (case ad_Mempool a of
        None \<Rightarrow> (Inl (Panic ''nil pointer dereference''), a)
      | Some mp \<Rightarrow> (case f mp of (r, mp') \<Rightarrow> (r, a\<lparr>ad_Mempool := Some mp'\<rparr>)))"

text \<open>An error returned with context added to it.\<close>

definition wrapping :: "string \<Rightarrow> 'r result \<times> 's \<Rightarrow> 'r result \<times> 's" where
  "wrapping msg p = (wrap msg (fst p), snd p)"

lemma snd_wrapping [simp]: "snd (wrapping msg p) = snd p"
  by (simp add: wrapping_def)

subsection \<open>Initialisation\<close>

definition initial_state ::
    "cmt_ext \<Rightarrow> string \<Rightarrow> uint64 \<Rightarrow> consensus_params \<Rightarrow> init_chain_response \<Rightarrow> cmt_state result" where
  "initial_state x chainID initialHeight consensusParams res =
     (case x_PB2TM_ValidatorUpdates x (ir_Validators res) of
        Inl err \<Rightarrow> Inl (Wrap ''validator updates'' err)
      | Inr vals \<Rightarrow>
         (let nValSet = x_NewValidatorSet x vals in
          if length (vs_Validators nValSet) \<noteq> 1 then Inl (ErrorString ''expected exactly one validator'')
          else Inr \<lparr>st_ChainID = chainID, st_LastBlockHeight = 0,
            st_Validators = x_NewValidatorSet x (vs_Validators nValSet),
            st_NextValidators = x_IncrementProposerPriority x (x_NewValidatorSet x (vs_Validators nValSet)),
            st_LastValidators = x_NewValidatorSet x (vs_Validators nValSet),
            st_LastHeightValidatorsChanged = to_int64 initialHeight,
            st_ConsensusParams = (case ir_ConsensusParams res of Some p \<Rightarrow> p | None \<Rightarrow> consensusParams),
            st_LastHeightConsensusParamsChanged = to_int64 initialHeight,
            st_AppHash = ir_AppHash res\<rparr>))"

definition InitChain ::
    "('a, 'm) adapter_env \<Rightarrow> int \<Rightarrow> uint64 \<Rightarrow> string \<Rightarrow> ('a, 'm) adapter \<Rightarrow>
     bytes result \<times> ('a, 'm) adapter" where
  "InitChain E genesisTime initialHeight chainID a =
     (case ae_AppGenesis E of
        None \<Rightarrow> (Inl (ErrorString ''app genesis not loaded''), a)
      | Some g \<Rightarrow>
          if ag_GenesisTime g \<noteq> genesisTime then (Inl (ErrorString ''genesis time mismatch''), a)
          else if ag_ChainID g \<noteq> chainID then (Inl (ErrorString ''chain ID mismatch''), a)
          else if initialHeight \<noteq> to_uint64 (ag_InitialHeight g)
          then (Inl (ErrorString ''initial height mismatch''), a)
          else
            let validators = map (\<lambda>v. x_NewValidator (ae_x E) (gv_PubKey v) (gv_Power v)) (ag_Validators g) in
            (case ag_Params g of
               None \<Rightarrow> (Inl (Panic ''nil pointer dereference''), a)
             | Some consensusParams \<Rightarrow>
            run_then (wrapping ''app initialize chain'' (on_app (app_InitChain (ae_app E)
                \<lparr>iq_Time = genesisTime, iq_ChainId = chainID, iq_ConsensusParams = consensusParams,
                 iq_Validators = x_TM2PB_ValidatorUpdates (ae_x E) (x_NewValidatorSet (ae_x E) validators),
                 iq_AppStateBytes = ag_AppState g, iq_InitialHeight = to_int64 initialHeight\<rparr>) a)) (\<lambda>res a.
            run_then (initial_state (ae_x E) chainID initialHeight consensusParams res, a) (\<lambda>s a.
            run_then (wrapping ''save initial state'' (on_store (SaveState (ae_e E) s) a)) (\<lambda>_ a.
            (Inr (ir_AppHash res), a))))))"

subsection \<open>Block execution\<close>

text \<open>The checks, the proposal and the execution of the block by the application.\<close>

record executed =
  ex_State :: cmt_state
  ex_Block :: cmt_block
  ex_BlockID :: block_id
  ex_Response :: finalize_response

definition prepare_block ::
    "('a, 'm) adapter_env \<Rightarrow> bytes list \<Rightarrow> uint64 \<Rightarrow> ev_header option \<Rightarrow> datastore \<Rightarrow>
     (cmt_state \<times> commit \<times> cmt_header \<times> cmt_block \<times> block_id) result" where
  "prepare_block E txs blockHeight ctxHeader m =
     and_then (wrap ''load state'' (LoadState (ae_e E) m)) (\<lambda>s.
     (case ctxHeader of
        None \<Rightarrow> Inl (ErrorString ''ev-node header not found in context'')
      | Some header \<Rightarrow>
     and_then (wrap ''get last commit''
        (GetLastCommit (ae_e E) (ae_GetHeader E) (ae_AppGenesis E) blockHeight m)) (\<lambda>lastCommit.
     and_then (wrap ''compute header hash'' (ToABCIHeader (ae_x E) header lastCommit)) (\<lambda>abciHeader.
     and_then (MakeABCIBlock (ae_x E) blockHeight txs s abciHeader lastCommit) (\<lambda>(abciBlock, currentBlockID).
     Inr (s, lastCommit, abciHeader, abciBlock, currentBlockID))))))"

definition run_block ::
    "('a, 'm) adapter_env \<Rightarrow> bytes list \<Rightarrow> uint64 \<Rightarrow> int \<Rightarrow> ev_header option \<Rightarrow> ('a, 'm) adapter \<Rightarrow>
     executed result \<times> ('a, 'm) adapter" where
  "run_block E txs blockHeight timestamp ctxHeader a =
     run_then (prepare_block E txs blockHeight ctxHeader (ad_Store a), a)
       (\<lambda>(s, lastCommit, abciHeader, abciBlock, currentBlockID) a.
     let req = \<lparr>br_Hash = x_header_Hash (ae_x E) abciHeader,
           br_NextValidatorsHash = x_valset_Hash (ae_x E) (st_NextValidators s),
           br_ProposerAddress = cv_Address (vs_Proposer (st_Validators s)),
           br_Height = to_int64 blockHeight, br_Time = timestamp,
           br_LastCommit = cometCommitToABCICommitInfo lastCommit, br_Txs = txs\<rparr> in
     run_then (on_app (app_ProcessProposal (ae_app E) req) a) (\<lambda>accepted a.
     if \<not> accepted then (Inl (ErrorString ''proposal rejected by app''), a)
     else
     run_then (on_app (app_FinalizeBlock (ae_app E) req) a) (\<lambda>fbResp a.
     if length (fb_TxResults fbResp) < length txs then (Inl (Panic ''index out of range''), a)
     else (Inr \<lparr>ex_State = s, ex_Block = abciBlock, ex_BlockID = currentBlockID, ex_Response = fbResp\<rparr>, a))))"

text \<open>The state after the block.\<close>

definition next_params :: "cmt_ext \<Rightarrow> uint64 \<Rightarrow> finalize_response \<Rightarrow> cmt_state \<Rightarrow> cmt_state result" where
  "next_params x blockHeight fbResp s =
     (case fb_ConsensusParamUpdates fbResp of
        None \<Rightarrow> Inr s
      | Some updates \<Rightarrow>
          let nextParams = x_params_Update x (st_ConsensusParams s) updates in
          and_then (wrap ''validating new consensus params'' (x_params_ValidateBasic x nextParams)) (\<lambda>_.
          and_then (wrap ''updating consensus params''
            (x_params_ValidateUpdate x (st_ConsensusParams s) updates (to_int64 blockHeight))) (\<lambda>_.
          Inr (s\<lparr>st_ConsensusParams := nextParams,
                 st_LastHeightConsensusParamsChanged := int64_wrap (to_int64 blockHeight + 1)\<rparr>))))"

definition next_state ::
    "cmt_ext \<Rightarrow> uint64 \<Rightarrow> finalize_response \<Rightarrow> cmt_state \<Rightarrow> (cmt_state \<times> cmt_validator list) result" where
  "next_state x blockHeight fbResp s0 =
     (let s = s0\<lparr>st_AppHash := fb_AppHash fbResp, st_LastBlockHeight := to_int64 blockHeight\<rparr> in
      and_then (x_PB2TM_ValidatorUpdates x (fb_ValidatorUpdates fbResp)) (\<lambda>validatorUpdates.
      and_then (if validatorUpdates \<noteq> []
          then and_then (wrap ''changing validator set''
                 (x_UpdateWithChangeSet x (st_NextValidators s) validatorUpdates)) (\<lambda>n.
               Inr (n, int64_wrap (to_int64 blockHeight + 2)))
          else Inr (st_NextValidators s, st_LastHeightValidatorsChanged s))
        (\<lambda>(nValSet0, lastHeightValsChanged).
      let nValSet = x_IncrementProposerPriority x nValSet0 in
      and_then (next_params x blockHeight fbResp s) (\<lambda>s.
      Inr (s\<lparr>st_LastValidators := st_Validators s, st_Validators := nValSet,
             st_NextValidators := x_IncrementProposerPriority x nValSet,
             st_LastHeightValidatorsChanged := lastHeightValsChanged,
             st_AppHash := fb_AppHash fbResp\<rparr>, validatorUpdates)))))"

text \<open>The section under the mempool lock.\<close>

definition commit_app ::
    "('a, 'm) adapter_env \<Rightarrow> bytes list \<Rightarrow> uint64 \<Rightarrow> finalize_response \<Rightarrow> cmt_state \<Rightarrow> ('a, 'm) adapter \<Rightarrow>
     unit result \<times> ('a, 'm) adapter" where
  "commit_app E txs blockHeight fbResp s a =
     run_then (on_mempool (mp_FlushAppConn (ae_mempool E)) a) (\<lambda>_ a.
     run_then (on_app (app_Commit (ae_app E)) a) (\<lambda>_ a.
     on_mempool (mp_Update (ae_mempool E) (to_int64 blockHeight) txs (fb_TxResults fbResp) s) a))"

text \<open>The writes of the block, in the order of the code, around the commit.\<close>

definition finish_block ::
    "('a, 'm) adapter_env \<Rightarrow> bytes list \<Rightarrow> uint64 \<Rightarrow> executed \<Rightarrow> cmt_state \<Rightarrow> cmt_validator list \<Rightarrow>
     ('a, 'm) adapter \<Rightarrow> bytes result \<times> ('a, 'm) adapter" where
  "finish_block E txs blockHeight ex s validatorUpdates a =
     (let fbResp = ex_Response ex in
     run_then (wrapping ''save state'' (on_store (SaveState (ae_e E) s) a)) (\<lambda>_ a.
     run_then (commit_app E txs blockHeight fbResp s a) (\<lambda>_ a.
     run_then (wrapping ''save block ID'' (on_store (SaveBlockID (ae_e E) blockHeight (ex_BlockID ex)) a)) (\<lambda>_ a.
     run_then (wrapping ''save block response'' (on_store (SaveBlockResponse (ae_e E) blockHeight fbResp) a)) (\<lambda>_ a.
     run_then (wrapping ''fire events''
       (on_bus (fireEvents (ae_bus E) (ex_Block ex) (ex_BlockID ex) fbResp validatorUpdates) a)) (\<lambda>_ a.
     (Inr (fb_AppHash fbResp), a)))))))"

definition ExecuteTxs ::
    "('a, 'm) adapter_env \<Rightarrow> bytes list \<Rightarrow> uint64 \<Rightarrow> int \<Rightarrow> ev_header option \<Rightarrow> ('a, 'm) adapter \<Rightarrow>
     bytes result \<times> ('a, 'm) adapter" where
  "ExecuteTxs E txs blockHeight timestamp ctxHeader a =
     run_then (run_block E txs blockHeight timestamp ctxHeader a) (\<lambda>ex a.
     run_then (next_state (ae_x E) blockHeight (ex_Response ex) (ex_State ex), a) (\<lambda>(s, validatorUpdates) a.
     finish_block E txs blockHeight ex s validatorUpdates a))"

subsection \<open>The other operations\<close>

definition GetExecutionInfo :: "('a, 'm) adapter_env \<Rightarrow> ('a, 'm) adapter \<Rightarrow> uint64 result" where
  "GetExecutionInfo E a =
     and_then (wrap ''load state'' (LoadState (ae_e E) (ad_Store a))) (\<lambda>s.
     Inr (to_uint64 (cp_MaxGas (st_ConsensusParams s))))"

text \<open>\<open>now\<close> is the reading of the clock.\<close>

definition GetTxs ::
    "('a, 'm) adapter_env \<Rightarrow> int \<Rightarrow> ('a, 'm) adapter \<Rightarrow> bytes list result \<times> ('a, 'm) adapter" where
  "GetTxs E now a =
     run_then (wrap ''load state for GetTxs'' (LoadState (ae_e E) (ad_Store a)), a) (\<lambda>s a.
     (case ad_Mempool a of
        None \<Rightarrow> (Inl (ErrorString ''mempool not initialized''), a)
      | Some mp \<Rightarrow>
          let txsBytes = mp_ReapMaxBytesMaxGas (ae_mempool E) (cp_MaxBytes (st_ConsensusParams s)) (- 1) mp in
          run_then (ae_Height E, a) (\<lambda>currentHeight a.
          on_app (app_PrepareProposal (ae_app E)
            \<lparr>pq_Txs = txsBytes, pq_MaxTxBytes = cp_MaxBytes (st_ConsensusParams s),
             pq_Height = to_int64 (currentHeight + 1), pq_Time = now,
             pq_NextValidatorsHash = x_valset_Hash (ae_x E) (st_NextValidators s),
             pq_ProposerAddress = cv_Address (vs_Proposer (st_Validators s))\<rparr>) a)))"

definition PruneExec :: "uint64 \<Rightarrow> datastore option \<Rightarrow> (unit result \<times> datastore option) option" where
  "PruneExec height store =
     (case store of
        None \<Rightarrow> Some (Inr (), None)
      | Some m \<Rightarrow> map_option (\<lambda>(r, m'). (r, Some m')) (Prune height m))"

text \<open>
  The release of queued events. \<open>cancelled i\<close> says whether the context is done when the loop
  comes to position \<open>i\<close>.
\<close>

fun max_released :: "(int64 \<Rightarrow> bool) \<Rightarrow> int64 \<Rightarrow> nat \<Rightarrow> stacked_event list \<Rightarrow> nat option \<Rightarrow> nat option" where
  "max_released publishable persistedHeight i [] r = r"
| "max_released publishable persistedHeight i (v # vs) r =
     (let h = hd_Height (bk_Header (se_block v)) in
      max_released publishable persistedHeight (Suc i) vs
        (if h \<le> persistedHeight \<and> publishable h then Some i else r))"

text \<open>The loop returns the last position it counts as released; the list holds the positions left.\<close>

fun release_loop ::
    "('a, 'm) adapter_env \<Rightarrow> (nat \<Rightarrow> bool) \<Rightarrow> nat \<Rightarrow> nat list \<Rightarrow> ('a, 'm) adapter \<Rightarrow>
     nat result \<times> ('a, 'm) adapter" where
  "release_loop E cancelled maxPosReleased [] a = (Inr maxPosReleased, a)"
| "release_loop E cancelled maxPosReleased (i # is) a =
     (if cancelled i then (Inr i, a)
      else
        let evnt = ad_stackedEvents a ! i;
            h = to_uint64 (hd_Height (bk_Header (se_block evnt))) in
        run_then (wrap ''get block response'' (GetBlockResponse (ae_e E) h (ad_Store a)), a) (\<lambda>blockRsp a.
        run_then (wrapping ''save block response'' (on_store (SaveBlockResponse (ae_e E) h
            (blockRsp\<lparr>fb_Events := fb_Events (se_abciResponse evnt)\<rparr>)) a)) (\<lambda>_ a.
        run_then (wrapping ''fire events'' (on_bus (fireEvents (ae_bus E) (se_block evnt) (se_blockID evnt)
            (se_abciResponse evnt) (se_validatorUpdates evnt)) a)) (\<lambda>_ a.
        release_loop E cancelled maxPosReleased is a))))"

definition publishQueuedBlockEvents ::
    "('a, 'm) adapter_env \<Rightarrow> (nat \<Rightarrow> bool) \<Rightarrow> int64 \<Rightarrow> ('a, 'm) adapter \<Rightarrow> unit result \<times> ('a, 'm) adapter" where
  "publishQueuedBlockEvents E cancelled persistedHeight a =
     (case max_released (ae_IsPublishable E) persistedHeight 0 (ad_stackedEvents a) None of
        None \<Rightarrow> (Inr (), a)
      | Some maxPosReleased \<Rightarrow>
          run_then (release_loop E cancelled maxPosReleased [0..<Suc maxPosReleased] a) (\<lambda>maxPosReleased a.
          (Inr (), a\<lparr>ad_stackedEvents := drop (maxPosReleased + 1) (ad_stackedEvents a)\<rparr>)))"

definition SetFinal ::
    "('a, 'm) adapter_env \<Rightarrow> (nat \<Rightarrow> bool) \<Rightarrow> uint64 \<Rightarrow> ('a, 'm) adapter \<Rightarrow> unit result \<times> ('a, 'm) adapter" where
  "SetFinal E cancelled blockHeight a = publishQueuedBlockEvents E cancelled (to_int64 blockHeight) a"

text \<open>
  The validator of gossiped transactions. What it waits for last is one of three: the end of
  the context, the answer of \<open>CheckTx\<close>, or the timeout of five seconds. \<open>errors_Is\<close> classifies
  the error of the mempool.
\<close>

datatype check_wakeup = CtxDone | CheckTxResponse check_tx_response | TimedOut

datatype mempool_error_class = InCache | IsFull | TooLarge | PreCheck | Unexpected

definition newTxValidator ::
    "('a, 'm) adapter_env \<Rightarrow> (go_error \<Rightarrow> mempool_error_class) \<Rightarrow> check_wakeup \<Rightarrow> bytes \<Rightarrow> string \<Rightarrow>
     ('a, 'm) adapter \<Rightarrow> (bool result \<times> ('a, 'm) adapter) option" where
  "newTxValidator E errors_Is wakeup msgBytes fromPeer a =
     (case GetForPeer fromPeer (ad_MempoolIDs a) of
        None \<Rightarrow> None
      | Some (Inl panic, ids) \<Rightarrow> Some (Inl panic, a\<lparr>ad_MempoolIDs := ids\<rparr>)
      | Some (Inr sender, ids) \<Rightarrow>
         (case ad_Mempool a of
            None \<Rightarrow> Some (Inl (Panic ''nil pointer dereference''), a\<lparr>ad_MempoolIDs := ids\<rparr>)
          | Some mp \<Rightarrow>
             (case mp_CheckTx (ae_mempool E) msgBytes sender fromPeer mp of (r, mp) \<Rightarrow>
              let a = a\<lparr>ad_MempoolIDs := ids, ad_Mempool := Some mp\<rparr> in
              Some (Inr (case r of
                  Inl err \<Rightarrow> (case errors_Is err of
                      InCache \<Rightarrow> True | IsFull \<Rightarrow> True | TooLarge \<Rightarrow> False | PreCheck \<Rightarrow> False
                    | Unexpected \<Rightarrow> False)
                | Inr _ \<Rightarrow> (case wakeup of
                      CtxDone \<Rightarrow> False
                    | CheckTxResponse resp \<Rightarrow> ct_Code resp = 0
                    | TimedOut \<Rightarrow> False)), a))))"

end
