(* ===== verification/AdapterExec.thy ===== *)
theory AdapterExec
  imports Adapter
begin

text \<open>
  What the execution adapter guarantees: initialisation, block execution on success and on
  failure, the bytes signed for a block, and the release of queued events. The proofs rest on
  the store contract \<open>es\<close> and on the frame lemmas of the adapter's collaborators.
\<close>

subsection \<open>Frames\<close>

lemma on_app_frame:
  "on_app f a = (r, a') \<Longrightarrow> ad_Store a' = ad_Store a \<and> ad_EventBus a' = ad_EventBus a \<and>
     ad_stackedEvents a' = ad_stackedEvents a"
  by (auto simp: on_app_def split: prod.splits)

lemma on_mempool_frame:
  "on_mempool f a = (r, a') \<Longrightarrow> ad_Store a' = ad_Store a \<and> ad_EventBus a' = ad_EventBus a \<and>
     ad_stackedEvents a' = ad_stackedEvents a \<and> ad_App a' = ad_App a"
  by (auto simp: on_mempool_def split: prod.splits option.splits)

lemma on_bus_frame:
  "on_bus f a = (r, a') \<Longrightarrow> ad_Store a' = ad_Store a \<and> f (ad_EventBus a) = (r, ad_EventBus a') \<and>
     ad_stackedEvents a' = ad_stackedEvents a \<and> ad_App a' = ad_App a"
  by (auto simp: on_bus_def split: prod.splits)

lemma on_store_frame:
  "on_store f a = (r, a') \<Longrightarrow> f (ad_Store a) = (r, ad_Store a') \<and> ad_EventBus a' = ad_EventBus a \<and>
     ad_stackedEvents a' = ad_stackedEvents a \<and> ad_App a' = ad_App a"
  by (auto simp: on_store_def split: prod.splits)

lemma wrapping_Inr_iff [simp]: "wrapping msg p = (Inr r, s) \<longleftrightarrow> p = (Inr r, s)"
  by (cases p) (auto simp: wrapping_def)

lemma wrapping_Inl_iff: "wrapping msg p = (Inl err, s) \<longleftrightarrow> (\<exists>e. p = (Inl e, s) \<and> err = Wrap msg e)"
  by (cases p; cases "fst p") (auto simp: wrapping_def)

lemmas frames = on_app_frame on_mempool_frame on_bus_frame on_store_frame

lemma commit_app_frame:
  "commit_app E txs h resp s a = (r, a') \<Longrightarrow> ad_Store a' = ad_Store a \<and> ad_EventBus a' = ad_EventBus a \<and>
     ad_stackedEvents a' = ad_stackedEvents a"
  by (auto simp: commit_app_def run_then_def dest!: frames split: prod.splits sum.splits)

lemma run_block_frame:
  "run_block E txs h t hdr a = (r, a') \<Longrightarrow> ad_Store a' = ad_Store a \<and> ad_EventBus a' = ad_EventBus a \<and>
     ad_stackedEvents a' = ad_stackedEvents a"
  by (auto simp: run_block_def run_then_def Let_def dest!: frames split: prod.splits sum.splits if_splits)

lemma run_block_prepared:
  assumes "run_block E txs h t hdr a = (Inr ex, a')"
  shows "\<exists>c abciHeader. prepare_block E txs h hdr (ad_Store a) =
      Inr (ex_State ex, c, abciHeader, ex_Block ex, ex_BlockID ex) \<and>
    length txs \<le> length (fb_TxResults (ex_Response ex))"
  using assms
  by (auto simp: run_block_def run_then_Inr_iff Let_def split: if_splits)

lemma next_params_frame:
  "next_params x h resp s = Inr s' \<Longrightarrow>
     st_Validators s' = st_Validators s \<and> st_NextValidators s' = st_NextValidators s \<and>
     st_LastBlockHeight s' = st_LastBlockHeight s \<and> st_ChainID s' = st_ChainID s"
  by (auto simp: next_params_def Let_def and_then_Inr_iff split: option.splits)

lemma next_state_fields:
  assumes "next_state x h resp s = Inr (s', updates)"
  shows "st_AppHash s' = fb_AppHash resp \<and> st_LastBlockHeight s' = to_int64 h \<and> st_ChainID s' = st_ChainID s \<and>
    st_LastValidators s' = st_Validators s \<and>
    x_PB2TM_ValidatorUpdates x (fb_ValidatorUpdates resp) = Inr updates \<and>
    st_NextValidators s' = x_IncrementProposerPriority x (st_Validators s') \<and>
    (if updates = [] then st_Validators s' = x_IncrementProposerPriority x (st_NextValidators s)
     else \<exists>n. x_UpdateWithChangeSet x (st_NextValidators s) updates = Inr n \<and>
       st_Validators s' = x_IncrementProposerPriority x n)"
proof -
  have u: "x_PB2TM_ValidatorUpdates x (fb_ValidatorUpdates resp) = Inr updates"
    using assms by (auto simp: next_state_def Let_def and_then_Inr_iff)
  show ?thesis
    using assms
    by (cases "updates = []")
      (auto simp: next_state_def u Let_def and_then_Inr_iff dest!: next_params_frame)
qed

text \<open>The steps of a successful execution and of one that fails.\<close>

lemma ExecuteTxs_steps:
  assumes "ExecuteTxs E txs h t hdr a = (Inr ah, a')"
  shows "\<exists>ex a1 s updates m1 m2. run_block E txs h t hdr a = (Inr ex, a1) \<and>
    next_state (ae_x E) h (ex_Response ex) (ex_State ex) = Inr (s, updates) \<and>
    SaveState (ae_e E) s (ad_Store a) = (Inr (), m1) \<and>
    SaveBlockID (ae_e E) h (ex_BlockID ex) m1 = (Inr (), m2) \<and>
    SaveBlockResponse (ae_e E) h (ex_Response ex) m2 = (Inr (), ad_Store a') \<and>
    fireEvents (ae_bus E) (ex_Block ex) (ex_BlockID ex) (ex_Response ex) updates (ad_EventBus a) =
      (Inr (), ad_EventBus a') \<and>
    ah = fb_AppHash (ex_Response ex)"
proof -
  obtain ex a1 s updates a2 a3 a4 a5 a6 where st: "run_block E txs h t hdr a = (Inr ex, a1)"
    "next_state (ae_x E) h (ex_Response ex) (ex_State ex) = Inr (s, updates)"
    "on_store (SaveState (ae_e E) s) a1 = (Inr (), a2)"
    "commit_app E txs h (ex_Response ex) s a2 = (Inr (), a3)"
    "on_store (SaveBlockID (ae_e E) h (ex_BlockID ex)) a3 = (Inr (), a4)"
    "on_store (SaveBlockResponse (ae_e E) h (ex_Response ex)) a4 = (Inr (), a5)"
    "on_bus (fireEvents (ae_bus E) (ex_Block ex) (ex_BlockID ex) (ex_Response ex) updates) a5 = (Inr (), a6)"
    "a' = a6" "ah = fb_AppHash (ex_Response ex)"
    using assms by (auto simp: ExecuteTxs_def finish_block_def run_then_Inr_iff Let_def)
  note frames = run_block_frame [OF st(1)] on_store_frame [OF st(3)] commit_app_frame [OF st(4)]
    on_store_frame [OF st(5)] on_store_frame [OF st(6)] on_bus_frame [OF st(7)]
  show ?thesis
    by (rule exI [of _ ex], rule exI [of _ a1], rule exI [of _ s], rule exI [of _ updates],
        rule exI [of _ "ad_Store a2"], rule exI [of _ "ad_Store a4"])
      (use st frames in simp)
qed


subsection \<open>A block that is executed\<close>


text \<open>
  C11: the sequencer and the syncing nodes sign and verify the same bytes. The bytes a syncing
  node computes for a header before it executes the block, from its store and the block's
  transactions, are the bytes the sequencer computes from the store after executing it.
\<close>

theorem signature_bytes_agree:
  assumes codec: "codec_ok (ae_e E)"
    and run: "ExecuteTxs E txs (eh_Height header) t (Some header) a = (Inr ah, a')"
  shows "\<exists>bs. SyncNodeSignatureBytesProvider (ae_x E) (ae_e E) (ae_GetHeader E) (ae_AppGenesis E)
      (ad_Store a) header txs = Inr bs \<and>
    SequencerNodeSignatureBytesProvider (ae_x E) (ae_e E) (ad_Store a') header = Inr bs"
proof -
  let ?h = "eh_Height header"
  obtain ex a1 s' updates m1 m2 where st: "run_block E txs ?h t (Some header) a = (Inr ex, a1)"
    "SaveState (ae_e E) s' (ad_Store a) = (Inr (), m1)"
    "SaveBlockID (ae_e E) ?h (ex_BlockID ex) m1 = (Inr (), m2)"
    "SaveBlockResponse (ae_e E) ?h (ex_Response ex) m2 = (Inr (), ad_Store a')"
    using ExecuteTxs_steps [OF run] by blast
  have "GetBlockID (ae_e E) ?h (ad_Store a') = Inr (ex_BlockID ex)"
    using es.block_written [OF codec st(2-4)] by simp
  then show ?thesis
    using run_block_prepared [OF st(1)]
    by (auto simp: prepare_block_def and_then_Inr_iff SyncNodeSignatureBytesProvider_def
        SequencerNodeSignatureBytesProvider_def)
qed

subsection \<open>A chain of blocks\<close>

text \<open>
  Blocks executed one after the other at consecutive heights, by any application, mempool and
  bus, over one execution store; between two blocks everything but the store may change.
\<close>

inductive executed_chain ::
    "cmt_ext \<Rightarrow> store_ext \<Rightarrow> uint64 \<Rightarrow> ('a, 'm) adapter \<Rightarrow> uint64 \<Rightarrow> ('a, 'm) adapter \<Rightarrow> bool"
  for x e h0 a0 where
  start: "executed_chain x e h0 a0 h0 a0"
| block: "executed_chain x e h0 a0 h b \<Longrightarrow> ad_Store a = ad_Store b \<Longrightarrow> ae_x E = x \<Longrightarrow> ae_e E = e \<Longrightarrow> h \<noteq> - 1 \<Longrightarrow>
    ExecuteTxs E txs h t hdr a = (Inr ah, a') \<Longrightarrow> executed_chain x e h0 a0 (h + 1) a'"

definition linked :: "cmt_ext \<Rightarrow> store_ext \<Rightarrow> datastore \<Rightarrow> uint64 \<Rightarrow> bool" where
  "linked x e m g \<longleftrightarrow>
     (\<exists>bid prev hdr. GetBlockID e g m = Inr bid \<and> GetBlockID e (g - 1) m = Inr prev \<and>
        bid_Hash bid = x_header_Hash x hdr \<and> hd_LastBlockID hdr = prev)"

lemma ExecuteTxs_links:
  assumes codec: "codec_ok (ae_e E)" and run: "ExecuteTxs E txs h t hdr a = (Inr ah, a')" and h: "1 < h"
  shows "linked (ae_x E) (ae_e E) (ad_Store a') h"
proof -
  obtain ex a1 s' updates m1 m2 where st: "run_block E txs h t hdr a = (Inr ex, a1)"
    "SaveState (ae_e E) s' (ad_Store a) = (Inr (), m1)"
    "SaveBlockID (ae_e E) h (ex_BlockID ex) m1 = (Inr (), m2)"
    "SaveBlockResponse (ae_e E) h (ex_Response ex) m2 = (Inr (), ad_Store a')"
    using ExecuteTxs_steps [OF run] by blast
  obtain c abciHeader where p: "prepare_block E txs h hdr (ad_Store a) =
      Inr (ex_State ex, c, abciHeader, ex_Block ex, ex_BlockID ex)"
    using run_block_prepared [OF st(1)] by blast
  have "GetLastCommit (ae_e E) (ae_GetHeader E) (ae_AppGenesis E) h (ad_Store a) = Inr c"
    "hd_LastBlockID abciHeader = cm_BlockID c" "bid_Hash (ex_BlockID ex) = x_header_Hash (ae_x E) abciHeader"
    using p by (auto simp: prepare_block_def and_then_Inr_iff ToABCIHeader_last
        dest: MakeABCIBlock_hash split: option.splits)
  then have "GetBlockID (ae_e E) (h - 1) (ad_Store a) = Inr (hd_LastBlockID abciHeader)"
    "bid_Hash (ex_BlockID ex) = x_header_Hash (ae_x E) abciHeader"
    using GetLastCommit_previous [OF _ h] by simp_all
  then show ?thesis
    using es.block_written [OF codec st(2-4)] by (auto simp: linked_def)
qed

lemma ExecuteTxs_stored:
  assumes codec: "codec_ok (ae_e E)" and run: "ExecuteTxs E txs h t hdr a = (Inr ah, a')"
  shows "\<exists>s. LoadState (ae_e E) (ad_Store a') = Inr s \<and> st_LastBlockHeight s = to_int64 h \<and> st_AppHash s = ah \<and>
      (\<exists>s0. LoadState (ae_e E) (ad_Store a) = Inr s0 \<and> st_LastValidators s = st_Validators s0 \<and> st_ChainID s = st_ChainID s0)"
    and "g \<noteq> h \<Longrightarrow> GetBlockID (ae_e E) g (ad_Store a') = GetBlockID (ae_e E) g (ad_Store a)"
proof -
  obtain ex :: executed and a1 s' updates m1 m2 where st: "next_state (ae_x E) h (ex_Response ex) (ex_State ex) = Inr (s', updates)"
    "SaveState (ae_e E) s' (ad_Store a) = (Inr (), m1)"
    "SaveBlockID (ae_e E) h (ex_BlockID ex) m1 = (Inr (), m2)"
    "SaveBlockResponse (ae_e E) h (ex_Response ex) m2 = (Inr (), ad_Store a')" "ah = fb_AppHash (ex_Response ex)"
    "run_block E txs h t hdr a = (Inr ex, a1)"
    using ExecuteTxs_steps [OF run] by blast
  have "LoadState (ae_e E) (ad_Store a) = Inr (ex_State ex)"
    using run_block_prepared [OF st(6)] by (auto simp: prepare_block_def and_then_Inr_iff split: option.splits)
  then show "\<exists>s. LoadState (ae_e E) (ad_Store a') = Inr s \<and> st_LastBlockHeight s = to_int64 h \<and> st_AppHash s = ah \<and>
      (\<exists>s0. LoadState (ae_e E) (ad_Store a) = Inr s0 \<and> st_LastValidators s = st_Validators s0 \<and> st_ChainID s = st_ChainID s0)"
    using es.block_written [OF codec st(2-4)] next_state_fields [OF st(1)] st(5) by auto
  show "g \<noteq> h \<Longrightarrow> GetBlockID (ae_e E) g (ad_Store a') = GetBlockID (ae_e E) g (ad_Store a)"
    using es.block_written [OF codec st(2-4)] next_state_fields [OF st(1)] by auto
qed

lemma between_inc:
  "(h :: uint64) \<noteq> - 1 \<Longrightarrow> g < h + 1 \<longleftrightarrow> g < h \<or> g = h"
  by (auto simp: word_less_nat_alt unat_inc word_unat_eq_iff)

text \<open>
  C12: consecutive blocks are a hash chain. Over any sequence of blocks executed at consecutive
  heights from \<open>h0\<close> up to below \<open>h\<close>, every block above the first height has a stored block ID
  whose hash is the hash of a header that names the stored block ID of its predecessor, and the
  stored state is that of the last block.
\<close>

theorem blocks_hash_linked:
  assumes chain: "executed_chain x e h0 a0 h a" and codec: "codec_ok e"
  shows "h0 \<le> h \<and> (\<forall>g. h0 \<le> g \<and> g < h \<and> 1 < g \<longrightarrow> linked x e (ad_Store a) g) \<and>
    (h0 \<noteq> h \<longrightarrow> (\<exists>s. LoadState e (ad_Store a) = Inr s \<and> st_LastBlockHeight s = to_int64 (h - 1)))"
  using chain
proof (induction rule: executed_chain.induct)
  case start
  then show ?case by auto
next
  case (block h b a E txs t hdr ah a')
  note codec' = codec [folded block.hyps(4)]
  note stored = ExecuteTxs_stored [OF codec' block.hyps(6)]
  have "linked x e (ad_Store a') g" if "g < h" "1 < g" "linked x e (ad_Store b) g" for g
  proof -
    have "g \<noteq> h" "g - 1 \<noteq> h" using that(1,2) by (auto simp: word_less_nat_alt unat_sub word_le_nat_alt)
    then show ?thesis using that(3) stored(2) block.hyps(2,4) by (auto simp: linked_def)
  qed
  then show ?case
    using block.IH block.hyps(3-5) stored(1) ExecuteTxs_links [OF codec' block.hyps(6)] word_le_inc [of h]
    by (auto simp: between_inc)
qed

subsection \<open>A block that fails\<close>

text \<open>
  Once the state is saved, every further step keeps it and touches no other height; only the
  last one publishes.
\<close>

definition advanced ::
    "('a, 'm) adapter_env \<Rightarrow> uint64 \<Rightarrow> cmt_state \<Rightarrow> ('a, 'm) adapter \<Rightarrow> ('a, 'm) adapter \<Rightarrow> bool" where
  "advanced E h s a b \<longleftrightarrow> LoadState (ae_e E) (ad_Store b) = Inr s \<and>
     (\<forall>g. g \<noteq> h \<longrightarrow> GetBlockID (ae_e E) g (ad_Store b) = GetBlockID (ae_e E) g (ad_Store a) \<and>
        GetBlockResponse (ae_e E) g (ad_Store b) = GetBlockResponse (ae_e E) g (ad_Store a)) \<and>
     ad_EventBus b = ad_EventBus a"

lemma advanced_save:
  "codec_ok (ae_e E) \<Longrightarrow> on_store (SaveState (ae_e E) s) a = (Inr u, b) \<Longrightarrow> advanced E h s a b"
  using es.load_save [of "ae_e E" s "ad_Store a" "ad_Store b"] es.frame_save [of "ae_e E" s "ad_Store a"]
  by (auto simp: advanced_def dest!: on_store_frame)

lemma advanced_commit:
  "advanced E h s a b \<Longrightarrow> commit_app E txs h' resp s' b = (r, c) \<Longrightarrow> advanced E h s a c"
  by (auto simp: advanced_def dest!: commit_app_frame)

lemma SaveBlockID_other:
  "SaveBlockID e h bid m = (r, m') \<Longrightarrow> g \<noteq> h \<Longrightarrow> GetBlockID e g m' = GetBlockID e g m"
  by (auto simp: SaveBlockID_def GetBlockID_def ds_Get_def split: sum.splits)

lemma SaveBlockResponse_other:
  "SaveBlockResponse e h resp m = (r, m') \<Longrightarrow> g \<noteq> h \<Longrightarrow> GetBlockResponse e g m' = GetBlockResponse e g m"
  by (auto simp: SaveBlockResponse_def GetBlockResponse_def ds_Get_def split: sum.splits)

lemma advanced_id:
  assumes "advanced E h s a b" "on_store (SaveBlockID (ae_e E) h bid) b = (r, c)"
  shows "advanced E h s a c"
proof -
  note sv = on_store_frame [OF assms(2), THEN conjunct1]
  show ?thesis
    using assms(1) on_store_frame [OF assms(2)] es.frame_put_id [OF sv] SaveBlockID_other [OF sv]
    by (simp add: advanced_def)
qed

lemma advanced_response:
  assumes "advanced E h s a b" "on_store (SaveBlockResponse (ae_e E) h resp) b = (r, c)"
  shows "advanced E h s a c"
proof -
  note sv = on_store_frame [OF assms(2), THEN conjunct1]
  show ?thesis
    using assms(1) on_store_frame [OF assms(2)] es.frame_put_resp [OF sv] SaveBlockResponse_other [OF sv]
    by (simp add: advanced_def)
qed

lemma advanced_fire:
  assumes "advanced E h s a b" "on_bus (fireEvents can block bid resp updates) b = (r, c)"
  shows "\<exists>k. advanced E h s a (c\<lparr>ad_EventBus := ad_EventBus a\<rparr>) \<and>
    ad_EventBus c = ad_EventBus a @ take k (block_events block bid resp updates)"
  using assms fireEvents_prefix [of can block bid resp updates "ad_EventBus b"]
  by (auto simp: advanced_def dest!: on_bus_frame)

lemma save_state_fails:
  "on_store (SaveState e s) a = (Inl err, b) \<Longrightarrow> ad_Store b = ad_Store a \<and> ad_EventBus b = ad_EventBus a"
  by (auto simp: on_store_def SaveState_def split: prod.splits sum.splits)

lemma finish_block_failure:
  assumes codec: "codec_ok (ae_e E)" and fin: "finish_block E txs h ex s updates a = (Inl err, a')"
  shows "(ad_Store a' = ad_Store a \<and> ad_EventBus a' = ad_EventBus a) \<or>
    (\<exists>k. advanced E h s a (a'\<lparr>ad_EventBus := ad_EventBus a\<rparr>) \<and> ad_EventBus a' = ad_EventBus a @
       take k (block_events (ex_Block ex) (ex_BlockID ex) (ex_Response ex) updates))"
proof -
  have quiet: "advanced E h s a b \<Longrightarrow> \<exists>k. advanced E h s a (b\<lparr>ad_EventBus := ad_EventBus a\<rparr>) \<and>
     ad_EventBus b = ad_EventBus a @ take k evs" for b evs
    by (rule exI [of _ 0]) (auto simp: advanced_def)
  have wr: "wrapping msg p = (Inl err, b) \<Longrightarrow> \<exists>e. p = (Inl e, b)" for msg p b
    by (auto simp: wrapping_Inl_iff)
  note adv = advanced_save [OF codec, of s a _ _ h]
  from fin show ?thesis
    unfolding finish_block_def Let_def
  proof (elim run_then_failE, goal_cases)
    case 1
    then show ?case by (auto dest!: wr save_state_fails)
  next
    case (2 u b)
    then have "advanced E h s a a'" using adv advanced_commit by fastforce
    then show ?case using quiet by blast
  next
    case (3 u b u' c)
    then have "advanced E h s a c" using adv advanced_commit by fastforce
    then have "advanced E h s a a'" using 3 by (auto dest!: wr intro: advanced_id)
    then show ?case using quiet by blast
  next
    case (4 u b u' c u'' d)
    then have "advanced E h s a c" using adv advanced_commit by fastforce
    then have "advanced E h s a d" using 4 advanced_id by fastforce
    then have "advanced E h s a a'" using 4 by (auto dest!: wr intro: advanced_response)
    then show ?case using quiet by blast
  next
    case (5 u b u' c u'' d u3 f)
    then have "advanced E h s a c" using adv advanced_commit by fastforce
    then have "advanced E h s a d" using 5 advanced_id by fastforce
    then have f: "advanced E h s a f" using 5 advanced_response by fastforce
    obtain e where "on_bus (fireEvents (ae_bus E) (ex_Block ex) (ex_BlockID ex) (ex_Response ex) updates) f = (Inl e, a')"
      using wr [OF 5(5)] by blast
    from advanced_fire [OF f this] show ?case by (rule disjI2)
  qed simp
qed

text \<open>
  C27: a failed execution. Whatever fails, no other height of the store changes, the bus has
  received at most a prefix of the events of one block, and one of two things holds: the store
  and the bus are as before, or the new state is already stored for the height of the block.
\<close>

theorem ExecuteTxs_failure:
  assumes codec: "codec_ok (ae_e E)" and run: "ExecuteTxs E txs h t hdr a = (Inl err, a')"
  shows "(ad_Store a' = ad_Store a \<and> ad_EventBus a' = ad_EventBus a) \<or>
    (\<exists>s'. LoadState (ae_e E) (ad_Store a') = Inr s' \<and> st_LastBlockHeight s' = to_int64 h \<and>
      (\<forall>g. g \<noteq> h \<longrightarrow> GetBlockID (ae_e E) g (ad_Store a') = GetBlockID (ae_e E) g (ad_Store a) \<and>
         GetBlockResponse (ae_e E) g (ad_Store a') = GetBlockResponse (ae_e E) g (ad_Store a)) \<and>
      (\<exists>k block bid resp updates. ad_EventBus a' = ad_EventBus a @ take k (block_events block bid resp updates)))"
proof (cases "run_block E txs h t hdr a")
  case (Pair r a1)
  note fr = run_block_frame [OF Pair]
  show ?thesis
  proof (cases r)
    case (Inl e)
    then show ?thesis using run Pair fr by (auto simp: ExecuteTxs_def)
  next
    case (Inr ex)
    show ?thesis
    proof (cases "next_state (ae_x E) h (ex_Response ex) (ex_State ex)")
      case (Inl e)
      then show ?thesis using run Pair fr \<open>r = Inr ex\<close> by (auto simp: ExecuteTxs_def)
    next
      case (Inr su)
      obtain s updates where su: "su = (s, updates)" by (cases su)
      have fin: "finish_block E txs h ex s updates a1 = (Inl err, a')"
        using run Pair \<open>r = Inr ex\<close> Inr su by (simp add: ExecuteTxs_def)
      show ?thesis
        using finish_block_failure [OF codec fin]
      proof (elim disjE exE conjE)
        fix k
        assume "advanced E h s a1 (a'\<lparr>ad_EventBus := ad_EventBus a1\<rparr>)"
          "ad_EventBus a' = ad_EventBus a1 @
            take k (block_events (ex_Block ex) (ex_BlockID ex) (ex_Response ex) updates)"
        then show ?thesis
          using next_state_fields [OF Inr [unfolded su]] fr
          by (intro disjI2 exI [of _ s]) (simp add: advanced_def, blast)
      qed (use fr in simp)
    qed
  qed
qed

text \<open>
  C28: a commit that fails leaves the state ahead of the blocks. If the application's commit
  fails after the state was saved, the stored state has the height of the block while its block
  ID is not stored, and executing the next height fails before the application is called.
\<close>

theorem ExecuteTxs_commit_failure:
  assumes codec: "codec_ok (ae_e E)" and h: "h \<noteq> - 1" "h \<noteq> 0"
    and run: "run_block E txs h t hdr a = (Inr ex, a1)"
    and nx: "next_state (ae_x E) h (ex_Response ex) (ex_State ex) = Inr (s', updates)"
    and save: "on_store (SaveState (ae_e E) s') a1 = (Inr (), a2)"
    and fails: "commit_app E txs h (ex_Response ex) s' a2 = (Inl err, a3)"
    and fresh: "is_err (GetBlockID (ae_e E) h (ad_Store a))"
  shows "ExecuteTxs E txs h t hdr a = (Inl err, a3) \<and>
    LoadState (ae_e E) (ad_Store a3) = Inr s' \<and> st_LastBlockHeight s' = to_int64 h \<and>
    is_err (GetBlockID (ae_e E) h (ad_Store a3)) \<and>
    (\<exists>err'. ExecuteTxs E txs' (h + 1) t' hdr' a3 = (Inl err', a3))"
proof -
  note sv = on_store_frame [OF save, THEN conjunct1]
  have st: "ad_Store a1 = ad_Store a" "ad_Store a3 = ad_Store a2"
    using run_block_frame [OF run] commit_app_frame [OF fails] by auto
  have id: "is_err (GetBlockID (ae_e E) h (ad_Store a3))"
    using fresh es.frame_save [OF sv] st by simp
  have "1 < h + 1" using h by (auto simp: word_less_nat_alt unat_inc unat_gt_0)
  then have "is_err (GetLastCommit (ae_e E) (ae_GetHeader E) (ae_AppGenesis E) (h + 1) (ad_Store a3))"
    using id by (auto simp: GetLastCommit_def is_err_def split: sum.splits)
  then have "is_err (prepare_block E txs' (h + 1) hdr' (ad_Store a3))"
    by (cases "LoadState (ae_e E) (ad_Store a3)") (auto simp: prepare_block_def is_err_iff split: option.splits)
  then have "\<exists>err'. ExecuteTxs E txs' (h + 1) t' hdr' a3 = (Inl err', a3)"
    by (auto simp: ExecuteTxs_def run_block_def is_err_iff)
  moreover have "ExecuteTxs E txs h t hdr a = (Inl err, a3)"
    by (simp add: ExecuteTxs_def run nx finish_block_def save fails wrapping_def)
  ultimately show ?thesis
    using id es.load_save [OF codec sv] st next_state_fields [OF nx] by simp
qed

subsection \<open>Initialisation\<close>


subsection \<open>Queued events\<close>

definition stacked_events_of :: "stacked_event \<Rightarrow> bus_event list" where
  "stacked_events_of v = block_events (se_block v) (se_blockID v) (se_abciResponse v) (se_validatorUpdates v)"

definition releasable :: "('a, 'm) adapter_env \<Rightarrow> int64 \<Rightarrow> stacked_event \<Rightarrow> bool" where
  "releasable E persistedHeight v \<longleftrightarrow>
     hd_Height (bk_Header (se_block v)) \<le> persistedHeight \<and> ae_IsPublishable E (hd_Height (bk_Header (se_block v)))"

text \<open>The scan finds the last queued block that may be released.\<close>

definition last_releasable :: "('a, 'm) adapter_env \<Rightarrow> int64 \<Rightarrow> stacked_event list \<Rightarrow> nat \<Rightarrow> bool" where
  "last_releasable E ph vs k \<longleftrightarrow> k < length vs \<and> releasable E ph (vs ! k) \<and>
     (\<forall>j. k < j \<and> j < length vs \<longrightarrow> \<not> releasable E ph (vs ! j))"

lemma last_releasable_Cons:
  "last_releasable E ph (v # vs) k \<longleftrightarrow>
     (case k of 0 \<Rightarrow> releasable E ph v \<and> \<not> list_ex (releasable E ph) vs | Suc k' \<Rightarrow> last_releasable E ph vs k')"
  by (auto simp: last_releasable_def list_ex_length less_Suc_eq_0_disj nth_Cons split: nat.splits)

lemma max_released_none: "\<not> list_ex (releasable E ph) vs \<Longrightarrow> max_released (ae_IsPublishable E) ph i vs r = r"
  by (induction vs arbitrary: i r) (auto simp: releasable_def Let_def)

lemma max_released_last:
  "list_ex (releasable E ph) vs \<Longrightarrow>
     \<exists>k. last_releasable E ph vs k \<and> max_released (ae_IsPublishable E) ph i vs r = Some (i + k)"
proof (induction vs arbitrary: i r)
  case (Cons v vs)
  let ?r = "if releasable E ph v then Some i else r"
  have step: "max_released (ae_IsPublishable E) ph i (v # vs) r = max_released (ae_IsPublishable E) ph (Suc i) vs ?r"
    by (simp add: releasable_def Let_def)
  show ?case
  proof (cases "list_ex (releasable E ph) vs")
    case True
    from Cons.IH [OF True] obtain k where "last_releasable E ph vs k"
      "max_released (ae_IsPublishable E) ph (Suc i) vs ?r = Some (Suc i + k)" by blast
    then show ?thesis unfolding step by (intro exI [of _ "Suc k"]) (simp add: last_releasable_Cons)
  next
    case False
    then show ?thesis
      using Cons.prems unfolding step by (intro exI [of _ 0]) (simp add: last_releasable_Cons max_released_none)
  qed
qed simp

lemma release_loop_ok:
  "release_loop E cancelled k [i..<Suc k] a = (Inr p, a') \<Longrightarrow> i \<le> Suc k \<Longrightarrow>
     ad_stackedEvents a' = ad_stackedEvents a \<and>
     (\<exists>n. i \<le> n \<and> n \<le> Suc k \<and> (\<forall>j. i \<le> j \<and> j < n \<longrightarrow> \<not> cancelled j) \<and>
       (if n = Suc k then p = k else p = n \<and> cancelled n) \<and>
       ad_EventBus a' = ad_EventBus a @ concat (map (\<lambda>j. stacked_events_of (ad_stackedEvents a ! j)) [i..<n]))"
proof (induction "Suc k - i" arbitrary: i a)
  case 0
  then show ?case by (intro conjI exI [of _ "Suc k"]) auto
next
  case (Suc d)
  then have ik: "i \<le> k" and up: "[i..<Suc k] = i # [Suc i..<Suc k]" by (auto simp: upt_conv_Cons)
  show ?case
  proof (cases "cancelled i")
    case True
    then show ?thesis using Suc.prems ik unfolding up by (intro conjI exI [of _ i]) auto
  next
    case False
    let ?v = "ad_stackedEvents a ! i"
    obtain resp a1 a2 where st: "on_store (SaveBlockResponse (ae_e E) (to_uint64 (hd_Height (bk_Header (se_block ?v)))) resp) a = (Inr (), a1)"
      "on_bus (fireEvents (ae_bus E) (se_block ?v) (se_blockID ?v) (se_abciResponse ?v) (se_validatorUpdates ?v)) a1 = (Inr (), a2)"
      "release_loop E cancelled k [Suc i..<Suc k] a2 = (Inr p, a')"
      using Suc.prems False unfolding up by (auto simp: run_then_Inr_iff Let_def simp del: upt_Suc)
    note fr = on_store_frame [OF st(1)] on_bus_frame [OF st(2)]
    have bus: "ad_EventBus a2 = ad_EventBus a @ stacked_events_of ?v"
      using fr fireEvents_ok by (fastforce simp: stacked_events_of_def)
    have "Suc i \<le> Suc k" "d = Suc k - Suc i" using Suc.hyps(2) ik by auto
    from Suc.hyps(1) [OF this(2) st(3) this(1)] obtain n where
      n: "Suc i \<le> n" "n \<le> Suc k" "\<forall>j. Suc i \<le> j \<and> j < n \<longrightarrow> \<not> cancelled j"
      "if n = Suc k then p = k else p = n \<and> cancelled n"
      "ad_EventBus a' = ad_EventBus a2 @ concat (map (\<lambda>j. stacked_events_of (ad_stackedEvents a2 ! j)) [Suc i..<n])"
      and same: "ad_stackedEvents a' = ad_stackedEvents a2" by blast
    have "\<forall>j. i \<le> j \<and> j < n \<longrightarrow> \<not> cancelled j" using n(3) False by (metis Suc_leI le_neq_implies_less)
    then show ?thesis
      using n(1,2,4,5) same fr bus by (intro conjI exI [of _ n]) (auto simp: upt_conv_Cons [of i n])
  qed
qed

text \<open>
  C29: the release of queued events. A successful release up to the last queued block that is
  final and publishable publishes the events of the queued blocks from the first one on, block
  after block. If the context stays alive, all blocks up to that one are published and leave
  the queue. If the context ends at position \<open>n\<close>, the blocks before \<open>n\<close> are published, and the
  block at \<open>n\<close> leaves the queue without being published.
\<close>

theorem publishQueuedBlockEvents_correct:
  assumes run: "publishQueuedBlockEvents E cancelled ph a = (Inr (), a')"
  shows "(\<not> list_ex (releasable E ph) (ad_stackedEvents a) \<and> a' = a) \<or>
    (\<exists>k n. last_releasable E ph (ad_stackedEvents a) k \<and> n \<le> Suc k \<and> (\<forall>j<n. \<not> cancelled j) \<and>
      ad_EventBus a' = ad_EventBus a @ concat (map stacked_events_of (take n (ad_stackedEvents a))) \<and>
      (if n = Suc k then ad_stackedEvents a' = drop n (ad_stackedEvents a)
       else cancelled n \<and> ad_stackedEvents a' = drop (Suc n) (ad_stackedEvents a)))"
proof (cases "list_ex (releasable E ph) (ad_stackedEvents a)")
  case False
  then show ?thesis using run by (simp add: publishQueuedBlockEvents_def max_released_none)
next
  case True
  from max_released_last [OF this] obtain k where k: "last_releasable E ph (ad_stackedEvents a) k"
    "max_released (ae_IsPublishable E) ph 0 (ad_stackedEvents a) None = Some k" by (metis add_0)
  obtain p a1 where loop: "release_loop E cancelled k [0..<Suc k] a = (Inr p, a1)"
    and a': "a' = a1\<lparr>ad_stackedEvents := drop (p + 1) (ad_stackedEvents a1)\<rparr>"
    using run k(2) by (auto simp: publishQueuedBlockEvents_def run_then_Inr_iff simp del: upt_Suc)
  from release_loop_ok [OF loop] obtain n where n: "n \<le> Suc k" "\<forall>j<n. \<not> cancelled j"
    "if n = Suc k then p = k else p = n \<and> cancelled n" "ad_stackedEvents a1 = ad_stackedEvents a"
    "ad_EventBus a1 = ad_EventBus a @ concat (map (\<lambda>j. stacked_events_of (ad_stackedEvents a ! j)) [0..<n])"
    by auto
  have "n \<le> length (ad_stackedEvents a)" using n(1) k(1) by (simp add: last_releasable_def)
  then have "map (\<lambda>j. stacked_events_of (ad_stackedEvents a ! j)) [0..<n] =
      map stacked_events_of (take n (ad_stackedEvents a))"
    by (auto intro: nth_equalityI)
  then show ?thesis
    using k(1) n a' by (intro disjI2 exI [of _ k] exI [of _ n]) (auto split: if_splits)
qed

end
