(* ===== verification/DemoAdapter.thy ===== *)
theory DemoAdapter
  imports AdapterExec
begin

text \<open>
  A small chain that runs: concrete codecs, CometBFT functions, an application that accepts
  every block, a mempool and a bus, on which the theorems of the adapter and of the store apply.
\<close>

subsection \<open>Data\<close>

definition demo_validator :: cmt_validator where
  "demo_validator = \<lparr>cv_Address = [1], cv_PubKey = CmtPubKey ''ed25519'' [9], cv_VotingPower = 1, cv_ProposerPriority = 0\<rparr>"

definition demo_valset :: validator_set where
  "demo_valset = \<lparr>vs_Validators = [demo_validator], vs_Proposer = demo_validator\<rparr>"

definition chain_params :: consensus_params where
  "chain_params = \<lparr>cp_MaxBytes = 1000, cp_MaxGas = - 1, cp_EvidenceMaxAgeNumBlocks = 10,
     cp_EvidenceMaxAgeDuration = 10, cp_EvidenceMaxBytes = 10, cp_PubKeyTypes = [''ed25519''], cp_AppVersion = 1,
     cp_VoteExtensionsEnableHeight = 0\<rparr>"

definition chain_state :: "int64 \<Rightarrow> cmt_state" where
  "chain_state h = \<lparr>st_ChainID = ''demo'', st_LastBlockHeight = h, st_Validators = demo_valset,
     st_NextValidators = demo_valset, st_LastValidators = demo_valset, st_LastHeightValidatorsChanged = 1,
     st_ConsensusParams = chain_params, st_LastHeightConsensusParamsChanged = 1, st_AppHash = [7]\<rparr>"

definition demo_response :: "nat \<Rightarrow> finalize_response" where
  "demo_response n = \<lparr>fb_Events = [], fb_TxResults = replicate n \<lparr>tr_Code = 0, tr_Data = [], tr_Log = []\<rparr>,
     fb_ValidatorUpdates = [], fb_ConsensusParamUpdates = None, fb_AppHash = [7]\<rparr>"

definition demo_header :: "uint64 \<Rightarrow> ev_header" where
  "demo_header h = \<lparr>eh_Height = h, eh_Time = 0, eh_ChainID = ''demo'', eh_VersionApp = 1, eh_DataHash = [],
     eh_AppHash = [7], eh_ValidatorHash = [5], eh_ProposerAddress = [1], eh_Signature = [6]\<rparr>"

definition demo_cmt_header :: "int64 \<Rightarrow> cmt_header" where
  "demo_cmt_header h = \<lparr>hd_VersionBlock = 11, hd_VersionApp = 1, hd_Height = h, hd_Time = 0,
     hd_LastBlockID = empty_block_id, hd_LastCommitHash = [], hd_DataHash = [], hd_ConsensusHash = [],
     hd_AppHash = [7], hd_LastResultsHash = [], hd_EvidenceHash = [], hd_ProposerAddress = [1],
     hd_ChainID = ''demo'', hd_ValidatorsHash = [5], hd_NextValidatorsHash = [5]\<rparr>"

subsection \<open>The codecs\<close>

definition demo_e :: store_ext where
  "demo_e = \<lparr>
     sx_MarshalState = (\<lambda>s. if s = chain_state (st_LastBlockHeight s) \<and> 0 \<le> st_LastBlockHeight s \<and> st_LastBlockHeight s < 256
       then Inr [word_of_int (st_LastBlockHeight s)] else Inl (ErrorString ''state'')),
     sx_UnmarshalState = (\<lambda>d. case d of [b] \<Rightarrow> Inr (chain_state (uint b)) | _ \<Rightarrow> Inl (ErrorString ''state'')),
     sx_MarshalBlockID = (\<lambda>b. if bid_psh_Total b = 1 \<and> bid_psh_Hash b = [] then Inr (bid_Hash b)
       else Inl (ErrorString ''block ID'')),
     sx_UnmarshalBlockID = (\<lambda>d. Inr \<lparr>bid_Hash = d, bid_psh_Total = 1, bid_psh_Hash = []\<rparr>),
     sx_MarshalResponse = (\<lambda>r. if r = demo_response (length (fb_TxResults r)) then Inr (replicate (length (fb_TxResults r)) 0)
       else Inl (ErrorString ''response'')),
     sx_UnmarshalResponse = (\<lambda>d. Inr (demo_response (length d)))\<rparr>"

lemma demo_codec: "codec_ok demo_e"
  unfolding codec_ok_def
proof (intro conjI allI impI)
  fix s d
  assume "sx_MarshalState demo_e s = Inr d"
  then have "s = chain_state (st_LastBlockHeight s)" "0 \<le> st_LastBlockHeight s" "st_LastBlockHeight s < 256"
    "d = [word_of_int (st_LastBlockHeight s)]"
    by (simp_all add: demo_e_def split: if_splits)
  then show "sx_UnmarshalState demo_e d = Inr s"
    by (simp add: demo_e_def unsigned_of_int take_bit_int_eq_self)
next
  fix b :: block_id and d
  assume "sx_MarshalBlockID demo_e b = Inr d"
  then show "sx_UnmarshalBlockID demo_e d = Inr b" by (cases b) (simp add: demo_e_def split: if_splits)
next
  fix r d
  assume "sx_MarshalResponse demo_e r = Inr d"
  then have "r = demo_response (length (fb_TxResults r))" "length d = length (fb_TxResults r)"
    by (auto simp: demo_e_def split: if_splits)
  then show "sx_UnmarshalResponse demo_e d = Inr r" by (simp add: demo_e_def)
qed

subsection \<open>The collaborators\<close>

definition demo_x :: cmt_ext where
  "demo_x = \<lparr>
     x_header_Hash = (\<lambda>h. [word_of_int (hd_Height h)]), x_commit_Hash = (\<lambda>_. [2]), x_EvidenceData_Hash = [3],
     x_valset_Hash = (\<lambda>_. [5]),
     x_NewValidatorSet = (\<lambda>vs. \<lparr>vs_Validators = vs, vs_Proposer = demo_validator\<rparr>),
     x_NewValidator = (\<lambda>pk pw. demo_validator\<lparr>cv_PubKey := pk, cv_VotingPower := pw\<rparr>),
     x_IncrementProposerPriority = (\<lambda>vs. vs), x_UpdateWithChangeSet = (\<lambda>vs _. Inr vs),
     x_PB2TM_ValidatorUpdates = (\<lambda>us. Inr (map (\<lambda>_. demo_validator) us)),
     x_TM2PB_ValidatorUpdates = (\<lambda>vs. []),
     x_MakeBlock = (\<lambda>s h txs c p. Inr \<lparr>bk_Header = demo_cmt_header h, bk_Txs = txs, bk_Evidence = [], bk_LastCommit = c\<rparr>),
     x_PartSetHeader = (\<lambda>_. Inr (1, [])), x_block_Size = (\<lambda>_. 1),
     x_params_Update = (\<lambda>p _. p), x_params_ValidateBasic = (\<lambda>_. Inr ()), x_params_ValidateUpdate = (\<lambda>_ _ _. Inr ()),
     x_VoteSignBytes = (\<lambda>c v. bid_Hash (vote_BlockID v)), x_BlockProtocol = 11,
     x_UnmarshalEd25519PublicKey = (\<lambda>b. Inr \<lparr>lk_Type = Ed25519, lk_Raw = Inr b\<rparr>)\<rparr>"

definition demo_app :: "unit abci_app" where
  "demo_app = \<lparr>
     app_InitChain = (\<lambda>_ u. (Inr \<lparr>ir_ConsensusParams = None,
       ir_Validators = [\<lparr>vu_PubKey = CmtPubKey ''ed25519'' [9], vu_Power = 1\<rparr>], ir_AppHash = [7]\<rparr>, u)),
     app_ProcessProposal = (\<lambda>_ u. (Inr True, u)),
     app_FinalizeBlock = (\<lambda>r u. (Inr (demo_response (length (br_Txs r))), u)),
     app_Commit = (\<lambda>u. (Inr (), u)),
     app_PrepareProposal = (\<lambda>r u. (Inr (pq_Txs r), u))\<rparr>"

definition demo_mempool :: "unit mempool_ops" where
  "demo_mempool = \<lparr>mp_FlushAppConn = (\<lambda>m. (Inr (), m)), mp_Update = (\<lambda>_ _ _ _ m. (Inr (), m)),
     mp_ReapMaxBytesMaxGas = (\<lambda>_ _ _. []), mp_CheckTx = (\<lambda>_ _ _ m. (Inr (), m))\<rparr>"

definition chain_genesis :: app_genesis where
  "chain_genesis = \<lparr>ag_GenesisTime = 0, ag_ChainID = ''demo'', ag_InitialHeight = 1,
     ag_Validators = [\<lparr>gv_Address = [1], gv_PubKey = CmtPubKey ''ed25519'' [9], gv_Power = 1\<rparr>],
     ag_Params = Some chain_params, ag_AppState = []\<rparr>"

definition demo_E :: "(unit, unit) adapter_env" where
  "demo_E = \<lparr>ae_x = demo_x, ae_e = demo_e, ae_app = demo_app, ae_mempool = demo_mempool,
     ae_bus = (\<lambda>_ _. Inr ()), ae_AppGenesis = Some chain_genesis, ae_GetHeader = (\<lambda>h. Inr (demo_header h)),
     ae_Height = Inr 0, ae_IsPublishable = (\<lambda>_. True)\<rparr>"

definition demo_a0 :: "(unit, unit) adapter" where
  "demo_a0 = SetMempool () (NewABCIExecutor () (fmupd stateKey [0] fmempty))"

lemmas demo_defs = demo_E_def demo_x_def demo_e_def demo_app_def demo_mempool_def demo_a0_def
  SetMempool_def NewABCIExecutor_def chain_genesis_def

lemmas exec_defs = ExecuteTxs_def run_block_def prepare_block_def finish_block_def commit_app_def
  next_state_def next_params_def on_app_def on_store_def on_mempool_def on_bus_def wrapping_def Let_def
  LoadState_def SaveState_def SaveBlockID_def SaveBlockResponse_def GetBlockID_def GetBlockResponse_def ds_Get_def
  GetLastCommit_def ToABCIHeader_def MakeABCIBlock_def fireEvents_def publish_def
  cometCommitToABCICommitInfo_def demo_response_def chain_state_def demo_header_def demo_cmt_header_def
  demo_valset_def to_int64_def

subsection \<open>Two blocks\<close>

definition demo_a1 :: "(unit, unit) adapter" where
  "demo_a1 = snd (ExecuteTxs demo_E [[4]] 1 0 (Some (demo_header 1)) demo_a0)"

definition demo_a2 :: "(unit, unit) adapter" where
  "demo_a2 = snd (ExecuteTxs demo_E [] 2 0 (Some (demo_header 2)) demo_a1)"

lemma demo_block1: "ExecuteTxs demo_E [[4]] 1 0 (Some (demo_header 1)) demo_a0 = (Inr [7], demo_a1)"
  unfolding demo_a1_def by (simp add: exec_defs demo_defs)

lemma demo_a1_store: "ad_Store demo_a1 = fmupd (blockResponseKey 1) [0] (fmupd (blockIDKey 1) [1] (fmupd stateKey [1] fmempty))"
  "ad_Mempool demo_a1 = Some ()"
  unfolding demo_a1_def by (simp_all add: exec_defs demo_defs)

lemma demo_block2: "ExecuteTxs demo_E [] 2 0 (Some (demo_header 2)) demo_a1 = (Inr [7], demo_a2)"
  unfolding demo_a2_def by (simp add: exec_defs demo_defs(1-5,8-) demo_a1_store)

lemma demo_E_simps [simp]: "ae_e demo_E = demo_e" "ae_x demo_E = demo_x"
  by (simp_all add: demo_E_def)

subsection \<open>Witnesses\<close>


theorem signature_bytes_agree_witness:
  "codec_ok demo_e \<and> (\<exists>bs. SyncNodeSignatureBytesProvider demo_x demo_e (ae_GetHeader demo_E) (ae_AppGenesis demo_E)
      (ad_Store demo_a1) (demo_header 2) [] = Inr bs \<and>
    SequencerNodeSignatureBytesProvider demo_x demo_e (ad_Store demo_a2) (demo_header 2) = Inr bs)"
proof -
  have "ExecuteTxs demo_E [] (eh_Height (demo_header 2)) 0 (Some (demo_header 2)) demo_a1 = (Inr [7], demo_a2)"
    using demo_block2 by (simp add: demo_header_def)
  from signature_bytes_agree [OF _ this] show ?thesis using demo_codec by simp
qed

lemma demo_chain: "executed_chain demo_x demo_e 1 demo_a0 3 demo_a2"
proof -
  have "executed_chain demo_x demo_e 1 demo_a0 (1 + 1) demo_a1"
    by (rule executed_chain.block [OF executed_chain.start]) (use demo_block1 in simp_all)
  then have "executed_chain demo_x demo_e 1 demo_a0 2 demo_a1" by simp
  then have "executed_chain demo_x demo_e 1 demo_a0 (2 + 1) demo_a2"
    by (rule executed_chain.block) (use demo_block2 in simp_all)
  then show ?thesis by simp
qed

theorem blocks_hash_linked_witness:
  "executed_chain demo_x demo_e 1 demo_a0 3 demo_a2 \<and> linked demo_x demo_e (ad_Store demo_a2) 2"
  using blocks_hash_linked [OF demo_chain demo_codec] demo_chain by simp

text \<open>An application that rejects the proposal, and one that cannot commit.\<close>

definition demo_reject :: "(unit, unit) adapter_env" where
  "demo_reject = demo_E\<lparr>ae_app := demo_app\<lparr>app_ProcessProposal := (\<lambda>_ u. (Inr False, u))\<rparr>\<rparr>"

definition demo_nocommit :: "(unit, unit) adapter_env" where
  "demo_nocommit = demo_E\<lparr>ae_app := demo_app\<lparr>app_Commit := (\<lambda>u. (Inl (ErrorString ''disk full''), u))\<rparr>\<rparr>"

theorem ExecuteTxs_failure_witness:
  "\<exists>err a'. ExecuteTxs demo_reject [[4]] 1 0 (Some (demo_header 1)) demo_a0 = (Inl err, a') \<and>
    (ad_Store a' = ad_Store demo_a0 \<or> (\<exists>s'. LoadState demo_e (ad_Store a') = Inr s'))"
proof -
  obtain err a' where r: "ExecuteTxs demo_reject [[4]] 1 0 (Some (demo_header 1)) demo_a0 = (Inl err, a')"
    by (simp add: demo_reject_def exec_defs demo_defs)
  moreover have "ae_e demo_reject = demo_e" by (simp add: demo_reject_def)
  ultimately show ?thesis using ExecuteTxs_failure [OF _ r] demo_codec by auto
qed

theorem ExecuteTxs_commit_failure_witness:
  "\<exists>a3. ExecuteTxs demo_nocommit [[4]] 1 0 (Some (demo_header 1)) demo_a0 = (Inl (ErrorString ''disk full''), a3) \<and>
    is_err (GetBlockID demo_e 1 (ad_Store a3)) \<and>
    (\<exists>err'. ExecuteTxs demo_nocommit [] (1 + 1) 0 (Some (demo_header 2)) a3 = (Inl err', a3))"
proof -
  obtain ex a1 where r: "run_block demo_nocommit [[4]] 1 0 (Some (demo_header 1)) demo_a0 = (Inr ex, a1)"
    "ex_Response ex = demo_response 1" "ex_State ex = chain_state 0" "a1 = demo_a0"
    by (simp add: demo_nocommit_def exec_defs demo_defs)
  have nx: "next_state (ae_x demo_nocommit) 1 (ex_Response ex) (ex_State ex) = Inr (chain_state 1, [])"
    by (simp add: r demo_nocommit_def exec_defs demo_defs)
  obtain a2 where s: "on_store (SaveState (ae_e demo_nocommit) (chain_state 1)) a1 = (Inr (), a2)" "ad_Mempool a2 = Some ()"
    by (simp add: r demo_nocommit_def exec_defs demo_defs)
  obtain a3 where c: "commit_app demo_nocommit [[4]] 1 (ex_Response ex) (chain_state 1) a2 = (Inl (ErrorString ''disk full''), a3)"
    by (simp add: s(2) demo_nocommit_def exec_defs demo_defs)
  have "is_err (GetBlockID (ae_e demo_nocommit) 1 (ad_Store demo_a0))"
    by (simp add: demo_nocommit_def exec_defs demo_defs)
  from ExecuteTxs_commit_failure [OF _ _ _ r(1) nx s(1) c this] show ?thesis
    using demo_codec by (auto simp: demo_nocommit_def)
qed


text \<open>A queue of two blocks whose release is cancelled at the second one.\<close>

definition demo_stacked :: "int64 \<Rightarrow> stacked_event" where
  "demo_stacked h = \<lparr>se_blockID = empty_block_id,
     se_block = \<lparr>bk_Header = demo_cmt_header h, bk_Txs = [], bk_Evidence = [],
       bk_LastCommit = \<lparr>cm_Height = 0, cm_Round = 0, cm_BlockID = empty_block_id, cm_Signatures = []\<rparr>\<rparr>,
     se_abciResponse = demo_response 0, se_validatorUpdates = []\<rparr>"

definition demo_queue :: "(unit, unit) adapter" where
  "demo_queue = demo_a0\<lparr>ad_Store := fmupd (blockResponseKey 1) [] (fmupd (blockResponseKey 2) [] fmempty),
     ad_stackedEvents := [demo_stacked 1, demo_stacked 2]\<rparr>"

lemma demo_release:
  "\<exists>a'. publishQueuedBlockEvents demo_E (\<lambda>i. i = 1) 2 demo_queue = (Inr (), a') \<and>
     ad_stackedEvents a' = [] \<and> ad_EventBus a' = stacked_events_of (demo_stacked 1)"
  by (simp add: publishQueuedBlockEvents_def demo_queue_def demo_stacked_def to_uint64_def numeral_2_eq_2
      stacked_events_of_def block_events_def tx_events_def exec_defs demo_defs upt_rec)

theorem publishQueuedBlockEvents_correct_witness:
  "\<exists>a'. publishQueuedBlockEvents demo_E (\<lambda>i. i = 1) 2 demo_queue = (Inr (), a') \<and> ad_stackedEvents a' = [] \<and>
    (\<exists>k n. last_releasable demo_E 2 (ad_stackedEvents demo_queue) k \<and> n \<le> Suc k \<and>
      ad_EventBus a' = concat (map stacked_events_of (take n (ad_stackedEvents demo_queue))))"
proof -
  obtain a' where r: "publishQueuedBlockEvents demo_E (\<lambda>i. i = 1) 2 demo_queue = (Inr (), a')"
    "ad_stackedEvents a' = []" using demo_release by blast
  have q: "ad_stackedEvents demo_queue \<noteq> []" "ad_EventBus demo_queue = []"
    by (simp_all add: demo_queue_def demo_defs)
  show ?thesis using publishQueuedBlockEvents_correct [OF r(1)] r q by fastforce
qed

text \<open>The execution store of the first block, pruned.\<close>

theorem Prune_exact_witness:
  "\<exists>m'. Prune 1 (ad_Store demo_a1) = Some (Inr (), m') \<and> fmlookup m' (blockIDKey 1) = None \<and>
    LoadState demo_e m' = LoadState demo_e (ad_Store demo_a1)"
proof -
  have lp: "lastPruned (ad_Store demo_a1) = Inr 0" by (simp add: lastPruned_def ds_Get_def demo_a1_store)
  show ?thesis using Prune_exact [OF lp, of 1 demo_e] by fastforce
qed

lemma Prune_max_diverges_example: "lastPruned fmempty = Inr 0 \<and> Prune (- 1) fmempty = None"
  using Prune_max_diverges [of fmempty 0] by (simp add: lastPruned_def ds_Get_def)

end
