(* ===== verification/RpcExample.thy ===== *)
theory RpcExample
  imports RpcCommit RpcMempool NetworkExample DemoAdapter
begin

text \<open>
  An RPC environment over the one-attester chain of \<open>NetworkExample\<close> and the execution store of
  \<open>DemoAdapter\<close>, on which the theorems of the RPC apply.
\<close>

definition enc_height :: "int64 \<Rightarrow> bytes" where
  "enc_height h = (if h < 0 then 0 # replicate (nat (- h)) 0 else 1 # replicate (nat h) 0)"

definition dec_height :: "bytes \<Rightarrow> int64" where
  "dec_height bs = (if hd bs = 0 then - int (length bs - 1) else int (length bs - 1))"

lemma dec_enc_height [simp]: "dec_height (enc_height h) = h"
  by (simp add: dec_height_def enc_height_def)

definition demo_px :: proto_ext where
  "demo_px = \<lparr>
     px_MarshalAttesterSetRequest = Inr [],
     px_UnmarshalAttesterSetResponse = (\<lambda>_. Query_AttesterSet (Some ()) solo2),
     px_MarshalAttesterSignaturesRequest = (\<lambda>h. Inr (enc_height h)),
     px_UnmarshalAttesterSignaturesResponse = (\<lambda>bs. Query_AttesterSignatures walk (Some (dec_height bs)) solo2),
     px_MarshalLastAttestedHeightRequest = Inr [],
     px_UnmarshalLastAttestedHeightResponse = (\<lambda>_. Query_LastAttestedHeight (Some ()) solo2),
     px_UnpackAny = (\<lambda>a. case cached_pubkey a of None \<Rightarrow> Inl (ErrorString ''any'') | Some pk \<Rightarrow> Inr pk),
     px_ToCmtPubKeyInterface = (\<lambda>pk. Inr (CmtPubKey (pk_type pk) (pk_bytes pk)))\<rparr>"

definition demo_rpc :: rpc_env where
  "demo_rpc = \<lparr>re_x = demo_x, re_e = demo_e, re_ext = demo_ext, re_px = demo_px, re_Store = ad_Store demo_a1,
     re_GetHeader = (\<lambda>h. Inr (demo_header h)), re_GetBlockData = (\<lambda>h. Inr (Some (demo_header h), Some [])),
     re_GetBlockByHash = (\<lambda>_. Inr (demo_header 1, [])), re_GetMetadata = (\<lambda>_. Inr []), re_DAIncludedHeightKey = ''d'',
     re_Height = Inr 1, re_Query = (\<lambda>p req h prove. Inr \<lparr>qr_Code = 0, qr_Log = [], qr_Value = req\<rparr>),
     re_AppGenesis = Some chain_genesis, re_AttesterMode = True\<rparr>"

lemma solo2_infos:
  assumes "fmlookup (AttesterInfo solo2) a = Some info"
  shows "info = demo_attester [1]"
proof -
  have "same_attesters solo1 solo2" unfolding solo2_def by (rule same_attesters_attested)
  then have "AttesterInfo solo2 = AttesterInfo solo1" by (simp add: same_attesters_def)
  then show ?thesis using assms by (simp add: solo1_fields split: if_splits)
qed

lemma solo2_answers: "\<exists>es. Query_AttesterSet (Some ()) solo2 = Inr es"
  using AttesterSet_query_ordered [OF network_invD(1) [OF solo2_inv]] by blast

lemma demo_rpc_serves: "serves_network demo_rpc demo_env solo2 walk"
proof -
  have keys: "\<exists>pk. px_UnpackAny demo_px (ai_Pubkey info) = Inr pk \<and> (\<forall>pk'. GetPubKey info = Inr pk' \<longrightarrow> pk' = pk)"
    if "fmlookup (AttesterInfo solo2) a = Some info" for a info
    using solo2_infos [OF that] by (simp add: demo_px_def demo_attester_def demo_key_def cached_pubkey_def GetPubKey_def)
  obtain es where "Query_AttesterSet (Some ()) solo2 = Inr es" using solo2_answers by blast
  then show ?thesis
    using keys by (auto simp: serves_network_def demo_rpc_def answers_def demo_px_def Query_AttesterSignatures_def)
qed

theorem attester_commit_aligned_witness:
  "serves_network demo_rpc demo_env solo2 walk \<and> (\<exists>c. getCommitForHeight demo_rpc 1 = Inr c)"
proof -
  have "GetBlockID (re_e demo_rpc) 1 (re_Store demo_rpc) = Inr \<lparr>bid_Hash = [1], bid_psh_Total = 1, bid_psh_Hash = []\<rparr>"
    by (simp add: demo_rpc_def GetBlockID_def ds_Get_def demo_a1_store demo_e_def)
  from attester_commit_aligned [OF demo_rpc_serves solo2_inv _ _ this] show ?thesis
    using demo_rpc_serves solo2_confirmed by (simp add: demo_rpc_def to_int64_def)
qed

definition demo_base64 :: "bytes \<Rightarrow> string" where
  "demo_base64 bs = map (\<lambda>b. char_of (unat b)) bs"

definition demo_unbase64 :: "string \<Rightarrow> bytes" where
  "demo_unbase64 s = map (\<lambda>c. of_nat (of_char c)) s"

lemma demo_base64_inverse: "demo_unbase64 (demo_base64 bs) = bs"
proof -
  have "of_nat (of_char (char_of (unat b) :: char)) = b" for b :: byte
    using unsigned_less [of b, where ?'a = nat] by (simp add: take_bit_nat_eq_self)
  then show ?thesis by (simp add: demo_base64_def demo_unbase64_def comp_def map_idI)
qed

lemma genesis_chunks_roundtrip_example:
  "\<exists>cs. getGenesisChunks (Some chain_genesis) (\<lambda>g. Inr (Some g)) (\<lambda>_. Inr [1, 2, 3]) demo_base64 = Inr cs \<and>
     concat (map demo_unbase64 cs) = [1, 2, 3] \<and> GenesisChunked (Inr cs) (- 1) = Inl (Panic ''index out of range'')"
proof -
  have "length ([1, 2, 3] :: bytes) < 2 ^ 63" by simp
  from genesis_chunks_roundtrip [of demo_unbase64 demo_base64 "\<lambda>g. Inr (Some g)" chain_genesis chain_genesis
      "\<lambda>_. Inr [1, 2, 3]" "[1, 2, 3]", OF _ _ _ _ this]
  obtain cs where cs: "getGenesisChunks (Some chain_genesis) (\<lambda>g. Inr (Some g)) (\<lambda>_. Inr [1, 2, 3]) demo_base64 = Inr cs"
    "concat (map demo_unbase64 cs) = [1, 2, 3]" "GenesisChunked (Inr cs) (- 1) =
       (if unat (- 1 :: uint64) < length cs then Inr \<lparr>gc_TotalChunks = int (length cs), gc_ChunkNumber = int (unat (- 1 :: uint64)), gc_Data = cs ! unat (- 1 :: uint64)\<rparr>
        else if unat (- 1 :: uint64) < 2 ^ 63 then Inl (ErrorString ''requested chunk index is out of bounds'')
        else Inl (Panic ''index out of range''))"
    using demo_base64_inverse by auto
  have "chunk_loop demo_base64 [1, 2, 3] 0 = [demo_base64 [1, 2, 3]]"
    by (simp add: chunk_loop.simps [of _ _ 0] chunk_loop.simps [of _ _ 16777216] genesisChunkSize_def)
  then have "cs = [demo_base64 [1, 2, 3]]" using cs(1) by (simp add: getGenesisChunks_def)
  then show ?thesis using cs by (simp add: unsigned_minus_1_eq_mask mask_eq_exp_minus_1)
qed

end
