(* ===== verification/AttesterClient.thy ===== *)
theory AttesterClient
  imports Adapter RpcBlocks "HOL-Library.Sublist"
begin

text \<open>
  The attester client (\<open>server/attester_cmd.go\<close>): it polls the node's RPC for the latest height,
  reads the block ID of every new height, signs a precommit vote on it and broadcasts the vote
  to the network module. HTTP and its JSON decoding, the transaction builder, the account and
  transaction queries, and the time parser are parameters (a time is its number of nanoseconds); those that talk to the node carry the
  state \<open>'w\<close> of the outside world. The package variable \<open>accSeq\<close> is part of the client's state.
  The loop of the command is followed over a finite sequence of wake-ups, and its calls are
  returned as a list of actions, the outcome of every submission included.
\<close>

record AttesterConfig =
  ac_ChainID :: string
  ac_Node :: string
  ac_Home :: string
  ac_Verbose :: bool
  ac_Mnemonic :: string
  ac_PrivKeyArmor :: string

text \<open>The consensus key file and the operator's key; \<open>Sign\<close> is a method of the key.\<close>

record file_pv =
  pv_Address :: bytes
  pv_PubKey :: pubkey
  pv_Sign :: "bytes \<Rightarrow> bytes result"

record operator_key =
  sk_PubKey :: pubkey
  sk_Sign :: "bytes \<Rightarrow> bytes result"

text \<open>The strings of the JSON answers that the code reads; an absent field is the empty string.\<close>

record header_json =
  hj_VersionApp :: string
  hj_Height :: string
  hj_Time :: string
  hj_LastBlockIDHash :: string
  hj_DataHash :: string
  hj_ValidatorsHash :: string
  hj_AppHash :: string
  hj_ProposerAddress :: string
  hj_ChainID :: string

record block_id_json =
  ij_Hash :: string
  ij_PartsHash :: string
  ij_PartsTotal :: uint32

record evolve_header =
  vh_Height :: uint64
  vh_Time :: uint64
  vh_ChainID :: string
  vh_VersionBlock :: uint64
  vh_VersionApp :: uint64
  vh_LastHeaderHash :: bytes
  vh_DataHash :: bytes
  vh_AppHash :: bytes
  vh_ProposerAddress :: bytes
  vh_ValidatorHash :: bytes

record account =
  acc_Number :: uint64
  acc_Sequence :: uint64

record signer_data =
  sd_Address :: string
  sd_ChainID :: string
  sd_AccountNumber :: uint64
  sd_Sequence :: uint64
  sd_PubKey :: pubkey

record signature_v2 =
  sg_PubKey :: pubkey
  sg_Signature :: "bytes option"
  sg_Sequence :: uint64

record sdk_tx =
  tx_Msg :: msg_attest
  tx_GasLimit :: uint64
  tx_FeeDenom :: string
  tx_FeeAmount :: int
  tx_Memo :: string
  tx_Signature :: signature_v2

record tx_response =
  tp_Code :: uint32
  tp_RawLog :: string
  tp_TxHash :: string

record 'w client_env =
  cx_ext :: ext
  cx_url_Parse :: "string \<Rightarrow> string result"
  cx_Get :: "string \<Rightarrow> 'w \<Rightarrow> bytes result \<times> 'w"
  cx_DecodeLatest :: "bytes \<Rightarrow> string result"
  cx_DecodeHeader :: "bytes \<Rightarrow> header_json result"
  cx_DecodeBlockID :: "bytes \<Rightarrow> block_id_json result"
  cx_time_Parse :: "string \<Rightarrow> int result"
  cx_header_Time :: "evolve_header \<Rightarrow> int"
  cx_MarshalVote :: "vote \<Rightarrow> bytes result"
  cx_AccAddress :: "bytes \<Rightarrow> string"
  cx_AttesterSet :: "'w \<Rightarrow> attester_set_entry list result \<times> 'w"
  cx_DefaultBondDenom :: string
  cx_SetMsgs :: "msg_attest \<Rightarrow> unit result"
  cx_GetAccount :: "bytes \<Rightarrow> 'w \<Rightarrow> account result \<times> 'w"
  cx_SetSignatures :: "signature_v2 \<Rightarrow> unit result"
  cx_GetSignBytes :: "signer_data \<Rightarrow> sdk_tx \<Rightarrow> bytes result"
  cx_TxEncoder :: "sdk_tx \<Rightarrow> bytes result"
  cx_BroadcastTx :: "bytes \<Rightarrow> 'w \<Rightarrow> tx_response result \<times> 'w"
  cx_QueryTx :: "string \<Rightarrow> 'w \<Rightarrow> tx_response result \<times> 'w"

record 'w client =
  accSeq :: uint64
  world :: 'w

definition on_world :: "('w \<Rightarrow> 'r \<times> 'w) \<Rightarrow> 'w client \<Rightarrow> 'r \<times> 'w client" where
  "on_world f c = (case f (world c) of (r, w) \<Rightarrow> (r, c\<lparr>world := w\<rparr>))"

subsection \<open>Numbers and hexadecimal strings\<close>

text \<open>\<open>%d\<close> of an \<open>int64\<close> and \<open>strconv.ParseInt(s, 10, 64)\<close>.\<close>

definition FormatInt :: "int64 \<Rightarrow> string" where
  "FormatInt n = (if n < 0 then CHR ''-'' # FormatUint (nat (- n)) else FormatUint (nat n))"

definition ParseInt :: "string \<Rightarrow> int64 result" where
  "ParseInt s =
     (case s of
        [] \<Rightarrow> Inl (ErrorString ''invalid syntax'')
      | c # rest \<Rightarrow>
          let neg = (c = CHR ''-''); digits = (if c = CHR ''-'' \<or> c = CHR ''+'' then rest else s) in
          and_then (ParseUint digits) (\<lambda>un.
          if \<not> neg \<and> un \<ge> 2 ^ 63 then Inl (ErrorString ''value out of range'')
          else if neg \<and> un > 2 ^ 63 then Inl (ErrorString ''value out of range'')
          else Inr (if neg then - int un else int un)))"

text \<open>
  The values beside an ignored error: \<open>ParseUint\<close> gives the largest number for a value out of
  range and 0 otherwise, \<open>hex.DecodeString\<close> the bytes decoded before the error.
\<close>

definition ParseUint_value :: "string \<Rightarrow> uint64" where
  "ParseUint_value s =
     (case ParseUint s of
        Inr n \<Rightarrow> of_nat n
      | Inl err \<Rightarrow> if err = ErrorString ''value out of range'' then - 1 else 0)"

fun hex_decoded :: "string \<Rightarrow> bytes" where
  "hex_decoded (c # d # s) =
     (case (hex_digit c, hex_digit d) of
        (Some hi, Some lo) \<Rightarrow> of_nat (16 * hi + lo) # hex_decoded s
      | _ \<Rightarrow> [])"
| "hex_decoded s = []"

subsection \<open>Reading from the node\<close>

definition block_url :: "string \<Rightarrow> int64 \<Rightarrow> string" where
  "block_url host height = ''http://'' @ host @ ''/block?height='' @ FormatInt height"

definition getLatestHeight :: "'w client_env \<Rightarrow> string \<Rightarrow> 'w client \<Rightarrow> int64 result \<times> 'w client" where
  "getLatestHeight cx nodeURL c =
     run_then (wrap ''parse node URL'' (cx_url_Parse cx nodeURL), c) (\<lambda>host c.
     run_then (wrapping ''query block'' (on_world (cx_Get cx (''http://'' @ host @ ''/block'')) c)) (\<lambda>body c.
     run_then (wrap ''decode block'' (cx_DecodeLatest cx body), c) (\<lambda>heightStr c.
     if heightStr = [] then (Inr 0, c)
     else (wrap ''parse height'' (ParseInt heightStr), c))))"

definition getEvolveHeader ::
    "'w client_env \<Rightarrow> string \<Rightarrow> int64 \<Rightarrow> 'w client \<Rightarrow> evolve_header result \<times> 'w client" where
  "getEvolveHeader cx node height c =
     run_then (wrap ''parse node URL'' (cx_url_Parse cx node), c) (\<lambda>host c.
     run_then (wrapping ''querying block'' (on_world (cx_Get cx (block_url host height)) c)) (\<lambda>body c.
     run_then (wrap ''decoding response'' (cx_DecodeHeader cx body), c) (\<lambda>header c.
     run_then (wrap ''parsing height'' (ParseUint (hj_Height header)), c) (\<lambda>heightUint c.
     run_then (wrap ''parsing time'' (cx_time_Parse cx (hj_Time header)), c) (\<lambda>timeStamp c.
     (Inr \<lparr>vh_Height = of_nat heightUint, vh_Time = to_uint64 timeStamp, vh_ChainID = hj_ChainID header,
           vh_VersionBlock = 1, vh_VersionApp = ParseUint_value (hj_VersionApp header),
           vh_LastHeaderHash = hex_decoded (hj_LastBlockIDHash header),
           vh_DataHash = hex_decoded (hj_DataHash header), vh_AppHash = hex_decoded (hj_AppHash header),
           vh_ProposerAddress = hex_decoded (hj_ProposerAddress header),
           vh_ValidatorHash = hex_decoded (hj_ValidatorsHash header)\<rparr>, c))))))"

definition getOriginalBlockID ::
    "'w client_env \<Rightarrow> string \<Rightarrow> int64 \<Rightarrow> 'w client \<Rightarrow> block_id result \<times> 'w client" where
  "getOriginalBlockID cx node height c =
     (if height \<le> 1 then (Inr empty_block_id, c)
      else
     run_then (wrap ''parse node URL'' (cx_url_Parse cx node), c) (\<lambda>host c.
     run_then (wrapping ''querying block'' (on_world (cx_Get cx (block_url host height)) c)) (\<lambda>body c.
     run_then (wrap ''decoding response'' (cx_DecodeBlockID cx body), c) (\<lambda>blockID c.
     run_then (wrap ''decoding block ID hash'' (hex_DecodeString (ij_Hash blockID)), c) (\<lambda>blockIDHash c.
     run_then (wrap ''decoding part set header hash'' (hex_DecodeString (ij_PartsHash blockID)), c) (\<lambda>partSetHeaderHash c.
     (Inr \<lparr>bid_Hash = blockIDHash, bid_psh_Total = ij_PartsTotal blockID, bid_psh_Hash = partSetHeaderHash\<rparr>, c)))))))"

definition assertRegistered :: "'w client_env \<Rightarrow> file_pv \<Rightarrow> 'w client \<Rightarrow> unit result \<times> 'w client" where
  "assertRegistered cx pv c =
     (let consAddr = ext_ConsAddress (cx_ext cx) (ext_pk_Address (cx_ext cx) (pv_PubKey pv)) in
      run_then (wrapping ''query attester set'' (on_world (cx_AttesterSet cx) c)) (\<lambda>entries c.
      if list_ex (\<lambda>e. ase_ConsensusAddress e = consAddr) entries then (Inr (), c)
      else (Inl (ErrorString ''consensus address is not in the attester set; must be registered in genesis''), c)))"

subsection \<open>Votes and their submission\<close>

definition buildAttesterVoteBytes ::
    "'w client_env \<Rightarrow> string \<Rightarrow> int64 \<Rightarrow> block_id \<Rightarrow> int \<Rightarrow> file_pv \<Rightarrow> bytes result" where
  "buildAttesterVoteBytes cx chainID height blockID timestamp pv =
     (let v = \<lparr>vote_Type = PrecommitType, vote_Height = height, vote_Round = 0, vote_BlockID = blockID,
            vote_Timestamp = timestamp, vote_ValidatorAddress = pv_Address pv, vote_ValidatorIndex = 0,
            vote_Signature = []\<rparr>;
          signBytes = ext_VoteSignBytes (cx_ext cx) chainID v in
      and_then (wrap ''sign vote'' (pv_Sign pv signBytes)) (\<lambda>sig.
      let v = v\<lparr>vote_Signature := sig\<rparr> in
      wrap ''marshal vote'' (cx_MarshalVote cx v)))"

text \<open>The signed transaction of \<open>broadcastTx\<close>, from the builder to its encoding.\<close>

definition sign_tx ::
    "'w client_env \<Rightarrow> AttesterConfig \<Rightarrow> msg_attest \<Rightarrow> operator_key \<Rightarrow> uint64 \<Rightarrow> uint64 \<Rightarrow> bytes result" where
  "sign_tx cx config msg privKey accountNumber seq =
     (let addr = ext_pk_Address (cx_ext cx) (sk_PubKey privKey);
          signerData = \<lparr>sd_Address = cx_AccAddress cx addr, sd_ChainID = ac_ChainID config,
            sd_AccountNumber = accountNumber, sd_Sequence = seq, sd_PubKey = sk_PubKey privKey\<rparr>;
          sig = \<lparr>sg_PubKey = sk_PubKey privKey, sg_Signature = None, sg_Sequence = seq\<rparr>;
          tx = \<lparr>tx_Msg = msg, tx_GasLimit = 200000, tx_FeeDenom = cx_DefaultBondDenom cx, tx_FeeAmount = 200,
            tx_Memo = [], tx_Signature = sig\<rparr> in
      and_then (wrap ''setting nil signatures'' (cx_SetSignatures cx sig)) (\<lambda>_.
      and_then (wrap ''getting sign bytes'' (cx_GetSignBytes cx signerData tx)) (\<lambda>signBytes.
      and_then (wrap ''signing bytes'' (sk_Sign privKey signBytes)) (\<lambda>signature.
      let sig = sig\<lparr>sg_Signature := Some signature\<rparr> in
      and_then (wrap ''setting signatures'' (cx_SetSignatures cx sig)) (\<lambda>_.
      wrap ''encoding transaction'' (cx_TxEncoder cx (tx\<lparr>tx_Signature := sig\<rparr>)))))))"

text \<open>The query of the transaction: one try and \<open>n\<close> more.\<close>

fun query_tx :: "'w client_env \<Rightarrow> string \<Rightarrow> nat \<Rightarrow> 'w client \<Rightarrow> tx_response result \<times> 'w client" where
  "query_tx cx txHash n c =
     (case on_world (cx_QueryTx cx txHash) c of
        (Inr txResult, c) \<Rightarrow> (Inr txResult, c)
      | (Inl err, c) \<Rightarrow> (case n of 0 \<Rightarrow> (Inl err, c) | Suc n \<Rightarrow> query_tx cx txHash n c))"

declare query_tx.simps [simp del]

definition tx_outcome :: "tx_response result \<Rightarrow> unit result" where
  "tx_outcome queried =
     (case queried of
        Inl _ \<Rightarrow> Inr ()
      | Inr txResult \<Rightarrow>
          if tp_Code txResult \<noteq> 0 \<and>
             \<not> (tp_Code txResult = 18 \<and> sublist ''validator already in attester set'' (tp_RawLog txResult))
          then Inl (ErrorString ''transaction failed during execution'') else Inr ())"

definition next_sequence :: "uint64 \<Rightarrow> uint64 \<Rightarrow> uint64" where
  "next_sequence cached currentSeq =
     (if cached = 0 then currentSeq else if currentSeq > cached then currentSeq else cached)"

definition broadcastTx ::
    "'w client_env \<Rightarrow> AttesterConfig \<Rightarrow> msg_attest \<Rightarrow> operator_key \<Rightarrow> 'w client \<Rightarrow> string result \<times> 'w client" where
  "broadcastTx cx config msg privKey c =
     run_then (wrap ''setting messages'' (cx_SetMsgs cx msg), c) (\<lambda>_ c.
     let addr = ext_pk_Address (cx_ext cx) (sk_PubKey privKey) in
     run_then (wrapping ''getting account'' (on_world (cx_GetAccount cx addr) c)) (\<lambda>acct c.
     let c = c\<lparr>accSeq := next_sequence (accSeq c) (acc_Sequence acct)\<rparr> in
     run_then (sign_tx cx config msg privKey (acc_Number acct) (accSeq c), c) (\<lambda>txBytes c.
     run_then (wrapping ''broadcasting transaction'' (on_world (cx_BroadcastTx cx txBytes) c)) (\<lambda>resp c.
     if tp_Code resp \<noteq> 0 then (Inl (ErrorString ''transaction failed in mempool''), c)
     else
       let retries = 5; (queried, c) = query_tx cx (tp_TxHash resp) (retries - 1) c in
       run_then (tx_outcome queried, c) (\<lambda>_ c.
       (Inr (tp_TxHash resp), c\<lparr>accSeq := accSeq c + 1\<rparr>))))))"

text \<open>\<open>submitAttestation\<close> up to its message, and the whole of it.\<close>

definition attestation_msg ::
    "'w client_env \<Rightarrow> AttesterConfig \<Rightarrow> int64 \<Rightarrow> operator_key \<Rightarrow> file_pv \<Rightarrow> 'w client \<Rightarrow> msg_attest result \<times> 'w client" where
  "attestation_msg cx config height senderKey pv c =
     run_then (wrapping ''getting Evolve header'' (getEvolveHeader cx (ac_Node config) height c)) (\<lambda>header c.
     run_then (wrapping ''getting original block ID'' (getOriginalBlockID cx (ac_Node config) height c)) (\<lambda>blockID c.
     run_then (buildAttesterVoteBytes cx (ac_ChainID config) height blockID (cx_header_Time cx header) pv, c) (\<lambda>voteBytes c.
     let authorityAddr = cx_AccAddress cx (ext_pk_Address (cx_ext cx) (sk_PubKey senderKey));
         consensusAddr = ext_ConsAddress (cx_ext cx) (pv_Address pv) in
     (Inr (NewMsgAttest authorityAddr consensusAddr height voteBytes), c))))"

definition submitAttestation ::
    "'w client_env \<Rightarrow> AttesterConfig \<Rightarrow> int64 \<Rightarrow> operator_key \<Rightarrow> file_pv \<Rightarrow> 'w client \<Rightarrow> unit result \<times> 'w client" where
  "submitAttestation cx config height senderKey pv c =
     run_then (attestation_msg cx config height senderKey pv c) (\<lambda>msg c.
     run_then (wrapping ''broadcast attest tx'' (broadcastTx cx config msg senderKey c)) (\<lambda>txHash c.
     (Inr (), c)))"

subsection \<open>The polling loop\<close>

definition initialAttestationHeight :: "int64 \<Rightarrow> int64" where
  "initialAttestationHeight latestHeight = (if latestHeight < 2 then 2 else latestHeight)"

datatype wakeup = Tick | CtxDone go_error

datatype action = PollFailed go_error | Polled int64 | Submitted int64 "unit result"

text \<open>
  The loop over the new heights counts in \<open>int64\<close>: up to the largest value it never ends, and is
  \<open>None\<close>.
\<close>

partial_function (option) attest_range ::
    "(int64 \<Rightarrow> 'c \<Rightarrow> unit result \<times> 'c) \<Rightarrow> int64 \<Rightarrow> int64 \<Rightarrow> 'c \<Rightarrow> (action list \<times> 'c) option" where
  "attest_range submit h currentHeight c =
     (if h \<le> currentHeight
      then Option.bind (attest_range submit (int64_wrap (h + 1)) currentHeight (snd (submit h c)))
             (\<lambda>(acts, c'). Some (Submitted h (fst (submit h c)) # acts, c'))
      else Some ([], c))"

fun poll_loop ::
    "'w client_env \<Rightarrow> AttesterConfig \<Rightarrow> operator_key \<Rightarrow> file_pv \<Rightarrow> wakeup list \<Rightarrow> int64 \<Rightarrow> 'w client \<Rightarrow>
       (go_error option \<times> action list \<times> 'w client) option" where
  "poll_loop cx config key pv [] nextHeight c = Some (None, [], c)"
| "poll_loop cx config key pv (CtxDone err # ws) nextHeight c = Some (Some err, [], c)"
| "poll_loop cx config key pv (Tick # ws) nextHeight c =
     (case getLatestHeight cx (ac_Node config) c of
        (Inl err, c) \<Rightarrow>
          map_option (\<lambda>(r, acts, c). (r, PollFailed err # acts, c)) (poll_loop cx config key pv ws nextHeight c)
      | (Inr currentHeight, c) \<Rightarrow>
          let nextHeight = (if nextHeight = 0 then initialAttestationHeight currentHeight else nextHeight) in
          if currentHeight < nextHeight
          then map_option (\<lambda>(r, acts, c). (r, Polled currentHeight # acts, c)) (poll_loop cx config key pv ws nextHeight c)
          else
            Option.bind (attest_range (\<lambda>h. submitAttestation cx config h key pv) nextHeight currentHeight c) (\<lambda>(done, c).
            map_option (\<lambda>(r, acts, c). (r, Polled currentHeight # done @ acts, c))
              (poll_loop cx config key pv ws (int64_wrap (currentHeight + 1)) c)))"

definition pullBlocksAndAttest ::
    "'w client_env \<Rightarrow> AttesterConfig \<Rightarrow> operator_key \<Rightarrow> file_pv \<Rightarrow> wakeup list \<Rightarrow> 'w client \<Rightarrow>
       (go_error option \<times> action list \<times> 'w client) option" where
  "pullBlocksAndAttest cx config key pv ws c =
     (case assertRegistered cx pv c of
        (Inl err, c) \<Rightarrow> Some (Some err, [], c)
      | (Inr _, c) \<Rightarrow> poll_loop cx config key pv ws 0 c)"

subsection \<open>The operator's key and the command\<close>

text \<open>
  The keyring of \<open>privateKeyFromArmor\<close>: what importing an armored key and reading it back
  yields. A key record has a local part, which has a key, whose cached value may be of the
  expected type: each may be missing.
\<close>

record key_ext =
  kx_Derive :: "string \<Rightarrow> string \<Rightarrow> string \<Rightarrow> bytes result"
  kx_HDPath :: string
  kx_PrivKey :: "bytes \<Rightarrow> operator_key"
  kx_ImportPrivKey :: "string \<Rightarrow> string \<Rightarrow> string \<Rightarrow> unit result"
  kx_Key :: "string \<Rightarrow> operator_key option option option result"

definition privateKeyFromMnemonic :: "key_ext \<Rightarrow> string \<Rightarrow> operator_key result" where
  "privateKeyFromMnemonic kx mnemonic =
     and_then (wrap ''failed to derive private key'' (kx_Derive kx mnemonic '''' (kx_HDPath kx))) (\<lambda>derivedPriv.
     Inr (kx_PrivKey kx derivedPriv))"

definition privateKeyFromArmor :: "key_ext \<Rightarrow> string \<Rightarrow> operator_key result" where
  "privateKeyFromArmor kx armoredKey =
     and_then (wrap ''failed to import armored private key'' (kx_ImportPrivKey kx ''temp'' armoredKey '''')) (\<lambda>_.
     and_then (wrap ''failed to get imported key'' (kx_Key kx ''temp'')) (\<lambda>keyRecord.
     (case keyRecord of
        None \<Rightarrow> Inl (ErrorString ''failed to get local record: record is nil'')
      | Some localRecord \<Rightarrow>
     (case localRecord of
        None \<Rightarrow> Inl (ErrorString ''failed to get private key: key is nil'')
      | Some privKey \<Rightarrow>
     (case privKey of
        None \<Rightarrow> Inl (ErrorString ''failed to cast private key to secp256k1.PrivKey'')
      | Some key \<Rightarrow> Inr key)))))"

text \<open>The body of the command, with the key file it loads and the wake-ups of its loop.\<close>

definition attester_command ::
    "'w client_env \<Rightarrow> key_ext \<Rightarrow> AttesterConfig \<Rightarrow> file_pv \<Rightarrow> wakeup list \<Rightarrow> 'w client \<Rightarrow>
       (go_error option \<times> action list \<times> 'w client) option" where
  "attester_command cx kx config pv ws c =
     (case (if ac_PrivKeyArmor config \<noteq> []
            then wrap ''failed to create private key from armored key'' (privateKeyFromArmor kx (ac_PrivKeyArmor config))
            else if ac_Mnemonic config \<noteq> []
            then wrap ''failed to create private key from mnemonic'' (privateKeyFromMnemonic kx (ac_Mnemonic config))
            else Inl (ErrorString ''either --mnemonic or --priv-key-armor must be provided'')) of
        Inl err \<Rightarrow> Some (Some err, [], c)
      | Inr operatorPrivKey \<Rightarrow>
          map_option (\<lambda>(r, acts, c). (map_option (Wrap ''error watching blocks'') r, acts, c))
            (pullBlocksAndAttest cx config operatorPrivKey pv ws c))"

end
