(* ===== verification/Attester.thy ===== *)
theory Attester
  imports AttesterClient
begin

text \<open>
  What the attester client does over a run: which heights it attests, that the vote it builds
  from the node's answer is the one the network module accepts, and when its cached account
  sequence keeps it from submitting anything.
\<close>

subsection \<open>Which heights are attested\<close>

definition submitted :: "action list \<Rightarrow> int64 list" where
  "submitted = List.map_filter (\<lambda>a. case a of Submitted h r \<Rightarrow> Some h | _ \<Rightarrow> None)"

definition polled :: "action list \<Rightarrow> int64 list" where
  "polled = List.map_filter (\<lambda>a. case a of Polled h \<Rightarrow> Some h | _ \<Rightarrow> None)"

lemma action_lists [simp]:
  "submitted [] = []" "submitted (Submitted h r # as) = h # submitted as"
  "submitted (Polled h # as) = submitted as" "submitted (PollFailed err # as) = submitted as"
  "polled [] = []" "polled (Submitted h r # as) = polled as"
  "polled (Polled h # as) = h # polled as" "polled (PollFailed err # as) = polled as"
  "submitted (as @ bs) = submitted as @ submitted bs" "polled (as @ bs) = polled as @ polled bs"
  by (simp_all add: submitted_def polled_def List.map_filter_def)










subsection \<open>The cached sequence\<close>














text \<open>A transaction that entered the mempool and is never found again counts as submitted.\<close>

lemma query_tx_never:
  "\<forall>w. is_err (fst (cx_QueryTx cx hash w)) \<Longrightarrow> \<exists>err w. query_tx cx hash n c = (Inl err, c\<lparr>world := w\<rparr>)"
proof (induction n arbitrary: c)
  case 0
  then show ?case
    by (subst query_tx.simps) (auto simp: on_world_def is_err_iff split: prod.splits sum.splits, metis fst_conv sum.distinct(1))
next
  case (Suc n)
  obtain err w where q: "cx_QueryTx cx hash (world c) = (Inl err, w)"
    using Suc.prems by (metis is_err_iff prod.collapse)
  from Suc.IH [OF Suc.prems, of "c\<lparr>world := w\<rparr>"] q show ?case
    by (subst query_tx.simps) (auto simp: on_world_def)
qed


lemma broadcastTx_unconfirmed:
  assumes "cx_SetMsgs cx msg = Inr u"
    and acct: "cx_GetAccount cx (ext_pk_Address (cx_ext cx) (sk_PubKey key)) (world c) = (Inr acct, w1)"
    and signed: "sign_tx cx config msg key (acc_Number acct) (next_sequence (accSeq c) (acc_Sequence acct)) = Inr bs"
    and accepted: "cx_BroadcastTx cx bs w1 = (Inr resp, w2)" "tp_Code resp = 0"
    and lost: "\<forall>w. is_err (fst (cx_QueryTx cx (tp_TxHash resp) w))"
  shows "\<exists>c'. broadcastTx cx config msg key c = (Inr (tp_TxHash resp), c') \<and>
    accSeq c' = next_sequence (accSeq c) (acc_Sequence acct) + 1"
  using assms query_tx_never [OF lost, of 4 "c\<lparr>accSeq := next_sequence (accSeq c) (acc_Sequence acct), world := w2\<rparr>"]
  by (auto simp: broadcastTx_def on_world_def wrapping_def tx_outcome_def Let_def)

end
