(* ===== verification/ServerStart.thy ===== *)
theory ServerStart
  imports ExecStore NetworkKeeper
begin

text \<open>
  Two steps of the node's start (\<open>server/start.go\<close>): the execution store is handed to the
  network module as the source of block IDs, and the pruning settings of the Cosmos SDK are
  translated to those of ev-node.
\<close>

subsection \<open>Wiring the block IDs\<close>

text \<open>The execution store as a provider: \<open>GetBlockID\<close> never returns a nil block ID without an error.\<close>

definition store_provider :: "store_ext \<Rightarrow> datastore \<Rightarrow> block_id_provider" where
  "store_provider e m = (\<lambda>height. map_sum id Some (GetBlockID e height m))"

text \<open>
  \<open>app\<close> is the network module's state when the application implements the interface, whose
  documented behaviour is to forward the provider to the keeper; \<open>None\<close> when it does not.
\<close>

definition wireNetworkKeeperBlockIDProvider ::
    "network_state option \<Rightarrow> block_id_provider \<Rightarrow> bool \<Rightarrow> unit result \<times> network_state option" where
  "wireNetworkKeeperBlockIDProvider app provider attesterMode =
     (case app of
        Some k \<Rightarrow> (case SetBlockIDProvider (Some provider) k of
            (Inl err, k) \<Rightarrow> (Inl err, Some k) | (Inr _, k) \<Rightarrow> (Inr (), Some k))
      | None \<Rightarrow>
          if attesterMode
          then (Inl (ErrorString ''app does not implement networkKeeperBlockIDWirer; MsgAttest will reject votes in attester mode''), None)
          else (Inr (), None))"

lemma wired_provider:
  "wireNetworkKeeperBlockIDProvider (Some k) provider mode = (Inr (), app) \<Longrightarrow>
     \<exists>k'. app = Some k' \<and> blockIDProvider k' = Some provider \<and> k' = k\<lparr>mut := Some (Some provider)\<rparr>"
  by (auto simp: wireNetworkKeeperBlockIDProvider_def SetBlockIDProvider_def blockIDProvider_def
      split: option.splits)

subsection \<open>Pruning settings\<close>

text \<open>
  The settings by key, as \<open>GetString\<close> reads them; the empty map that unsets a key reads as the
  empty string. The flag names and modes are constants of the SDK and of ev-node, durations are
  parsed and printed by \<open>time\<close>.
\<close>

type_synonym viper = "string \<Rightarrow> string"

record pruning_ext =
  pe_FlagPruning :: string
  pe_FlagPruningKeepRecent :: string
  pe_FlagPruningInterval :: string
  pe_EvPruningMode :: string
  pe_EvPruningKeepRecent :: string
  pe_EvPruningInterval :: string
  pe_EvBlockTime :: string
  pe_ModeDisabled :: string
  pe_ModeAll :: string
  pe_ModeMetadata :: string
  pe_ParseDuration :: "string \<Rightarrow> int64 result"
  pe_DurationString :: "int64 \<Rightarrow> string"

definition viper_Set :: "string \<Rightarrow> string \<Rightarrow> viper \<Rightarrow> viper" where
  "viper_Set k x v = v(k := x)"

definition pruning_mode :: "pruning_ext \<Rightarrow> string \<Rightarrow> string" where
  "pruning_mode pe cosmosPruning =
     (if cosmosPruning = ''default'' \<or> cosmosPruning = ''nothing'' then pe_ModeDisabled pe
      else if cosmosPruning = ''everything'' then pe_ModeAll pe
      else if cosmosPruning = ''custom'' then pe_ModeMetadata pe
      else if cosmosPruning \<noteq> '''' then pe_ModeDisabled pe else '''')"

definition pruning_interval :: "pruning_ext \<Rightarrow> string \<Rightarrow> viper \<Rightarrow> viper" where
  "pruning_interval pe cosmosInterval v =
     (let blockTimeStr = (if v (pe_EvBlockTime pe) = '''' then ''1s'' else v (pe_EvBlockTime pe));
          blockTime = (case pe_ParseDuration pe blockTimeStr of Inl _ \<Rightarrow> 1000000000 | Inr d \<Rightarrow> d) in
      case ParseUint cosmosInterval of
        Inr intervalBlocks \<Rightarrow>
          if intervalBlocks > 0
          then viper_Set (pe_EvPruningInterval pe)
                 (pe_DurationString pe (int64_wrap (int64_wrap (int intervalBlocks) * blockTime))) v
          else v
      | Inl _ \<Rightarrow> v)"

text \<open>A setting that is only made when there is a value and the key has none.\<close>

definition viper_SetDefault :: "string \<Rightarrow> string \<Rightarrow> viper \<Rightarrow> viper" where
  "viper_SetDefault k x v = (if x \<noteq> '''' \<and> v k = '''' then viper_Set k x v else v)"

definition unset_cosmos :: "pruning_ext \<Rightarrow> viper \<Rightarrow> viper" where
  "unset_cosmos pe = fold (\<lambda>k. viper_Set k '''') [pe_FlagPruning pe, pe_FlagPruningKeepRecent pe, pe_FlagPruningInterval pe]"

definition mapCosmosPruningToEvNode :: "pruning_ext \<Rightarrow> viper \<Rightarrow> viper" where
  "mapCosmosPruningToEvNode pe v =
     (let cosmosPruning = v (pe_FlagPruning pe);
          cosmosKeepRecent = v (pe_FlagPruningKeepRecent pe);
          cosmosInterval = v (pe_FlagPruningInterval pe);
          v = unset_cosmos pe v;
          v = viper_SetDefault (pe_EvPruningMode pe) (pruning_mode pe cosmosPruning) v;
          v = viper_SetDefault (pe_EvPruningKeepRecent pe) cosmosKeepRecent v in
      if cosmosInterval \<noteq> '''' \<and> v (pe_EvPruningInterval pe) = ''''
      then pruning_interval pe cosmosInterval v else v)"

text \<open>
  With distinct flag names: what the operator set for ev-node stays, the SDK keys are unset,
  every other key is untouched, and translating again changes nothing.
\<close>

definition flags_distinct :: "pruning_ext \<Rightarrow> bool" where
  "flags_distinct pe \<longleftrightarrow> distinct [pe_FlagPruning pe, pe_FlagPruningKeepRecent pe, pe_FlagPruningInterval pe,
     pe_EvPruningMode pe, pe_EvPruningKeepRecent pe, pe_EvPruningInterval pe, pe_EvBlockTime pe]"

lemma pruning_interval_other: "k \<noteq> pe_EvPruningInterval pe \<Longrightarrow> pruning_interval pe s v k = v k"
  by (auto simp: pruning_interval_def viper_Set_def Let_def split: sum.splits)

lemma viper_SetDefault_at: "viper_SetDefault k x v j = (if j = k \<and> x \<noteq> [] \<and> v k = [] then x else v j)"
  by (auto simp: viper_SetDefault_def viper_Set_def)

lemma viper_SetDefault_keeps: "v j \<noteq> [] \<Longrightarrow> viper_SetDefault k x v j = v j"
  by (auto simp: viper_SetDefault_at)

lemma unset_cosmos_at:
  "unset_cosmos pe v j =
     (if j \<in> {pe_FlagPruning pe, pe_FlagPruningKeepRecent pe, pe_FlagPruningInterval pe} then [] else v j)"
  by (simp add: unset_cosmos_def viper_Set_def)

text \<open>The settings after the first two translations, and the whole at every other key.\<close>

definition premapped :: "pruning_ext \<Rightarrow> viper \<Rightarrow> viper" where
  "premapped pe v = viper_SetDefault (pe_EvPruningKeepRecent pe) (v (pe_FlagPruningKeepRecent pe))
     (viper_SetDefault (pe_EvPruningMode pe) (pruning_mode pe (v (pe_FlagPruning pe))) (unset_cosmos pe v))"

lemma map_premapped:
  "mapCosmosPruningToEvNode pe v =
     (if v (pe_FlagPruningInterval pe) \<noteq> [] \<and> premapped pe v (pe_EvPruningInterval pe) = []
      then pruning_interval pe (v (pe_FlagPruningInterval pe)) (premapped pe v) else premapped pe v)"
  by (simp only: mapCosmosPruningToEvNode_def premapped_def Let_def)

lemma map_other: "j \<noteq> pe_EvPruningInterval pe \<Longrightarrow> mapCosmosPruningToEvNode pe v j = premapped pe v j"
  by (simp add: map_premapped pruning_interval_other)

lemma premapped_operator: "v j \<noteq> [] \<Longrightarrow> j \<notin> {pe_FlagPruning pe, pe_FlagPruningKeepRecent pe, pe_FlagPruningInterval pe} \<Longrightarrow>
    premapped pe v j = v j"
  by (simp add: premapped_def viper_SetDefault_keeps unset_cosmos_at)

lemma premapped_other: "j \<notin> {pe_EvPruningMode pe, pe_EvPruningKeepRecent pe} \<Longrightarrow> premapped pe v j = unset_cosmos pe v j"
  by (simp add: premapped_def viper_SetDefault_at)

lemma pruning_operator_wins:
  assumes "flags_distinct pe"
    and "k \<in> {pe_EvPruningMode pe, pe_EvPruningKeepRecent pe, pe_EvPruningInterval pe}" and "v k \<noteq> []"
  shows "mapCosmosPruningToEvNode pe v k = v k"
proof -
  have "premapped pe v k = v k" using assms by (intro premapped_operator) (auto simp: flags_distinct_def)
  then show ?thesis using assms(3) by (cases "k = pe_EvPruningInterval pe") (simp_all add: map_premapped pruning_interval_other)
qed

lemma pruning_unset:
  assumes "flags_distinct pe" and "k \<in> {pe_FlagPruning pe, pe_FlagPruningKeepRecent pe, pe_FlagPruningInterval pe}"
  shows "mapCosmosPruningToEvNode pe v k = []"
proof -
  have "k \<noteq> pe_EvPruningInterval pe" "k \<notin> {pe_EvPruningMode pe, pe_EvPruningKeepRecent pe}"
    using assms by (auto simp: flags_distinct_def)
  then show ?thesis using assms(2) by (simp add: map_other premapped_other unset_cosmos_at)
qed

lemma pruning_idempotent:
  assumes "flags_distinct pe"
  shows "mapCosmosPruningToEvNode pe (mapCosmosPruningToEvNode pe v) = mapCosmosPruningToEvNode pe v"
proof -
  let ?v = "mapCosmosPruningToEvNode pe v"
  have unset: "?v (pe_FlagPruning pe) = []" "?v (pe_FlagPruningKeepRecent pe) = []" "?v (pe_FlagPruningInterval pe) = []"
    using pruning_unset [OF assms] by simp_all
  then have "premapped pe ?v = ?v"
    by (simp add: premapped_def pruning_mode_def fun_eq_iff viper_SetDefault_at unset_cosmos_at)
  then show ?thesis using unset by (simp add: map_premapped [of pe ?v])
qed

text \<open>The interval is the number of blocks times the block time when the product fits.\<close>

lemma pruning_interval_value:
  assumes "flags_distinct pe" and "v (pe_EvPruningInterval pe) = ''''" and "v (pe_FlagPruningInterval pe) = FormatUint n"
    and "0 < n" and "v (pe_EvBlockTime pe) \<noteq> ''''" and "pe_ParseDuration pe (v (pe_EvBlockTime pe)) = Inr d"
    and "n < 2 ^ 63" and "int64_range (int n * d)"
  shows "mapCosmosPruningToEvNode pe v (pe_EvPruningInterval pe) = pe_DurationString pe (int n * d)"
proof -
  let ?i = "pe_EvPruningInterval pe" and ?b = "pe_EvBlockTime pe"
  have pre: "premapped pe v ?i = []" "premapped pe v ?b = v ?b"
    using assms(1,2) by (subst premapped_other; simp add: unset_cosmos_at flags_distinct_def; metis)+
  have "int64_wrap (int n) = int n" using assms(7) by (intro int64_wrap_id) (simp add: int64_range_def)
  moreover have "ParseUint (FormatUint n) = Inr n" using assms(7) by simp
  ultimately show ?thesis
    using assms(3-6,8) pre by (simp add: map_premapped pruning_interval_def Let_def viper_Set_def int64_wrap_id)
qed

end
