(* ===== verification/AttesterVote.thy ===== *)
theory AttesterVote
  imports Attester ServerStart
begin

text \<open>
  The path of a vote through the components: the sequencer stores a block ID, the RPC serves it,
  the attester client reads it and signs a vote, and the network module, wired to the same
  store, verifies and records the vote.
\<close>

text \<open>
  The node's answer for a height carries the block of the RPC: the strings of its JSON decode to
  the fields of the block ID, and its header has a height and a time.
\<close>

definition serves_block :: "'w client_env \<Rightarrow> string \<Rightarrow> int64 \<Rightarrow> result_block \<Rightarrow> bool" where
  "serves_block cx node h rb \<longleftrightarrow>
     (\<exists>host. cx_url_Parse cx node = Inr host \<and>
        (\<forall>w. \<exists>body w' hj ij t. cx_Get cx (block_url host h) w = (Inr body, w') \<and>
           cx_DecodeHeader cx body = Inr hj \<and> ParseUint (hj_Height hj) = Inr (nat h) \<and>
           cx_time_Parse cx (hj_Time hj) = Inr t \<and>
           cx_DecodeBlockID cx body = Inr ij \<and>
           hex_DecodeString (ij_Hash ij) = Inr (bid_Hash (rb_BlockID rb)) \<and>
           hex_DecodeString (ij_PartsHash ij) = Inr (bid_psh_Hash (rb_BlockID rb)) \<and>
           ij_PartsTotal ij = bid_psh_Total (rb_BlockID rb)))"

text \<open>The key file is consistent, what it signs verifies, and a vote decodes to itself.\<close>

definition signs_votes :: "'w client_env \<Rightarrow> file_pv \<Rightarrow> bool" where
  "signs_votes cx pv \<longleftrightarrow>
     pv_Address pv = ext_pk_Address (cx_ext cx) (pv_PubKey pv) \<and>
     (\<forall>msg. \<exists>sig. pv_Sign pv msg = Inr sig \<and> ext_VerifySignature (cx_ext cx) (pv_PubKey pv) msg sig) \<and>
     (\<forall>v. \<exists>bs. cx_MarshalVote cx v = Inr bs \<and> ext_UnmarshalVote (cx_ext cx) bs = Some v)"

lemma getEvolveHeader_served:
  "serves_block cx node h rb \<Longrightarrow> \<exists>header c'. getEvolveHeader cx node h c = (Inr header, c')"
proof -
  assume "serves_block cx node h rb"
  then obtain host body w' hj t where "cx_url_Parse cx node = Inr host"
    "cx_Get cx (block_url host h) (world c) = (Inr body, w')" "cx_DecodeHeader cx body = Inr hj"
    "ParseUint (hj_Height hj) = Inr (nat h)" "cx_time_Parse cx (hj_Time hj) = Inr t"
    unfolding serves_block_def by blast
  then show ?thesis by (simp add: getEvolveHeader_def on_world_def wrapping_def)
qed

lemma getOriginalBlockID_served:
  assumes "serves_block cx node h rb" "1 < h"
  shows "\<exists>c'. getOriginalBlockID cx node h c = (Inr (rb_BlockID rb), c')"
proof -
  obtain host body w' ij where "cx_url_Parse cx node = Inr host"
    "cx_Get cx (block_url host h) (world c) = (Inr body, w')" "cx_DecodeBlockID cx body = Inr ij"
    "hex_DecodeString (ij_Hash ij) = Inr (bid_Hash (rb_BlockID rb))"
    "hex_DecodeString (ij_PartsHash ij) = Inr (bid_psh_Hash (rb_BlockID rb))"
    "ij_PartsTotal ij = bid_psh_Total (rb_BlockID rb)"
    using assms(1) unfolding serves_block_def by blast
  then show ?thesis
    using assms(2) by (simp add: getOriginalBlockID_def on_world_def wrapping_def)
qed

lemma buildAttesterVoteBytes_accepted:
  assumes "signs_votes cx pv" and "ext_BlockIDFromProto (cx_ext cx) bid = Some bid'"
  shows "\<exists>bs v. buildAttesterVoteBytes cx chain h bid t pv = Inr bs \<and>
    ext_UnmarshalVote (cx_ext cx) bs = Some v \<and> vote_accepted (cx_ext cx) chain (pv_PubKey pv) h bid' v"
proof -
  define v where "v = \<lparr>vote_Type = PrecommitType, vote_Height = h, vote_Round = 0, vote_BlockID = bid,
    vote_Timestamp = t, vote_ValidatorAddress = pv_Address pv, vote_ValidatorIndex = 0, vote_Signature = []\<rparr>"
  obtain sig where sig: "pv_Sign pv (ext_VoteSignBytes (cx_ext cx) chain v) = Inr sig"
    "ext_VerifySignature (cx_ext cx) (pv_PubKey pv) (ext_VoteSignBytes (cx_ext cx) chain v) sig"
    using assms(1) unfolding signs_votes_def by blast
  obtain bs where bs: "cx_MarshalVote cx (v\<lparr>vote_Signature := sig\<rparr>) = Inr bs"
    "ext_UnmarshalVote (cx_ext cx) bs = Some (v\<lparr>vote_Signature := sig\<rparr>)"
    using assms(1) unfolding signs_votes_def by blast
  have "v\<lparr>vote_Signature := sig, vote_Signature := []\<rparr> = v" by (simp add: v_def)
  then have "vote_accepted (cx_ext cx) chain (pv_PubKey pv) h bid' (v\<lparr>vote_Signature := sig\<rparr>)"
    using sig assms by (simp add: vote_accepted_def signs_votes_def) (simp add: v_def)
  moreover have "buildAttesterVoteBytes cx chain h bid t pv = Inr bs"
    using sig(1) bs(1) by (simp add: buildAttesterVoteBytes_def v_def [symmetric])
  ultimately show ?thesis using bs(2) by blast
qed

text \<open>An admitted vote adds its attester to the voters of the height.\<close>

lemma attested_voters:
  assumes inv: "network_inv kenv chain k" and al: "attest_allowed kenv ctx msg k"
  shows "voters (attested kenv ctx msg k) (height_bitmap (attested kenv ctx msg k) (ma_Height msg)) =
    insert (ma_ConsensusAddress msg) (voters k (height_bitmap k (ma_Height msg)))"
proof -
  note ok = network_invD(1) [OF inv]
  have "ma_ConsensusAddress msg |\<in>| AttesterSet k"
    using al attester_registered [OF ok] by (auto simp: attest_allowed_def)
  from voters_SetBit [OF ok this height_bitmap_ok [OF inv]] show ?thesis
    by (simp add: same_attestersD(6) [OF same_attesters_attested] height_bitmap_def [of "attested _ _ _ _"]
        GetAttestationBitmap_def attested_fields)
qed

text \<open>The RPC serves the stored block ID from height 2 on.\<close>

lemma Block_stored:
  assumes "Block env (Some h) = Inr rb" "rb_Block rb \<noteq> None" "1 < h" "h < 2 ^ 63"
    and "GetBlockID (re_e env) (to_uint64 h) (re_Store env) = Inr bid"
  shows "rb_BlockID rb = bid"
proof -
  have "\<not> to_uint64 h \<le> 1" using unat_to_uint64 [of h] assms(3,4) by (simp add: word_le_nat_alt)
  then show ?thesis
    using assms by (auto simp: Block_def normalizeHeight_def split: option.splits)
qed

text \<open>
  C7: a registered attester's vote on a served block is recorded. Let the network module be
  wired to the execution store of the node, and let the RPC serve a block at a height above 1
  whose ID is in that store. Then the client builds, from the node's answer and its key, a
  message that the network module accepts, unless the height is in the future, out of the
  retention window or already attested by it; afterwards the attester is among the voters of
  the height.
\<close>

theorem attester_vote_recorded:
  assumes inv: "network_inv kenv (ac_ChainID config) k" and chain: "ChainID ctx = ac_ChainID config"
    and ext: "env_ext kenv = cx_ext cx"
    and wired: "blockIDProvider k = Some (store_provider (re_e env) (re_Store env))"
    and stored: "GetBlockID (re_e env) (to_uint64 h) (re_Store env) = Inr bid"
      "ext_BlockIDFromProto (cx_ext cx) bid = Some bid"
    and served: "Block env (Some h) = Inr rb" "rb_Block rb \<noteq> None" "serves_block cx (ac_Node config) h rb"
    and h: "1 < h" "h < 2 ^ 63" and keys: "signs_votes cx pv"
    and addr: "addr = ext_ConsAddress (cx_ext cx) (pv_Address pv)"
    and registered: "fmlookup (AttesterInfo k) addr = Some info" "GetPubKey info = Inr (pv_PubKey pv)"
      "ai_Authority info = cx_AccAddress cx (ext_pk_Address (cx_ext cx) (sk_PubKey key))"
    and open_height: "h \<le> int64_wrap (BlockHeight ctx + 1)" "\<not> below_retention ctx k h"
      "addr \<notin> voters k (height_bitmap k h)"
  shows "\<exists>msg c' k'. attestation_msg cx config h key pv c = (Inr msg, c') \<and>
    Attest kenv ctx msg k = (Inr (), k') \<and> network_inv kenv (ac_ChainID config) k' \<and>
    voters k' (height_bitmap k' h) = insert addr (voters k (height_bitmap k h)) \<and>
    fmlookup (Signatures k') (h, addr) = Some (ma_Vote msg)"
proof -
  have bid: "rb_BlockID rb = bid" by (rule Block_stored [OF served(1,2) h stored(1)])
  obtain header c1 where header: "getEvolveHeader cx (ac_Node config) h c = (Inr header, c1)"
    using getEvolveHeader_served [OF served(3)] by blast
  obtain c2 where block: "getOriginalBlockID cx (ac_Node config) h c1 = (Inr bid, c2)"
    using getOriginalBlockID_served [OF served(3) h(1)] bid by blast
  obtain bs v where vote: "buildAttesterVoteBytes cx (ac_ChainID config) h bid (cx_header_Time cx header) pv = Inr bs"
    "ext_UnmarshalVote (cx_ext cx) bs = Some v" "vote_accepted (cx_ext cx) (ac_ChainID config) (pv_PubKey pv) h bid v"
    using buildAttesterVoteBytes_accepted [OF keys stored(2)] by blast
  define msg where "msg = NewMsgAttest (cx_AccAddress cx (ext_pk_Address (cx_ext cx) (sk_PubKey key))) addr h bs"
  have msg: "attestation_msg cx config h key pv c = (Inr msg, c2)"
    using header block vote(1) addr by (simp add: attestation_msg_def msg_def wrapping_def)
  have "vote_backed kenv (ChainID ctx) k h addr bs"
    using wired stored(1) registered(1,2) vote(2,3) ext chain
    by (auto simp: vote_backed_def store_provider_def)
  then have al: "attest_allowed kenv ctx msg k"
    using registered open_height by (simp add: attest_allowed_def msg_def NewMsgAttest_def)
  let ?k = "attested kenv ctx msg k"
  have "Attest kenv ctx msg k = (Inr (), ?k)" by (rule Attest_allowed [OF inv al])
  moreover have "network_inv kenv (ac_ChainID config) ?k" by (rule attested_inv [OF inv chain al])
  moreover have "voters ?k (height_bitmap ?k h) = insert addr (voters k (height_bitmap k h))"
    using attested_voters [OF inv al] by (simp add: msg_def NewMsgAttest_def)
  moreover have "fmlookup (Signatures ?k) (h, addr) = Some (ma_Vote msg)"
    by (simp add: attested_fields msg_def NewMsgAttest_def)
  ultimately show ?thesis using msg by blast
qed

end
