(* ===== verification/AttesterExample.thy ===== *)
theory AttesterExample
  imports AttesterVote NetworkExample DemoAdapter
begin

text \<open>
  The attester client on the two-block chain of \<open>DemoAdapter\<close> and the three attesters of
  \<open>NetworkExample\<close>, whose keeper is wired to the store of that chain: a codec for votes, a node
  that serves the second block and checks the sequence of transactions, and the theorems on the
  client applied to them.
\<close>

subsection \<open>A codec for votes\<close>

definition enc_nat :: "nat \<Rightarrow> bytes" where
  "enc_nat n = replicate n 1 @ [0]"

definition dec_nat :: "bytes \<Rightarrow> nat \<times> bytes" where
  "dec_nat bs = (length (takeWhile (\<lambda>b. b = 1) bs), tl (dropWhile (\<lambda>b. b = 1) bs))"

lemma dec_enc_nat [simp]: "dec_nat (enc_nat n @ r) = (n, r)" "dec_nat (enc_nat n) = (n, [])"
  by (induction n) (simp_all add: dec_nat_def enc_nat_def)

definition enc_int :: "int \<Rightarrow> bytes" where
  "enc_int i = enc_nat (if i < 0 then 1 else 0) @ enc_nat (nat \<bar>i\<bar>)"

definition dec_int :: "bytes \<Rightarrow> int \<times> bytes" where
  "dec_int bs = (let (s, bs) = dec_nat bs; (n, bs) = dec_nat bs in (if s = 1 then - int n else int n, bs))"

lemma dec_enc_int [simp]: "dec_int (enc_int i @ r) = (i, r)"
  by (simp add: dec_int_def enc_int_def)

definition enc_bytes :: "bytes \<Rightarrow> bytes" where
  "enc_bytes bs = enc_nat (length bs) @ bs"

definition dec_bytes :: "bytes \<Rightarrow> bytes \<times> bytes" where
  "dec_bytes bs = (let (n, bs) = dec_nat bs in (take n bs, drop n bs))"

lemma dec_enc_bytes [simp]: "dec_bytes (enc_bytes bs @ r) = (bs, r)" "dec_bytes (enc_bytes bs) = (bs, [])"
  by (simp_all add: dec_bytes_def enc_bytes_def)

definition enc_type :: "signed_msg_type \<Rightarrow> bytes" where
  "enc_type t = enc_nat (case t of UnknownType \<Rightarrow> 0 | PrevoteType \<Rightarrow> 1 | PrecommitType \<Rightarrow> 2 | ProposalType \<Rightarrow> 3)"

definition dec_type :: "bytes \<Rightarrow> signed_msg_type \<times> bytes" where
  "dec_type bs = (let (n, bs) = dec_nat bs in
     (if n = 0 then UnknownType else if n = 1 then PrevoteType else if n = 2 then PrecommitType else ProposalType, bs))"

lemma dec_enc_type [simp]: "dec_type (enc_type t @ r) = (t, r)"
  by (cases t) (simp_all add: dec_type_def enc_type_def)

definition enc_vote :: "vote \<Rightarrow> bytes" where
  "enc_vote v = enc_type (vote_Type v) @ enc_int (vote_Height v) @ enc_int (vote_Round v) @
     enc_bytes (bid_Hash (vote_BlockID v)) @ enc_nat (unat (bid_psh_Total (vote_BlockID v))) @
     enc_bytes (bid_psh_Hash (vote_BlockID v)) @ enc_int (vote_Timestamp v) @
     enc_bytes (vote_ValidatorAddress v) @ enc_int (vote_ValidatorIndex v) @ enc_bytes (vote_Signature v)"

definition dec_vote :: "bytes \<Rightarrow> vote" where
  "dec_vote bs =
     (let (t, bs) = dec_type bs; (h, bs) = dec_int bs; (r, bs) = dec_int bs; (hash, bs) = dec_bytes bs;
          (tot, bs) = dec_nat bs; (ph, bs) = dec_bytes bs; (tm, bs) = dec_int bs; (addr, bs) = dec_bytes bs;
          (i, bs) = dec_int bs; (sig, bs) = dec_bytes bs in
      \<lparr>vote_Type = t, vote_Height = h, vote_Round = r,
       vote_BlockID = \<lparr>bid_Hash = hash, bid_psh_Total = of_nat tot, bid_psh_Hash = ph\<rparr>,
       vote_Timestamp = tm, vote_ValidatorAddress = addr, vote_ValidatorIndex = i, vote_Signature = sig\<rparr>)"

lemma dec_enc_vote [simp]: "dec_vote (enc_vote v) = v"
  by (simp add: dec_vote_def enc_vote_def)

subsection \<open>The client and its node\<close>

text \<open>The world is the sequence of the operator's account.\<close>

definition client_ext_demo :: ext where
  "client_ext_demo = demo_ext\<lparr>ext_UnmarshalVote := \<lambda>bs. Some (dec_vote bs)\<rparr>"

definition demo_client :: "uint64 client_env" where
  "demo_client = \<lparr>
     cx_ext = client_ext_demo,
     cx_url_Parse = (\<lambda>_. Inr ''node''),
     cx_Get = (\<lambda>_ w. (Inr [], w)),
     cx_DecodeLatest = (\<lambda>_. Inr ''2''),
     cx_DecodeHeader = (\<lambda>_. Inr \<lparr>hj_VersionApp = ''1'', hj_Height = ''2'', hj_Time = [], hj_LastBlockIDHash = ''01'',
       hj_DataHash = [], hj_ValidatorsHash = ''05'', hj_AppHash = ''07'', hj_ProposerAddress = ''01'', hj_ChainID = ''demo''\<rparr>),
     cx_DecodeBlockID = (\<lambda>_. Inr \<lparr>ij_Hash = ''02'', ij_PartsHash = [], ij_PartsTotal = 1\<rparr>),
     cx_time_Parse = (\<lambda>_. Inr 0), cx_header_Time = (\<lambda>header. uint (vh_Time header)),
     cx_MarshalVote = (\<lambda>v. Inr (enc_vote v)),
     cx_AccAddress = (\<lambda>_. ''op''),
     cx_AttesterSet = (\<lambda>w. (Inr [\<lparr>ase_Authority = ''op'', ase_ConsensusAddress = bytes_string [1], ase_Index = 0, ase_Pubkey = None\<rparr>], w)),
     cx_DefaultBondDenom = ''stake'', cx_SetMsgs = (\<lambda>_. Inr ()),
     cx_GetAccount = (\<lambda>_ w. (Inr \<lparr>acc_Number = 1, acc_Sequence = w\<rparr>, w)),
     cx_SetSignatures = (\<lambda>_. Inr ()), cx_GetSignBytes = (\<lambda>_ _. Inr []),
     cx_TxEncoder = (\<lambda>tx. Inr (enc_nat (unat (sg_Sequence (tx_Signature tx))))),
     cx_BroadcastTx = (\<lambda>bs w. if fst (dec_nat bs) = unat w
       then (Inr \<lparr>tp_Code = 0, tp_RawLog = [], tp_TxHash = ''AB''\<rparr>, w + 1)
       else (Inr \<lparr>tp_Code = 32, tp_RawLog = ''account sequence mismatch'', tp_TxHash = ''AB''\<rparr>, w)),
     cx_QueryTx = (\<lambda>_ w. (Inr \<lparr>tp_Code = 0, tp_RawLog = [], tp_TxHash = ''AB''\<rparr>, w))\<rparr>"

definition demo_config :: AttesterConfig where
  "demo_config = \<lparr>ac_ChainID = ''demo'', ac_Node = ''tcp://node'', ac_Home = [], ac_Verbose = False,
     ac_Mnemonic = ''words'', ac_PrivKeyArmor = []\<rparr>"

definition demo_pv :: file_pv where
  "demo_pv = \<lparr>pv_Address = [1], pv_PubKey = PubKey ''ed25519'' [1], pv_Sign = (\<lambda>_. Inr [1])\<rparr>"

definition demo_operator :: operator_key where
  "demo_operator = \<lparr>sk_PubKey = PubKey ''secp256k1'' [8], sk_Sign = (\<lambda>_. Inr [8])\<rparr>"

lemma demo_parse: "ParseInt ''2'' = Inr 2" "ParseUint ''2'' = Inr 2"
  by (simp_all add: ParseInt_def ParseUint_def char_digit_def)



lemma demo_signs: "signs_votes demo_client demo_pv"
  by (simp add: signs_votes_def demo_client_def demo_pv_def client_ext_demo_def demo_ext_def)

lemma demo_serves:
  "rb_BlockID rb = \<lparr>bid_Hash = [2], bid_psh_Total = 1, bid_psh_Hash = []\<rparr> \<Longrightarrow> serves_block demo_client node 2 rb"
  by (simp add: serves_block_def demo_client_def demo_parse hex_digit_def)

subsection \<open>Runs of the client\<close>



subsection \<open>A vote on the second block\<close>

lemma demo_a2_store:
  "GetBlockID demo_e 2 (ad_Store demo_a2) = Inr \<lparr>bid_Hash = [2], bid_psh_Total = 1, bid_psh_Hash = []\<rparr>"
  "GetBlockID demo_e 1 (ad_Store demo_a2) = Inr \<lparr>bid_Hash = [1], bid_psh_Total = 1, bid_psh_Hash = []\<rparr>"
  unfolding demo_a2_def by (simp_all add: exec_defs demo_defs(1-5,8-) demo_a1_store)

definition node_px :: proto_ext where
  "node_px = \<lparr>
     px_MarshalAttesterSetRequest = Inr [], px_UnmarshalAttesterSetResponse = (\<lambda>_. Inr []),
     px_MarshalAttesterSignaturesRequest = (\<lambda>_. Inr []), px_UnmarshalAttesterSignaturesResponse = (\<lambda>_. Inr []),
     px_MarshalLastAttestedHeightRequest = Inr [], px_UnmarshalLastAttestedHeightResponse = (\<lambda>_. Inr 0),
     px_UnpackAny = (\<lambda>a. case cached_pubkey a of None \<Rightarrow> Inl (ErrorString ''any'') | Some pk \<Rightarrow> Inr pk),
     px_ToCmtPubKeyInterface = (\<lambda>pk. Inr (CmtPubKey (pk_type pk) (pk_bytes pk)))\<rparr>"

definition node_rpc :: rpc_env where
  "node_rpc = \<lparr>re_x = demo_x, re_e = demo_e, re_ext = demo_ext, re_px = node_px, re_Store = ad_Store demo_a2,
     re_GetHeader = (\<lambda>h. Inr (demo_header h)), re_GetBlockData = (\<lambda>h. Inr (Some (demo_header h), Some [])),
     re_GetBlockByHash = (\<lambda>_. Inr (demo_header 1, [])), re_GetMetadata = (\<lambda>_. Inr []), re_DAIncludedHeightKey = ''d'',
     re_Height = Inr 2, re_Query = (\<lambda>p req h prove. Inr \<lparr>qr_Code = 0, qr_Log = [], qr_Value = req\<rparr>),
     re_AppGenesis = Some chain_genesis, re_AttesterMode = True\<rparr>"

definition wired_env :: keeper_env where
  "wired_env = demo_env\<lparr>env_ext := client_ext_demo\<rparr>"

definition wired_state :: network_state where
  "wired_state = demo_state\<lparr>mut := Some (Some (store_provider demo_e (ad_Store demo_a2)))\<rparr>"

lemma wired_inv: "network_inv wired_env ''demo'' wired_state"
proof -
  have "params_ok client_ext_demo p = params_ok demo_ext p" for p
    by (simp add: params_ok_def client_ext_demo_def demo_ext_def)
  then show ?thesis
    using network_invD(1,2) [OF demo_state_inv] network_invD(4) [OF demo_state_inv]
    by (simp add: network_inv_def wired_state_def wired_env_def demo_state_fields)
qed

lemma node_block: "\<exists>rb. Block node_rpc (Some 2) = Inr rb \<and> rb_Block rb \<noteq> None \<and>
    rb_BlockID rb = \<lparr>bid_Hash = [2], bid_psh_Total = 1, bid_psh_Hash = []\<rparr>"
  using demo_a2_store
  by (simp add: Block_def normalizeHeight_def to_uint64_def getBlockMeta_def rpc_GetLastCommit_def GetLastCommit_def
      ToABCIHeader_def ToABCIBlock_def ToABCIBlockMeta_def node_rpc_def demo_x_def demo_header_def chain_genesis_def Let_def word_le_nat_alt)

lemma wired_open:
  "2 \<le> int64_wrap (BlockHeight (demo_ctx 3) + 1)" "\<not> below_retention (demo_ctx 3) wired_state 2"
  "bytes_string [1] \<notin> voters wired_state (height_bitmap wired_state 2)"
proof -
  have "GetParams wired_state = DefaultParams demo_ext" using demo_params(1) by (simp add: wired_state_def GetParams_def)
  then show "\<not> below_retention (demo_ctx 3) wired_state 2"
    by (simp add: below_retention_def attestationRetentionBoundary_def Let_def to_uint64_def)
  have "height_bitmap wired_state 2 = NewBitmap (int (length (GetAllAttesters wired_state)))"
    by (simp add: height_bitmap_def GetAttestationBitmap_def wired_state_def demo_state_fields)
  then show "bytes_string [1] \<notin> voters wired_state (height_bitmap wired_state 2)" by simp
qed (simp add: int64_wrap_id int64_range_def)

theorem attester_vote_recorded_witness:
  "\<exists>msg c' k'. attestation_msg demo_client demo_config 2 demo_operator demo_pv \<lparr>accSeq = 0, world = 3\<rparr> = (Inr msg, c') \<and>
    Attest wired_env (demo_ctx 3) msg wired_state = (Inr (), k') \<and> bytes_string [1] \<in> voters k' (height_bitmap k' 2)"
proof -
  obtain rb where rb: "Block node_rpc (Some 2) = Inr rb" "rb_Block rb \<noteq> None"
    "rb_BlockID rb = \<lparr>bid_Hash = [2], bid_psh_Total = 1, bid_psh_Hash = []\<rparr>"
    using node_block by blast
  have ext: "env_ext wired_env = cx_ext demo_client" "cx_ext demo_client = client_ext_demo"
    by (simp_all add: wired_env_def demo_client_def)
  have wired: "blockIDProvider wired_state = Some (store_provider (re_e node_rpc) (re_Store node_rpc))"
    "GetBlockID (re_e node_rpc) (to_uint64 2) (re_Store node_rpc) = Inr \<lparr>bid_Hash = [2], bid_psh_Total = 1, bid_psh_Hash = []\<rparr>"
    using demo_a2_store by (simp_all add: wired_state_def node_rpc_def to_uint64_def)
  have reg: "fmlookup (AttesterInfo wired_state) (bytes_string [1]) = Some (demo_attester [1])"
    by (simp add: wired_state_def demo_state_fields)
  have keys: "GetPubKey (demo_attester [1]) = Inr (pv_PubKey demo_pv)"
    "ai_Authority (demo_attester [1]) = cx_AccAddress demo_client (ext_pk_Address (cx_ext demo_client) (sk_PubKey demo_operator))"
    "bytes_string [1] = ext_ConsAddress (cx_ext demo_client) (pv_Address demo_pv)"
    "ext_BlockIDFromProto (cx_ext demo_client) b = Some b" for b
    by (simp_all add: demo_pv_def demo_client_def client_ext_demo_def demo_ext_def)
  have chain: "network_inv wired_env (ac_ChainID demo_config) wired_state" "ChainID (demo_ctx 3) = ac_ChainID demo_config"
    using wired_inv by (simp_all add: demo_config_def)
  have h: "1 < (2 :: int64)" "(2 :: int64) < 2 ^ 63" by simp_all
  from attester_vote_recorded [OF chain ext(1) wired keys(4) rb(1,2) demo_serves [OF rb(3)] h demo_signs keys(3) reg keys(1,2) wired_open,
      of "\<lparr>accSeq = 0, world = 3\<rparr>"]
  show ?thesis by blast
qed

end
