(* ===== verification/RpcEvents.thy ===== *)
theory RpcEvents
  imports RpcEnv Events "HOL-Library.Sublist"
begin

text \<open>
  Subscriptions over websockets (\<open>pkg/rpc/core/events.go\<close>) and the two constant endpoints
  (\<open>evidence.go\<close>, \<open>health.go\<close>), and how the server listens (\<open>pkg/rpc/server.go\<close>). The event bus is CometBFT's: its operations are the fields of
  \<open>pubsub_ops\<close> over a state \<open>'b\<close>, and a parsed query is a value of type \<open>'q\<close>. The goroutine that
  \<open>Subscribe\<close> starts is \<open>subscription_loop\<close>: it is followed over the sequence of its wake-ups (what
  its channels gave and whether the connection took each write) and returns the responses that
  reached the client, and whether it has ended.
\<close>

subsection \<open>The handlers\<close>

record ('b, 'q) pubsub_ops =
  ps_NumClients :: "'b \<Rightarrow> int"
  ps_NumClientSubscriptions :: "string \<Rightarrow> 'b \<Rightarrow> int"
  ps_Subscribe :: "string \<Rightarrow> 'q \<Rightarrow> int \<Rightarrow> 'b \<Rightarrow> unit result \<times> 'b"
  ps_Unsubscribe :: "string \<Rightarrow> 'q \<Rightarrow> 'b \<Rightarrow> unit result \<times> 'b"
  ps_UnsubscribeAll :: "string \<Rightarrow> 'b \<Rightarrow> unit result \<times> 'b"
  ps_QueryNew :: "string \<Rightarrow> 'q result"

record rpc_config =
  rc_MaxSubscriptionClients :: int
  rc_MaxSubscriptionsPerClient :: int
  rc_SubscriptionBufferSize :: int
  rc_CloseOnSlowClient :: bool

definition maxQueryLength :: nat where "maxQueryLength = 512"

definition Subscribe ::
    "('b, 'q) pubsub_ops \<Rightarrow> rpc_config \<Rightarrow> string \<Rightarrow> string \<Rightarrow> 'b \<Rightarrow> unit result \<times> 'b" where
  "Subscribe P cfg addr query b =
     (if ps_NumClients P b \<ge> rc_MaxSubscriptionClients cfg
      then (Inl (ErrorString ''max_subscription_clients reached''), b)
      else if ps_NumClientSubscriptions P addr b \<ge> rc_MaxSubscriptionsPerClient cfg
      then (Inl (ErrorString ''max_subscriptions_per_client reached''), b)
      else if length query > maxQueryLength
      then (Inl (ErrorString ''maximum query length exceeded''), b)
      else
     run_then (wrap ''failed to parse query'' (ps_QueryNew P query), b) (\<lambda>q b.
     run_then (ps_Subscribe P addr q (rc_SubscriptionBufferSize cfg) b) (\<lambda>_ b.
     (Inr (), b))))"

definition Unsubscribe :: "('b, 'q) pubsub_ops \<Rightarrow> string \<Rightarrow> string \<Rightarrow> 'b \<Rightarrow> unit result \<times> 'b" where
  "Unsubscribe P addr query b =
     run_then (wrap ''failed to parse query'' (ps_QueryNew P query), b) (\<lambda>q b.
     run_then (ps_Unsubscribe P addr q b) (\<lambda>_ b. (Inr (), b)))"

definition UnsubscribeAll :: "('b, 'q) pubsub_ops \<Rightarrow> string \<Rightarrow> 'b \<Rightarrow> unit result \<times> 'b" where
  "UnsubscribeAll P addr b = run_then (ps_UnsubscribeAll P addr b) (\<lambda>_ b. (Inr (), b))"

text \<open>
  The callback of the websocket manager when a client is gone (\<open>OnDisconnect\<close> in \<open>server.go\<close>):
  the result says whether an error is logged.
\<close>

definition OnDisconnect ::
    "(go_error \<Rightarrow> bool) \<Rightarrow> ('b, 'q) pubsub_ops \<Rightarrow> string \<Rightarrow> 'b \<Rightarrow> bool \<times> 'b" where
  "OnDisconnect isNotFound P remoteAddr b =
     (case ps_UnsubscribeAll P remoteAddr b of
        (Inl err, b) \<Rightarrow> (\<not> isNotFound err, b)
      | (Inr _, b) \<Rightarrow> (False, b))"

lemma snd_OnDisconnect [simp]: "snd (OnDisconnect isNotFound P addr b) = snd (ps_UnsubscribeAll P addr b)"
  by (simp add: OnDisconnect_def split: prod.splits sum.splits)

text \<open>
  A wake-up of the goroutine: a message, with the outcome of \<open>WriteRPCResponse\<close> and of the
  \<open>TryWriteRPCResponse\<close> that follows a failed write; or the cancellation, with \<open>sub.Err()\<close>,
  whether it is \<open>ErrUnsubscribed\<close>, its text, and the outcome of \<open>TryWriteRPCResponse\<close>.
\<close>

datatype sub_err = NoSubErr | ErrUnsubscribed | OtherSubErr string

datatype 'm sub_wakeup =
    Out 'm bool bool
  | Canceled sub_err bool

datatype ('i, 'm) rpc_response =
    RPCSuccessResponse 'i string 'm
  | RPCServerError 'i string

definition try_write :: "bool \<Rightarrow> ('i, 'm) rpc_response \<Rightarrow> ('i, 'm) rpc_response list" where
  "try_write ok resp = (if ok then [resp] else [])"

definition canceled_reason :: "sub_err \<Rightarrow> string" where
  "canceled_reason err = (case err of OtherSubErr s \<Rightarrow> s | _ \<Rightarrow> ''CometBFT exited'')"

fun subscription_loop ::
    "bool \<Rightarrow> 'i \<Rightarrow> string \<Rightarrow> 'm sub_wakeup list \<Rightarrow> ('i, 'm) rpc_response list \<times> bool" where
  "subscription_loop closeIfSlow subscriptionID query [] = ([], False)"
| "subscription_loop closeIfSlow subscriptionID query (Out msg written tried # ws) =
     (if written then
        (case subscription_loop closeIfSlow subscriptionID query ws of
           (resps, ended) \<Rightarrow> (RPCSuccessResponse subscriptionID query msg # resps, ended))
      else if closeIfSlow then
        (try_write tried
          (RPCServerError subscriptionID ''subscription was canceled (reason: slow client)''), True)
      else subscription_loop closeIfSlow subscriptionID query ws)"
| "subscription_loop closeIfSlow subscriptionID query (Canceled err tried # ws) =
     (if err \<noteq> ErrUnsubscribed
      then (try_write tried (RPCServerError subscriptionID
              (''subscription was canceled (reason: '' @ canceled_reason err @ '')'')), True)
      else ([], True))"

definition BroadcastEvidence :: "('v \<Rightarrow> bytes) \<Rightarrow> 'v \<Rightarrow> bytes result" where
  "BroadcastEvidence evidence_Hash ev = Inr (evidence_Hash ev)"

definition Health :: "unit result" where "Health = Inr ()"

subsection \<open>The server\<close>

text \<open>
  \<open>strings.SplitN(s, sep, 2)\<close> with exactly two parts: the text before and after the first
  occurrence of the separator.
\<close>

fun split_once :: "string \<Rightarrow> string \<Rightarrow> (string \<times> string) option" where
  "split_once sep [] = (if sep = [] then Some ([], []) else None)"
| "split_once sep (c # s) =
     (if prefix sep (c # s) then Some ([], drop (length sep) (c # s))
      else map_option (\<lambda>(a, b). (c # a, b)) (split_once sep s))"

record rpc_server_config =
  rs_ListenAddress :: string
  rs_MaxOpenConnections :: int
  rs_IsCorsEnabled :: bool
  rs_TLSCertFile :: string
  rs_TLSKeyFile :: string

text \<open>
  What the server is listening with: the listener, the connection limit, whether the handler is
  wrapped for CORS, and (from \<open>serve\<close>) whether it speaks TLS. \<open>None\<close> is a server that is not
  exposed. The websocket manager calls the bus's \<open>UnsubscribeAll\<close> when a client disconnects.
\<close>

record 'l rpc_listening =
  rl_Listener :: 'l
  rl_Limit :: "int option"
  rl_Cors :: bool
  rl_TLS :: bool

definition serve_tls :: "rpc_server_config \<Rightarrow> bool" where
  "serve_tls cfg \<longleftrightarrow> rs_TLSCertFile cfg \<noteq> [] \<and> rs_TLSKeyFile cfg \<noteq> []"

definition startRPC ::
    "(string \<Rightarrow> string \<Rightarrow> 'l result) \<Rightarrow> rpc_server_config \<Rightarrow> 'l rpc_listening option result" where
  "startRPC net_Listen cfg =
     (if rs_ListenAddress cfg = [] then Inr None
      else case split_once ''://'' (rs_ListenAddress cfg) of
        None \<Rightarrow> Inl (ErrorString ''invalid RPC listen address: expecting tcp://host:port'')
      | Some (proto, addr) \<Rightarrow>
          and_then (net_Listen proto addr) (\<lambda>listener.
          Inr (Some \<lparr>rl_Listener = listener,
            rl_Limit = (if rs_MaxOpenConnections cfg \<noteq> 0 then Some (rs_MaxOpenConnections cfg) else None),
            rl_Cors = rs_IsCorsEnabled cfg, rl_TLS = serve_tls cfg\<rparr>)))"

lemma split_once_correct:
  "split_once sep s = Some (a, b) \<Longrightarrow> s = a @ sep @ b \<and> (\<forall>i < length a. \<not> prefix sep (drop i s))"
proof (induction sep s arbitrary: a rule: split_once.induct)
  case (2 sep c s)
  show ?case
  proof (cases "prefix sep (c # s)")
    case True
    then show ?thesis using "2.prems" by (auto simp: prefix_def)
  next
    case False
    then obtain a' where a: "a = c # a'" "split_once sep s = Some (a', b)"
      using "2.prems" by auto
    have "\<not> prefix sep (drop i (c # s))" if "i < length a" for i
      using that "2.IH" [OF False a(2)] False by (cases i) (auto simp: a(1))
    then show ?thesis using "2.IH" [OF False a(2)] a(1) by simp
  qed
qed (simp split: if_splits)

text \<open>
  The server listens on the part after the first separator with the protocol before it; an
  address without a separator is refused before anything is opened.
\<close>

lemma startRPC_listens:
  assumes "startRPC net_Listen cfg = Inr (Some l)"
  shows "\<exists>proto addr. rs_ListenAddress cfg = proto @ ''://'' @ addr \<and>
    net_Listen proto addr = Inr (rl_Listener l)"
proof -
  from assms obtain proto addr where "split_once ''://'' (rs_ListenAddress cfg) = Some (proto, addr)"
    "net_Listen proto addr = Inr (rl_Listener l)"
    by (auto simp: startRPC_def result_iffs split: if_splits option.splits)
  with split_once_correct show ?thesis by blast
qed

lemma startRPC_no_separator:
  assumes "rs_ListenAddress cfg \<noteq> []" and "\<And>a b. rs_ListenAddress cfg \<noteq> a @ ''://'' @ b"
  shows "is_err (startRPC net_Listen cfg)"
  using assms split_once_correct [of "''://''" "rs_ListenAddress cfg"]
  by (auto simp: startRPC_def split: option.splits)

subsection \<open>What a subscriber receives\<close>

text \<open>The events a client was sent, and the events its subscription was given.\<close>

definition delivered :: "('i, 'm) rpc_response list \<Rightarrow> 'm list" where
  "delivered resps = concat (map (\<lambda>r. case r of RPCSuccessResponse _ _ m \<Rightarrow> [m] | _ \<Rightarrow> []) resps)"

definition received :: "'m sub_wakeup list \<Rightarrow> 'm list" where
  "received ws = concat (map (\<lambda>w. case w of Out m _ _ \<Rightarrow> [m] | Canceled _ _ \<Rightarrow> []) ws)"

definition is_error :: "('i, 'm) rpc_response \<Rightarrow> bool" where
  "is_error r = (case r of RPCServerError _ _ \<Rightarrow> True | _ \<Rightarrow> False)"

lemma delivered_simps [simp]:
  "delivered [] = []"
  "delivered (RPCSuccessResponse i q m # rs) = m # delivered rs"
  "delivered (RPCServerError i s # rs) = delivered rs"
  "delivered (try_write ok (RPCServerError i s)) = []"
  by (simp_all add: delivered_def try_write_def)

lemma received_simps [simp]:
  "received [] = []" "received (Out m w t # ws) = m # received ws"
  "received (Canceled err t # ws) = received ws"
  by (simp_all add: received_def)

lemma is_error_simps [simp]:
  "is_error (RPCServerError i s)" "\<not> is_error (RPCSuccessResponse i q m)"
  by (simp_all add: is_error_def)

lemma loop_delivers:
  "(if closeIfSlow then prefix (delivered (fst (subscription_loop closeIfSlow i q ws))) (received ws)
    else subseq (delivered (fst (subscription_loop closeIfSlow i q ws))) (received ws))"
  by (induction closeIfSlow i q ws rule: subscription_loop.induct) (auto split: prod.splits)

text \<open>An error response ends the stream: it is the last one and the goroutine is over.\<close>

lemma loop_error_last:
  "subscription_loop closeIfSlow i q ws = (resps, ended) \<Longrightarrow>
     (\<forall>r\<in>set (butlast resps). \<not> is_error r) \<and>
     (resps \<noteq> [] \<and> is_error (last resps) \<longrightarrow> ended)"
  by (induction closeIfSlow i q ws arbitrary: resps ended rule: subscription_loop.induct)
    (auto simp: try_write_def split: prod.splits if_splits)

text \<open>Every success response carries the subscription's own query and request ID.\<close>

lemma loop_labels:
  "RPCSuccessResponse i' q' m \<in> set (fst (subscription_loop closeIfSlow i q ws)) \<Longrightarrow> i' = i \<and> q' = q"
  by (induction closeIfSlow i q ws rule: subscription_loop.induct)
    (auto simp: try_write_def split: prod.splits if_splits)

text \<open>
  C35: a subscriber that is disconnected when slow sees no gap. With the close-on-slow-client
  setting, the events a client was sent are at every moment a prefix of the events its
  subscription produced, each labelled with the request's ID and query; an error response is
  the last thing sent, and then the stream is over. Without the setting a failed write drops its
  event and goes on, so only order is kept: the events sent are a subsequence.
\<close>

theorem subscription_delivery:
  "\<exists>resps ended. subscription_loop closeIfSlow i q ws = (resps, ended) \<and>
     (if closeIfSlow then prefix (delivered resps) (received ws)
      else subseq (delivered resps) (received ws)) \<and>
     (\<forall>j r. j < length resps \<and> resps ! j = r \<longrightarrow>
        (if is_error r then Suc j = length resps \<and> ended else \<exists>m. r = RPCSuccessResponse i q m))"
proof -
  obtain resps ended where res: "subscription_loop closeIfSlow i q ws = (resps, ended)"
    by (cases "subscription_loop closeIfSlow i q ws")
  note last = loop_error_last [OF res]
  have "if is_error (resps ! j) then Suc j = length resps \<and> ended
      else \<exists>m. resps ! j = RPCSuccessResponse i q m" if j: "j < length resps" for j
  proof (cases "resps ! j")
    case (RPCSuccessResponse i' q' m)
    then show ?thesis using loop_labels [of i' q' m closeIfSlow i q ws] nth_mem [OF j] by (simp add: res)
  next
    case (RPCServerError i' s)
    then have "resps ! j \<notin> set (butlast resps)" using last by force
    then have "\<not> j < length (butlast resps)" by (metis nth_butlast nth_mem)
    then have j': "Suc j = length resps" using j by simp
    moreover have ne: "resps \<noteq> []" using j by auto
    ultimately have "last resps = resps ! j" by (metis last_conv_nth diff_Suc_1)
    then show ?thesis using RPCServerError last j' ne by simp
  qed
  then show ?thesis using loop_delivers [of closeIfSlow i q ws] res by auto
qed

subsection \<open>Limits\<close>

text \<open>What a connection does: the three requests, and going away.\<close>

datatype ws_request =
    WsSubscribe string string
  | WsUnsubscribe string string
  | WsUnsubscribeAll string
  | WsDisconnect string

definition ws_handle ::
    "('b, 'q) pubsub_ops \<Rightarrow> rpc_config \<Rightarrow> ws_request \<Rightarrow> 'b \<Rightarrow> 'b" where
  "ws_handle P cfg req b =
     (case req of
        WsSubscribe addr query \<Rightarrow> snd (Subscribe P cfg addr query b)
      | WsUnsubscribe addr query \<Rightarrow> snd (Unsubscribe P addr query b)
      | WsUnsubscribeAll addr \<Rightarrow> snd (UnsubscribeAll P addr b)
      | WsDisconnect addr \<Rightarrow> snd (OnDisconnect (\<lambda>_. False) P addr b))"

text \<open>
  What the event bus documents, over the set of its (client, query) pairs: the two counters count
  clients and the queries of one client, a successful \<open>Subscribe\<close> adds its pair, a failed one and
  \<open>Unsubscribe\<close> add none, and \<open>UnsubscribeAll\<close> leaves exactly the pairs of the other clients.
\<close>

definition client_queries :: "(string \<times> 'q) set \<Rightarrow> string \<Rightarrow> 'q set" where
  "client_queries S addr = {q. (addr, q) \<in> S}"

definition pubsub_laws :: "('b, 'q) pubsub_ops \<Rightarrow> ('b \<Rightarrow> (string \<times> 'q) set) \<Rightarrow> bool" where
  "pubsub_laws P subs \<longleftrightarrow>
     (\<forall>b. finite (subs b) \<and> ps_NumClients P b = int (card (fst ` subs b)) \<and>
        (\<forall>addr. ps_NumClientSubscriptions P addr b = int (card (client_queries (subs b) addr)))) \<and>
     (\<forall>addr q n b r b'. ps_Subscribe P addr q n b = (r, b') \<longrightarrow>
        (is_err r \<longrightarrow> subs b' \<subseteq> subs b) \<and> subs b' \<subseteq> insert (addr, q) (subs b)) \<and>
     (\<forall>addr q b. subs (snd (ps_Unsubscribe P addr q b)) \<subseteq> subs b) \<and>
     (\<forall>addr b. subs (snd (ps_UnsubscribeAll P addr b)) = {p \<in> subs b. fst p \<noteq> addr})"

lemma pubsub_lawsD:
  assumes "pubsub_laws P subs"
  shows "finite (subs b)" "ps_NumClients P b = int (card (fst ` subs b))"
    "ps_NumClientSubscriptions P addr b = int (card (client_queries (subs b) addr))"
    "subs (snd (ps_Subscribe P addr q n b)) \<subseteq> insert (addr, q) (subs b)"
    "subs (snd (ps_Unsubscribe P addr q b)) \<subseteq> subs b"
    "subs (snd (ps_UnsubscribeAll P addr b)) = {p \<in> subs b. fst p \<noteq> addr}"
proof -
  show "subs (snd (ps_Subscribe P addr q n b)) \<subseteq> insert (addr, q) (subs b)"
    using assms unfolding pubsub_laws_def by (metis prod.collapse)
qed (use assms in \<open>simp_all add: pubsub_laws_def\<close>)

text \<open>What a request leaves of the bus: the state after at most one call.\<close>

lemma snd_run_then_unit [simp]: "snd (run_then p (\<lambda>_ b. (Inr (), b))) = snd p"
  by (simp add: run_then_def split: prod.splits sum.splits)

definition within_limits :: "rpc_config \<Rightarrow> nat \<Rightarrow> nat \<Rightarrow> (string \<times> 'q) set \<Rightarrow> bool" where
  "within_limits cfg c0 s0 S \<longleftrightarrow> finite S \<and>
     int (card (fst ` S)) \<le> max (int c0) (rc_MaxSubscriptionClients cfg) \<and>
     (\<forall>addr. int (card (client_queries S addr)) \<le> max (int s0) (rc_MaxSubscriptionsPerClient cfg))"

lemma finite_client_queries: "finite S \<Longrightarrow> finite (client_queries S addr)"
  by (rule finite_subset [of _ "snd ` S"]) (force simp: client_queries_def)+

lemma within_limits_subset:
  assumes "within_limits cfg c0 s0 S" and sub: "T \<subseteq> S"
  shows "within_limits cfg c0 s0 T"
proof -
  have fin: "finite S" using assms(1) by (simp add: within_limits_def)
  have "card (fst ` T) \<le> card (fst ` S)" using sub fin by (intro card_mono) auto
  moreover have "card (client_queries T addr) \<le> card (client_queries S addr)" for addr
    using sub by (intro card_mono finite_client_queries [OF fin]) (auto simp: client_queries_def)
  ultimately show ?thesis
    using assms finite_subset [OF sub fin] by (auto simp: within_limits_def intro: order_trans [OF zle_int [THEN iffD2]])
qed

lemma within_limits_insert:
  assumes "within_limits cfg c0 s0 S"
    and "int (card (fst ` S)) < rc_MaxSubscriptionClients cfg"
    and "int (card (client_queries S addr)) < rc_MaxSubscriptionsPerClient cfg"
  shows "within_limits cfg c0 s0 (insert (addr, q) S)"
proof -
  have fin: "finite S" using assms(1) by (simp add: within_limits_def)
  have "client_queries (insert (addr, q) S) a =
      (if a = addr then insert q (client_queries S a) else client_queries S a)" for a
    by (auto simp: client_queries_def)
  then show ?thesis
    using assms fin finite_client_queries [OF fin]
    by (auto simp: within_limits_def card_insert_if)
qed

lemma ws_handle_grows:
  assumes laws: "pubsub_laws P subs"
  shows "subs (ws_handle P cfg req b) \<subseteq> subs b \<or>
    (\<exists>addr q. subs (ws_handle P cfg req b) \<subseteq> insert (addr, q) (subs b) \<and>
      ps_NumClients P b < rc_MaxSubscriptionClients cfg \<and>
      ps_NumClientSubscriptions P addr b < rc_MaxSubscriptionsPerClient cfg)"
proof (cases req)
  case (WsSubscribe addr query)
  then show ?thesis
    using pubsub_lawsD(4) [OF laws]
    by (cases "ps_QueryNew P query") (simp_all add: ws_handle_def Subscribe_def not_le, blast)
next
  case (WsUnsubscribe addr query)
  then show ?thesis
    using pubsub_lawsD(5) [OF laws] by (cases "ps_QueryNew P query") (simp_all add: ws_handle_def Unsubscribe_def)
next
  case (WsUnsubscribeAll addr)
  then show ?thesis using pubsub_lawsD(6) [OF laws] by (auto simp: ws_handle_def UnsubscribeAll_def)
next
  case (WsDisconnect addr)
  then show ?thesis using pubsub_lawsD(6) [OF laws] by (auto simp: ws_handle_def)
qed

text \<open>A client that is gone has no subscription left, whatever it did, until it connects again.\<close>

lemma ws_handle_other:
  assumes laws: "pubsub_laws P subs" and req: "\<nexists>query. req = WsSubscribe addr query"
    and "client_queries (subs b) addr = {}"
  shows "client_queries (subs (ws_handle P cfg req b)) addr = {}"
proof (cases req)
  case (WsSubscribe addr' query)
  then have ne: "addr' \<noteq> addr" using req by auto
  show ?thesis
  proof (cases "ps_QueryNew P query")
    case (Inr q)
    have "subs (ws_handle P cfg req b) \<subseteq> insert (addr', q) (subs b)"
      using pubsub_lawsD(4) [OF laws] by (auto simp: ws_handle_def Subscribe_def WsSubscribe Inr split: if_splits)
    then show ?thesis using assms(3) ne by (auto simp: client_queries_def)
  qed (use assms(3) in \<open>simp add: ws_handle_def Subscribe_def WsSubscribe\<close>)
next
  case (WsUnsubscribe addr' query)
  then have "subs (ws_handle P cfg req b) \<subseteq> subs b"
    using pubsub_lawsD(5) [OF laws, of addr']
    by (cases "ps_QueryNew P query") (simp_all add: ws_handle_def Unsubscribe_def)
  then show ?thesis using assms(3) by (auto simp: client_queries_def)
qed (use assms(3) pubsub_lawsD(6) [OF laws] in \<open>auto simp: ws_handle_def UnsubscribeAll_def client_queries_def\<close>)

lemma disconnected_client_gone:
  assumes laws: "pubsub_laws P subs" and "\<forall>query. WsSubscribe addr query \<notin> set reqs"
  shows "client_queries (subs (fold (ws_handle P cfg) (WsDisconnect addr # reqs) b)) addr = {}"
proof -
  have "client_queries (subs (fold (ws_handle P cfg) reqs b')) addr = {}"
    if "client_queries (subs b') addr = {}" for b'
    using assms(2) that
  proof (induction reqs arbitrary: b')
    case (Cons req reqs)
    then have "client_queries (subs (ws_handle P cfg req b')) addr = {}"
      by (intro ws_handle_other [OF laws]) auto
    with Cons show ?case by simp
  qed simp
  moreover have "client_queries (subs (ws_handle P cfg (WsDisconnect addr) b)) addr = {}"
    by (simp add: ws_handle_def pubsub_lawsD(6) [OF laws] client_queries_def)
  ultimately show ?thesis by simp
qed

lemma ws_handle_limits:
  assumes laws: "pubsub_laws P subs" and ok: "within_limits cfg c0 s0 (subs b)"
  shows "within_limits cfg c0 s0 (subs (ws_handle P cfg req b))"
  using ws_handle_grows [OF laws, of cfg req b]
proof (elim disjE exE conjE)
  fix addr q
  assume sub: "subs (ws_handle P cfg req b) \<subseteq> insert (addr, q) (subs b)"
    and "ps_NumClients P b < rc_MaxSubscriptionClients cfg"
    and "ps_NumClientSubscriptions P addr b < rc_MaxSubscriptionsPerClient cfg"
  then have "within_limits cfg c0 s0 (insert (addr, q) (subs b))"
    by (intro within_limits_insert [OF ok]) (simp_all add: pubsub_lawsD [OF laws])
  then show ?thesis using sub by (rule within_limits_subset)
qed (rule within_limits_subset [OF ok])

text \<open>
  the subscription limits hold. Whatever sequence of websocket requests clients send, the
  number of clients with a subscription never exceeds the configured maximum, nor the number
  of queries of one client its maximum (or the numbers the bus had before, when it started with more).
\<close>

lemma subscription_limits:
  assumes "pubsub_laws P subs"
    and "\<And>addr. card (client_queries (subs b) addr) \<le> s0"
  shows "int (card (fst ` subs (fold (ws_handle P cfg) reqs b))) \<le>
      max (int (card (fst ` subs b))) (rc_MaxSubscriptionClients cfg) \<and>
    int (card (client_queries (subs (fold (ws_handle P cfg) reqs b)) addr)) \<le>
      max (int s0) (rc_MaxSubscriptionsPerClient cfg)"
proof -
  have "within_limits cfg (card (fst ` subs b)) s0 (subs b)"
    using assms by (auto simp: within_limits_def pubsub_laws_def le_max_iff_disj)
  then have "within_limits cfg (card (fst ` subs b)) s0 (subs (fold (ws_handle P cfg) reqs b))"
    by (rule fold_invariant [where Q = "\<lambda>_. True" and P = "\<lambda>b'. within_limits cfg (card (fst ` subs b)) s0 (subs b')", rotated])
      (auto intro: ws_handle_limits [OF assms(1)])
  then show ?thesis by (simp add: within_limits_def)
qed

text \<open>A bus that is the list of its subscriptions, with at most two clients of one query each.\<close>

definition list_bus :: "((string \<times> string) list, string) pubsub_ops" where
  "list_bus = \<lparr>ps_NumClients = \<lambda>b. int (length (remdups (map fst b))),
     ps_NumClientSubscriptions = \<lambda>addr b. int (length (remdups (filter (\<lambda>p. fst p = addr) b))),
     ps_Subscribe = \<lambda>addr q n b. if (addr, q) \<in> set b then (Inl (ErrorString ''already subscribed''), b)
        else (Inr (), b @ [(addr, q)]),
     ps_Unsubscribe = \<lambda>addr q b. (Inr (), filter (\<lambda>p. p \<noteq> (addr, q)) b),
     ps_UnsubscribeAll = \<lambda>addr b. (Inr (), filter (\<lambda>p. fst p \<noteq> addr) b),
     ps_QueryNew = \<lambda>s. if s = [] then Inl (ErrorString ''empty query'') else Inr s\<rparr>"

definition small_limits :: rpc_config where
  "small_limits = \<lparr>rc_MaxSubscriptionClients = 2, rc_MaxSubscriptionsPerClient = 1,
     rc_SubscriptionBufferSize = 1, rc_CloseOnSlowClient = True\<rparr>"

lemma list_bus_laws: "pubsub_laws list_bus set"
proof -
  have "card (client_queries (set b) addr) = length (remdups (filter (\<lambda>p. fst p = addr) b))"
    for b :: "(string \<times> string) list" and addr
  proof -
    have "set (filter (\<lambda>p. fst p = addr) b) = Pair addr ` client_queries (set b) addr"
      by (auto simp: client_queries_def)
    moreover have "card (Pair addr ` client_queries (set b) addr) = card (client_queries (set b) addr)"
      by (rule card_image) (simp add: inj_on_def)
    ultimately show ?thesis by (simp add: length_remdups_card_conv)
  qed
  moreover have "card (fst ` set b) = length (remdups (map fst b))" for b :: "(string \<times> string) list"
    by (simp add: length_remdups_card_conv)
  ultimately show ?thesis by (auto simp: pubsub_laws_def list_bus_def is_err_iff split: if_splits)
qed

lemma subscription_limits_example:
  "fold (ws_handle list_bus small_limits)
     [WsSubscribe ''a'' ''x'', WsSubscribe ''a'' ''y'', WsSubscribe ''b'' ''x'', WsSubscribe ''c'' ''x'']
     [] = [(''a'', ''x''), (''b'', ''x'')] \<and>
   int (card (fst ` set [(''a'', ''x''), (''b'', ''x'')])) \<le> 2"
proof -
  have run: "fold (ws_handle list_bus small_limits)
     [WsSubscribe ''a'' ''x'', WsSubscribe ''a'' ''y'', WsSubscribe ''b'' ''x'', WsSubscribe ''c'' ''x'']
     [] = [(''a'', ''x''), (''b'', ''x'')]"
    by code_simp
  have "\<And>addr. card (client_queries (set ([] :: (string \<times> string) list)) addr) \<le> 0"
    by (simp add: client_queries_def)
  from subscription_limits [OF list_bus_laws this, where cfg = small_limits and
      reqs = "[WsSubscribe ''a'' ''x'', WsSubscribe ''a'' ''y'', WsSubscribe ''b'' ''x'', WsSubscribe ''c'' ''x'']"]
  show ?thesis unfolding run by (simp add: small_limits_def)
qed

theorem subscription_delivery_witness:
  "prefix (delivered (fst (subscription_loop True (7::nat) ''q'' [Out ''m1'' True True, Out ''m2'' False True, Out ''m3'' True True])))
     (received [Out ''m1'' True True, Out ''m2'' False True, Out ''m3'' True True]) \<and>
   fst (subscription_loop True (7::nat) ''q'' [Out ''m1'' True True, Out ''m2'' False True, Out ''m3'' True True]) =
     [RPCSuccessResponse 7 ''q'' ''m1'', RPCServerError 7 ''subscription was canceled (reason: slow client)'']"
  using subscription_delivery [of True "7::nat" "''q''" "[Out ''m1'' True True, Out ''m2'' False True, Out ''m3'' True True]"]
  by (auto simp: try_write_def)

end
