(* ===== verification/NetworkCli.thy ===== *)
theory NetworkCli
  imports NetworkExample AttesterClient
begin

text \<open>
  The command line of the network module (\<open>modules/network/client/cli\<close>) and the entry points the
  SDK calls (\<open>modules/network/module.go\<close>). A command runs on the client context (here its
  \<open>--from\<close> address, or the error of reading it), the flags and the positional arguments; signing
  and broadcasting a transaction, the bech32 strings, the JSON of a public key and printing are
  parameters. The theorem follows an \<open>attest\<close> command to the message server of a running chain.
\<close>

subsection \<open>Transaction commands\<close>

record 'w cli_env =
  cl_AccString :: "bytes \<Rightarrow> string"
  cl_ValString :: "bytes \<Rightarrow> string"
  cl_UnmarshalPubKey :: "bytes \<Rightarrow> pubkey result"
  cl_NewAnyWithValue :: "pubkey \<Rightarrow> any option"
  cl_GenerateOrBroadcastTx :: "net_action \<Rightarrow> 'w \<Rightarrow> unit result \<times> 'w"

text \<open>\<open>cobra.ExactArgs(n)\<close>; \<open>cobra.NoArgs\<close> is the case 0.\<close>

definition ExactArgs :: "nat \<Rightarrow> string list \<Rightarrow> unit result" where
  "ExactArgs n args = guard (length args = n) (ErrorString ''accepts n arg(s)'')"

definition CmdAttest ::
    "'w cli_env \<Rightarrow> bytes result \<Rightarrow> string list \<Rightarrow> 'w \<Rightarrow> unit result \<times> 'w" where
  "CmdAttest cl clientCtx args w =
     run_then (ExactArgs 2 args, w) (\<lambda>_ w.
     run_then (clientCtx, w) (\<lambda>fromAddress w.
     run_then (wrap ''invalid height'' (ParseInt (args ! 0)), w) (\<lambda>height w.
      let vote_bytes = string_bytes (args ! 1);
          authority = cl_AccString cl fromAddress;
          consensusAddress = cl_ValString cl fromAddress
      in cl_GenerateOrBroadcastTx cl
           (TxAttest (NewMsgAttest authority consensusAddress height vote_bytes)) w)))"

definition CmdJoinAttesterSet ::
    "'w cli_env \<Rightarrow> bytes result \<Rightarrow> string result \<Rightarrow> string list \<Rightarrow> 'w \<Rightarrow> unit result \<times> 'w" where
  "CmdJoinAttesterSet cl clientCtx pubkeyFlag args w =
     run_then (ExactArgs 0 args, w) (\<lambda>_ w.
     run_then (clientCtx, w) (\<lambda>fromAddress w.
     run_then (pubkeyFlag, w) (\<lambda>pubkeyStr w.
     if pubkeyStr = []
     then (Inl (ErrorString ''must specify the validator's public key using --pubkey flag''), w)
     else
     run_then (wrap ''failed to parse public key'' (cl_UnmarshalPubKey cl (string_bytes pubkeyStr)), w) (\<lambda>pk w.
      let authority = cl_AccString cl fromAddress;
          consensusAddress = cl_ValString cl fromAddress in
     run_then (wrap ''failed to create MsgJoinAttesterSet''
         (NewMsgJoinAttesterSet (cl_NewAnyWithValue cl) authority consensusAddress pk), w) (\<lambda>msg w.
     cl_GenerateOrBroadcastTx cl (TxJoin msg) w)))))"

definition CmdLeaveAttesterSet ::
    "'w cli_env \<Rightarrow> bytes result \<Rightarrow> string list \<Rightarrow> 'w \<Rightarrow> unit result \<times> 'w" where
  "CmdLeaveAttesterSet cl clientCtx args w =
     run_then (ExactArgs 0 args, w) (\<lambda>_ w.
     run_then (clientCtx, w) (\<lambda>fromAddress w.
      let authority = cl_AccString cl fromAddress;
          consensusAddress = cl_ValString cl fromAddress
      in cl_GenerateOrBroadcastTx cl (TxLeave (NewMsgLeaveAttesterSet authority consensusAddress)) w))"

subsection \<open>Query commands\<close>

text \<open>
  A query command runs with the client context (\<open>Inl\<close> the error of reading it), the query
  client's method and \<open>PrintProto\<close>.
\<close>

definition CmdQueryParams ::
    "unit result \<Rightarrow> (unit option \<Rightarrow> 'w \<Rightarrow> params result \<times> 'w) \<Rightarrow> (params \<Rightarrow> 'w \<Rightarrow> unit result \<times> 'w) \<Rightarrow>
     string list \<Rightarrow> 'w \<Rightarrow> unit result \<times> 'w" where
  "CmdQueryParams clientCtx query printProto args w =
     run_then (ExactArgs 0 args, w) (\<lambda>_ w. run_then (clientCtx, w) (\<lambda>_ w.
     run_then (query (Some ()) w) printProto))"

definition CmdQueryAttestationBitmap ::
    "unit result \<Rightarrow> (int64 option \<Rightarrow> 'w \<Rightarrow> attestation_bitmap result \<times> 'w) \<Rightarrow>
     (attestation_bitmap \<Rightarrow> 'w \<Rightarrow> unit result \<times> 'w) \<Rightarrow> string list \<Rightarrow> 'w \<Rightarrow> unit result \<times> 'w" where
  "CmdQueryAttestationBitmap clientCtx query printProto args w =
     run_then (ExactArgs 1 args, w) (\<lambda>_ w. run_then (clientCtx, w) (\<lambda>_ w.
     run_then (wrap ''invalid height'' (ParseInt (args ! 0)), w) (\<lambda>height w.
     run_then (query (Some height) w) printProto)))"

definition CmdQueryEpochInfo ::
    "unit result \<Rightarrow> (uint64 option \<Rightarrow> 'w \<Rightarrow> epoch_info_response result \<times> 'w) \<Rightarrow>
     (epoch_info_response \<Rightarrow> 'w \<Rightarrow> unit result \<times> 'w) \<Rightarrow> string list \<Rightarrow> 'w \<Rightarrow> unit result \<times> 'w" where
  "CmdQueryEpochInfo clientCtx query printProto args w =
     run_then (ExactArgs 1 args, w) (\<lambda>_ w. run_then (clientCtx, w) (\<lambda>_ w.
     run_then (wrap ''invalid epoch'' (ParseUint (args ! 0)), w) (\<lambda>epoch w.
     run_then (query (Some (of_nat epoch)) w) printProto)))"

definition CmdQueryValidatorIndex ::
    "unit result \<Rightarrow> (string option \<Rightarrow> 'w \<Rightarrow> validator_index result \<times> 'w) \<Rightarrow>
     (validator_index \<Rightarrow> 'w \<Rightarrow> unit result \<times> 'w) \<Rightarrow> string list \<Rightarrow> 'w \<Rightarrow> unit result \<times> 'w" where
  "CmdQueryValidatorIndex clientCtx query printProto args w =
     run_then (ExactArgs 1 args, w) (\<lambda>_ w. run_then (clientCtx, w) (\<lambda>_ w.
     run_then (query (Some (args ! 0)) w) printProto))"

definition CmdQuerySoftConfirmationStatus ::
    "unit result \<Rightarrow> (int64 option \<Rightarrow> 'w \<Rightarrow> soft_confirmation_response result \<times> 'w) \<Rightarrow>
     (soft_confirmation_response \<Rightarrow> 'w \<Rightarrow> unit result \<times> 'w) \<Rightarrow> string list \<Rightarrow> 'w \<Rightarrow>
     unit result \<times> 'w" where
  "CmdQuerySoftConfirmationStatus clientCtx query printProto args w =
     run_then (ExactArgs 1 args, w) (\<lambda>_ w. run_then (clientCtx, w) (\<lambda>_ w.
     run_then (wrap ''invalid height'' (ParseInt (args ! 0)), w) (\<lambda>height w.
     run_then (query (Some height) w) printProto)))"

subsection \<open>Entry points of the module\<close>

text \<open>The JSON codec is a parameter; \<open>MustUnmarshalJSON\<close> panics where it fails.\<close>

definition AppModuleBasic_ValidateGenesis ::
    "ext \<Rightarrow> (bytes \<Rightarrow> genesis_state result) \<Rightarrow> bytes \<Rightarrow> unit result" where
  "AppModuleBasic_ValidateGenesis e unmarshalJSON bz =
     and_then (wrap ''unmarshal genesis state'' (unmarshalJSON bz)) (GenesisState_Validate e)"

definition AppModule_InitGenesis ::
    "ext \<Rightarrow> (bytes \<Rightarrow> genesis_state result) \<Rightarrow> bytes \<Rightarrow> network_state \<Rightarrow>
     unit result \<times> network_state" where
  "AppModule_InitGenesis e unmarshalJSON data k =
     (case unmarshalJSON data of
        Inl _ \<Rightarrow> (Inl (Panic ''unmarshal genesis state''), k)
      | Inr genesisState \<Rightarrow>
     (case InitGenesis e genesisState k of
        (Inl _, k) \<Rightarrow> (Inl (Panic ''init genesis''), k)
      | (Inr _, k) \<Rightarrow> (Inr (), k)))"

definition AppModule_ExportGenesis ::
    "ext \<Rightarrow> (genesis_state \<Rightarrow> bytes result) \<Rightarrow> network_state \<Rightarrow> bytes result" where
  "AppModule_ExportGenesis e marshalJSON k =
     and_then (ExportGenesis e k) (\<lambda>genesis.
     (case marshalJSON genesis of
        Inl _ \<Rightarrow> Inl (Panic ''marshal genesis state'')
      | Inr data \<Rightarrow> Inr data))"

definition AppModule_EndBlock ::
    "keeper_env \<Rightarrow> sdk_ctx \<Rightarrow> network_state \<Rightarrow> unit result \<times> network_state" where
  "AppModule_EndBlock env ctx k = EndBlocker env ctx k"

subsection \<open>What a command reaches\<close>

text \<open>Every registered address is the consensus address string of some key.\<close>

lemma net_run_cons_addresses:
  assumes init: "net_init env gs s" and run: "net_run env chain s acts s'"
    and look: "fmlookup (AttesterInfo (snd s')) a = Some info"
  shows "\<exists>addr. a = ext_ConsAddress (env_ext env) addr"
proof -
  let ?l = "sort_key (attester_sort_key (env_ext env))
    (map (normalize_attester (env_ext env)) (gs_AttesterInfos gs))"
  let ?r = "insert_attesters 0 ?l NewKeeper"
  have reg: "registry_from (env_ext env) ?l (snd s)"
    using init by (intro InitGenesis_registry(1)) (simp add: net_init_def)
  then have dist: "distinct (map ai_ConsensusAddress ?l)"
    and info: "AttesterInfo (snd s) = AttesterInfo ?r" by (simp_all add: registry_from_def)
  have "same_registry (snd s) (snd s')" by (rule net_run_registry [OF run net_init_ok [OF init]])
  then have "fmlookup (AttesterInfo ?r) a = Some info"
    using look by (simp add: same_registry_def info)
  then have "a |\<in>| AttesterSet ?r"
    using registry_lookups(2) [OF _ dist, of NewKeeper] by (metis empty_attesters_def empty_registry(1-3) fmdomI)
  then have "a \<in> ai_ConsensusAddress ` set ?l"
    by (simp add: registry_lookups(1) [OF _ dist] empty_attesters_def fset_of_list.rep_eq)
  then show ?thesis by (auto simp: normalize_attester_def)
qed

text \<open>
  C36: no vote can be submitted with the module's own \<open>attest\<close> command. The command fills the
  consensus address with the operator address string of the sender; on every chain reached from
  a genesis the registered addresses are consensus address strings, so as long as the two kinds
  of string are distinct (their bech32 prefixes differ), the command broadcasts one message with
  the given height, and the message server refuses it as not in the attester set and changes
  nothing, whoever the sender is and whatever the vote.
\<close>

theorem CmdAttest_always_refused:
  assumes prefixes: "\<And>addr. cl_ValString cl from \<noteq> ext_ConsAddress (env_ext env) addr"
    and init: "net_init env gs s" and run: "net_run env chain s acts (h, k)"
    and height: "ParseInt arg = Inr height"
  shows "\<exists>msg. CmdAttest cl (Inr from) [arg, voteArg] w = cl_GenerateOrBroadcastTx cl (TxAttest msg) w \<and>
    ma_Height msg = height \<and> ma_Vote msg = string_bytes voteArg \<and>
    Attest env ctx msg k = (Inl (ErrUnauthorized ''consensus address not in attester set''), k)"
proof -
  let ?msg = "NewMsgAttest (cl_AccString cl from) (cl_ValString cl from) height (string_bytes voteArg)"
  have "CmdAttest cl (Inr from) [arg, voteArg] w = cl_GenerateOrBroadcastTx cl (TxAttest ?msg) w"
    by (simp add: CmdAttest_def ExactArgs_def height)
  moreover have "fmlookup (AttesterInfo k) (cl_ValString cl from) = None"
    using net_run_cons_addresses [OF init run] prefixes by (cases "fmlookup (AttesterInfo k) (cl_ValString cl from)") auto
  ultimately show ?thesis
    by (intro exI [of _ ?msg])
      (simp add: Attest_def Attest_checks_def assertValidValidatorAuthority_def NewMsgAttest_def)
qed

text \<open>A height that is not a number never reaches the network.\<close>

lemma CmdAttest_invalid_height:
  "ParseInt arg = Inl err \<Longrightarrow>
     CmdAttest cl (Inr from) [arg, voteArg] w = (Inl (Wrap ''invalid height'' err), w)"
  by (simp add: CmdAttest_def ExactArgs_def wrap_def)

text \<open>The module's genesis entry point succeeds exactly when the data decodes and imports.\<close>

lemma AppModule_InitGenesis_iff:
  "AppModule_InitGenesis e unmarshalJSON data k = (Inr (), k') \<longleftrightarrow>
     (\<exists>gs. unmarshalJSON data = Inr gs \<and> InitGenesis e gs k = (Inr (), k'))"
  by (auto simp: AppModule_InitGenesis_def split: prod.splits sum.splits)

subsection \<open>An example\<close>

text \<open>Address strings with a prefix letter, as bech32 has its human-readable part.\<close>

definition prefix_ext :: ext where
  "prefix_ext = demo_ext\<lparr>ext_ConsAddress := \<lambda>b. CHR ''c'' # bytes_string b,
     ext_bech32_Decode := \<lambda>s. Some (''c'', string_bytes (tl s))\<rparr>"

definition prefix_env :: keeper_env where
  "prefix_env = demo_env\<lparr>env_ext := prefix_ext\<rparr>"

definition prefix_genesis :: genesis_state where
  "prefix_genesis = (DefaultGenesisState prefix_ext)\<lparr>gs_AttesterInfos :=
     [(demo_attester [1])\<lparr>ai_ConsensusAddress := CHR ''c'' # bytes_string [1]\<rparr>]\<rparr>"

definition prefix_start :: network_state where
  "prefix_start = snd (InitGenesis prefix_ext prefix_genesis NewKeeper)"

definition prefix_cli :: "net_action list cli_env" where
  "prefix_cli = \<lparr>cl_AccString = \<lambda>b. CHR ''a'' # bytes_string b,
     cl_ValString = \<lambda>b. CHR ''v'' # bytes_string b,
     cl_UnmarshalPubKey = \<lambda>b. Inr (PubKey ''ed25519'' b), cl_NewAnyWithValue = \<lambda>pk. Some (demo_key (pk_bytes pk)),
     cl_GenerateOrBroadcastTx = \<lambda>a w. (Inr (), w @ [a])\<rparr>"

lemma prefix_init: "net_init prefix_env prefix_genesis (5, prefix_start)"
proof -
  have p: "DefaultParams prefix_ext = DefaultParams demo_ext"
    by (simp add: DefaultParams_def NewParams_def prefix_ext_def)
  have v: "Params_Validate prefix_ext (DefaultParams prefix_ext) = Params_Validate demo_ext (DefaultParams demo_ext)"
    unfolding p by (simp add: Params_Validate_def prefix_ext_def)
  have "Params_Validate demo_ext (DefaultParams demo_ext) = Inr ()"
    using demo_params_ok Params_Validate_iff by blast
  then have "GenesisState_Validate prefix_ext prefix_genesis = Inr ()"
    by (simp add: GenesisState_Validate_def prefix_genesis_def DefaultGenesisState_def v)
  moreover have "fst (InitGenesis prefix_ext prefix_genesis NewKeeper) = Inr ()"
    by (simp add: InitGenesis_def prefix_genesis_def DefaultGenesisState_def GetPubKey_def
        demo_attester_def demo_key_def prefix_ext_def Let_def)
  ultimately show ?thesis
    by (simp add: net_init_def prefix_env_def prefix_start_def prod_eq_iff)
      (simp add: prefix_genesis_def DefaultGenesisState_def)
qed

theorem CmdAttest_always_refused_witness:
  "\<exists>msg. CmdAttest prefix_cli (Inr [1]) [''3'', ''AQE=''] [] = (Inr (), [TxAttest msg]) \<and>
    ma_Height msg = 3 \<and> ma_Vote msg = string_bytes ''AQE='' \<and>
    Attest prefix_env (at_height 5 ''demo'') msg prefix_start =
      (Inl (ErrUnauthorized ''consensus address not in attester set''), prefix_start)"
proof -
  have "ParseInt ''3'' = Inr 3" by (simp add: ParseInt_def ParseUint_def char_digit_def)
  from CmdAttest_always_refused [OF _ prefix_init net_run.start this, of prefix_cli "[1]" "''AQE=''" "[]"]
  show ?thesis
    by (simp add: prefix_cli_def prefix_env_def prefix_ext_def)
qed

end
