(* ===== verification/MigrationCmd.thy ===== *)
theory MigrationCmd
  imports Migration AdapterExec NetworkTypes
begin

text \<open>
  The migration command (\<open>server/migration_cmd.go\<close>) and the genesis file it leaves for the next
  start (\<open>server/genesis_helpers.go\<close>): it copies the CometBFT state into the execution store and
  the blocks, newest first, into ev-node's store, saves the block IDs, writes a small genesis
  file with the sequencer, seeds the sync stores and clears the migration manager's state. The
  stores of ev-node (\<open>'w\<close>) and the application database (\<open>'d\<close>) are parameters with a state of
  their own, as are the block store, the codecs and the files.
\<close>

subsection \<open>Data\<close>

text \<open>
  The CometBFT state with the fields only the command reads; the execution store keeps the
  fields of \<open>cmt_state\<close>.
\<close>

record comet_state = cmt_state +
  cst_InitialHeight :: int64
  cst_LastBlockTime :: int
  cst_VersionBlock :: uint64
  cst_VersionApp :: uint64

record signed_header =
  sh_Height :: uint64
  sh_Time :: uint64
  sh_ChainID :: string
  sh_VersionBlock :: uint64
  sh_VersionApp :: uint64
  sh_LastHeaderHash :: bytes
  sh_DataHash :: bytes
  sh_AppHash :: bytes
  sh_ValidatorHash :: bytes
  sh_ProposerAddress :: bytes
  sh_Signature :: bytes

record rollkit_data =
  rd_ChainID :: string
  rd_Height :: uint64
  rd_Time :: uint64
  rd_LastDataHash :: bytes
  rd_Txs :: "bytes list"

record rollkit_state =
  rs_VersionBlock :: uint64
  rs_VersionApp :: uint64
  rs_ChainID :: string
  rs_InitialHeight :: uint64
  rs_LastBlockHeight :: uint64
  rs_LastBlockTime :: int
  rs_DAHeight :: uint64
  rs_AppHash :: bytes

record evolveMigrationGenesis =
  eg_ChainID :: string
  eg_InitialHeight :: uint64
  eg_GenesisTime :: int64
  eg_SequencerAddr :: bytes
  eg_SequencerPubKey :: "cmt_pubkey option"

record sequencerInfo =
  si_Address :: bytes
  si_PubKey :: cmt_pubkey

record ('w, 'd) migrate_env =
  mc_x :: cmt_ext
  mc_e :: store_ext
  mc_mx :: mig_ext
  mc_LoadBlock :: "int64 \<Rightarrow> cmt_block option"
  mc_ToCmtPubKeyInterface :: "pubkey \<Rightarrow> cmt_pubkey result"
  mc_pk_Address :: "cmt_pubkey \<Rightarrow> bytes"
  mc_UnmarshalSequencer :: "bytes \<Rightarrow> sequencer result"
  mc_appExists :: "bool result"
  mc_openApp :: "unit result"
  mc_dbGet :: "bytes \<Rightarrow> 'd \<Rightarrow> bytes result"
  mc_dbDelete :: "bytes \<Rightarrow> 'd \<Rightarrow> unit result \<times> 'd"
  mc_MarshalGenesis :: "evolveMigrationGenesis \<Rightarrow> bytes result"
  mc_UnmarshalGenesis :: "bytes \<Rightarrow> evolveMigrationGenesis result"
  mc_WriteFile :: "bytes \<Rightarrow> unit result"
  mc_NewBatch :: "'w \<Rightarrow> unit result \<times> 'w"
  mc_SaveBlockData :: "signed_header \<Rightarrow> rollkit_data \<Rightarrow> bytes \<Rightarrow> 'w \<Rightarrow> unit result \<times> 'w"
  mc_SetHeight :: "uint64 \<Rightarrow> 'w \<Rightarrow> unit result \<times> 'w"
  mc_UpdateState :: "rollkit_state \<Rightarrow> 'w \<Rightarrow> unit result \<times> 'w"
  mc_Commit :: "'w \<Rightarrow> unit result \<times> 'w"
  mc_headerStart :: "'w \<Rightarrow> unit result \<times> 'w"
  mc_dataStart :: "'w \<Rightarrow> unit result \<times> 'w"
  mc_headerHeight :: "'w \<Rightarrow> uint64"
  mc_GetBlockData :: "uint64 \<Rightarrow> 'w \<Rightarrow> (signed_header \<times> rollkit_data) result"
  mc_headerAppend :: "signed_header \<Rightarrow> 'w \<Rightarrow> unit result \<times> 'w"
  mc_dataAppend :: "rollkit_data \<Rightarrow> 'w \<Rightarrow> unit result \<times> 'w"

text \<open>The handles of the command and what it does to them, in the order it does it.\<close>

datatype migrate_handle = CometBlocks | CometStates | EvolveStore | HeaderSync | DataSync

datatype migrate_action = Acquire migrate_handle | Release migrate_handle

record ('w, 'd) migrate_state =
  mst_exec :: datastore
  mst_evolve :: 'w
  mst_genesis :: "bytes option"
  mst_app :: 'd
  mst_syncStarted :: bool
  mst_log :: "migrate_action list"

definition log_action :: "migrate_action \<Rightarrow> ('w, 'd) migrate_state \<Rightarrow> ('w, 'd) migrate_state" where
  "log_action act s = s\<lparr>mst_log := mst_log s @ [act]\<rparr>"

definition on_exec :: "(datastore \<Rightarrow> 'r \<times> datastore) \<Rightarrow> ('w, 'd) migrate_state \<Rightarrow> 'r \<times> ('w, 'd) migrate_state" where
  "on_exec f s = (case f (mst_exec s) of (r, m) \<Rightarrow> (r, s\<lparr>mst_exec := m\<rparr>))"

definition on_evolve :: "('w \<Rightarrow> 'r \<times> 'w) \<Rightarrow> ('w, 'd) migrate_state \<Rightarrow> 'r \<times> ('w, 'd) migrate_state" where
  "on_evolve f s = (case f (mst_evolve s) of (r, w) \<Rightarrow> (r, s\<lparr>mst_evolve := w\<rparr>))"

definition on_appdb :: "('d \<Rightarrow> 'r \<times> 'd) \<Rightarrow> ('w, 'd) migrate_state \<Rightarrow> 'r \<times> ('w, 'd) migrate_state" where
  "on_appdb f s = (case f (mst_app s) of (r, d) \<Rightarrow> (r, s\<lparr>mst_app := d\<rparr>))"

subsection \<open>Conversion of blocks and state\<close>

definition proposer_signature :: "cmt_block \<Rightarrow> bytes" where
  "proposer_signature block =
     (case find (\<lambda>sig. cs_ValidatorAddress sig = hd_ProposerAddress (bk_Header block)) (cm_Signatures (bk_LastCommit block)) of
        None \<Rightarrow> [] | Some sig \<Rightarrow> cs_Signature sig)"

definition cometBlockToRollkit :: "cmt_ext \<Rightarrow> cmt_block \<Rightarrow> signed_header \<times> rollkit_data \<times> bytes" where
  "cometBlockToRollkit x block =
     (let hdr = bk_Header block; signature = proposer_signature block in
      (\<lparr>sh_Height = to_uint64 (hd_Height hdr), sh_Time = to_uint64 (hd_Time hdr), sh_ChainID = hd_ChainID hdr,
        sh_VersionBlock = hd_VersionBlock hdr, sh_VersionApp = hd_VersionApp hdr,
        sh_LastHeaderHash = x_header_Hash x hdr, sh_DataHash = hd_DataHash hdr, sh_AppHash = hd_AppHash hdr,
        sh_ValidatorHash = hd_ValidatorsHash hdr, sh_ProposerAddress = hd_ProposerAddress hdr, sh_Signature = signature\<rparr>,
       \<lparr>rd_ChainID = hd_ChainID hdr, rd_Height = to_uint64 (hd_Height hdr), rd_Time = to_uint64 (hd_Time hdr),
        rd_LastDataHash = hd_DataHash hdr, rd_Txs = bk_Txs block\<rparr>, signature))"

definition cometbftStateToRollkitState :: "comet_state \<Rightarrow> uint64 \<Rightarrow> rollkit_state result" where
  "cometbftStateToRollkitState s daHeight =
     Inr \<lparr>rs_VersionBlock = cst_VersionBlock s, rs_VersionApp = cst_VersionApp s, rs_ChainID = st_ChainID s,
       rs_InitialHeight = to_uint64 (st_LastBlockHeight s), rs_LastBlockHeight = to_uint64 (st_LastBlockHeight s),
       rs_LastBlockTime = cst_LastBlockTime s, rs_DAHeight = daHeight, rs_AppHash = st_AppHash s\<rparr>"

subsection \<open>The sequencer and the genesis file\<close>

definition MigrationKey :: bytes where "MigrationKey = [0x13]"
definition SequencerKey :: bytes where "SequencerKey = [0x14]"

definition item_key :: "bytes \<Rightarrow> bytes" where
  "item_key key = string_bytes ''s/k:migrationmngr/'' @ [0x66] @ key"

definition open_app :: "('w, 'd) migrate_env \<Rightarrow> unit result" where
  "open_app env =
     and_then (wrap ''error checking application database'' (mc_appExists env)) (\<lambda>ok.
     if \<not> ok then Inl (ErrorString ''no application database found'')
     else wrap ''failed to open application database'' (mc_openApp env))"

definition getSequencerFromMigrationMngrState ::
    "('w, 'd) migrate_env \<Rightarrow> comet_state \<Rightarrow> 'd \<Rightarrow> sequencerInfo result" where
  "getSequencerFromMigrationMngrState env cometState appDB =
     and_then (open_app env) (\<lambda>_.
     and_then (wrap ''failed to read sequencer from database'' (mc_dbGet env (item_key SequencerKey) appDB)) (\<lambda>sequencerBytes.
     if sequencerBytes = [] then Inl (ErrorString ''sequencer not found in migrationmngr state'')
     else if length sequencerBytes < 2 then Inl (ErrorString ''sequencer bytes too short'')
     else
     and_then (wrap ''failed to unmarshal sequencer'' (mc_UnmarshalSequencer env (drop 2 sequencerBytes))) (\<lambda>sequencer.
     and_then (wrap ''failed to unpack sequencer interfaces'' (Sequencer_UnpackInterfaces (mc_mx env) sequencer)) (\<lambda>sequencer.
     (case seq_ConsensusPubkey sequencer of
        None \<Rightarrow> Inl (ErrorString ''sequencer consensus public key is nil'')
      | Some pubKeyAny \<Rightarrow>
     (case any_cached pubKeyAny of
        None \<Rightarrow> Inl (ErrorString ''failed to get SDK pubkey from cached value'')
      | Some sdkPubKey \<Rightarrow>
     and_then (wrap ''failed to convert public key to CometBFT format'' (mc_ToCmtPubKeyInterface env sdkPubKey)) (\<lambda>pubKey.
     let addr = mc_pk_Address env pubKey in
     if list_ex (\<lambda>v. cv_Address v = addr) (vs_Validators (st_LastValidators cometState))
     then Inr \<lparr>si_Address = addr, si_PubKey = pubKey\<rparr>
     else Inl (ErrorString ''sequencer from migrationmngr state is not found in the validator set''))))))))"

definition migration_genesis ::
    "('w, 'd) migrate_env \<Rightarrow> comet_state \<Rightarrow> 'd \<Rightarrow> evolveMigrationGenesis result" where
  "migration_genesis env cometState appDB =
     and_then
       (case vs_Validators (st_LastValidators cometState) of
          [v] \<Rightarrow> Inr \<lparr>si_Address = cv_Address v, si_PubKey = cv_PubKey v\<rparr>
        | v # w # vs \<Rightarrow> wrap ''failed to get sequencer from migrationmngr state'' (getSequencerFromMigrationMngrState env cometState appDB)
        | [] \<Rightarrow> Inl (ErrorString ''no validators found in the last validators, cannot determine sequencer address'')) (\<lambda>info.
     Inr \<lparr>eg_ChainID = st_ChainID cometState, eg_InitialHeight = to_uint64 (cst_InitialHeight cometState),
          eg_GenesisTime = int64_wrap (cst_LastBlockTime cometState), eg_SequencerAddr = si_Address info,
          eg_SequencerPubKey = Some (si_PubKey info)\<rparr>)"

definition createRollkitMigrationGenesis ::
    "('w, 'd) migrate_env \<Rightarrow> comet_state \<Rightarrow> ('w, 'd) migrate_state \<Rightarrow> unit result \<times> ('w, 'd) migrate_state" where
  "createRollkitMigrationGenesis env cometState s =
     run_then (migration_genesis env cometState (mst_app s), s) (\<lambda>migrationGenesis s.
     run_then (wrap ''failed to marshal evolve migration genesis'' (mc_MarshalGenesis env migrationGenesis), s) (\<lambda>genesisBytes s.
     run_then (wrap ''failed to write evolve migration genesis'' (mc_WriteFile env genesisBytes), s) (\<lambda>_ s.
     (Inr (), s\<lparr>mst_genesis := Some genesisBytes\<rparr>))))"

text \<open>
  The next start: \<open>None\<close> is a file that does not exist, and the file is readable.
\<close>

definition loadEvolveMigrationGenesis :: "('w, 'd) migrate_env \<Rightarrow> bytes option \<Rightarrow> evolveMigrationGenesis option result" where
  "loadEvolveMigrationGenesis env file =
     (case file of
        None \<Rightarrow> Inr None
      | Some genesisBytes \<Rightarrow>
          and_then (wrap ''failed to unmarshal evolve migration genesis'' (mc_UnmarshalGenesis env genesisBytes)) (\<lambda>g. Inr (Some g)))"

text \<open>
  The genesis of ev-node: the fields of \<open>NewGenesis\<close>, and what the start sets on it.
\<close>

record ev_genesis =
  gn_ChainID :: string
  gn_InitialHeight :: uint64
  gn_StartTime :: int
  gn_ProposerAddress :: bytes
  gn_DAStartHeight :: uint64
  gn_DAEpochForcedInclusion :: uint64

definition ToEVGenesis :: "(string \<Rightarrow> uint64 \<Rightarrow> int \<Rightarrow> bytes \<Rightarrow> ev_genesis) \<Rightarrow> evolveMigrationGenesis \<Rightarrow> ev_genesis" where
  "ToEVGenesis newGenesis g = newGenesis (eg_ChainID g) (eg_InitialHeight g) (eg_GenesisTime g) (eg_SequencerAddr g)"

definition createEvolveGenesisFromCometBFT ::
    "(string \<Rightarrow> uint64 \<Rightarrow> int \<Rightarrow> bytes \<Rightarrow> ev_genesis) \<Rightarrow> app_genesis \<Rightarrow> uint64 \<Rightarrow> uint64 \<Rightarrow> ev_genesis result" where
  "createEvolveGenesisFromCometBFT newGenesis doc daStartHeight forcedInclusionEpochSize =
     (case ag_Validators doc of
        [] \<Rightarrow> Inl (Panic ''index out of range'')
      | v # _ \<Rightarrow>
          let gen = newGenesis (ag_ChainID doc) (to_uint64 (ag_InitialHeight doc)) (ag_GenesisTime doc) (gv_Address v);
              gen = (if daStartHeight > 0 then gen\<lparr>gn_DAStartHeight := daStartHeight\<rparr> else gen);
              gen = (if forcedInclusionEpochSize > 0 then gen\<lparr>gn_DAEpochForcedInclusion := forcedInclusionEpochSize\<rparr> else gen)
          in Inr gen)"

subsection \<open>The command\<close>

definition maxMissedBlock :: nat where "maxMissedBlock = 50"

definition block_id_of :: "cmt_ext \<Rightarrow> cmt_block \<Rightarrow> block_id result" where
  "block_id_of x block =
     and_then (wrap ''failed to build part set'' (x_PartSetHeader x block)) (\<lambda>(tot, hash).
     Inr \<lparr>bid_Hash = x_header_Hash x (bk_Header block), bid_psh_Total = tot, bid_psh_Hash = hash\<rparr>)"

definition migrate_block ::
    "('w, 'd) migrate_env \<Rightarrow> cmt_block \<Rightarrow> ('w, 'd) migrate_state \<Rightarrow> unit result \<times> ('w, 'd) migrate_state" where
  "migrate_block env block s =
     (let (header, data, signature) = cometBlockToRollkit (mc_x env) block in
      run_then (wrapping ''failed to save block data'' (on_evolve (mc_SaveBlockData env header data signature) s)) (\<lambda>_ s.
      run_then (block_id_of (mc_x env) block, s) (\<lambda>blockID s.
      wrapping ''failed to save BlockID'' (on_exec (SaveBlockID (mc_e env) (to_uint64 (hd_Height (bk_Header block))) blockID) s))))"

text \<open>The loop from the last height down to 1.\<close>

fun migrate_blocks ::
    "('w, 'd) migrate_env \<Rightarrow> nat \<Rightarrow> int64 fset \<Rightarrow> ('w, 'd) migrate_state \<Rightarrow> unit result \<times> ('w, 'd) migrate_state" where
  "migrate_blocks env 0 missedBlocks s = (Inr (), s)"
| "migrate_blocks env (Suc n) missedBlocks s =
     (let height = int (Suc n) in
      if fcard missedBlocks \<ge> maxMissedBlock then (Inr (), s)
      else (case mc_LoadBlock env height of
              None \<Rightarrow> migrate_blocks env n (finsert height missedBlocks) s
            | Some block \<Rightarrow> run_then (migrate_block env block s) (\<lambda>_ s. migrate_blocks env n missedBlocks s)))"

definition seed_sync_stores ::
    "('w, 'd) migrate_env \<Rightarrow> uint64 \<Rightarrow> ('w, 'd) migrate_state \<Rightarrow> unit result \<times> ('w, 'd) migrate_state" where
  "seed_sync_stores env lastHeight s =
     run_then (wrapping ''failed to start header sync store'' (on_evolve (mc_headerStart env) s)) (\<lambda>_ s.
     let s = log_action (Acquire HeaderSync) s in
     run_then (wrapping ''failed to start data sync store'' (on_evolve (mc_dataStart env) s)) (\<lambda>_ s.
     let s = (log_action (Acquire DataSync) s)\<lparr>mst_syncStarted := True\<rparr> in
     if mc_headerHeight env (mst_evolve s) = 0
     then
       run_then (wrap ''failed to get block data for seeding sync stores'' (mc_GetBlockData env lastHeight (mst_evolve s)), s) (\<lambda>(header, data) s.
       run_then (wrapping ''failed to append header to sync store'' (on_evolve (mc_headerAppend env header) s)) (\<lambda>_ s.
       wrapping ''failed to append data to sync store'' (on_evolve (mc_dataAppend env data) s)))
     else (Inr (), s)))"

definition cleanupMigrationState ::
    "('w, 'd) migrate_env \<Rightarrow> ('w, 'd) migrate_state \<Rightarrow> unit result \<times> ('w, 'd) migrate_state" where
  "cleanupMigrationState env s =
     run_then (open_app env, s) (\<lambda>_ s.
     run_then (wrapping ''failed to delete migration state from database'' (on_appdb (mc_dbDelete env (item_key MigrationKey)) s)) (\<lambda>_ s.
     wrapping ''failed to delete sequencer state from database'' (on_appdb (mc_dbDelete env (item_key SequencerKey)) s)))"

text \<open>
  The body of the command, from the loaded CometBFT state and the DA height flag. A last height
  that is not positive migrates no block.
\<close>

definition migrate_to_evolve ::
    "('w, 'd) migrate_env \<Rightarrow> comet_state \<Rightarrow> uint64 result \<Rightarrow> ('w, 'd) migrate_state \<Rightarrow> unit result \<times> ('w, 'd) migrate_state" where
  "migrate_to_evolve env cometState daFlag s =
     (let lastBlockHeight = st_LastBlockHeight cometState in
      run_then (wrapping ''failed to save CometBFT state to ABCI exec store''
        (on_exec (SaveState (mc_e env) (cmt_state.truncate cometState)) s)) (\<lambda>_ s.
      run_then (wrap ''error reading flag'' daFlag, s) (\<lambda>daHeight s.
      run_then (cometbftStateToRollkitState cometState daHeight, s) (\<lambda>rollkitState s.
      run_then (wrapping ''failed to create evolve migration genesis'' (createRollkitMigrationGenesis env cometState s)) (\<lambda>_ s.
      run_then (wrapping ''failed to create batch'' (on_evolve (mc_NewBatch env) s)) (\<lambda>_ s.
      run_then (migrate_blocks env (nat lastBlockHeight) {||} s) (\<lambda>_ s.
      run_then (wrapping ''failed to set last height in Evolve store'' (on_evolve (mc_SetHeight env (to_uint64 lastBlockHeight)) s)) (\<lambda>_ s.
      run_then (wrapping ''failed to update evolve state'' (on_evolve (mc_UpdateState env rollkitState) s)) (\<lambda>_ s.
      run_then (wrapping ''failed to commit batch'' (on_evolve (mc_Commit env) s)) (\<lambda>_ s.
      run_then (seed_sync_stores env (to_uint64 lastBlockHeight) s) (\<lambda>_ s.
      wrapping ''failed to cleanup migration state'' (cleanupMigrationState env s))))))))))))"

end
