(* ===== verification/RpcServer.thy ===== *)
theory RpcServer
  imports RpcEvents
begin

text \<open>
  The RPC server of a node: its table of routes (\<open>pkg/rpc/core/routes.go\<close>) and the life of the
  server object (\<open>pkg/rpc/server.go\<close>), whose \<open>serve\<close> runs in a goroutine of its own. The HTTP
  server is that of the standard library, with what \<open>Shutdown\<close> and \<open>Serve\<close> do to its listener.
\<close>

subsection \<open>Routes\<close>

datatype rpc_handler =
    HSubscribe | HUnsubscribe | HUnsubscribeAll | HHealth | HStatus | HNetInfo
   | HBlockchainInfo | HGenesis | HGenesisChunked | HBlock | HBlockByHash | HBlockResults
   | HCommit | HHeader | HHeaderByHash | HCheckTx | HTx | HTxSearch | HBlockSearch
   | HValidators | HDumpConsensusState | HConsensusState | HConsensusParams | HUnconfirmedTxs
   | HNumUnconfirmedTxs | HBroadcastTxCommit | HBroadcastTxSync | HBroadcastTxAsync
   | HABCIQuery | HABCIInfo | HBroadcastEvidence

record rpc_func =
  rf_handler :: rpc_handler
  rf_args :: string
  rf_cacheable :: "string list option"
  rf_ws :: bool

definition NewRPCFunc :: "rpc_handler \<Rightarrow> string \<Rightarrow> string list option \<Rightarrow> rpc_func" where
  "NewRPCFunc h args cache = \<lparr>rf_handler = h, rf_args = args, rf_cacheable = cache, rf_ws = False\<rparr>"

definition NewWSRPCFunc :: "rpc_handler \<Rightarrow> string \<Rightarrow> rpc_func" where
  "NewWSRPCFunc h args = \<lparr>rf_handler = h, rf_args = args, rf_cacheable = None, rf_ws = True\<rparr>"

definition Routes :: "(string \<times> rpc_func) list" where
  "Routes =
    [(''subscribe'', NewWSRPCFunc HSubscribe ''query''),
     (''unsubscribe'', NewWSRPCFunc HUnsubscribe ''query''),
     (''unsubscribe_all'', NewWSRPCFunc HUnsubscribeAll ''''),
     (''health'', NewRPCFunc HHealth '''' None),
     (''status'', NewRPCFunc HStatus '''' None),
     (''net_info'', NewRPCFunc HNetInfo '''' None),
     (''blockchain'', NewRPCFunc HBlockchainInfo ''minHeight,maxHeight'' (Some [])),
     (''genesis'', NewRPCFunc HGenesis '''' (Some [])),
     (''genesis_chunked'', NewRPCFunc HGenesisChunked ''chunk'' (Some [])),
     (''block'', NewRPCFunc HBlock ''height'' (Some [''height''])),
     (''block_by_hash'', NewRPCFunc HBlockByHash ''hash'' (Some [])),
     (''block_results'', NewRPCFunc HBlockResults ''height'' (Some [''height''])),
     (''commit'', NewRPCFunc HCommit ''height'' (Some [''height''])),
     (''header'', NewRPCFunc HHeader ''height'' (Some [''height''])),
     (''header_by_hash'', NewRPCFunc HHeaderByHash ''hash'' (Some [])),
     (''check_tx'', NewRPCFunc HCheckTx ''tx'' None),
     (''tx'', NewRPCFunc HTx ''hash,prove'' (Some [])),
     (''tx_search'', NewRPCFunc HTxSearch ''query,prove,page,per_page,order_by'' None),
     (''block_search'', NewRPCFunc HBlockSearch ''query,page,per_page,order_by'' None),
     (''validators'', NewRPCFunc HValidators ''height,page,per_page'' (Some [''height''])),
     (''dump_consensus_state'', NewRPCFunc HDumpConsensusState '''' None),
     (''consensus_state'', NewRPCFunc HConsensusState '''' None),
     (''consensus_params'', NewRPCFunc HConsensusParams ''height'' (Some [''height''])),
     (''unconfirmed_txs'', NewRPCFunc HUnconfirmedTxs ''limit'' None),
     (''num_unconfirmed_txs'', NewRPCFunc HNumUnconfirmedTxs '''' None),
     (''broadcast_tx_commit'', NewRPCFunc HBroadcastTxCommit ''tx'' None),
     (''broadcast_tx_sync'', NewRPCFunc HBroadcastTxSync ''tx'' None),
     (''broadcast_tx_async'', NewRPCFunc HBroadcastTxAsync ''tx'' None),
     (''abci_query'', NewRPCFunc HABCIQuery ''path,data,height,prove'' None),
     (''abci_info'', NewRPCFunc HABCIInfo '''' (Some [])),
     (''broadcast_evidence'', NewRPCFunc HBroadcastEvidence ''evidence'' None)]"

text \<open>
  A request names a route; over plain HTTP the routes for websockets are not served, over a
  websocket every route is.
\<close>

definition route :: "bool \<Rightarrow> string \<Rightarrow> rpc_handler option" where
  "route websocket name =
     (case map_of Routes name of
        None \<Rightarrow> None
      | Some f \<Rightarrow> if rf_ws f \<and> \<not> websocket then None else Some (rf_handler f))"

text \<open>The parameters of a handler after the context, and the arguments a route names.\<close>

definition handler_arity :: "rpc_handler \<Rightarrow> nat" where
  "handler_arity h =
     (case h of
        HSubscribe \<Rightarrow> 1 | HUnsubscribe \<Rightarrow> 1 | HUnsubscribeAll \<Rightarrow> 0
      | HHealth \<Rightarrow> 0 | HStatus \<Rightarrow> 0 | HNetInfo \<Rightarrow> 0
      | HBlockchainInfo \<Rightarrow> 2 | HGenesis \<Rightarrow> 0 | HGenesisChunked \<Rightarrow> 1
      | HBlock \<Rightarrow> 1 | HBlockByHash \<Rightarrow> 1 | HBlockResults \<Rightarrow> 1
      | HCommit \<Rightarrow> 1 | HHeader \<Rightarrow> 1 | HHeaderByHash \<Rightarrow> 1
      | HCheckTx \<Rightarrow> 1 | HTx \<Rightarrow> 2 | HTxSearch \<Rightarrow> 5
      | HBlockSearch \<Rightarrow> 4 | HValidators \<Rightarrow> 3 | HDumpConsensusState \<Rightarrow> 0
      | HConsensusState \<Rightarrow> 0 | HConsensusParams \<Rightarrow> 1
      | HUnconfirmedTxs \<Rightarrow> 1 | HNumUnconfirmedTxs \<Rightarrow> 0
      | HBroadcastTxCommit \<Rightarrow> 1 | HBroadcastTxSync \<Rightarrow> 1
      | HBroadcastTxAsync \<Rightarrow> 1 | HABCIQuery \<Rightarrow> 4 | HABCIInfo \<Rightarrow> 0
      | HBroadcastEvidence \<Rightarrow> 1)"

fun split_commas :: "string \<Rightarrow> string list" where
  "split_commas [] = [[]]"
| "split_commas (c # s) =
     (if c = CHR '','' then [] # split_commas s
      else (case split_commas s of [] \<Rightarrow> [[c]] | w # ws \<Rightarrow> (c # w) # ws))"

definition route_args :: "rpc_func \<Rightarrow> string list" where
  "route_args f = (if rf_args f = [] then [] else split_commas (rf_args f))"

definition route_ok :: "rpc_func \<Rightarrow> bool" where
  "route_ok f \<longleftrightarrow> length (route_args f) = handler_arity (rf_handler f) \<and> distinct (route_args f) \<and>
     (case rf_cacheable f of None \<Rightarrow> True | Some noCache \<Rightarrow> set noCache \<subseteq> set (route_args f))"

lemmas route_defs = Routes_def NewRPCFunc_def NewWSRPCFunc_def

text \<open>
  The table is well-formed: no name and no handler occurs twice, every route names as many
  arguments as its handler has parameters, and an argument that makes a response not cacheable
  is an argument of its route.
\<close>

lemma Routes_wf:
  "distinct (map fst Routes)" "distinct (map (rf_handler \<circ> snd) Routes)"
  "list_all (route_ok \<circ> snd) Routes" "length Routes = 31"
  by (simp_all add: route_defs route_ok_def route_args_def handler_arity_def)

text \<open>Every handler has exactly one name, and only the three subscription calls need a websocket.\<close>

lemma handler_routed: "\<exists>!name. route True name = Some h"
proof -
  have "h \<in> rf_handler ` snd ` set Routes" by (cases h) (simp_all add: route_defs)
  then obtain name f where f: "(name, f) \<in> set Routes" "rf_handler f = h" by auto
  show ?thesis
  proof (rule ex1I [of _ name])
    show "route True name = Some h" using f Routes_wf(1) by (simp add: route_def map_of_is_SomeI)
    fix name' assume "route True name' = Some h"
    then obtain f' where f': "(name', f') \<in> set Routes" "rf_handler f' = h"
      by (auto simp: route_def split: option.splits dest: map_of_SomeD)
    have "inj_on (rf_handler \<circ> snd) (set Routes)" using Routes_wf(2) by (simp only: distinct_map)
    then show "name' = name" using f f' by (force simp: inj_on_def)
  qed
qed

lemma http_routes:
  "route False name = Some h \<longleftrightarrow> route True name = Some h \<and> h \<notin> {HSubscribe, HUnsubscribe, HUnsubscribeAll}"
proof -
  have "list_all (\<lambda>(n, f). rf_ws f \<longleftrightarrow> rf_handler f \<in> {HSubscribe, HUnsubscribe, HUnsubscribeAll}) Routes"
    by (simp add: route_defs)
  then show ?thesis
    by (auto simp: route_def list_all_iff split: option.splits dest!: map_of_SomeD)
qed

subsection \<open>The server object\<close>

text \<open>
  \<open>http.Server\<close>: \<open>Shutdown\<close> marks it and closes its listener, \<open>Serve\<close> takes a listener unless the
  server is marked. \<open>sv_launched\<close> is the goroutine that \<open>startRPC\<close> has started and that has not run
  yet; \<open>serve\<close> runs in it and first assigns a new \<open>http.Server\<close> to the field that \<open>Stop\<close> reads.
\<close>

record 'l http_server =
  hs_inShutdown :: bool
  hs_listener :: "'l option"

record 'l RPCServer =
  sv_config :: rpc_server_config
  sv_server :: "'l http_server"
  sv_launched :: "'l rpc_listening option"

definition http_Serve :: "'l \<Rightarrow> 'l http_server \<Rightarrow> 'l http_server" where
  "http_Serve l srv = (if hs_inShutdown srv then srv else srv\<lparr>hs_listener := Some l\<rparr>)"

definition http_Shutdown :: "'l http_server \<Rightarrow> 'l http_server" where
  "http_Shutdown srv = srv\<lparr>hs_inShutdown := True, hs_listener := None\<rparr>"

definition NewRPCServer :: "rpc_server_config \<Rightarrow> 'l RPCServer" where
  "NewRPCServer cfg =
     \<lparr>sv_config = cfg, sv_server = \<lparr>hs_inShutdown = False, hs_listener = None\<rparr>, sv_launched = None\<rparr>"

definition RPCServer_Start ::
    "(string \<Rightarrow> string \<Rightarrow> 'l result) \<Rightarrow> 'l RPCServer \<Rightarrow> unit result \<times> 'l RPCServer" where
  "RPCServer_Start net_Listen r =
     (case startRPC net_Listen (sv_config r) of
        Inl err \<Rightarrow> (Inl err, r)
      | Inr l \<Rightarrow> (Inr (), r\<lparr>sv_launched := l\<rparr>))"

definition serve :: "'l \<Rightarrow> 'l RPCServer \<Rightarrow> 'l RPCServer" where
  "serve l r = (let r = r\<lparr>sv_server := \<lparr>hs_inShutdown = False, hs_listener = None\<rparr>\<rparr>
     in r\<lparr>sv_server := http_Serve l (sv_server r)\<rparr>)"

definition run_goroutine :: "'l RPCServer \<Rightarrow> 'l RPCServer" where
  "run_goroutine r =
     (case sv_launched r of None \<Rightarrow> r | Some l \<Rightarrow> serve (rl_Listener l) (r\<lparr>sv_launched := None\<rparr>))"

text \<open>The argument is what \<open>Shutdown\<close> returns: an error when connections outlast the five seconds.\<close>

definition RPCServer_Stop :: "unit result \<Rightarrow> 'l RPCServer \<Rightarrow> unit result \<times> 'l RPCServer" where
  "RPCServer_Stop drained r = (drained, r\<lparr>sv_server := http_Shutdown (sv_server r)\<rparr>)"

datatype server_event = GoroutineRuns | StopCalled "unit result"

fun server_step :: "server_event \<Rightarrow> 'l RPCServer \<Rightarrow> 'l RPCServer" where
  "server_step GoroutineRuns r = run_goroutine r"
| "server_step (StopCalled drained) r = snd (RPCServer_Stop drained r)"

definition exposed :: "'l RPCServer \<Rightarrow> bool" where
  "exposed r \<longleftrightarrow> hs_listener (sv_server r) \<noteq> None"

lemmas server_defs = run_goroutine_def serve_def http_Serve_def http_Shutdown_def RPCServer_Stop_def exposed_def

lemma no_goroutine_left:
  "sv_launched r = None \<Longrightarrow> exposed (fold server_step evs r) \<longleftrightarrow>
     exposed r \<and> (\<forall>d. StopCalled d \<notin> set evs)"
proof (induction evs arbitrary: r)
  case (Cons ev evs)
  have "sv_launched (server_step ev r) = None" using Cons.prems by (cases ev) (simp_all add: server_defs)
  then show ?case
    using Cons.IH Cons.prems by (cases ev) (auto simp: server_defs)
qed simp

text \<open>
  A server that was asked to stop may go on serving. After a start that listens, in any order of
  the goroutine and of calls of \<open>Stop\<close>, the node is exposed at the end exactly when the goroutine
  has run and no \<open>Stop\<close> came after it: a \<open>Stop\<close> that comes first is lost.
\<close>

lemma server_exposed_iff:
  assumes "RPCServer_Start net_Listen (NewRPCServer cfg) = (Inr (), r)" and "rs_ListenAddress cfg \<noteq> []"
  shows "exposed (fold server_step evs r) \<longleftrightarrow>
    (\<exists>after. dropWhile (\<lambda>ev. ev \<noteq> GoroutineRuns) evs = GoroutineRuns # after \<and>
      (\<forall>d. StopCalled d \<notin> set after))"
proof -
  obtain l where l: "sv_launched r = Some l" "\<not> exposed r"
    using assms
    by (auto simp: RPCServer_Start_def NewRPCServer_def startRPC_def and_then_Inr_iff exposed_def
        split: option.splits sum.splits if_splits)
  then show ?thesis
  proof (induction evs arbitrary: r)
    case (Cons ev evs)
    show ?case
    proof (cases ev)
      case GoroutineRuns
      have gone: "sv_launched (server_step ev r) = None" "exposed (server_step ev r)"
        using Cons.prems GoroutineRuns by (simp_all add: server_defs Let_def)
      then have "exposed (fold server_step (ev # evs) r) \<longleftrightarrow> (\<forall>d. StopCalled d \<notin> set evs)"
        using no_goroutine_left [OF gone(1)] by simp
      then show ?thesis using GoroutineRuns by simp
    next
      case (StopCalled d)
      have "sv_launched (server_step ev r) = Some l" "\<not> exposed (server_step ev r)"
        using Cons.prems StopCalled by (simp_all add: server_defs)
      from Cons.IH [OF this] show ?thesis using StopCalled by simp
    qed
  qed simp
qed

lemma server_exposed_example:
  "exposed (fold server_step [StopCalled (Inr ()), GoroutineRuns]
     (snd (RPCServer_Start (\<lambda>_ _. Inr ''socket'') (NewRPCServer \<lparr>rs_ListenAddress = ''tcp://0:1'', rs_MaxOpenConnections = 0,
       rs_IsCorsEnabled = False, rs_TLSCertFile = [], rs_TLSKeyFile = []\<rparr>))))"
  by code_simp

end
