(* ===== verification/NodeStart.thy ===== *)
theory NodeStart
  imports MigrationCmd ServerStart RpcServer
begin

text \<open>
  Starting a node: the signer made from the validator key (\<open>pkg/signer/signer.go\<close>), the fields
  read from the genesis file (\<open>server/genesis_helpers.go\<close>), and \<open>setupNodeAndExecutor\<close> of
  \<open>server/start.go\<close> with the functions it calls. Constructors of other packages (the
  configuration, the databases, the p2p and DA clients, the mempool, the sequencer, the node, the
  event bus and the indexer) are the fields of \<open>node_deps\<close>: each succeeds or
  returns an error, in the order of the code. The theorems show that what was assembled fits together.
\<close>

subsection \<open>The signer\<close>

text \<open>A CometBFT private key and a libp2p one, by their methods.\<close>

record cmt_privkey =
  ck_Type :: string
  ck_Bytes :: bytes
  ck_PubKey :: cmt_pubkey

record p2p_privkey =
  pp_Public :: libp2p_key
  pp_Sign :: "bytes \<Rightarrow> bytes result"

record signerWrapper =
  sw_cmtPrivKey :: cmt_privkey
  sw_p2pPrivKey :: p2p_privkey

text \<open>The outer \<open>None\<close> is a nil node key, the inner one a node key without a private key.\<close>

definition GetNodeKey ::
    "(bytes \<Rightarrow> p2p_privkey result) \<Rightarrow> cmt_privkey option option \<Rightarrow> p2p_privkey result" where
  "GetNodeKey unmarshalEd25519 nodeKey =
     (case nodeKey of
        Some (Some privKey) \<Rightarrow>
          if ck_Type privKey = ''ed25519''
          then wrap ''error unmarshalling node private key'' (unmarshalEd25519 (ck_Bytes privKey))
          else Inl (ErrorString ''unsupported key type'')
      | _ \<Rightarrow> Inl (ErrorString ''node key is nil''))"

definition NewSignerWrapper ::
    "(bytes \<Rightarrow> p2p_privkey result) \<Rightarrow> cmt_privkey option \<Rightarrow> signerWrapper result" where
  "NewSignerWrapper unmarshalEd25519 cmtPrivKey =
     and_then (wrap ''failed to get node key'' (GetNodeKey unmarshalEd25519 (Some cmtPrivKey))) (\<lambda>p2pPrivKey.
     Inr \<lparr>sw_cmtPrivKey = the cmtPrivKey, sw_p2pPrivKey = p2pPrivKey\<rparr>)"

definition GetAddress :: "(cmt_pubkey \<Rightarrow> bytes) \<Rightarrow> signerWrapper \<Rightarrow> bytes result" where
  "GetAddress pk_Address s = Inr (pk_Address (ck_PubKey (sw_cmtPrivKey s)))"

definition GetPublic :: "signerWrapper \<Rightarrow> libp2p_key result" where
  "GetPublic s = Inr (pp_Public (sw_p2pPrivKey s))"

definition Signer_Sign :: "signerWrapper \<Rightarrow> bytes \<Rightarrow> bytes result" where
  "Signer_Sign s message = pp_Sign (sw_p2pPrivKey s) message"

text \<open>
  The two libraries read the same key: the libp2p key made from the bytes of an ed25519 key has
  that key's 32 public bytes.
\<close>

definition same_ed25519 :: "(bytes \<Rightarrow> p2p_privkey result) \<Rightarrow> cmt_privkey \<Rightarrow> bool" where
  "same_ed25519 unmarshalEd25519 k \<longleftrightarrow>
     (\<exists>raw. length raw = 32 \<and> ck_PubKey k = CmtPubKey ''ed25519'' raw \<and>
        (\<forall>pk. unmarshalEd25519 (ck_Bytes k) = Inr pk \<longrightarrow>
           lk_Type (pp_Public pk) = Ed25519 \<and> lk_Raw (pp_Public pk) = Inr raw))"

text \<open>
  a sequencer passes its own validator check. The address and the public key its signer
  gives are those of one ed25519 key, so the validator hash provider accepts the pair (its
  \<open>CRITICAL MISMATCH\<close> error cannot occur) and hashes the set of that single validator.
\<close>

lemma sequencer_key_accepted:
  assumes "NewSignerWrapper unmarshalEd25519 (Some k) = Inr s" and "same_ed25519 unmarshalEd25519 k"
    and "\<And>pk. cv_Address (x_NewValidator x pk 1) = pk_Address pk"
  shows "ck_Type k = ''ed25519'' \<and> (\<exists>addr pub. GetAddress pk_Address s = Inr addr \<and> GetPublic s = Inr pub \<and>
    ValidatorHasherProvider x addr pub =
      Inr (copy_hash (x_valset_Hash x (x_NewValidatorSet x [x_NewValidator x (ck_PubKey k) 1]))))"
  using assms
  by (auto simp: NewSignerWrapper_def GetNodeKey_def result_iffs same_ed25519_def GetAddress_def GetPublic_def
      ValidatorHasherProvider_def cometbft_key_def split: if_splits)

subsection \<open>Fields of the genesis file\<close>

text \<open>
  The token stream of \<open>json.Decoder\<close> on the genesis file: the first token, and for every further
  member its key token and what decoding its value gives, as raw JSON and as a \<open>uint64\<close>.
\<close>

datatype json_token = Delim char | StringTok string | OtherTok

record json_member =
  jm_key :: "json_token result"
  jm_raw :: "unit result"
  jm_uint :: "uint64 result"

type_synonym json_stream = "json_token result \<times> json_member list"

fun parse_members :: "string \<Rightarrow> json_member list \<Rightarrow> uint64 result" where
  "parse_members fieldName [] = Inr 0"
| "parse_members fieldName (m # ms) =
     and_then (jm_key m) (\<lambda>t. case t of
        StringTok key \<Rightarrow>
          if key = fieldName then jm_uint m
          else and_then (jm_raw m) (\<lambda>_. parse_members fieldName ms)
      | _ \<Rightarrow> Inl (ErrorString ''expected string for the key type''))"

definition parseFieldFromGenesis :: "json_stream \<Rightarrow> string \<Rightarrow> uint64 result" where
  "parseFieldFromGenesis r fieldName =
     and_then (fst r) (\<lambda>t.
     if t \<noteq> Delim (CHR ''{'') then Inl (ErrorString ''expected {'')
     else parse_members fieldName (snd r))"

text \<open>The struct tag of a field: \<open>None\<close> is a field that is not there.\<close>

definition getJSONTag :: "(string \<Rightarrow> string option) \<Rightarrow> string \<Rightarrow> string result" where
  "getJSONTag fieldTag fieldName =
     (case fieldTag fieldName of
        None \<Rightarrow> Inl (ErrorString ''field not found in type'')
      | Some jsonTag \<Rightarrow>
          if jsonTag = [] then Inl (ErrorString ''field does not have a json tag'')
          else Inr (takeWhile (\<lambda>c. c \<noteq> CHR '','') jsonTag))"

text \<open>The genesis files of a home directory, as the start reads them.\<close>

record genesis_files =
  gf_Migration :: "bytes option"
  gf_AppGenesis :: "app_genesis result"
  gf_Open :: "json_stream result"
  gf_Close :: "unit result"

definition getAppGenesis :: "genesis_files \<Rightarrow> app_genesis result" where
  "getAppGenesis gf = wrap ''failed to read genesis from file'' (gf_AppGenesis gf)"

definition genesis_field :: "(string \<Rightarrow> string option) \<Rightarrow> genesis_files \<Rightarrow> string \<Rightarrow> uint64 result" where
  "genesis_field fieldTag gf field =
     and_then (wrap ''failed to get JSON tag'' (getJSONTag fieldTag field)) (\<lambda>tag.
     and_then (wrap ''failed to open genesis file'' (gf_Open gf)) (\<lambda>genFile.
     and_then (parseFieldFromGenesis genFile tag) (\<lambda>v.
     and_then (wrap ''failed to close genesis file'' (gf_Close gf)) (\<lambda>_.
     Inr v))))"

definition getDaStartHeight :: "(string \<Rightarrow> string option) \<Rightarrow> genesis_files \<Rightarrow> uint64 result" where
  "getDaStartHeight fieldTag gf = genesis_field fieldTag gf ''DAStartHeight''"

definition getDaEpoch :: "(string \<Rightarrow> string option) \<Rightarrow> genesis_files \<Rightarrow> uint64 result" where
  "getDaEpoch fieldTag gf = genesis_field fieldTag gf ''DAEpochForcedInclusion''"

lemma parse_members_skip:
  assumes "list_all (\<lambda>m. (\<exists>k. jm_key m = Inr (StringTok k) \<and> k \<noteq> field) \<and> jm_raw m = Inr ()) ms"
  shows "parse_members field (ms @ ms') = parse_members field ms'"
  using assms by (induction ms) auto

text \<open>
  The first member with the field's name is decoded and nothing after it is read; a file
  without the member gives 0.
\<close>

lemma parseField_first:
  assumes "list_all (\<lambda>m. (\<exists>k. jm_key m = Inr (StringTok k) \<and> k \<noteq> field) \<and> jm_raw m = Inr ()) ms"
  shows "jm_key m = Inr (StringTok field) \<Longrightarrow>
      parseFieldFromGenesis (Inr (Delim (CHR ''{'')), ms @ m # rest) field = jm_uint m"
    and "parseFieldFromGenesis (Inr (Delim (CHR ''{'')), ms) field = Inr 0"
  using parse_members_skip [OF assms, of "m # rest"] parse_members_skip [OF assms, of "[]"]
  by (simp_all add: parseFieldFromGenesis_def)

subsection \<open>The genesis of a start\<close>

text \<open>
  The source of the two genesis documents: the migration file when there is one, otherwise the
  application's genesis file. \<open>nilKey\<close> is the nil key of a migration file without one.
\<close>

definition migrated_app_genesis :: "cmt_pubkey \<Rightarrow> ev_genesis \<Rightarrow> evolveMigrationGenesis \<Rightarrow> app_genesis" where
  "migrated_app_genesis nilKey evGenesis g =
     \<lparr>ag_GenesisTime = gn_StartTime evGenesis, ag_ChainID = eg_ChainID g,
      ag_InitialHeight = to_int64 (eg_InitialHeight g),
      ag_Validators = [\<lparr>gv_Address = eg_SequencerAddr g,
        gv_PubKey = (case eg_SequencerPubKey g of Some k \<Rightarrow> k | None \<Rightarrow> nilKey), gv_Power = 1\<rparr>],
      ag_Params = None, ag_AppState = []\<rparr>"

record ('w, 'd) genesis_env =
  ge_mig :: "('w, 'd) migrate_env"
  ge_NewGenesis :: "string \<Rightarrow> uint64 \<Rightarrow> int \<Rightarrow> bytes \<Rightarrow> ev_genesis"
  ge_ToGenesisDoc :: "app_genesis \<Rightarrow> app_genesis result"
  ge_FieldTag :: "string \<Rightarrow> string option"
  ge_NilKey :: cmt_pubkey

definition start_genesis ::
    "('w, 'd) genesis_env \<Rightarrow> genesis_files \<Rightarrow> (ev_genesis \<times> app_genesis) result" where
  "start_genesis ge gf =
     and_then (loadEvolveMigrationGenesis (ge_mig ge) (gf_Migration gf)) (\<lambda>migrationGenesis.
     (case migrationGenesis of
        Some g \<Rightarrow>
          let evGenesis = ToEVGenesis (ge_NewGenesis ge) g
          in Inr (evGenesis, migrated_app_genesis (ge_NilKey ge) evGenesis g)
      | None \<Rightarrow>
          and_then (getAppGenesis gf) (\<lambda>appGenesis.
          and_then (getDaStartHeight (ge_FieldTag ge) gf) (\<lambda>daStartHeight.
          and_then (getDaEpoch (ge_FieldTag ge) gf) (\<lambda>daEpochSize.
          and_then (ge_ToGenesisDoc ge appGenesis) (\<lambda>cmtGenDoc.
          and_then (createEvolveGenesisFromCometBFT (ge_NewGenesis ge) cmtGenDoc daStartHeight daEpochSize) (\<lambda>evGenesis.
          Inr (evGenesis, appGenesis))))))))"

text \<open>\<open>NewGenesis\<close> keeps its arguments, and \<open>ToGenesisDoc\<close> the fields of the application genesis.\<close>

definition genesis_laws :: "('w, 'd) genesis_env \<Rightarrow> bool" where
  "genesis_laws ge \<longleftrightarrow>
     (\<forall>c h t p. gn_ChainID (ge_NewGenesis ge c h t p) = c \<and> gn_InitialHeight (ge_NewGenesis ge c h t p) = h \<and>
        gn_StartTime (ge_NewGenesis ge c h t p) = t \<and> gn_ProposerAddress (ge_NewGenesis ge c h t p) = p) \<and>
     (\<forall>ag doc. ge_ToGenesisDoc ge ag = Inr doc \<longrightarrow> ag_ChainID doc = ag_ChainID ag \<and>
        ag_InitialHeight doc = ag_InitialHeight ag \<and> ag_GenesisTime doc = ag_GenesisTime ag \<and>
        ag_Validators doc = ag_Validators ag)"

definition genesis_agree :: "ev_genesis \<Rightarrow> app_genesis \<Rightarrow> bool" where
  "genesis_agree ev ag \<longleftrightarrow>
     gn_ChainID ev = ag_ChainID ag \<and> gn_StartTime ev = ag_GenesisTime ag \<and>
     gn_InitialHeight ev = to_uint64 (ag_InitialHeight ag) \<and>
     (\<exists>v vs. ag_Validators ag = v # vs \<and> gn_ProposerAddress ev = gv_Address v)"

lemma to_uint64_to_int64 [simp]: "to_uint64 (to_int64 w) = w"
  by (simp add: to_uint64_def to_int64_def)

lemma createEvolveGenesis_agree:
  assumes "genesis_laws ge" and "createEvolveGenesisFromCometBFT (ge_NewGenesis ge) doc da epoch = Inr ev"
  shows "genesis_agree ev doc"
  using assms
  by (auto simp: createEvolveGenesisFromCometBFT_def genesis_agree_def genesis_laws_def Let_def
      split: list.splits if_splits)

lemma start_genesis_agree:
  assumes laws: "genesis_laws ge" and start: "start_genesis ge gf = Inr (ev, ag)"
  shows "genesis_agree ev ag"
proof -
  from start obtain mg where mg: "loadEvolveMigrationGenesis (ge_mig ge) (gf_Migration gf) = Inr mg"
    by (auto simp: start_genesis_def result_iffs)
  show ?thesis
  proof (cases mg)
    case None
    with start mg obtain doc da epoch where "ge_ToGenesisDoc ge ag = Inr doc"
      "createEvolveGenesisFromCometBFT (ge_NewGenesis ge) doc da epoch = Inr ev"
      by (auto simp: start_genesis_def result_iffs)
    then have "genesis_agree ev doc" "ag_Validators doc = ag_Validators ag" "ag_ChainID doc = ag_ChainID ag"
      "ag_GenesisTime doc = ag_GenesisTime ag" "ag_InitialHeight doc = ag_InitialHeight ag"
      using createEvolveGenesis_agree [OF laws] laws by (simp_all add: genesis_laws_def)
    then show ?thesis by (simp add: genesis_agree_def)
  next
    case (Some g)
    then show ?thesis
      using start mg laws
      by (auto simp: start_genesis_def Let_def ToEVGenesis_def migrated_app_genesis_def genesis_agree_def genesis_laws_def)
  qed
qed

lemma wrap_not_plain [simp]: "wrap msg r \<noteq> Inl (ErrorString m)" "wrap msg r \<noteq> Inl (Panic m)"
  by (cases r; simp)+

lemma InitChain_agree:
  assumes "genesis_agree ev ag" and "ae_AppGenesis E = Some ag"
  shows "ag_Params ag = None \<Longrightarrow>
      InitChain E (gn_StartTime ev) (gn_InitialHeight ev) (gn_ChainID ev) a = (Inl (Panic ''nil pointer dereference''), a)"
    and "fst (InitChain E (gn_StartTime ev) (gn_InitialHeight ev) (gn_ChainID ev) a) = Inl (ErrorString m) \<Longrightarrow>
      m = ''expected exactly one validator''"
  using assms
  by (auto simp: InitChain_def genesis_agree_def run_then_def wrapping_def on_app_def on_store_def
      initial_state_def Let_def split: option.splits prod.splits sum.splits if_splits)

lemma start_genesis_migrated:
  "start_genesis ge gf = Inr (ev, ag) \<Longrightarrow> gf_Migration gf \<noteq> None \<Longrightarrow> ag_Params ag = None"
  by (auto simp: start_genesis_def loadEvolveMigrationGenesis_def result_iffs migrated_app_genesis_def Let_def)

text \<open>
  C23: the genesis documents of a start fit together. However the node starts, the chain ID, the
  start time and the initial height it gives to ev-node are those of the adapter's application
  genesis, and ev-node's proposer is the first genesis validator, so \<open>InitChain\<close>, which ev-node
  calls with its own values, never stops at a mismatch. After a migration the application genesis
  has no consensus parameters: there \<open>InitChain\<close> panics before the application is called.
\<close>

theorem start_genesis_accepted:
  assumes "genesis_laws ge" and "start_genesis ge gf = Inr (ev, ag)" and "ae_AppGenesis E = Some ag"
  shows "(\<exists>v vs. ag_Validators ag = v # vs \<and> gn_ProposerAddress ev = gv_Address v) \<and>
    fst (InitChain E (gn_StartTime ev) (gn_InitialHeight ev) (gn_ChainID ev) a) \<notin>
      Inl ` ErrorString ` {''app genesis not loaded'', ''genesis time mismatch'', ''chain ID mismatch'', ''initial height mismatch''} \<and>
    (gf_Migration gf \<noteq> None \<longrightarrow>
      InitChain E (gn_StartTime ev) (gn_InitialHeight ev) (gn_ChainID ev) a =
        (Inl (Panic ''nil pointer dereference''), a))"
proof -
  note agree = start_genesis_agree [OF assms(1,2)]
  show ?thesis
    using agree InitChain_agree [OF agree assms(3)] start_genesis_migrated [OF assms(2)]
    by (fastforce simp: genesis_agree_def)
qed

subsection \<open>Assembling the node\<close>

record node_config =
  nc_Aggregator :: bool
  nc_BasedSequencer :: bool

record ('l, 'n) node_deps =
  nd_EvLogger :: bool
  nd_P2PLogger :: bool
  nd_UnmarshalEd25519 :: "bytes \<Rightarrow> p2p_privkey result"
  nd_LoadFromViper :: "viper \<Rightarrow> node_config result"
  nd_Validate :: "node_config \<Rightarrow> unit result"
  nd_NewDefaultKVStore :: "string \<Rightarrow> string \<Rightarrow> datastore result"
  nd_NewP2PClient :: "unit result"
  nd_ProxyStart :: "unit result"
  nd_RollkitHeight :: "uint64 result"
  nd_NewDAClient :: "unit result"
  nd_NewSequencer :: "bytes \<Rightarrow> ev_genesis \<Rightarrow> unit result"
  nd_NewNode :: "'n result"
  nd_EventBusStart :: "unit result"
  nd_IndexersDisabled :: "bool result"
  nd_IndexerStart :: "unit result"
  nd_RPCConfig :: rpc_server_config
  nd_Listen :: "string \<Rightarrow> string \<Rightarrow> 'l result"

text \<open>
  What the setup has made: the node, its genesis documents, the signer of a sequencer, the
  height the mempool starts at, the network module with its block ID provider, the provider of
  validator hashes, and the mode the RPC environment is told.
\<close>

record ('l, 'n) node_setup =
  ns_Node :: 'n
  ns_Rpc :: "'l RPCServer"
  ns_Indexer :: bool
  ns_Signer :: "signerWrapper option"
  ns_EvGenesis :: ev_genesis
  ns_AppGenesis :: app_genesis
  ns_Database :: datastore
  ns_MempoolHeight :: int64
  ns_Network :: "network_state option"
  ns_ValidatorHasher :: "bytes \<Rightarrow> libp2p_key \<Rightarrow> bytes result"
  ns_AttesterMode :: bool

definition createSequencer :: "('l, 'n) node_deps \<Rightarrow> node_config \<Rightarrow> ev_genesis \<Rightarrow> unit result" where
  "createSequencer nd nodeConfig g =
     (if nc_BasedSequencer nodeConfig
      then Inl (ErrorString ''base sequencing is not supported by ev-abci due to IBC constaints'')
      else wrap ''failed to create single sequencer'' (nd_NewSequencer nd (string_bytes (gn_ChainID g)) g))"

definition choose_hasher ::
    "cmt_ext \<Rightarrow> store_ext \<Rightarrow> bool \<Rightarrow> datastore \<Rightarrow> bytes \<Rightarrow> libp2p_key \<Rightarrow> bytes result" where
  "choose_hasher x e attesterMode database =
     (if attesterMode then ValidatorHasherFromStoreProvider x e database else ValidatorHasherProvider x)"

definition load_signer ::
    "('l, 'n) node_deps \<Rightarrow> node_config \<Rightarrow> cmt_privkey \<Rightarrow> signerWrapper option result" where
  "load_signer nd evcfg k =
     (if nc_Aggregator evcfg
      then and_then (NewSignerWrapper (nd_UnmarshalEd25519 nd) (Some k)) (\<lambda>s. Inr (Some s))
      else Inr None)"

definition openRawEvolveDB :: "('l, 'n) node_deps \<Rightarrow> datastore result" where
  "openRawEvolveDB nd = nd_NewDefaultKVStore nd ''data'' ''evolve''"

definition initProxyApp :: "('l, 'n) node_deps \<Rightarrow> unit result" where
  "initProxyApp nd = wrap ''error while starting proxy app connections'' (nd_ProxyStart nd)"

definition createAndStartEventBus :: "('l, 'n) node_deps \<Rightarrow> unit result" where
  "createAndStartEventBus nd = nd_EventBusStart nd"

text \<open>The result says whether there is an indexer service: there is none when all are disabled.\<close>

definition createAndStartIndexerService :: "('l, 'n) node_deps \<Rightarrow> bool result" where
  "createAndStartIndexerService nd =
     and_then (nd_IndexersDisabled nd) (\<lambda>allIndexersDisabled.
     if allIndexersDisabled then Inr False
     else and_then (nd_IndexerStart nd) (\<lambda>_. Inr True))"

definition start_rpc_server :: "('l, 'n) node_deps \<Rightarrow> 'l RPCServer result" where
  "start_rpc_server nd =
     (case RPCServer_Start (nd_Listen nd) (NewRPCServer (nd_RPCConfig nd)) of
        (Inl err, _) \<Rightarrow> Inl (Wrap ''failed to start rpc server'' err)
      | (Inr _, rpcServer) \<Rightarrow> Inr rpcServer)"

text \<open>The second half of the setup, once the network module has its block IDs.\<close>

definition start_services ::
    "('l, 'n) node_deps \<Rightarrow> node_config \<Rightarrow> ev_genesis \<Rightarrow> (int64 \<times> 'n \<times> bool \<times> 'l RPCServer) result" where
  "start_services nd evcfg evGenesis =
     (case initProxyApp nd of
        Inl _ \<Rightarrow> Inl (Panic ''error while starting proxy app connections'')
      | Inr _ \<Rightarrow>
     and_then (nd_RollkitHeight nd) (\<lambda>height.
     and_then (wrap ''failed to create DA client'' (nd_NewDAClient nd)) (\<lambda>_.
     and_then (createSequencer nd evcfg evGenesis) (\<lambda>_.
     and_then (nd_NewNode nd) (\<lambda>node.
     and_then (wrap ''setup event-bus'' (createAndStartEventBus nd)) (\<lambda>_.
     and_then (wrap ''start indexer service'' (createAndStartIndexerService nd)) (\<lambda>idxSvc.
     and_then (start_rpc_server nd) (\<lambda>rpcServer.
     Inr (to_int64 height, node, idxSvc, rpcServer)))))))))"

definition setupNodeAndExecutor ::
    "('l, 'n) node_deps \<Rightarrow> ('w, 'd) genesis_env \<Rightarrow> pruning_ext \<Rightarrow> cmt_ext \<Rightarrow> store_ext \<Rightarrow>
     cmt_privkey \<Rightarrow> viper \<Rightarrow> bool \<Rightarrow> genesis_files \<Rightarrow> network_state option \<Rightarrow> ('l, 'n) node_setup result" where
  "setupNodeAndExecutor nd ge pe x e pval vp attesterMode gf app =
     and_then (guard (nd_EvLogger nd) (ErrorString ''failed to cast sdkLogger to zerolog.Logger'')) (\<lambda>_.
     and_then (GetNodeKey (nd_UnmarshalEd25519 nd) (Some (Some pval))) (\<lambda>signingKey.
     and_then (nd_LoadFromViper nd (mapCosmosPruningToEvNode pe vp)) (\<lambda>evcfg.
     and_then (wrap ''failed to validate ev-node config'' (nd_Validate nd evcfg)) (\<lambda>_.
     and_then (load_signer nd evcfg pval) (\<lambda>signer.
     and_then (start_genesis ge gf) (\<lambda>(evGenesis, appGenesis).
     and_then (openRawEvolveDB nd) (\<lambda>database.
     and_then (guard (nd_P2PLogger nd) (ErrorString ''failed to get p2p logger'')) (\<lambda>_.
     and_then (nd_NewP2PClient nd) (\<lambda>_.
     (case wireNetworkKeeperBlockIDProvider app (store_provider e database) attesterMode of
        (Inl err, app) \<Rightarrow> Inl err
      | (Inr _, app) \<Rightarrow>
     and_then (start_services nd evcfg evGenesis) (\<lambda>(mempoolHeight, node, idxSvc, rpcServer).
     Inr \<lparr>ns_Node = node, ns_Rpc = rpcServer, ns_Indexer = idxSvc, ns_Signer = signer, ns_EvGenesis = evGenesis,
          ns_AppGenesis = appGenesis, ns_Database = database, ns_MempoolHeight = mempoolHeight,
          ns_Network = app, ns_ValidatorHasher = choose_hasher x e attesterMode database,
          ns_AttesterMode = attesterMode\<rparr>)))))))))))"

text \<open>
  The cleanup function a setup returns: the services it stops, in order, and the RPC server
  after its \<open>Stop\<close>.
\<close>

datatype node_service = EventBusService | IndexerService | RPCService

definition node_cleanup ::
    "unit result \<Rightarrow> ('l, 'n) node_setup \<Rightarrow> node_service list \<times> 'l RPCServer" where
  "node_cleanup drained s =
     ([EventBusService] @ (if ns_Indexer s then [IndexerService] else []) @ [RPCService],
      snd (RPCServer_Stop drained (ns_Rpc s)))"

text \<open>The gRPC server: a size of 0 is replaced by the SDK's default for the gateway's client.\<close>

record grpc_config =
  gc_Enable :: bool
  gc_Address :: string
  gc_MaxSendMsgSize :: int
  gc_MaxRecvMsgSize :: int

record 'g grpc_deps =
  gd_SplitHostPort :: "string \<Rightarrow> unit result"
  gd_NewClient :: "string \<Rightarrow> int \<Rightarrow> int \<Rightarrow> unit result"
  gd_NewGRPCServer :: "grpc_config \<Rightarrow> 'g result"
  gd_DefaultMaxSend :: int
  gd_DefaultMaxRecv :: int

definition startGrpcServer :: "'g grpc_deps \<Rightarrow> grpc_config \<Rightarrow> 'g option result" where
  "startGrpcServer gd cfg =
     (if \<not> gc_Enable cfg then Inr None
      else
     and_then (gd_SplitHostPort gd (gc_Address cfg)) (\<lambda>_.
      let maxSendMsgSize = (if gc_MaxSendMsgSize cfg = 0 then gd_DefaultMaxSend gd else gc_MaxSendMsgSize cfg);
          maxRecvMsgSize = (if gc_MaxRecvMsgSize cfg = 0 then gd_DefaultMaxRecv gd else gc_MaxRecvMsgSize cfg) in
     and_then (gd_NewClient gd (gc_Address cfg) maxRecvMsgSize maxSendMsgSize) (\<lambda>_.
     and_then (gd_NewGRPCServer gd cfg) (\<lambda>grpcSrv.
     Inr (Some grpcSrv)))))"

lemma case_results:
  "(case p of (Inl err, w) \<Rightarrow> Inl err | (Inr u, w) \<Rightarrow> f w) = Inr b \<longleftrightarrow> (\<exists>u w. p = (Inr u, w) \<and> f w = Inr b)"
  "(case r of Inl _ \<Rightarrow> Inl err | Inr _ \<Rightarrow> q) = Inr b \<longleftrightarrow> (\<exists>u. r = Inr u) \<and> q = Inr b"
  by (auto split: prod.splits sum.splits)

text \<open>
  C22: a node that came up is consistent. A sequencer has a signer, any other node has none; the
  genesis documents agree; a node in attester mode has an application whose network
  module verifies votes against the node's own block store (a node whose application cannot be wired
  does not start in that mode) and derives the validator hash from the stored state, any
  other node from its single key; and no node runs with based sequencing.
\<close>

theorem started_node_consistent:
  assumes "genesis_laws ge"
    and "setupNodeAndExecutor nd ge pe x e pval vp attesterMode gf app = Inr s"
  shows "\<exists>evcfg. nd_LoadFromViper nd (mapCosmosPruningToEvNode pe vp) = Inr evcfg \<and>
    (ns_Signer s \<noteq> None \<longleftrightarrow> nc_Aggregator evcfg) \<and> \<not> nc_BasedSequencer evcfg \<and>
    genesis_agree (ns_EvGenesis s) (ns_AppGenesis s) \<and>
    (attesterMode \<longrightarrow> (\<exists>k. ns_Network s = Some k \<and>
       blockIDProvider k = Some (store_provider e (ns_Database s)))) \<and>
    ns_ValidatorHasher s =
      (if ns_AttesterMode s then ValidatorHasherFromStoreProvider x e (ns_Database s) else ValidatorHasherProvider x)"
proof -
  from assms(2) obtain evcfg evGenesis appGenesis database app' u where
    cfg: "nd_LoadFromViper nd (mapCosmosPruningToEvNode pe vp) = Inr evcfg"
    and signer: "load_signer nd evcfg pval = Inr (ns_Signer s)"
    and gen: "start_genesis ge gf = Inr (evGenesis, appGenesis)"
    and wire: "wireNetworkKeeperBlockIDProvider app (store_provider e database) attesterMode = (Inr u, app')"
    and seqr: "createSequencer nd evcfg evGenesis = Inr ()"
    and s: "ns_EvGenesis s = evGenesis" "ns_AppGenesis s = appGenesis" "ns_Database s = database"
      "ns_Network s = app'" "ns_ValidatorHasher s = choose_hasher x e attesterMode database"
      "ns_AttesterMode s = attesterMode"
    by (auto simp: setupNodeAndExecutor_def start_services_def and_then_Inr_iff case_results)
  have "genesis_agree evGenesis appGenesis" by (rule start_genesis_agree [OF assms(1) gen])
  moreover have "ns_Signer s \<noteq> None \<longleftrightarrow> nc_Aggregator evcfg"
    using signer by (cases "ns_Signer s") (auto simp: load_signer_def and_then_Inr_iff split: if_splits)
  moreover have "\<not> nc_BasedSequencer evcfg" using seqr by (auto simp: createSequencer_def split: if_splits)
  moreover have "attesterMode \<longrightarrow> (\<exists>k. app' = Some k \<and> blockIDProvider k = Some (store_provider e database))"
  proof (cases app)
    case (Some k)
    then show ?thesis using wired_provider [of k "store_provider e database" attesterMode app'] wire by auto
  qed (use wire in \<open>simp add: wireNetworkKeeperBlockIDProvider_def split: if_splits\<close>)
  ultimately show ?thesis using cfg s by (simp add: choose_hasher_def)
qed

text \<open>
  A node that is cleaned up before the goroutine of its RPC server has run keeps serving: the
  goroutine replaces the server that was shut down.
\<close>

lemma cleanup_before_serve:
  assumes "setupNodeAndExecutor nd ge pe x e pval vp attesterMode gf app = Inr s"
    and "rs_ListenAddress (nd_RPCConfig nd) \<noteq> []"
  shows "exposed (run_goroutine (snd (node_cleanup drained s)))"
    and "\<not> exposed (snd (node_cleanup drained (s\<lparr>ns_Rpc := run_goroutine (ns_Rpc s)\<rparr>)))"
proof -
  have start: "RPCServer_Start (nd_Listen nd) (NewRPCServer (nd_RPCConfig nd)) = (Inr (), ns_Rpc s)"
    using assms(1)
    by (auto simp: setupNodeAndExecutor_def start_services_def start_rpc_server_def and_then_Inr_iff case_results
        split: prod.splits sum.splits)
  note iff = server_exposed_iff [OF start assms(2)]
  show "exposed (run_goroutine (snd (node_cleanup drained s)))"
    using iff [of "[StopCalled drained, GoroutineRuns]"] by (simp add: node_cleanup_def)
  show "\<not> exposed (snd (node_cleanup drained (s\<lparr>ns_Rpc := run_goroutine (ns_Rpc s)\<rparr>)))"
    using iff [of "[GoroutineRuns, StopCalled drained]"] by (simp add: node_cleanup_def)
qed

end
