(* ===== verification/NodeCmds.thy ===== *)
theory NodeCmds
  imports NodeStart
begin

text \<open>
  Three commands of the node: \<open>rollback\<close> (\<open>server/rollback_cmd.go\<close>), \<open>post-tx\<close>
  (\<open>server/post_tx_cmd.go\<close>) and \<open>init\<close> (\<open>server/init_cmd.go\<close>). The databases, the header stores
  and the DA client belong to other packages and are parameters.
\<close>

subsection \<open>Rollback\<close>

text \<open>
  \<open>'w\<close> is the state of the databases. An error list is the joined error, empty when there is none.
\<close>

record 'w rollback_ops =
  ro_OpenAppDB :: "'w \<Rightarrow> unit result \<times> 'w"
  ro_OpenEvolveDB :: "'w \<Rightarrow> unit result \<times> 'w"
  ro_CloseEvolveDB :: "'w \<Rightarrow> 'w"
  ro_Height :: "'w \<Rightarrow> uint64 result"
  ro_Rollback :: "uint64 \<Rightarrow> bool \<Rightarrow> 'w \<Rightarrow> unit result \<times> 'w"
  ro_RollbackToVersion :: "int64 \<Rightarrow> 'w \<Rightarrow> unit result \<times> 'w"
  ro_NewHeaderStore :: "unit result"
  ro_NewDataStore :: "unit result"
  ro_StartHeader :: "'w \<Rightarrow> unit result \<times> 'w"
  ro_StartData :: "'w \<Rightarrow> unit result \<times> 'w"
  ro_StopHeader :: "'w \<Rightarrow> 'w"
  ro_StopData :: "'w \<Rightarrow> 'w"
  ro_HeaderHeight :: "'w \<Rightarrow> uint64"
  ro_DataHeight :: "'w \<Rightarrow> uint64"
  ro_DeleteHeaders :: "uint64 \<Rightarrow> uint64 \<Rightarrow> 'w \<Rightarrow> unit result \<times> 'w"
  ro_DeleteData :: "uint64 \<Rightarrow> uint64 \<Rightarrow> 'w \<Rightarrow> unit result \<times> 'w"

text \<open>A deferred call runs on the state in which the rest of the function returns.\<close>

definition deferred :: "('w \<Rightarrow> 'w) \<Rightarrow> 'r \<times> 'w \<Rightarrow> 'r \<times> 'w" where
  "deferred f p = (fst p, f (snd p))"

text \<open>An early return with an error.\<close>

definition or_return :: "'a result \<times> 'w \<Rightarrow> ('a \<Rightarrow> 'w \<Rightarrow> go_error list \<times> 'w) \<Rightarrow> go_error list \<times> 'w" where
  "or_return p f = (case p of (Inl err, w) \<Rightarrow> ([err], w) | (Inr a, w) \<Rightarrow> f a w)"

definition rollback_target :: "'w rollback_ops \<Rightarrow> uint64 \<Rightarrow> 'w \<Rightarrow> uint64 result" where
  "rollback_target R height w =
     (if height = 0 then and_then (ro_Height R w) (\<lambda>currentHeight. Inr (currentHeight - 1)) else Inr height)"

text \<open>The two ranges of the sync stores, both tried.\<close>

definition delete_ranges :: "'w rollback_ops \<Rightarrow> uint64 \<Rightarrow> 'w \<Rightarrow> go_error list \<times> 'w" where
  "delete_ranges R height w =
     (case wrapping ''failed to rollback header sync service state''
         (ro_DeleteHeaders R (height + 1) (ro_HeaderHeight R w + 1) w) of (r1, w) \<Rightarrow>
     (case wrapping ''failed to rollback data sync service state''
         (ro_DeleteData R (height + 1) (ro_DataHeight R w + 1) w) of (r2, w) \<Rightarrow>
      ((case r1 of Inl err \<Rightarrow> [err] | Inr _ \<Rightarrow> []) @ (case r2 of Inl err \<Rightarrow> [err] | Inr _ \<Rightarrow> []), w)))"

definition rollback_sync_stores :: "'w rollback_ops \<Rightarrow> uint64 \<Rightarrow> 'w \<Rightarrow> go_error list \<times> 'w" where
  "rollback_sync_stores R height w =
     or_return (ro_NewHeaderStore R, w) (\<lambda>_ w.
     or_return (ro_NewDataStore R, w) (\<lambda>_ w.
     or_return (ro_StartHeader R w) (\<lambda>_ w.
     deferred (ro_StopHeader R)
       (or_return (ro_StartData R w) (\<lambda>_ w.
        deferred (ro_StopData R) (delete_ranges R height w))))))"

definition rollback_command :: "'w rollback_ops \<Rightarrow> uint64 \<Rightarrow> bool \<Rightarrow> 'w \<Rightarrow> go_error list \<times> 'w" where
  "rollback_command R height syncNode w =
     or_return (ro_OpenAppDB R w) (\<lambda>_ w.
     or_return (ro_OpenEvolveDB R w) (\<lambda>_ w.
     deferred (ro_CloseEvolveDB R)
       (or_return (rollback_target R height w, w) (\<lambda>height w.
        or_return (wrapping ''failed to rollback ev-node state'' (ro_Rollback R height (\<not> syncNode) w)) (\<lambda>_ w.
        or_return (wrapping ''failed to rollback to version'' (ro_RollbackToVersion R (to_int64 height) w)) (\<lambda>_ w.
        rollback_sync_stores R height w))))))"













text \<open>
  On a chain at height 0, without a height flag, the target wraps around: the command asks for a
  rollback to the largest height and to version -1 of the application.
\<close>

lemma rollback_target_empty_chain:
  "ro_Height R w = Inr 0 \<Longrightarrow> rollback_target R 0 w = Inr (- 1) \<and> to_int64 (- 1) = - 1"
  by (simp add: rollback_target_def to_int64_def)

text \<open>
  The order of the steps: when the application refuses its version, ev-node's state has been
  rolled back already and the sync stores have not.
\<close>

lemma rollback_partial:
  assumes "ro_OpenAppDB R w = (Inr (), w1)" "ro_OpenEvolveDB R w1 = (Inr (), w2)"
    and "height \<noteq> 0" "ro_Rollback R height (\<not> syncNode) w2 = (Inr (), w3)"
    and "ro_RollbackToVersion R (to_int64 height) w3 = (Inl err, w4)"
  shows "rollback_command R height syncNode w =
    ([Wrap ''failed to rollback to version'' err], ro_CloseEvolveDB R w4)"
  using assms
  by (simp add: rollback_command_def or_return_def deferred_def rollback_target_def wrapping_def)

subsection \<open>Init\<close>

text \<open>
  The error of \<open>Load\<close> is ignored and the configuration beside it used; the aggregator flag is
  written into it before it is validated and saved.
\<close>

record 'c init_ops =
  io_AggregatorFlag :: "bool result"
  io_Load :: 'c
  io_SetAggregator :: "bool \<Rightarrow> 'c \<Rightarrow> 'c"
  io_Validate :: "'c \<Rightarrow> unit result"
  io_SaveAsYaml :: "'c \<Rightarrow> unit result"

definition InitRunE :: "'c init_ops \<Rightarrow> 'c result" where
  "InitRunE io =
     and_then (wrap ''error reading aggregator flag'' (io_AggregatorFlag io)) (\<lambda>isSequencer.
      let cfg = io_SetAggregator io isSequencer (io_Load io) in
     and_then (wrap ''error validating config'' (io_Validate io cfg)) (\<lambda>_.
     and_then (wrap ''error writing evnode.yaml file'' (io_SaveAsYaml io cfg)) (\<lambda>_.
     Inr cfg)))"

lemma InitRunE_saved:
  "InitRunE io = Inr cfg \<Longrightarrow> io_Validate io cfg = Inr () \<and> io_SaveAsYaml io cfg = Inr () \<and>
     (\<exists>b. io_AggregatorFlag io = Inr b \<and> cfg = io_SetAggregator io b (io_Load io))"
  by (auto simp: InitRunE_def and_then_Inr_iff Let_def)

subsection \<open>Posting a transaction\<close>

datatype da_status =
    StatusSuccess
  | StatusTooBig
  | StatusNotIncludedInBlock
  | StatusAlreadyInMempool
  | StatusContextCanceled
  | StatusOther nat

record da_result =
  dr_Code :: da_status
  dr_Height :: uint64
  dr_Message :: string

record post_config =
  pc_ForcedInclusionNamespace :: string
  pc_SubmitOptions :: string

text \<open>
  \<open>'t\<close> is a decoded transaction, \<open>'f\<close> a gas price (a float). The flags are given as read.
\<close>

record ('t, 'f) post_ops =
  po_Stat :: "string \<Rightarrow> bool"
  po_ReadFile :: "string \<Rightarrow> string result"
  po_UnmarshalJSON :: "string \<Rightarrow> unit result"
  po_TxJSONDecoder :: "bytes \<Rightarrow> 't result"
  po_TxEncoder :: "'t \<Rightarrow> bytes result"
  po_LoadConfig :: "post_config result"
  po_ValidateConfig :: "post_config \<Rightarrow> unit result"
  po_NamespaceFlag :: string
  po_GasPriceFlag :: "'f result"
  po_SubmitOptsFlag :: "string result"
  po_NamespaceFromString :: "string \<Rightarrow> bytes"
  po_NewClient :: "unit result"
  po_Submit :: "bytes list \<Rightarrow> 'f \<Rightarrow> bytes \<Rightarrow> bytes \<Rightarrow> da_result"
  po_CalculateEpochBoundaries :: "uint64 \<Rightarrow> uint64 \<Rightarrow> uint64 \<Rightarrow> uint64 \<times> uint64 \<times> uint64"

text \<open>What the command prints.\<close>

record posted =
  pt_Namespace :: string
  pt_DAHeight :: uint64
  pt_DataSize :: nat
  pt_BlocksUntilInclusion :: uint64
  pt_InclusionHeight :: uint64

datatype post_report = Posted posted | AlreadyInMempool "uint64 option"

definition decodeTxFromJSON :: "('t, 'f) post_ops \<Rightarrow> string \<Rightarrow> bytes result" where
  "decodeTxFromJSON po jsonStr =
     and_then (wrap ''parsing JSON'' (po_UnmarshalJSON po jsonStr)) (\<lambda>_.
     and_then (wrap ''decoding transaction JSON'' (po_TxJSONDecoder po (string_bytes jsonStr))) (\<lambda>tx.
     wrap ''encoding transaction'' (po_TxEncoder po tx)))"

definition decodeTxFromFile :: "('t, 'f) post_ops \<Rightarrow> string \<Rightarrow> bytes result" where
  "decodeTxFromFile po filePath =
     and_then (wrap ''reading file'' (po_ReadFile po filePath)) (decodeTxFromJSON po)"

definition tx_data :: "('t, 'f) post_ops \<Rightarrow> string \<Rightarrow> bytes result" where
  "tx_data po txInput =
     (if txInput = [] then Inl (ErrorString ''transaction cannot be empty'')
      else
     and_then (if po_Stat po txInput
        then wrap ''failed to decode transaction from file'' (decodeTxFromFile po txInput)
        else wrap ''failed to decode transaction from JSON'' (decodeTxFromJSON po txInput)) (\<lambda>txData.
     if txData = [] then Inl (ErrorString ''transaction data cannot be empty'') else Inr txData))"

definition post_result ::
    "('t, 'f) post_ops \<Rightarrow> (string \<Rightarrow> string option) \<Rightarrow> genesis_files \<Rightarrow> string \<Rightarrow> bytes \<Rightarrow> da_result \<Rightarrow>
     post_report result" where
  "post_result po fieldTag gf namespace txData res =
     (case dr_Code res of
        StatusSuccess \<Rightarrow>
          and_then (wrap ''failed to get DA start height'' (getDaStartHeight fieldTag gf)) (\<lambda>daStartHeight.
          and_then (wrap ''failed to get DA epoch forced inclusion'' (getDaEpoch fieldTag gf)) (\<lambda>daEpochForcedInclusion.
          (case po_CalculateEpochBoundaries po (dr_Height res) daStartHeight daEpochForcedInclusion of
             (_, epochEnd, _) \<Rightarrow>
               Inr (Posted \<lparr>pt_Namespace = namespace, pt_DAHeight = dr_Height res, pt_DataSize = length txData,
                 pt_BlocksUntilInclusion = epochEnd - (dr_Height res + 1), pt_InclusionHeight = epochEnd + 1\<rparr>))))
      | StatusTooBig \<Rightarrow> Inl (ErrorString ''transaction too large for DA layer'')
      | StatusNotIncludedInBlock \<Rightarrow> Inl (ErrorString ''transaction not included in DA block'')
      | StatusAlreadyInMempool \<Rightarrow> Inr (AlreadyInMempool (if dr_Height res > 0 then Some (dr_Height res) else None))
      | StatusContextCanceled \<Rightarrow> Inl (ErrorString ''submission canceled'')
      | StatusOther _ \<Rightarrow> Inl (ErrorString ''DA submission failed''))"

definition postTxRunE ::
    "('t, 'f) post_ops \<Rightarrow> (string \<Rightarrow> string option) \<Rightarrow> genesis_files \<Rightarrow> string \<Rightarrow> post_report result" where
  "postTxRunE po fieldTag gf txInput =
     and_then (tx_data po txInput) (\<lambda>txData.
     and_then (wrap ''failed to load config'' (po_LoadConfig po)) (\<lambda>cfg.
     and_then (wrap ''invalid config'' (po_ValidateConfig po cfg)) (\<lambda>_.
      let namespace = (if po_NamespaceFlag po = [] then pc_ForcedInclusionNamespace cfg else po_NamespaceFlag po);
          namespaceBz = po_NamespaceFromString po namespace in
     and_then (wrap ''failed to get gas-price flag'' (po_GasPriceFlag po)) (\<lambda>gasPrice.
     and_then (wrap ''failed to get submit-options flag'' (po_SubmitOptsFlag po)) (\<lambda>submitOpts.
      let submitOpts = (if submitOpts = [] then pc_SubmitOptions cfg else submitOpts) in
     and_then (wrap ''failed to create DA client'' (po_NewClient po)) (\<lambda>_.
     post_result po fieldTag gf namespace txData
       (po_Submit po [txData] gasPrice namespaceBz (string_bytes submitOpts))))))))"

text \<open>
  The two numbers of the inclusion message disagree. Whenever the command reports a posted
  transaction, one blob, the encoded transaction, was submitted and accepted at the printed DA
  height; but the printed number of blocks until inclusion is always two less than the distance to
  the printed inclusion height, modulo \<open>2 ^ 64\<close>. In the last block of an epoch, one block
  before inclusion, the command prints 18446744073709551615.
\<close>

lemma post_tx_inclusion_estimate:
  assumes "postTxRunE po fieldTag gf txInput = Inr (Posted r)"
  shows "(\<exists>txData gasPrice opts res. tx_data po txInput = Inr txData \<and>
      res = po_Submit po [txData] gasPrice (po_NamespaceFromString po (pt_Namespace r)) opts \<and>
      dr_Code res = StatusSuccess \<and> pt_DAHeight r = dr_Height res) \<and>
    pt_BlocksUntilInclusion r + 2 = pt_InclusionHeight r - pt_DAHeight r \<and>
    (pt_InclusionHeight r = pt_DAHeight r + 1 \<longrightarrow> unat (pt_BlocksUntilInclusion r) = 18446744073709551615)"
proof -
  from assms obtain txData gasPrice namespace opts where
    tx: "tx_data po txInput = Inr txData"
    and res: "post_result po fieldTag gf namespace txData
      (po_Submit po [txData] gasPrice (po_NamespaceFromString po namespace) opts) = Inr (Posted r)"
    unfolding postTxRunE_def by (auto simp: and_then_Inr_iff Let_def)
  let ?res = "po_Submit po [txData] gasPrice (po_NamespaceFromString po namespace) opts"
  have ok: "dr_Code ?res = StatusSuccess" "pt_DAHeight r = dr_Height ?res" "pt_Namespace r = namespace"
    and ex: "\<exists>epochEnd. pt_BlocksUntilInclusion r = epochEnd - (dr_Height ?res + 1) \<and> pt_InclusionHeight r = epochEnd + 1"
    using res by (auto simp: post_result_def and_then_Inr_iff case_prod_beta split: da_status.splits)
  from ex ok(2) obtain epochEnd where e: "pt_BlocksUntilInclusion r = epochEnd - (pt_DAHeight r + 1)"
    "pt_InclusionHeight r = epochEnd + 1" by auto
  have "pt_InclusionHeight r = pt_DAHeight r + 1 \<Longrightarrow> pt_BlocksUntilInclusion r = - 1"
    unfolding e by simp
  then have "pt_InclusionHeight r = pt_DAHeight r + 1 \<Longrightarrow> unat (pt_BlocksUntilInclusion r) = 18446744073709551615"
    by (simp add: unsigned_minus_1_eq_mask mask_eq_exp_minus_1)
  moreover have "pt_BlocksUntilInclusion r + 2 = pt_InclusionHeight r - pt_DAHeight r" unfolding e by simp
  ultimately show ?thesis using tx ok by blast
qed

end
