(* ===== verification/NodeRun.thy ===== *)
theory NodeRun
  imports NodeCmds
begin

text \<open>
  The life of the node process (\<open>StartHandler\<close>, \<open>startApp\<close>, \<open>startInProcess\<close> and their helpers in
  \<open>server/start.go\<close>): what is opened and started, in which order, and what is released on every
  way out. The outcome of each call into another package is a field of \<open>run_deps\<close>; what the process has
  done so far is a list of actions. The lemmas show which resources every return releases.
\<close>

datatype start_action =
    TraceOpened | TraceClosed | DBOpened | AppCreated | AppClosed
  | NodeSetUp | NodeCleanedUp | RunLaunched | ExecutorStarted | ServicesRegistered
  | GrpcStarted | ApiStarted | Waited | ContextCancelled | SignalsListened
  | InfoEmitted "(string \<times> string) list"

record server_config =
  vc_GRPC :: grpc_config
  vc_API :: bool
  vc_Telemetry :: bool

record 'g run_deps =
  rn_GetConfig :: "server_config result"
  rn_ValidateBasic :: "server_config \<Rightarrow> unit result"
  rn_TraceFile :: string
  rn_OpenFile :: "unit result"
  rn_DBOpener :: "unit result"
  rn_Telemetry :: "unit result"
  rn_GRPCOnly :: bool
  rn_SetupNode :: "unit result"
  rn_ExecutorStart :: "unit result"
  rn_grpc :: "'g grpc_deps"
  rn_PostSetup :: "unit result option"
  rn_Wait :: "unit result"
  rn_GoVersion :: string
  rn_SdkVersion :: string

type_synonym start_log = "start_action list"

text \<open>A call whose effect is recorded when it succeeds, and a deferred call.\<close>

definition logged :: "'a result \<Rightarrow> start_action \<Rightarrow> start_log \<Rightarrow> 'a result \<times> start_log" where
  "logged r act acts = (case r of Inl err \<Rightarrow> (Inl err, acts) | Inr a \<Rightarrow> (Inr a, acts @ [act]))"

definition getAndValidateConfig :: "'g run_deps \<Rightarrow> server_config result" where
  "getAndValidateConfig R =
     and_then (rn_GetConfig R) (\<lambda>cfg. and_then (rn_ValidateBasic R cfg) (\<lambda>_. Inr cfg))"

text \<open>The trace writer: without a file there is none; the result says whether there is one.\<close>

definition openTraceWriter :: "'g run_deps \<Rightarrow> start_log \<Rightarrow> bool result \<times> start_log" where
  "openTraceWriter R acts =
     (if rn_TraceFile R = [] then (Inr False, acts)
      else run_then (logged (rn_OpenFile R) TraceOpened acts) (\<lambda>_ acts. (Inr True, acts)))"

definition setupTraceWriter :: "'g run_deps \<Rightarrow> start_log \<Rightarrow> bool result \<times> start_log" where
  "setupTraceWriter R acts =
     run_then (openTraceWriter R acts) (\<lambda>traceWriter acts. (Inr traceWriter, acts))"

definition trace_cleanup :: "bool \<Rightarrow> start_log \<Rightarrow> start_log" where
  "trace_cleanup writer acts = (if writer then acts @ [TraceClosed] else acts)"

text \<open>
  \<open>startApp\<close> returns whether a trace writer is open. Its caller defers the cleanup only after
  it has returned without an error.
\<close>

definition startApp :: "'g run_deps \<Rightarrow> start_log \<Rightarrow> bool result \<times> start_log" where
  "startApp R acts =
     run_then (setupTraceWriter R acts) (\<lambda>traceWriter acts.
     run_then (logged (rn_DBOpener R) DBOpened acts) (\<lambda>_ acts.
     (Inr traceWriter, acts @ [AppCreated])))"

definition app_cleanup :: "bool \<Rightarrow> start_log \<Rightarrow> start_log" where
  "app_cleanup writer acts = trace_cleanup writer acts @ [AppClosed]"

definition startTelemetry :: "'g run_deps \<Rightarrow> server_config \<Rightarrow> bool result" where
  "startTelemetry R cfg =
     (if \<not> vc_Telemetry cfg then Inr False else and_then (rn_Telemetry R) (\<lambda>_. Inr True))"

definition startAPIServer :: "server_config \<Rightarrow> start_log \<Rightarrow> unit result \<times> start_log" where
  "startAPIServer cfg acts = (Inr (), if vc_API cfg then acts @ [ApiStarted] else acts)"

text \<open>The labels of the version gauge; without a label it is not set.\<close>

definition emitServerInfoMetrics :: "'g run_deps \<Rightarrow> start_log \<Rightarrow> start_log" where
  "emitServerInfoMetrics R acts =
     (let ls = (if length (rn_GoVersion R) > 0 then [(''go'', rn_GoVersion R)] else []);
          ls = ls @ (if length (rn_SdkVersion R) > 0 then [(''version'', rn_SdkVersion R)] else [])
      in if length ls = 0 then acts else acts @ [InfoEmitted ls])"

definition getCtx :: "start_log \<Rightarrow> start_log" where
  "getCtx acts = acts @ [SignalsListened]"

text \<open>The servers after the node, up to the wait for the group.\<close>

definition start_servers :: "'g run_deps \<Rightarrow> server_config \<Rightarrow> start_log \<Rightarrow> unit result \<times> start_log" where
  "start_servers R cfg acts =
     run_then (startGrpcServer (rn_grpc R) (vc_GRPC cfg), acts) (\<lambda>srv acts.
     run_then (startAPIServer cfg (if srv = None then acts else acts @ [GrpcStarted])) (\<lambda>_ acts.
     run_then (case rn_PostSetup R of None \<Rightarrow> Inr () | Some r \<Rightarrow> r, acts) (\<lambda>_ acts.
     (rn_Wait R, acts @ [Waited]))))"

definition startInProcess :: "'g run_deps \<Rightarrow> server_config \<Rightarrow> start_log \<Rightarrow> unit result \<times> start_log" where
  "startInProcess R cfg acts =
     (let acts = getCtx acts in
      deferred (\<lambda>acts. acts @ [ContextCancelled])
       (if rn_GRPCOnly R
        then start_servers R (cfg\<lparr>vc_GRPC := (vc_GRPC cfg)\<lparr>gc_Enable := True\<rparr>\<rparr>) acts
        else
          run_then (logged (rn_SetupNode R) NodeSetUp acts) (\<lambda>_ acts.
          deferred (\<lambda>acts. acts @ [NodeCleanedUp])
            (run_then (wrap ''failed to start executor'' (rn_ExecutorStart R), acts @ [RunLaunched]) (\<lambda>_ acts.
             let acts = acts @ [ExecutorStarted];
                 acts = (if vc_API cfg \<or> gc_Enable (vc_GRPC cfg) then acts @ [ServicesRegistered] else acts)
             in start_servers R cfg acts)))))"

definition StartHandler :: "'g run_deps \<Rightarrow> unit result \<times> start_log" where
  "StartHandler R =
     run_then (getAndValidateConfig R, []) (\<lambda>cfg acts.
     run_then (startApp R acts) (\<lambda>traceWriter acts.
     deferred (app_cleanup traceWriter)
       (run_then (startTelemetry R cfg, acts) (\<lambda>_ acts. startInProcess R cfg (emitServerInfoMetrics R acts)))))"

subsection \<open>What every return releases\<close>

lemma snd_run_then_logged: "snd (run_then (r, acts) f) = (case r of Inl _ \<Rightarrow> acts | Inr a \<Rightarrow> snd (f a acts))"
  by (cases r) simp_all

lemma snd_deferred [simp]: "snd (deferred f p) = f (snd p)"
  by (simp add: deferred_def)

text \<open>The servers add none of the actions that open or close the application or the node.\<close>

lemma start_servers_log:
  "\<exists>more. snd (start_servers R cfg acts) = acts @ more \<and> set more \<subseteq> {GrpcStarted, ApiStarted, Waited} \<and>
     count_list more NodeSetUp = 0 \<and> count_list more NodeCleanedUp = 0"
  by (auto simp: start_servers_def startAPIServer_def snd_run_then_logged split: sum.splits option.splits)

lemma startInProcess_log:
  "\<exists>more. snd (startInProcess R cfg acts) = acts @ more @ [ContextCancelled] \<and>
     count_list more NodeSetUp = count_list more NodeCleanedUp \<and>
     AppCreated \<notin> set more \<and> AppClosed \<notin> set more \<and> TraceOpened \<notin> set more \<and> TraceClosed \<notin> set more"
proof (cases "rn_GRPCOnly R")
  case True
  obtain more where "snd (start_servers R (cfg\<lparr>vc_GRPC := (vc_GRPC cfg)\<lparr>gc_Enable := True\<rparr>\<rparr>) (getCtx acts)) = getCtx acts @ more"
    "set more \<subseteq> {GrpcStarted, ApiStarted, Waited}" "count_list more NodeSetUp = 0" "count_list more NodeCleanedUp = 0"
    using start_servers_log by blast
  then show ?thesis
    using True by (intro exI [of _ "SignalsListened # more"]) (auto simp: startInProcess_def getCtx_def)
next
  case False
  show ?thesis
  proof (cases "rn_SetupNode R")
    case (Inl err)
    then show ?thesis using False by (intro exI [of _ "[SignalsListened]"]) (simp add: startInProcess_def getCtx_def logged_def)
  next
    case node: (Inr u)
    show ?thesis
    proof (cases "rn_ExecutorStart R")
      case (Inl err)
      then show ?thesis
        using False node by (intro exI [of _ "[SignalsListened, NodeSetUp, RunLaunched, NodeCleanedUp]"])
          (simp add: startInProcess_def getCtx_def logged_def)
    next
      case (Inr v)
      let ?pre = "[SignalsListened, NodeSetUp, RunLaunched, ExecutorStarted] @
        (if vc_API cfg \<or> gc_Enable (vc_GRPC cfg) then [ServicesRegistered] else [])"
      obtain more where "snd (start_servers R cfg (acts @ ?pre)) = (acts @ ?pre) @ more"
        "set more \<subseteq> {GrpcStarted, ApiStarted, Waited}" "count_list more NodeSetUp = 0" "count_list more NodeCleanedUp = 0"
        using start_servers_log by blast
      then show ?thesis
        using False node Inr
        by (intro exI [of _ "?pre @ more @ [NodeCleanedUp]"])
          (auto simp: startInProcess_def getCtx_def logged_def Let_def)
    qed
  qed
qed

text \<open>The actions of a process whose application came up: opened, used and released in this shape.\<close>

definition released_run :: "start_log \<Rightarrow> bool" where
  "released_run acts \<longleftrightarrow>
     (\<exists>w more. acts = (if w then [TraceOpened] else []) @ DBOpened # AppCreated # more @
        (if w then [TraceClosed] else []) @ [AppClosed] \<and>
        count_list more NodeSetUp = count_list more NodeCleanedUp \<and>
        AppCreated \<notin> set more \<and> AppClosed \<notin> set more \<and> TraceOpened \<notin> set more \<and> TraceClosed \<notin> set more)"

lemma startApp_log:
  "fst (startApp R []) = Inr w \<Longrightarrow>
     startApp R [] = (Inr w, (if w then [TraceOpened] else []) @ [DBOpened, AppCreated])"
  by (auto simp: startApp_def setupTraceWriter_def openTraceWriter_def logged_def run_then_def split: if_splits sum.splits)

lemma emit_log: "\<exists>info. emitServerInfoMetrics R acts = acts @ info \<and> set info \<subseteq> range InfoEmitted"
  by (simp add: emitServerInfoMetrics_def Let_def)

lemma StartHandler_app_log:
  assumes cfg: "getAndValidateConfig R = Inr cfg" and app: "fst (startApp R []) = Inr w"
  shows "released_run (snd (StartHandler R))"
proof (cases "startTelemetry R cfg")
  case (Inl err)
  then show ?thesis
    unfolding released_run_def
    by (intro exI [of _ w] exI [of _ "[]"])
      (simp add: StartHandler_def cfg startApp_log [OF app] app_cleanup_def trace_cleanup_def)
next
  case (Inr t)
  let ?opened = "(if w then [TraceOpened] else []) @ [DBOpened, AppCreated]"
  obtain info where info: "emitServerInfoMetrics R ?opened = ?opened @ info" "set info \<subseteq> range InfoEmitted"
    using emit_log by blast
  have quiet: "count_list info NodeSetUp = 0" "count_list info NodeCleanedUp = 0" "AppCreated \<notin> set info"
    "AppClosed \<notin> set info" "TraceOpened \<notin> set info" "TraceClosed \<notin> set info"
    using info(2) by (auto simp: count_list_0_iff)
  obtain more where "snd (startInProcess R cfg (emitServerInfoMetrics R ?opened)) =
      emitServerInfoMetrics R ?opened @ more @ [ContextCancelled]"
    "count_list more NodeSetUp = count_list more NodeCleanedUp"
    "AppCreated \<notin> set more" "AppClosed \<notin> set more" "TraceOpened \<notin> set more" "TraceClosed \<notin> set more"
    using startInProcess_log by blast
  then show ?thesis
    unfolding released_run_def
    using Inr quiet by (intro exI [of _ w] exI [of _ "info @ more @ [ContextCancelled]"])
      (simp add: StartHandler_def cfg startApp_log [OF app] app_cleanup_def trace_cleanup_def info(1))
qed

lemma StartHandler_log:
  "released_run (snd (StartHandler R)) \<or> snd (StartHandler R) = [] \<or>
     (snd (StartHandler R) = [TraceOpened] \<and> is_err (rn_DBOpener R))"
proof (cases "\<exists>cfg w. getAndValidateConfig R = Inr cfg \<and> fst (startApp R []) = Inr w")
  case True
  then show ?thesis using StartHandler_app_log by blast
next
  case False
  then show ?thesis
    by (auto simp: StartHandler_def startApp_def setupTraceWriter_def openTraceWriter_def logged_def run_then_def is_err_iff
        split: sum.splits prod.splits if_splits)
qed

text \<open>
  Whatever fails, an application that was created is closed, last and once, and a node that was
  set up is cleaned up; the trace writer is closed too, unless the database could not be opened.
\<close>

lemma StartHandler_releases:
  fixes R :: "'g run_deps" and acts :: start_log
  assumes acts: "acts = snd (StartHandler R)"
  shows "count_list acts AppCreated = count_list acts AppClosed"
    "count_list acts NodeSetUp = count_list acts NodeCleanedUp"
    "AppCreated \<in> set acts \<Longrightarrow> last acts = AppClosed"
    "\<not> is_err (rn_DBOpener R) \<Longrightarrow> count_list acts TraceOpened = count_list acts TraceClosed"
  using StartHandler_log [of R] unfolding acts released_run_def by auto

text \<open>
  Two ways out that leave something running: a failed database open leaves the trace writer
  open, and a failed executor start closes the application while the node's run loop, already
  launched, is not waited for.
\<close>

lemma trace_writer_left_open:
  assumes "getAndValidateConfig R = Inr cfg" "rn_TraceFile R \<noteq> []" "rn_OpenFile R = Inr ()" "rn_DBOpener R = Inl err"
  shows "StartHandler R = (Inl err, [TraceOpened])"
  using assms by (simp add: StartHandler_def startApp_def setupTraceWriter_def openTraceWriter_def logged_def)

lemma run_loop_not_awaited:
  assumes "getAndValidateConfig R = Inr cfg" "rn_TraceFile R = []" "rn_DBOpener R = Inr ()" "\<not> vc_Telemetry cfg"
    "\<not> rn_GRPCOnly R" "rn_SetupNode R = Inr ()" "rn_ExecutorStart R = Inl err"
  shows "StartHandler R = (Inl (Wrap ''failed to start executor'' err),
    emitServerInfoMetrics R [DBOpened, AppCreated] @
      [SignalsListened, NodeSetUp, RunLaunched, NodeCleanedUp, ContextCancelled, AppClosed])"
  using assms
  by (simp add: StartHandler_def startApp_def setupTraceWriter_def openTraceWriter_def logged_def startTelemetry_def startInProcess_def
      getCtx_def deferred_def app_cleanup_def trace_cleanup_def)

end
