(* ===== verification/Gossip.thy ===== *)
theory Gossip
  imports Adapter
begin

text \<open>
  The transaction gossiper (\<open>pkg/p2p/gossip.go\<close>) and the start of the adapter
  (\<open>Start\<close> in \<open>pkg/adapter/adapter.go\<close>). libp2p's publish-subscribe is another package: its
  operations are the fields of \<open>libp2p\<close> over its state \<open>'p\<close>, and a topic is its name. What the polling
  loop of \<open>Start\<close> finds at each of its attempts, and whether the context ends while it waits,
  are arguments.
\<close>

subsection \<open>The gossiper\<close>

record gossip_message =
  gm_Data :: bytes
  gm_From :: string

record pubsub_message =
  pm_Data :: bytes
  pm_From :: string

record ('p, 'v) libp2p =
  lp_Join :: "string \<Rightarrow> 'p \<Rightarrow> unit result \<times> 'p"
  lp_Subscribe :: "string \<Rightarrow> 'p \<Rightarrow> unit result \<times> 'p"
  lp_RegisterTopicValidator :: "string \<Rightarrow> (pubsub_message \<Rightarrow> 'v) \<Rightarrow> 'p \<Rightarrow> unit result \<times> 'p"
  lp_UnregisterTopicValidator :: "string \<Rightarrow> 'p \<Rightarrow> unit result \<times> 'p"
  lp_Cancel :: "string \<Rightarrow> 'p \<Rightarrow> 'p"
  lp_CloseTopic :: "string \<Rightarrow> 'p \<Rightarrow> unit result \<times> 'p"
  lp_Publish :: "string \<Rightarrow> bytes \<Rightarrow> 'p \<Rightarrow> unit result \<times> 'p"

record gossiper =
  gs_ownID :: string
  gs_topic :: string

type_synonym 'p gossiper_option = "gossiper \<Rightarrow> 'p \<Rightarrow> unit result \<times> 'p"

definition wrapValidator :: "(gossip_message \<Rightarrow> 'v) \<Rightarrow> pubsub_message \<Rightarrow> 'v" where
  "wrapValidator validator msg = validator \<lparr>gm_Data = pm_Data msg, gm_From = pm_From msg\<rparr>"

definition WithValidator :: "('p, 'v) libp2p \<Rightarrow> (gossip_message \<Rightarrow> 'v) \<Rightarrow> 'p gossiper_option" where
  "WithValidator L validator g p =
     lp_RegisterTopicValidator L (gs_topic g) (wrapValidator validator) p"

fun apply_options :: "'p gossiper_option list \<Rightarrow> gossiper \<Rightarrow> 'p \<Rightarrow> unit result \<times> 'p" where
  "apply_options [] g p = (Inr (), p)"
| "apply_options (opt # opts) g p = run_then (opt g p) (\<lambda>_ p. apply_options opts g p)"

text \<open>\<open>host\<close> is the ID of the host, \<open>None\<close> a nil host; \<open>ps\<close> says whether the pubsub is there.\<close>

definition NewGossiper ::
    "('p, 'v) libp2p \<Rightarrow> string option \<Rightarrow> bool \<Rightarrow> string \<Rightarrow> 'p gossiper_option list \<Rightarrow> 'p \<Rightarrow>
     gossiper result \<times> 'p" where
  "NewGossiper L host ps topicStr options p =
     (if \<not> ps then (Inl (ErrorString ''pubsub instance is nil''), p)
      else case host of
        None \<Rightarrow> (Inl (ErrorString ''host instance is nil''), p)
      | Some hostID \<Rightarrow>
     run_then (lp_Join L topicStr p) (\<lambda>_ p.
     run_then (lp_Subscribe L topicStr p) (\<lambda>_ p.
      let g = \<lparr>gs_ownID = hostID, gs_topic = topicStr\<rparr> in
     run_then (apply_options options g p) (\<lambda>_ p.
     (Inr g, p)))))"

text \<open>The joined error of \<open>Close\<close> is the list of the errors that are not nil.\<close>

definition errors_of :: "'a result \<Rightarrow> go_error list" where
  "errors_of r = (case r of Inl err \<Rightarrow> [err] | Inr _ \<Rightarrow> [])"

definition Gossiper_Close :: "('p, 'v) libp2p \<Rightarrow> gossiper \<Rightarrow> 'p \<Rightarrow> go_error list \<times> 'p" where
  "Gossiper_Close L g p =
     (case lp_UnregisterTopicValidator L (gs_topic g) p of (r1, p) \<Rightarrow>
      let p = lp_Cancel L (gs_topic g) p in
     (case lp_CloseTopic L (gs_topic g) p of (r2, p) \<Rightarrow> (errors_of r1 @ errors_of r2, p)))"

definition Gossiper_Publish :: "('p, 'v) libp2p \<Rightarrow> gossiper \<Rightarrow> bytes \<Rightarrow> 'p \<Rightarrow> unit result \<times> 'p" where
  "Gossiper_Publish L g data p = lp_Publish L (gs_topic g) data p"

text \<open>
  The reading loop over what \<open>sub.Next\<close> and the context gave it: for each message whether the
  context is done and whether the read failed. The result says how many messages were
  read and whether the loop has returned.
\<close>

fun ProcessMessages :: "(bool \<times> bool) list \<Rightarrow> nat \<times> bool" where
  "ProcessMessages [] = (0, False)"
| "ProcessMessages ((ctxDone, failed) # ws) =
     (if ctxDone \<or> failed then (0, True)
      else case ProcessMessages ws of (n, ended) \<Rightarrow> (Suc n, ended))"

lemma ProcessMessages_eq:
  "ProcessMessages ws =
     (length (takeWhile (\<lambda>(done, failed). \<not> done \<and> \<not> failed) ws),
      list_ex (\<lambda>(done, failed). done \<or> failed) ws)"
  by (induction ws rule: ProcessMessages.induct) auto

subsection \<open>Starting the adapter\<close>

definition maxRetries :: nat where "maxRetries = 25"

text \<open>
  The polling loop: \<open>poll i\<close> is the host and the pubsub at attempt \<open>i\<close>, \<open>cancelled i\<close> whether the
  context ended in the wait after it. The result is the last pair read.
\<close>

fun poll_p2p ::
    "(nat \<Rightarrow> string option \<times> bool) \<Rightarrow> (nat \<Rightarrow> bool) \<Rightarrow> nat list \<Rightarrow> string option \<times> bool \<Rightarrow>
     (string option \<times> bool) result" where
  "poll_p2p poll cancelled [] hp = Inr hp"
| "poll_p2p poll cancelled (i # is) hp =
     (case poll i of (h, ps) \<Rightarrow>
      if h \<noteq> None \<and> ps then Inr (h, ps)
      else if cancelled i then Inl (ErrorString ''context canceled'')
      else poll_p2p poll cancelled is (h, ps))"

type_synonym ('a, 'm) tx_validator =
  "(go_error \<Rightarrow> mempool_error_class) \<Rightarrow> check_wakeup \<Rightarrow> ('a, 'm) adapter \<Rightarrow>
   (bool result \<times> ('a, 'm) adapter) option"

definition gossip_validator :: "('a, 'm) adapter_env \<Rightarrow> gossip_message \<Rightarrow> ('a, 'm) tx_validator" where
  "gossip_validator E m = (\<lambda>errors_Is wakeup. newTxValidator E errors_Is wakeup (gm_Data m) (gm_From m))"

text \<open>
  \<open>Start\<close> returns its error, the new value of \<open>TxGossiper\<close> (unchanged before the assignment, nil
  when \<open>NewGossiper\<close> fails) and the state of the pubsub; on success the reading loop is running.
\<close>

definition Start ::
    "('a, 'm) adapter_env \<Rightarrow> ('p, ('a, 'm) tx_validator) libp2p \<Rightarrow> bool \<Rightarrow>
     (nat \<Rightarrow> string option \<times> bool) \<Rightarrow> (nat \<Rightarrow> bool) \<Rightarrow> gossiper option \<times> 'p \<Rightarrow>
     unit result \<times> gossiper option \<times> 'p" where
  "Start E L p2pClient poll cancelled s =
     (if \<not> p2pClient then (Inl (ErrorString ''P2PClient is nil, cannot start gossiper''), s)
      else
     run_then (poll_p2p poll cancelled [0..<maxRetries] (None, False), s) (\<lambda>(h, ps) s.
     if h = None \<or> \<not> ps then (Inl (ErrorString ''P2P not ready after attempts''), s)
     else case ae_AppGenesis E of
       None \<Rightarrow> (Inl (Panic ''nil pointer dereference''), s)
     | Some g \<Rightarrow>
     (case NewGossiper L h ps (ag_ChainID g @ ''-tx'') [WithValidator L (gossip_validator E)] (snd s) of
        (Inl err, p) \<Rightarrow> (Inl err, None, p)
      | (Inr gossip, p) \<Rightarrow> (Inr (), Some gossip, p))))"

subsection \<open>When the adapter starts\<close>

definition p2p_ready :: "(nat \<Rightarrow> string option \<times> bool) \<Rightarrow> nat \<Rightarrow> bool" where
  "p2p_ready poll i \<longleftrightarrow> fst (poll i) \<noteq> None \<and> snd (poll i)"

text \<open>The attempt at which the loop stops with a host and a pubsub.\<close>

definition ready_at :: "(nat \<Rightarrow> string option \<times> bool) \<Rightarrow> (nat \<Rightarrow> bool) \<Rightarrow> nat \<Rightarrow> bool" where
  "ready_at poll cancelled i \<longleftrightarrow>
     p2p_ready poll i \<and> (\<forall>j < i. \<not> p2p_ready poll j \<and> \<not> cancelled j)"

lemma poll_p2p_skip:
  "\<forall>j\<in>set us. \<not> p2p_ready poll j \<and> \<not> cancelled j \<Longrightarrow>
     poll_p2p poll cancelled (us @ vs) hp =
     poll_p2p poll cancelled vs (if us = [] then hp else poll (last us))"
  by (induction us arbitrary: hp) (auto simp: p2p_ready_def split: prod.splits)

lemma poll_p2p_stops:
  "poll_p2p poll cancelled is hp = Inr hp' \<Longrightarrow> fst hp' \<noteq> None \<and> snd hp' \<Longrightarrow>
     \<not> (fst hp \<noteq> None \<and> snd hp) \<Longrightarrow>
     \<exists>us i vs. is = us @ i # vs \<and> p2p_ready poll i \<and> (\<forall>j\<in>set us. \<not> p2p_ready poll j \<and> \<not> cancelled j)"
proof (induction "is" arbitrary: hp)
  case (Cons i "is")
  show ?case
  proof (cases "p2p_ready poll i")
    case False
    then have go: "\<not> cancelled i" "poll_p2p poll cancelled is (poll i) = Inr hp'"
      using Cons.prems(1) by (auto simp: p2p_ready_def split: prod.splits if_splits)
    from Cons.IH [OF go(2) Cons.prems(2)] False obtain us k vs where "is = us @ k # vs"
      "p2p_ready poll k" "\<forall>j\<in>set us. \<not> p2p_ready poll j \<and> \<not> cancelled j"
      by (auto simp: p2p_ready_def)
    then show ?thesis using False go(1) by (intro exI [of _ "i # us"]) auto
  qed (rule exI [of _ "[]"], auto)
qed auto

lemma upt_split:
  assumes "[0..<n] = us @ i # vs"
  shows "i < n" "us = [0..<i]"
proof -
  have n: "n = length us + Suc (length vs)" using arg_cong [OF assms, of length] by simp
  have "i = [0..<n] ! length us" by (simp add: assms)
  also have "\<dots> = length us" using n by (subst nth_upt) simp_all
  finally have i: "i = length us" .
  show "i < n" using i n by simp
  have "us = take (length us) [0..<n]" by (simp add: assms)
  also have "\<dots> = [0..<length us]" using n by (simp add: take_upt)
  finally show "us = [0..<i]" by (simp add: i)
qed

lemma poll_ready_at:
  assumes "i < n" and "ready_at poll cancelled i"
  shows "poll_p2p poll cancelled [0..<n] hp = Inr (poll i)"
proof -
  have "[0..<n] = [0..<i] @ i # [Suc i..<n]"
    using assms(1) upt_add_eq_append [of 0 i "n - i"] by (simp add: upt_conv_Cons)
  then have "poll_p2p poll cancelled [0..<n] hp =
      poll_p2p poll cancelled (i # [Suc i..<n]) (if [0..<i] = [] then hp else poll (last [0..<i]))"
    using assms(2) poll_p2p_skip [of "[0..<i]"] by (simp add: ready_at_def)
  also have "\<dots> = Inr (poll i)"
    using assms(2) by (cases "poll i") (simp add: ready_at_def p2p_ready_def)
  finally show ?thesis .
qed

lemma poll_not_ready:
  assumes "\<not> (\<exists>i < n. ready_at poll cancelled i)"
    and "poll_p2p poll cancelled [0..<n] (None, False) = Inr hp"
  shows "\<not> (fst hp \<noteq> None \<and> snd hp)"
proof
  assume "fst hp \<noteq> None \<and> snd hp"
  from poll_p2p_stops [OF assms(2) this] obtain us i vs where us: "[0..<n] = us @ i # vs"
    "p2p_ready poll i" "\<forall>j\<in>set us. \<not> p2p_ready poll j \<and> \<not> cancelled j" by auto
  then have "ready_at poll cancelled i" using upt_split(2) [OF us(1)] by (simp add: ready_at_def)
  then show False using upt_split(1) [OF us(1)] assms(1) by blast
qed

definition tx_topic :: "app_genesis \<Rightarrow> string" where
  "tx_topic g = ag_ChainID g @ ''-tx''"

lemma Start_ready:
  assumes "ae_AppGenesis E = Some g" and "i < maxRetries" and "ready_at poll cancelled i"
  shows "Start E L True poll cancelled (old, p) =
    (case NewGossiper L (fst (poll i)) True (tx_topic g) [WithValidator L (gossip_validator E)] p of
       (Inl err, p) \<Rightarrow> (Inl err, None, p) | (Inr gossip, p) \<Rightarrow> (Inr (), Some gossip, p))"
proof -
  obtain id where "poll i = (Some id, True)"
    using assms(3) by (cases "poll i") (auto simp: ready_at_def p2p_ready_def)
  then show ?thesis
    using assms(1) poll_ready_at [OF assms(2,3), of "(None, False)"] by (simp add: Start_def tx_topic_def)
qed

lemma Start_not_ready:
  assumes "\<not> (\<exists>i < maxRetries. ready_at poll cancelled i)"
  shows "\<exists>err. Start E L True poll cancelled s = (Inl err, s)"
proof (cases "poll_p2p poll cancelled [0..<maxRetries] (None, False)")
  case (Inr hp)
  then show ?thesis using poll_not_ready [OF assms Inr] by (auto simp: Start_def split: prod.splits)
qed (simp add: Start_def)

text \<open>
  C34: the adapter starts exactly when the node's host and pubsub are both there at one of the
  first 25 polls, before the context ends, and the gossiper can be made on them; then the
  gossiper of the chain's transaction topic, with the adapter's transaction validator, is in
  place. Otherwise it returns an error, and if the network was never ready nothing has changed.
\<close>

theorem Start_iff:
  assumes "ae_AppGenesis E = Some g"
  shows "(Start E L True poll cancelled (old, p) = (Inr (), new, p') \<longleftrightarrow>
    (\<exists>i < 25. \<exists>gossip. ready_at poll cancelled i \<and>
       NewGossiper L (fst (poll i)) True (tx_topic g) [WithValidator L (gossip_validator E)] p =
         (Inr gossip, p') \<and> new = Some gossip \<and> gs_topic gossip = tx_topic g)) \<and>
    ((\<forall>i < 25. \<not> ready_at poll cancelled i) \<longrightarrow>
      (\<exists>err. Start E L True poll cancelled (old, p) = (Inl err, old, p)))"
proof -
  have topic: "gs_topic gossip = topic"
    if "NewGossiper L h ps topic opts p = (Inr gossip, p')" for h ps topic opts p gossip p'
    using that by (auto simp: NewGossiper_def run_then_Inr_iff Let_def split: if_splits option.splits)
  show ?thesis
  proof (cases "\<exists>i < maxRetries. ready_at poll cancelled i")
    case True
    then obtain i where i: "i < maxRetries" "ready_at poll cancelled i" by blast
    have uniq: "j = i" if "ready_at poll cancelled j" for j
      using that i(2) by (cases i j rule: linorder_cases) (auto simp: ready_at_def)
    let ?Q = "\<lambda>j gossip. NewGossiper L (fst (poll j)) True (tx_topic g) [WithValidator L (gossip_validator E)] p =
         (Inr gossip, p') \<and> new = Some gossip \<and> gs_topic gossip = tx_topic g"
    have a: "(Start E L True poll cancelled (old, p) = (Inr (), new, p')) \<longleftrightarrow> (\<exists>gossip. ?Q i gossip)"
      unfolding Start_ready [OF assms i] using topic by (auto split: prod.splits sum.splits)
    have b: "(\<exists>j < 25. \<exists>gossip. ready_at poll cancelled j \<and> ?Q j gossip) \<longleftrightarrow> (\<exists>gossip. ?Q i gossip)"
      using i uniq unfolding maxRetries_def by blast
    have c: "\<not> (\<forall>j < 25. \<not> ready_at poll cancelled j)" using i by (auto simp: maxRetries_def)
    show ?thesis unfolding a b using c by blast
  next
    case False
    then show ?thesis
      using Start_not_ready [OF False, of E L "(old, p)"] by (auto simp: maxRetries_def)
  qed
qed

subsection \<open>A failed start\<close>

text \<open>
  libp2p's rule for topics: \<open>Join\<close> refuses a topic that is already joined and otherwise joins it;
  subscribing and registering validators leave the joined topics as they are.
\<close>

definition topic_laws :: "('p, 'v) libp2p \<Rightarrow> ('p \<Rightarrow> string set) \<Rightarrow> bool" where
  "topic_laws L joined \<longleftrightarrow>
     (\<forall>t p. if t \<in> joined p then is_err (fst (lp_Join L t p))
        else \<not> is_err (fst (lp_Join L t p)) \<longrightarrow> joined (snd (lp_Join L t p)) = insert t (joined p)) \<and>
     (\<forall>t p. joined (snd (lp_Subscribe L t p)) = joined p) \<and>
     (\<forall>t v p. joined (snd (lp_RegisterTopicValidator L t v p)) = joined p)"

lemma topic_lawsD:
  assumes "topic_laws L joined"
  shows "t \<in> joined p \<Longrightarrow> is_err (fst (lp_Join L t p))"
    "lp_Join L t p = (Inr u, p') \<Longrightarrow> t \<in> joined p'"
    "lp_Subscribe L t p = (r, p') \<Longrightarrow> joined p' = joined p"
    "lp_RegisterTopicValidator L t v p = (r, p') \<Longrightarrow> joined p' = joined p"
  using assms by (auto simp: topic_laws_def dest!: spec [of _ t] spec [of _ p] split: if_splits)
    (metis snd_conv)+

lemma NewGossiper_failed_joined:
  assumes laws: "topic_laws L joined" and join: "lp_Join L t p = (Inr u, p1)"
    and failed: "NewGossiper L (Some hid) True t [WithValidator L v] p = (Inl err, p')"
  shows "t \<in> joined p'"
proof -
  have t1: "t \<in> joined p1" by (rule topic_lawsD(2) [OF laws join])
  obtain r2 p2 where p2: "lp_Subscribe L t p1 = (r2, p2)" by fastforce
  obtain r3 p3 where p3: "lp_RegisterTopicValidator L t (wrapValidator v) p2 = (r3, p3)" by fastforce
  have "p' = p2 \<or> p' = p3"
    using failed p2 p3 by (cases r2; cases r3) (auto simp: NewGossiper_def join WithValidator_def Let_def)
  then show ?thesis
    using t1 topic_lawsD(3) [OF laws p2] topic_lawsD(4) [OF laws p3] by auto
qed

text \<open>
  a start that fails after joining the topic cannot be repeated. \<open>NewGossiper\<close> does not
  close the topic it joined when the subscription or the validator is refused; the adapter drops
  its reference to it, and every later start on that pubsub fails at the join.
\<close>

lemma failed_start_blocks:
  assumes laws: "topic_laws L joined" and g: "ae_AppGenesis E = Some g"
    and ready: "i < 25" "ready_at poll cancelled i"
    and join: "lp_Join L (tx_topic g) p = (Inr (), p1)"
    and failed: "Start E L True poll cancelled (old, p) = (Inl err, new, p')"
  shows "new = None \<and> tx_topic g \<in> joined p' \<and>
    is_err (fst (Start E L client poll' cancelled' (new, p')))"
proof -
  obtain id where id: "fst (poll i) = Some id"
    using ready(2) by (auto simp: ready_at_def p2p_ready_def)
  have i: "i < maxRetries" using ready(1) by (simp add: maxRetries_def)
  have ng: "NewGossiper L (Some id) True (tx_topic g) [WithValidator L (gossip_validator E)] p = (Inl err, p')"
    and new: "new = None"
    using failed unfolding Start_ready [OF g i ready(2)] id by (simp_all split: prod.splits sum.splits)
  have t: "tx_topic g \<in> joined p'" by (rule NewGossiper_failed_joined [OF laws join ng])
  then have "is_err (fst (lp_Join L (tx_topic g) p'))" by (rule topic_lawsD(1) [OF laws])
  then have again: "is_err (fst (NewGossiper L h True (tx_topic g) opts p'))" for h opts
    by (auto simp: NewGossiper_def run_then_def is_err_iff split: option.splits prod.splits)
  have "is_err (fst (Start E L True poll' cancelled' (new, p')))"
  proof (cases "\<exists>i < maxRetries. ready_at poll' cancelled' i")
    case True
    then obtain k where k: "k < maxRetries" "ready_at poll' cancelled' k" by blast
    obtain e q where "NewGossiper L (fst (poll' k)) True (tx_topic g) [WithValidator L (gossip_validator E)] p' = (Inl e, q)"
      using again by (metis is_err_iff prod.collapse)
    then show ?thesis unfolding Start_ready [OF g k] by (simp add: is_err_iff)
  next
    case False
    then show ?thesis using Start_not_ready [OF False, of E L "(new, p')"] by (auto simp: is_err_iff)
  qed
  moreover have "is_err (fst (Start E L False poll' cancelled' (new, p')))"
    by (simp add: Start_def is_err_iff)
  ultimately show ?thesis using new t by (cases client) simp_all
qed

end
