(* ===== verification/MigrationRun.thy ===== *)
theory MigrationRun
  imports MigrationCmd
begin

text \<open>
  What a successful run of the migration command leaves behind: the state and exactly the block
  IDs of the migrated blocks in the execution store, so that the first block of the sequencer
  builds on the last CometBFT block, and a genesis file whose sequencer is a validator.
\<close>

subsection \<open>Block IDs\<close>

definition missing_above :: "(int64 \<Rightarrow> cmt_block option) \<Rightarrow> int64 \<Rightarrow> int64 \<Rightarrow> int64 set" where
  "missing_above load h n = {g. h < g \<and> g \<le> n \<and> load g = None}"

lemma finite_missing [simp]: "finite (missing_above load h n)"
  by (rule finite_subset [of _ "{h..n}"]) (auto simp: missing_above_def)

lemma missing_above_step:
  assumes "h \<le> n"
  shows "missing_above load h (n + 1) = (if load (n + 1) = None then insert (n + 1) (missing_above load h n) else missing_above load h n)"
proof -
  have "g \<le> n + 1 \<longleftrightarrow> g \<le> n \<or> g = n + 1" for g by auto
  then show ?thesis using assms by (auto simp: missing_above_def)
qed

lemma missing_above_self [simp]: "missing_above load n n = {}"
  by (auto simp: missing_above_def)

lemma card_missing_step:
  "h \<le> n \<Longrightarrow> card (missing_above load h (n + 1)) = card (missing_above load h n) + (if load (n + 1) = None then 1 else 0)"
proof -
  assume "h \<le> n"
  moreover have "n + 1 \<notin> missing_above load h n" by (simp add: missing_above_def)
  ultimately show ?thesis by (simp add: missing_above_step)
qed

lemma on_exec_frame:
  "on_exec f s = (r, s') \<Longrightarrow> f (mst_exec s) = (r, mst_exec s') \<and> mst_genesis s' = mst_genesis s \<and> mst_app s' = mst_app s"
  by (auto simp: on_exec_def split: prod.splits)

lemma on_evolve_frame:
  "on_evolve f s = (r, s') \<Longrightarrow> mst_exec s' = mst_exec s \<and> mst_genesis s' = mst_genesis s \<and> mst_app s' = mst_app s"
  by (auto simp: on_evolve_def split: prod.splits)

lemma on_appdb_frame: "on_appdb f s = (r, s') \<Longrightarrow> mst_exec s' = mst_exec s \<and> mst_genesis s' = mst_genesis s"
  by (auto simp: on_appdb_def split: prod.splits)

lemmas store_frames = on_exec_frame on_evolve_frame on_appdb_frame

lemma migrate_block_saves:
  assumes "migrate_block env block s = (Inr u, s')"
  shows "\<exists>bid. block_id_of (mc_x env) block = Inr bid \<and>
    SaveBlockID (mc_e env) (to_uint64 (hd_Height (bk_Header block))) bid (mst_exec s) = (Inr (), mst_exec s')"
  using assms by (auto simp: migrate_block_def run_then_Inr_iff Let_def dest!: store_frames split: prod.splits)

text \<open>What the loop leaves at a height: the block's ID when it is migrated, else what was there.\<close>

definition id_after ::
    "('w, 'd) migrate_env \<Rightarrow> nat \<Rightarrow> int64 \<Rightarrow> uint64 \<Rightarrow> block_id result \<Rightarrow> block_id result" where
  "id_after env missed n w old =
     (if 1 \<le> uint w \<and> uint w \<le> n
      then (case mc_LoadBlock env (uint w) of
              None \<Rightarrow> old
            | Some block \<Rightarrow>
                if missed + card (missing_above (mc_LoadBlock env) (uint w) n) < maxMissedBlock
                then block_id_of (mc_x env) block else old)
      else old)"

lemma id_after_low: "n < 1 \<Longrightarrow> id_after env missed n w old = old"
  by (auto simp: id_after_def)

lemma id_after_missed:
  assumes "mc_LoadBlock env (n + 1) = None"
  shows "id_after env missed (n + 1) w old = id_after env (missed + 1) n w old"
  using card_missing_step [of "uint w" n "mc_LoadBlock env"] assms
  by (cases "uint w = n + 1") (auto simp: id_after_def split: option.splits)

lemma id_after_found:
  assumes "mc_LoadBlock env (n + 1) = Some block" "missed < maxMissedBlock" "0 \<le> n"
    and "block_id_of (mc_x env) block = Inr bid"
  shows "id_after env missed (n + 1) w old = id_after env missed n w (if uint w = n + 1 then Inr bid else old)"
  using card_missing_step [of "uint w" n "mc_LoadBlock env"] assms
  by (cases "uint w = n + 1") (auto simp: id_after_def split: option.splits)

lemma migrate_blocks_ids:
  assumes codec: "codec_ok (mc_e env)"
    and heights: "\<forall>h b. mc_LoadBlock env h = Some b \<longrightarrow> hd_Height (bk_Header b) = h"
    and "migrate_blocks env n missed s = (Inr u, s')" and "\<forall>g. g |\<in>| missed \<longrightarrow> int n < g" and "n < 2 ^ 63"
  shows "GetBlockID (mc_e env) w (mst_exec s') = id_after env (fcard missed) (int n) w (GetBlockID (mc_e env) w (mst_exec s)) \<and>
    LoadState (mc_e env) (mst_exec s') = LoadState (mc_e env) (mst_exec s) \<and>
    GetBlockResponse (mc_e env) w (mst_exec s') = GetBlockResponse (mc_e env) w (mst_exec s)"
  using assms(3-5)
proof (induction n arbitrary: missed s)
  case 0
  then show ?case by (auto simp: id_after_def)
next
  case (Suc n)
  have H: "int (Suc n) = int n + 1" by simp
  show ?case
  proof (cases "fcard missed \<ge> maxMissedBlock")
    case True
    then have "s' = s" using Suc.prems(1) by (simp add: Let_def)
    then show ?thesis using True by (auto simp: id_after_def split: option.splits)
  next
    case few: False
    show ?thesis
    proof (cases "mc_LoadBlock env (int (Suc n))")
      case None
      have "int (Suc n) |\<notin>| missed" using Suc.prems(2) by blast
      then have "fcard (finsert (int (Suc n)) missed) = fcard missed + 1" by (simp add: fcard_finsert_if)
      moreover have "migrate_blocks env n (finsert (int (Suc n)) missed) s = (Inr u, s')"
        using Suc.prems(1) few None by (simp add: Let_def)
      moreover have "\<forall>g. g |\<in>| finsert (int (Suc n)) missed \<longrightarrow> int n < g" using Suc.prems(2) by fastforce
      ultimately show ?thesis
        using Suc.IH [of "finsert (int (Suc n)) missed" s] Suc.prems(3) id_after_missed [of env "int n"] None
        by (simp only: H)
    next
      case (Some block)
      then obtain s1 where s1: "migrate_block env block s = (Inr (), s1)" "migrate_blocks env n missed s1 = (Inr u, s')"
        using Suc.prems(1) few by (auto simp: Let_def run_then_Inr_iff)
      obtain bid where bid: "block_id_of (mc_x env) block = Inr bid"
        "SaveBlockID (mc_e env) (to_uint64 (int (Suc n))) bid (mst_exec s) = (Inr (), mst_exec s1)"
        using migrate_block_saves [OF s1(1)] heights Some by metis
      have "w = to_uint64 (int (Suc n)) \<longleftrightarrow> uint w = int n + 1"
        using uint_to_uint64 [of "int (Suc n)"] Suc.prems(3) by (auto simp: word_uint_eq_iff)
      then have "GetBlockID (mc_e env) w (mst_exec s1) = (if uint w = int n + 1 then Inr bid else GetBlockID (mc_e env) w (mst_exec s))"
        using es.get_put_id [OF codec bid(2), of w] by simp
      moreover have "\<forall>g. g |\<in>| missed \<longrightarrow> int n < g" using Suc.prems(2) by fastforce
      ultimately show ?thesis
        using Suc.IH [OF s1(2)] Suc.prems(3) id_after_found [of env "int n" block "fcard missed" bid] few Some bid(1)
          es.frame_put_id [OF bid(2), of w]
        by (simp only: H)
    qed
  qed
qed

lemma migrate_blocks_found:
  assumes "migrate_blocks env n {||} s = (Inr u, s')" and "mc_LoadBlock env (int n) = Some block" and "0 < n"
  shows "\<exists>bid. block_id_of (mc_x env) block = Inr bid"
  using assms by (cases n) (auto simp: Let_def run_then_Inr_iff maxMissedBlock_def fcard_fempty dest!: migrate_block_saves)

text \<open>The other steps of the command leave the execution store alone.\<close>

lemma createGenesis_frame:
  "createRollkitMigrationGenesis env comet s = (Inr u, s') \<Longrightarrow>
     mst_exec s' = mst_exec s \<and> mst_app s' = mst_app s"
  by (auto simp: createRollkitMigrationGenesis_def run_then_Inr_iff)

definition keeps :: "datastore \<Rightarrow> bytes option \<Rightarrow> ('w, 'd) migrate_state \<Rightarrow> bool" where
  "keeps m g s \<longleftrightarrow> mst_exec s = m \<and> mst_genesis s = g"

lemmas keeps_step = snd_run_then [where I = "keeps m g" for m g]

lemma keeps_ops:
  "keeps m g s \<Longrightarrow> keeps m g (snd (on_evolve f s))" "keeps m g s \<Longrightarrow> keeps m g (snd (on_appdb h s))"
  by (auto simp: on_evolve_def on_appdb_def keeps_def split: prod.splits)

lemma keeps_log [simp]:
  "keeps m g (log_action act s) = keeps m g s" "keeps m g (s\<lparr>mst_syncStarted := b\<rparr>) = keeps m g s"
  by (simp_all add: keeps_def log_action_def)

lemma seed_keeps: "keeps m g s \<Longrightarrow> keeps m g (snd (seed_sync_stores env h s))"
  unfolding seed_sync_stores_def Let_def
  by (intro keeps_step) (auto simp: keeps_ops split: prod.splits intro!: keeps_step)

lemma cleanup_keeps: "keeps m g s \<Longrightarrow> keeps m g (snd (cleanupMigrationState env s))"
  unfolding cleanupMigrationState_def by (intro keeps_step) (auto simp: keeps_ops)

lemma seed_frame:
  "seed_sync_stores env h s = (Inr u, s') \<Longrightarrow> mst_exec s' = mst_exec s \<and> mst_genesis s' = mst_genesis s"
  using seed_keeps [of "mst_exec s" "mst_genesis s" s env h] by (simp add: keeps_def)

lemma cleanup_frame:
  "cleanupMigrationState env s = (Inr u, s') \<Longrightarrow> mst_exec s' = mst_exec s \<and> mst_genesis s' = mst_genesis s"
  using cleanup_keeps [of "mst_exec s" "mst_genesis s" s env] by (simp add: keeps_def)

lemma migrate_genesis_frame: "migrate_blocks env n missed s = (Inr u, s') \<Longrightarrow> mst_genesis s' = mst_genesis s"
proof (induction n arbitrary: missed s)
  case (Suc n)
  have "migrate_block env b s = (Inr v, s1) \<Longrightarrow> mst_genesis s1 = mst_genesis s" for b v s1
    by (auto simp: migrate_block_def run_then_Inr_iff Let_def dest!: store_frames split: prod.splits)
  then show ?case
    using Suc by (fastforce simp: Let_def run_then_Inr_iff split: if_splits option.splits)
qed simp

text \<open>The execution store and the genesis file after the command, through its steps.\<close>

lemma migrate_to_evolve_steps:
  assumes "migrate_to_evolve env comet da s = (Inr u, s')"
  shows "\<exists>s1 s2 s3 s4. SaveState (mc_e env) (cmt_state.truncate comet) (mst_exec s) = (Inr (), mst_exec s1) \<and>
    mst_app s1 = mst_app s \<and> createRollkitMigrationGenesis env comet s1 = (Inr (), s2) \<and>
    mst_exec s3 = mst_exec s2 \<and> mst_genesis s3 = mst_genesis s2 \<and>
    migrate_blocks env (nat (st_LastBlockHeight comet)) {||} s3 = (Inr (), s4) \<and>
    mst_exec s' = mst_exec s4 \<and> mst_genesis s' = mst_genesis s2"
proof -
  obtain s1 rst s2 s3 s4 s5 s6 s7 s8 where st:
    "on_exec (SaveState (mc_e env) (cmt_state.truncate comet)) s = (Inr (), s1)"
    "createRollkitMigrationGenesis env comet s1 = (Inr (), s2)"
    "on_evolve (mc_NewBatch env) s2 = (Inr (), s3)"
    "migrate_blocks env (nat (st_LastBlockHeight comet)) {||} s3 = (Inr (), s4)"
    "on_evolve (mc_SetHeight env (to_uint64 (st_LastBlockHeight comet))) s4 = (Inr (), s5)"
    "on_evolve (mc_UpdateState env rst) s5 = (Inr (), s6)"
    "on_evolve (mc_Commit env) s6 = (Inr (), s7)"
    "seed_sync_stores env (to_uint64 (st_LastBlockHeight comet)) s7 = (Inr (), s8)"
    "cleanupMigrationState env s8 = (Inr u, s')"
    using assms by (auto simp: migrate_to_evolve_def Let_def run_then_Inr_iff)
  show ?thesis
    by (rule exI [of _ s1], rule exI [of _ s2], rule exI [of _ s3], rule exI [of _ s4])
      (use st(2,4) on_exec_frame [OF st(1)] on_evolve_frame [OF st(3)] on_evolve_frame [OF st(5)]
        on_evolve_frame [OF st(6)] on_evolve_frame [OF st(7)] seed_frame [OF st(8)] cleanup_frame [OF st(9)]
        migrate_genesis_frame [OF st(4)] in simp)
qed

text \<open>The state and the block IDs in the execution store after the command.\<close>

lemma migrate_to_evolve_store:
  assumes codec: "codec_ok (mc_e env)"
    and heights: "\<forall>h b. mc_LoadBlock env h = Some b \<longrightarrow> hd_Height (bk_Header b) = h"
    and last: "st_LastBlockHeight comet < 2 ^ 63"
    and run: "migrate_to_evolve env comet da s = (Inr (), s')"
  shows "LoadState (mc_e env) (mst_exec s') = Inr (cmt_state.truncate comet)"
    and "GetBlockResponse (mc_e env) w (mst_exec s') = GetBlockResponse (mc_e env) w (mst_exec s)"
    and "GetBlockID (mc_e env) w (mst_exec s') =
      id_after env 0 (st_LastBlockHeight comet) w (GetBlockID (mc_e env) w (mst_exec s))"
proof -
  let ?n = "st_LastBlockHeight comet"
  obtain s1 s2 s3 s4 where st: "SaveState (mc_e env) (cmt_state.truncate comet) (mst_exec s) = (Inr (), mst_exec s1)"
    "createRollkitMigrationGenesis env comet s1 = (Inr (), s2)" "mst_exec s3 = mst_exec s2"
    "migrate_blocks env (nat ?n) {||} s3 = (Inr (), s4)" "mst_exec s' = mst_exec s4"
    using migrate_to_evolve_steps [OF run] by blast
  have e3: "mst_exec s3 = mst_exec s1" using st(3) createGenesis_frame [OF st(2)] by simp
  have n: "nat ?n < 2 ^ 63" using last by (cases "0 \<le> ?n") (auto simp: nat_less_iff)
  note ids = migrate_blocks_ids [OF codec heights st(4) _ n, folded st(5)]
  show "GetBlockID (mc_e env) w (mst_exec s') = id_after env 0 ?n w (GetBlockID (mc_e env) w (mst_exec s))"
    using ids [of w] es.frame_save [OF st(1)] e3 by (cases "0 \<le> ?n") (simp_all add: id_after_low fcard_fempty)
  show "LoadState (mc_e env) (mst_exec s') = Inr (cmt_state.truncate comet)"
    using ids [of 0] es.load_save [OF codec st(1)] e3 by simp
  show "GetBlockResponse (mc_e env) w (mst_exec s') = GetBlockResponse (mc_e env) w (mst_exec s)"
    using ids [of w] es.frame_save [OF st(1)] e3 by simp
qed

text \<open>A last block that is present is saved with its ID.\<close>

lemma migrate_to_evolve_last:
  assumes codec: "codec_ok (mc_e env)"
    and heights: "\<forall>h b. mc_LoadBlock env h = Some b \<longrightarrow> hd_Height (bk_Header b) = h"
    and last: "1 \<le> st_LastBlockHeight comet" "st_LastBlockHeight comet < 2 ^ 63"
      "mc_LoadBlock env (st_LastBlockHeight comet) = Some block"
    and run: "migrate_to_evolve env comet da s = (Inr (), s')"
  shows "\<exists>bid. block_id_of (mc_x env) block = Inr bid \<and>
    GetBlockID (mc_e env) (to_uint64 (st_LastBlockHeight comet)) (mst_exec s') = Inr bid"
    and "1 < to_uint64 (st_LastBlockHeight comet) + 1"
proof -
  let ?n = "st_LastBlockHeight comet"
  obtain s3 s4 where "migrate_blocks env (nat ?n) {||} s3 = (Inr (), s4)"
    using migrate_to_evolve_steps [OF run] by blast
  then obtain bid where bid: "block_id_of (mc_x env) block = Inr bid"
    using migrate_blocks_found [of env "nat ?n" s3 "()" s4 block] last by auto
  have u: "uint (to_uint64 ?n) = ?n" using last by (intro uint_to_uint64) auto
  show "\<exists>bid. block_id_of (mc_x env) block = Inr bid \<and> GetBlockID (mc_e env) (to_uint64 ?n) (mst_exec s') = Inr bid"
    using migrate_to_evolve_store(3) [OF codec heights last(2) run, of "to_uint64 ?n"] last bid
    by (simp add: id_after_def u maxMissedBlock_def)
  have "to_uint64 ?n \<noteq> - 1" using u last by (auto simp: unsigned_minus_1_eq_mask mask_eq_exp_minus_1)
  moreover have "1 \<le> unat (to_uint64 ?n)" using unat_to_uint64 [of ?n] last by auto
  ultimately show "1 < to_uint64 ?n + 1" by (simp add: word_less_nat_alt unat_inc)
qed

text \<open>
  C16: what the migration command leaves in the execution store. After a successful run the
  store holds the CometBFT state; a height from 1 up to the last one has the ID of its CometBFT
  block exactly when the block is in the block store and fewer than 50 of the heights above it
  are missing there, every other height is as before, and so are all block responses. When the
  last block is present, the adapter finds it as the last commit of the block after the
  migration.
\<close>

theorem migration_block_ids:
  assumes codec: "codec_ok (mc_e env)"
    and heights: "\<forall>h b. mc_LoadBlock env h = Some b \<longrightarrow> hd_Height (bk_Header b) = h"
    and last: "st_LastBlockHeight comet < 2 ^ 63"
    and run: "migrate_to_evolve env comet da s = (Inr (), s')"
  shows "LoadState (mc_e env) (mst_exec s') = Inr (cmt_state.truncate comet) \<and>
    (\<forall>w. GetBlockResponse (mc_e env) w (mst_exec s') = GetBlockResponse (mc_e env) w (mst_exec s) \<and>
       GetBlockID (mc_e env) w (mst_exec s') =
         (case (if 1 \<le> uint w \<and> uint w \<le> st_LastBlockHeight comet then mc_LoadBlock env (uint w) else None) of
            None \<Rightarrow> GetBlockID (mc_e env) w (mst_exec s)
          | Some block \<Rightarrow>
              if card {g. uint w < g \<and> g \<le> st_LastBlockHeight comet \<and> mc_LoadBlock env g = None} < 50
              then block_id_of (mc_x env) block else GetBlockID (mc_e env) w (mst_exec s))) \<and>
    (\<forall>block header getHeader gen. 1 \<le> st_LastBlockHeight comet \<and>
       mc_LoadBlock env (st_LastBlockHeight comet) = Some block \<and>
       getHeader (to_uint64 (st_LastBlockHeight comet)) = Inr header \<longrightarrow>
       (\<exists>c. GetLastCommit (mc_e env) getHeader gen (to_uint64 (st_LastBlockHeight comet) + 1) (mst_exec s') = Inr c \<and>
          block_id_of (mc_x env) block = Inr (cm_BlockID c)))"
proof -
  let ?n = "st_LastBlockHeight comet"
  have "\<exists>c. GetLastCommit (mc_e env) getHeader gen (to_uint64 ?n + 1) (mst_exec s') = Inr c \<and>
      block_id_of (mc_x env) block = Inr (cm_BlockID c)"
    if h: "1 \<le> ?n" "mc_LoadBlock env ?n = Some block" "getHeader (to_uint64 ?n) = Inr header" for block header getHeader gen
    using migrate_to_evolve_last [OF codec heights h(1) last h(2) run] h(3)
    by (auto simp: GetLastCommit_def Let_def)
  then show ?thesis
    using migrate_to_evolve_store [OF codec heights last run]
    by (auto simp: id_after_def missing_above_def maxMissedBlock_def split: option.splits)
qed

subsection \<open>The genesis file\<close>

text \<open>What the sequencer read from the migration manager's state is.\<close>

definition stored_sequencer :: "('w, 'd) migrate_env \<Rightarrow> 'd \<Rightarrow> cmt_pubkey \<Rightarrow> bool" where
  "stored_sequencer env appDB pk \<longleftrightarrow>
     (\<exists>bs sq sq' a sdk. mc_dbGet env (item_key SequencerKey) appDB = Inr bs \<and>
        mc_UnmarshalSequencer env (drop 2 bs) = Inr sq \<and> Sequencer_UnpackInterfaces (mc_mx env) sq = Inr sq' \<and>
        seq_ConsensusPubkey sq' = Some a \<and> any_cached a = Some sdk \<and> mc_ToCmtPubKeyInterface env sdk = Inr pk)"

lemma getSequencer_found:
  assumes "getSequencerFromMigrationMngrState env comet appDB = Inr info"
  shows "stored_sequencer env appDB (si_PubKey info) \<and> si_Address info = mc_pk_Address env (si_PubKey info) \<and>
    si_Address info \<in> cv_Address ` set (vs_Validators (st_LastValidators comet))"
proof -
  let ?vs = "vs_Validators (st_LastValidators comet)"
  obtain bs sq sq' where r: "mc_dbGet env (item_key SequencerKey) appDB = Inr bs"
    "mc_UnmarshalSequencer env (drop 2 bs) = Inr sq" "Sequencer_UnpackInterfaces (mc_mx env) sq = Inr sq'"
    "(case seq_ConsensusPubkey sq' of
        None \<Rightarrow> Inl (ErrorString ''sequencer consensus public key is nil'')
      | Some pubKeyAny \<Rightarrow>
     (case any_cached pubKeyAny of
        None \<Rightarrow> Inl (ErrorString ''failed to get SDK pubkey from cached value'')
      | Some sdkPubKey \<Rightarrow>
     and_then (wrap ''failed to convert public key to CometBFT format'' (mc_ToCmtPubKeyInterface env sdkPubKey)) (\<lambda>pubKey.
     let addr = mc_pk_Address env pubKey in
     if list_ex (\<lambda>v. cv_Address v = addr) ?vs then Inr \<lparr>si_Address = addr, si_PubKey = pubKey\<rparr>
     else Inl (ErrorString ''sequencer from migrationmngr state is not found in the validator set'')))) = Inr info"
    using assms unfolding getSequencerFromMigrationMngrState_def and_then_Inr_iff wrap_Inr_iff
    by (auto simp only: and_then_Inr_iff wrap_Inr_iff sum.simps split: if_split_asm)
  then obtain a sdk where "seq_ConsensusPubkey sq' = Some a" "any_cached a = Some sdk"
    by (cases "seq_ConsensusPubkey sq'"; cases "any_cached (the (seq_ConsensusPubkey sq'))") auto
  then have "mc_ToCmtPubKeyInterface env sdk = Inr (si_PubKey info) \<and> si_Address info = mc_pk_Address env (si_PubKey info) \<and>
      list_ex (\<lambda>v. cv_Address v = si_Address info) ?vs"
    using r(4) by (auto simp: and_then_Inr_iff Let_def split: if_splits)
  moreover from this have "stored_sequencer env appDB (si_PubKey info)"
    using r(1-3) \<open>seq_ConsensusPubkey sq' = Some a\<close> \<open>any_cached a = Some sdk\<close> unfolding stored_sequencer_def by blast
  ultimately show ?thesis unfolding list_ex_iff by (metis imageI)
qed

text \<open>
  The genesis file names a validator as sequencer. After a successful run the next start
  loads from the file a genesis with the chain ID and the initial height of the CometBFT state,
  whose sequencer address belongs to one of the last validators: the only one, or, when there
  are several, the one with the key that the migration manager stored.
\<close>

lemma migrate_to_evolve_genesis:
  assumes json: "\<forall>g bs. mc_MarshalGenesis env g = Inr bs \<longrightarrow> mc_UnmarshalGenesis env bs = Inr g"
    and run: "migrate_to_evolve env comet da s = (Inr (), s')"
  shows "\<exists>g pk. loadEvolveMigrationGenesis env (mst_genesis s') = Inr (Some g) \<and>
    eg_ChainID g = st_ChainID comet \<and> eg_InitialHeight g = to_uint64 (cst_InitialHeight comet) \<and>
    eg_SequencerPubKey g = Some pk \<and>
    eg_SequencerAddr g \<in> cv_Address ` set (vs_Validators (st_LastValidators comet)) \<and>
    (case vs_Validators (st_LastValidators comet) of
       [v] \<Rightarrow> pk = cv_PubKey v
     | _ \<Rightarrow> stored_sequencer env (mst_app s) pk \<and> eg_SequencerAddr g = mc_pk_Address env pk)"
proof -
  obtain s1 s2 where st: "createRollkitMigrationGenesis env comet s1 = (Inr (), s2)" "mst_app s1 = mst_app s"
    "mst_genesis s' = mst_genesis s2"
    using migrate_to_evolve_steps [OF run] by blast
  obtain g bs where g: "migration_genesis env comet (mst_app s) = Inr g" "mc_MarshalGenesis env g = Inr bs"
    "mst_genesis s2 = Some bs"
    using st(1,2) by (auto simp: createRollkitMigrationGenesis_def run_then_Inr_iff)
  have load: "loadEvolveMigrationGenesis env (mst_genesis s') = Inr (Some g)"
    using json g(2,3) st(3) by (simp add: loadEvolveMigrationGenesis_def)
  show ?thesis
  proof (cases "vs_Validators (st_LastValidators comet)")
    case (Cons v vs)
    show ?thesis
    proof (cases vs)
      case Nil
      then show ?thesis using g(1) load Cons by (auto simp: migration_genesis_def)
    next
      case (Cons v' vs')
      note vs = \<open>vs_Validators (st_LastValidators comet) = v # vs\<close> [unfolded Cons]
      obtain info where info: "getSequencerFromMigrationMngrState env comet (mst_app s) = Inr info"
        "g = \<lparr>eg_ChainID = st_ChainID comet, eg_InitialHeight = to_uint64 (cst_InitialHeight comet),
          eg_GenesisTime = int64_wrap (cst_LastBlockTime comet), eg_SequencerAddr = si_Address info,
          eg_SequencerPubKey = Some (si_PubKey info)\<rparr>"
        using g(1) vs by (auto simp: migration_genesis_def and_then_Inr_iff)
      note found = getSequencer_found [OF info(1)]
      have "eg_SequencerAddr g \<in> cv_Address ` set (vs_Validators (st_LastValidators comet))" 
        unfolding info(2) evolveMigrationGenesis.select_convs using found by blast
      moreover have "(case vs_Validators (st_LastValidators comet) of [v] \<Rightarrow> si_PubKey info = cv_PubKey v
          | _ \<Rightarrow> stored_sequencer env (mst_app s) (si_PubKey info) \<and> eg_SequencerAddr g = mc_pk_Address env (si_PubKey info))"
        using found info(2) vs by simp
      ultimately show ?thesis
        by (intro exI [of _ g] exI [of _ "si_PubKey info"] conjI) (use load info(2) in simp_all)
    qed
  qed (use g(1) in \<open>simp add: migration_genesis_def\<close>)
qed

subsection \<open>The two bytes before the stored sequencer\<close>

text \<open>
  The stored value has two unsigned varints before the message, the second its length.
  \<open>getSequencerFromMigrationMngrState\<close> skips two bytes (its comment asks for a proper decoding):
  what it decodes is the message exactly when both varints are a single byte, so it is not for a
  message of 128 bytes or more.
\<close>

fun uvarint :: "nat \<Rightarrow> bytes" where
  "uvarint n = (if n < 128 then [of_nat n] else of_nat (128 + n mod 128) # uvarint (n div 128))"

declare uvarint.simps [simp del]

lemma uvarint_length: "length (uvarint n) \<ge> 1" "length (uvarint n) = 1 \<longleftrightarrow> n < 128"
proof -
  show ge: "length (uvarint n) \<ge> 1" for n by (subst uvarint.simps) simp
  show "length (uvarint n) = 1 \<longleftrightarrow> n < 128"
    using ge [of "n div 128"] by (subst uvarint.simps) auto
qed

lemma sequencer_container_decoded_iff:
  "drop 2 (uvarint t @ uvarint (length msg) @ msg) = msg \<longleftrightarrow> t < 128 \<and> length msg < 128"
proof
  assume "drop 2 (uvarint t @ uvarint (length msg) @ msg) = msg"
  then have "length (drop 2 (uvarint t @ uvarint (length msg) @ msg)) = length msg" by simp
  then show "t < 128 \<and> length msg < 128"
    using uvarint_length(1) [of t] uvarint_length(1) [of "length msg"]
      uvarint_length(2) [of t] uvarint_length(2) [of "length msg"] by auto
next
  assume "t < 128 \<and> length msg < 128"
  then show "drop 2 (uvarint t @ uvarint (length msg) @ msg) = msg"
    by (simp add: uvarint.simps [of t] uvarint.simps [of "length msg"])
qed

end
