(* ===== verification/MigrationStores.thy ===== *)
theory MigrationStores
  imports MigrationRun NodeCmds
begin

text \<open>
  The migration command as a whole (\<open>MigrateToEvolveCmd\<close> of \<open>server/migration_cmd.go\<close>): the stores
  it opens before it runs the body of \<open>MigrationCmd\<close>, and the deferred function that stops and
  closes them. What the file system and the constructors of the stores return are the fields of
  \<open>store_deps\<close>; the log of the state records every handle acquired and released, in order.
\<close>

subsection \<open>Opening\<close>

datatype file_stat = StatOk | StatNotExist | StatFailed go_error

definition fileExists :: "(string \<Rightarrow> file_stat) \<Rightarrow> string \<Rightarrow> bool result" where
  "fileExists stat filename =
     (case stat filename of
        StatNotExist \<Rightarrow> Inr False
      | StatFailed err \<Rightarrow> Inl (Wrap ''error checking file'' err)
      | StatOk \<Rightarrow> Inr True)"

record store_deps =
  sd_ParseConfig :: "unit result"
  sd_Stat :: "string \<Rightarrow> file_stat"
  sd_NewDB :: "string \<Rightarrow> unit result"
  sd_LoadState :: "comet_state result"
  sd_NewKVStore :: "unit result"
  sd_NewDataSync :: "unit result"
  sd_NewHeaderSync :: "unit result"
  sd_DaFlag :: "uint64 result"

definition require_file :: "store_deps \<Rightarrow> string \<Rightarrow> string \<Rightarrow> unit result" where
  "require_file d file msg =
     (case fileExists (sd_Stat d) file of
        Inl err \<Rightarrow> Inl (Wrap msg err)
      | Inr ok \<Rightarrow> if \<not> ok then Inl (ErrorString msg) else Inr ())"

definition loadStateAndBlockStore ::
    "store_deps \<Rightarrow> ('w, 'd) migrate_state \<Rightarrow> unit result \<times> ('w, 'd) migrate_state" where
  "loadStateAndBlockStore d s =
     run_then (require_file d ''blockstore.db'' ''no blockstore found'', s) (\<lambda>_ s.
     run_then (sd_NewDB d ''blockstore'', s) (\<lambda>_ s.
     let s = log_action (Acquire CometBlocks) s in
     run_then (require_file d ''state.db'' ''no statestore found'', s) (\<lambda>_ s.
     run_then (sd_NewDB d ''state'', s) (\<lambda>_ s.
     (Inr (), log_action (Acquire CometStates) s)))))"

definition loadRollkitStores ::
    "store_deps \<Rightarrow> ('w, 'd) migrate_state \<Rightarrow> unit result \<times> ('w, 'd) migrate_state" where
  "loadRollkitStores d s =
     run_then (wrap ''failed to create rollkit store'' (sd_NewKVStore d), s) (\<lambda>_ s.
     let s = log_action (Acquire EvolveStore) s in
     run_then (sd_NewDataSync d, s) (\<lambda>_ s.
     run_then (sd_NewHeaderSync d, s) (\<lambda>_ s.
     (Inr (), s))))"

subsection \<open>The command\<close>

definition close_stores :: "('w, 'd) migrate_state \<Rightarrow> ('w, 'd) migrate_state" where
  "close_stores s =
     (let s = (if mst_syncStarted s
               then log_action (Release DataSync) (log_action (Release HeaderSync) s) else s);
          s = log_action (Release EvolveStore) s;
          s = log_action (Release CometBlocks) s
      in log_action (Release CometStates) s)"

definition MigrateToEvolveCmd ::
    "store_deps \<Rightarrow> ('w, 'd) migrate_env \<Rightarrow> ('w, 'd) migrate_state \<Rightarrow> unit result \<times> ('w, 'd) migrate_state" where
  "MigrateToEvolveCmd d env s =
     run_then (sd_ParseConfig d, s) (\<lambda>_ s.
     run_then (loadStateAndBlockStore d s) (\<lambda>_ s.
     run_then (sd_LoadState d, s) (\<lambda>cometBFTstate s.
     run_then (loadRollkitStores d s) (\<lambda>_ s.
     deferred close_stores
       (migrate_to_evolve (env\<lparr>mc_appExists := fileExists (sd_Stat d) ''application.db''\<rparr>)
          cometBFTstate (sd_DaFlag d) s)))))"

subsection \<open>What the body acquires\<close>

definition logs :: "migrate_action list \<Rightarrow> bool \<Rightarrow> ('w, 'd) migrate_state \<Rightarrow> bool" where
  "logs l b s \<longleftrightarrow> mst_log s = l \<and> mst_syncStarted s = b"

lemma logs_ops:
  "logs l b s \<Longrightarrow> logs l b (snd (on_evolve f s))" "logs l b s \<Longrightarrow> logs l b (snd (on_exec g s))"
  "logs l b s \<Longrightarrow> logs l b (snd (on_appdb h s))"
  by (auto simp: on_evolve_def on_exec_def on_appdb_def logs_def split: prod.splits)

lemma logs_log_action:
  "logs l b s \<Longrightarrow> logs (l @ [act]) b (log_action act s)"
  "logs l b s \<Longrightarrow> logs l c (s\<lparr>mst_syncStarted := c\<rparr>)"
  by (simp_all add: logs_def log_action_def)

lemmas logs_step = snd_run_then [where I = "logs l b" for l b]

lemma logs_genesis: "logs l b s \<Longrightarrow> logs l b (snd (createRollkitMigrationGenesis env comet s))"
  unfolding createRollkitMigrationGenesis_def by (intro logs_step) (auto simp: logs_def)

lemma logs_block: "logs l b s \<Longrightarrow> logs l b (snd (migrate_block env block s))"
  unfolding migrate_block_def by (auto simp: logs_ops split: prod.splits intro!: logs_step)

lemma logs_blocks: "logs l b s \<Longrightarrow> logs l b (snd (migrate_blocks env n missed s))"
  by (induction n arbitrary: missed s) (auto simp: Let_def logs_block split: option.splits intro!: logs_step)

lemma logs_cleanup: "logs l b s \<Longrightarrow> logs l b (snd (cleanupMigrationState env s))"
  unfolding cleanupMigrationState_def by (intro logs_step) (auto simp: logs_ops)

text \<open>
  An outcome of the body: the sync stores are started in order, a success means both are, and the
  flag for the deferred function is set exactly when both are.
\<close>

definition body_outcome :: "migrate_action list \<Rightarrow> unit result \<times> ('w, 'd) migrate_state \<Rightarrow> bool" where
  "body_outcome l p \<longleftrightarrow> logs (l @ [Acquire HeaderSync, Acquire DataSync]) True (snd p) \<or>
     is_err (fst p) \<and> (logs l False (snd p) \<or> logs (l @ [Acquire HeaderSync]) False (snd p))"

lemma run_then_outcome:
  assumes "J (snd p)" and "\<And>err s. J s \<Longrightarrow> Q (Inl err, s)" and "\<And>a s. J s \<Longrightarrow> Q (f a s)"
  shows "Q (run_then p f)"
  using assms by (cases p; cases "fst p") (auto simp: run_then_def)

lemmas logs_outcome = run_then_outcome [where J = "logs l b" and Q = "body_outcome l'" for l b l']

lemma body_outcome_failed: "logs l False s \<Longrightarrow> body_outcome l (Inl err, s)"
  by (simp add: body_outcome_def)

lemma before_seed:
  "logs l False (snd p) \<Longrightarrow> (\<And>a s. logs l False s \<Longrightarrow> body_outcome l (f a s)) \<Longrightarrow> body_outcome l (run_then p f)"
  by (rule logs_outcome) (auto intro: body_outcome_failed)

lemma seed_outcome:
  assumes "logs l False s"
    and "\<And>s. logs (l @ [Acquire HeaderSync, Acquire DataSync]) True s \<Longrightarrow> body_outcome l (f () s)"
  shows "body_outcome l (run_then (seed_sync_stores env h s) f)"
proof -
  let ?l2 = "l @ [Acquire HeaderSync, Acquire DataSync]"
  have started: "logs ?l2 True (snd (seed_sync_stores env h s)) \<or>
      is_err (fst (seed_sync_stores env h s)) \<and> (logs l False (snd (seed_sync_stores env h s)) \<or>
        logs (l @ [Acquire HeaderSync]) False (snd (seed_sync_stores env h s)))"
    unfolding seed_sync_stores_def body_outcome_def [symmetric] Let_def
    apply (rule logs_outcome [of l False], simp add: logs_ops assms(1), erule body_outcome_failed)
    apply (rule logs_outcome [of "l @ [Acquire HeaderSync]" False])
      apply (simp add: logs_ops logs_log_action)
     apply (simp add: body_outcome_def)
    subgoal for a s1 b s2
      using logs_log_action(2) [OF logs_log_action(1) [of "l @ [Acquire HeaderSync]" False s2 "Acquire DataSync"], of True]
      by (auto simp: body_outcome_def logs_ops intro!: logs_step)
    done
  then show ?thesis using assms(2)
    by (cases "seed_sync_stores env h s"; cases "fst (seed_sync_stores env h s)")
      (auto simp: body_outcome_def run_then_def)
qed

lemma migrate_outcome:
  assumes l: "logs l False s"
  shows "body_outcome l (migrate_to_evolve env comet da s)"
  unfolding migrate_to_evolve_def Let_def
  by (intro seed_outcome before_seed)
    (simp_all add: logs_ops logs_genesis logs_blocks logs_cleanup l body_outcome_def [of l "wrapping _ _"])

subsection \<open>What the command leaves open\<close>

abbreviation opened_log :: "migrate_action list" where
  "opened_log \<equiv> [Acquire CometBlocks, Acquire CometStates, Acquire EvolveStore]"








text \<open>The three failures that leave something open, and where they happen.\<close>

lemma header_sync_left_running:
  assumes "migrate_to_evolve env comet da s = (Inl err, s')" "mst_log s = opened_log" "\<not> mst_syncStarted s"
    and "mst_log s' = opened_log @ [Acquire HeaderSync]"
  shows "Release HeaderSync \<notin> set (mst_log (close_stores s'))"
  using migrate_outcome [of opened_log s env comet da] assms
  by (auto simp: body_outcome_def logs_def close_stores_def log_action_def Let_def)

lemma block_store_left_open:
  assumes "sd_ParseConfig d = Inr ()" "sd_Stat d ''blockstore.db'' = StatOk" "sd_NewDB d ''blockstore'' = Inr ()"
    and "sd_Stat d ''state.db'' = StatNotExist"
  shows "MigrateToEvolveCmd d env s = (Inl (ErrorString ''no statestore found''), log_action (Acquire CometBlocks) s)"
  using assms by (simp add: MigrateToEvolveCmd_def loadStateAndBlockStore_def require_file_def fileExists_def Let_def)

end
