(* ===== verification/MigrationRunExample.thy ===== *)
theory MigrationRunExample
  imports MigrationStores DemoAdapter
begin

text \<open>
  The migration command on a chain at height 2 with one validator, whose node pruned its first
  block, and the theorems applied to its run.
\<close>

definition demo_comet :: comet_state where
  "demo_comet = \<lparr>st_ChainID = ''demo'', st_LastBlockHeight = 2, st_Validators = demo_valset,
     st_NextValidators = demo_valset, st_LastValidators = demo_valset, st_LastHeightValidatorsChanged = 1,
     st_ConsensusParams = chain_params, st_LastHeightConsensusParamsChanged = 1, st_AppHash = [7],
     cst_InitialHeight = 1, cst_LastBlockTime = 5, cst_VersionBlock = 11, cst_VersionApp = 1\<rparr>"

definition demo_comet_block :: cmt_block where
  "demo_comet_block = \<lparr>bk_Header = demo_cmt_header 2, bk_Txs = [[4]], bk_Evidence = [],
     bk_LastCommit = \<lparr>cm_Height = 1, cm_Round = 0, cm_BlockID = empty_block_id,
       cm_Signatures = [\<lparr>cs_BlockIDFlag = BlockIDFlagCommit, cs_ValidatorAddress = [1], cs_Timestamp = 0, cs_Signature = [6]\<rparr>]\<rparr>\<rparr>"

definition demo_file :: evolveMigrationGenesis where
  "demo_file = \<lparr>eg_ChainID = ''demo'', eg_InitialHeight = 1, eg_GenesisTime = 5, eg_SequencerAddr = [1],
     eg_SequencerPubKey = Some (CmtPubKey ''ed25519'' [9])\<rparr>"

definition demo_mig_ext :: mig_ext where
  "demo_mig_ext = \<lparr>mx_decode = (\<lambda>m. m), mx_UnpackAny = Inr, mx_ToCmtProtoPublicKey = (\<lambda>pk. Inr (CmtPubKey (pk_type pk) (pk_bytes pk))),
     mx_any_String = (\<lambda>_. []), mx_any_Equal = (=), mx_UpdateZero = (\<lambda>_. Inl (ErrorString ''key''))\<rparr>"

definition demo_migrate :: "(unit, bytes) migrate_env" where
  "demo_migrate = \<lparr>mc_x = demo_x, mc_e = demo_e, mc_mx = demo_mig_ext,
     mc_LoadBlock = (\<lambda>h. if h = 2 then Some demo_comet_block else None),
     mc_ToCmtPubKeyInterface = (\<lambda>pk. Inr (CmtPubKey (pk_type pk) (pk_bytes pk))), mc_pk_Address = (\<lambda>_. [1]),
     mc_UnmarshalSequencer = (\<lambda>_. Inl (ErrorString ''sequencer'')), mc_appExists = Inr True, mc_openApp = Inr (),
     mc_dbGet = (\<lambda>_ d. Inr d), mc_dbDelete = (\<lambda>_ d. (Inr (), d)),
     mc_MarshalGenesis = (\<lambda>g. if g = demo_file then Inr [1] else Inl (ErrorString ''genesis'')),
     mc_UnmarshalGenesis = (\<lambda>_. Inr demo_file), mc_WriteFile = (\<lambda>_. Inr ()),
     mc_NewBatch = (\<lambda>w. (Inr (), w)), mc_SaveBlockData = (\<lambda>_ _ _ w. (Inr (), w)), mc_SetHeight = (\<lambda>_ w. (Inr (), w)),
     mc_UpdateState = (\<lambda>_ w. (Inr (), w)), mc_Commit = (\<lambda>w. (Inr (), w)), mc_headerStart = (\<lambda>w. (Inr (), w)),
     mc_dataStart = (\<lambda>w. (Inr (), w)), mc_headerHeight = (\<lambda>_. 2), mc_GetBlockData = (\<lambda>_ _. Inl (ErrorString ''block'')),
     mc_headerAppend = (\<lambda>_ w. (Inr (), w)), mc_dataAppend = (\<lambda>_ w. (Inr (), w))\<rparr>"

definition demo_before :: "(unit, bytes) migrate_state" where
  "demo_before = \<lparr>mst_exec = fmempty, mst_evolve = (), mst_genesis = None, mst_app = [],
     mst_syncStarted = False, mst_log = []\<rparr>"

lemma demo_comet_truncate: "cmt_state.truncate demo_comet = chain_state 2"
  by (simp add: demo_comet_def chain_state_def cmt_state.truncate_def)

lemma demo_block_id: "block_id_of demo_x demo_comet_block = Inr \<lparr>bid_Hash = [2], bid_psh_Total = 1, bid_psh_Hash = []\<rparr>"
  by (simp add: block_id_of_def demo_x_def demo_comet_block_def demo_cmt_header_def)

lemma demo_migrate_simps [simp]:
  "mc_x demo_migrate = demo_x" "mc_e demo_migrate = demo_e"
  "mc_LoadBlock demo_migrate h = (if h = 2 then Some demo_comet_block else None)"
  by (simp_all add: demo_migrate_def)

lemma demo_genesis_written:
  "createRollkitMigrationGenesis demo_migrate demo_comet s = (Inr (), s\<lparr>mst_genesis := Some [1]\<rparr>)"
proof -
  have "migration_genesis demo_migrate demo_comet d = Inr demo_file" for d
    by (simp add: migration_genesis_def demo_comet_def demo_valset_def demo_validator_def demo_file_def to_uint64_def
        int64_wrap_id int64_range_def)
  then show ?thesis by (simp add: createRollkitMigrationGenesis_def) (simp add: demo_migrate_def)
qed

lemma demo_blocks:
  "migrate_blocks demo_migrate 2 {||} s = (Inr (), s\<lparr>mst_exec := fmupd (blockIDKey 2) [2] (mst_exec s)\<rparr>)"
proof -
  have "migrate_block demo_migrate demo_comet_block s = (Inr (), s\<lparr>mst_exec := fmupd (blockIDKey 2) [2] (mst_exec s)\<rparr>)" for s
    unfolding migrate_block_def Let_def demo_migrate_simps demo_block_id
    by (simp add: demo_migrate_def on_evolve_def on_exec_def SaveBlockID_def demo_e_def wrapping_def
        demo_comet_block_def demo_cmt_header_def to_uint64_def split: prod.splits)
  then show ?thesis by (simp add: numeral_2_eq_2 Let_def fcard_fempty maxMissedBlock_def)
qed

lemma demo_migration_log:
  "migrate_to_evolve demo_migrate demo_comet (Inr 1) (demo_before\<lparr>mst_log := l\<rparr>) =
     (Inr (), demo_before\<lparr>mst_exec := fmupd (blockIDKey 2) [2] (fmupd stateKey [2] fmempty), mst_genesis := Some [1],
       mst_syncStarted := True, mst_log := l @ [Acquire HeaderSync, Acquire DataSync]\<rparr>)"
proof -
  have "SaveState demo_e (chain_state 2) fmempty = (Inr (), fmupd stateKey [2] fmempty)"
    by (simp add: SaveState_def demo_e_def chain_state_def)
  moreover have "nat (st_LastBlockHeight demo_comet) = 2" by (simp add: demo_comet_def)
  ultimately show ?thesis
    unfolding migrate_to_evolve_def Let_def demo_comet_truncate
    by (simp add: on_exec_def demo_before_def wrapping_def cometbftStateToRollkitState_def demo_genesis_written demo_blocks)
      (simp add: demo_migrate_def on_evolve_def on_appdb_def wrapping_def seed_sync_stores_def cleanupMigrationState_def open_app_def log_action_def)
qed

lemma demo_migration_result:
  "migrate_to_evolve demo_migrate demo_comet (Inr 1) demo_before =
     (Inr (), demo_before\<lparr>mst_exec := fmupd (blockIDKey 2) [2] (fmupd stateKey [2] fmempty), mst_genesis := Some [1],
       mst_syncStarted := True, mst_log := [Acquire HeaderSync, Acquire DataSync]\<rparr>)"
  using demo_migration_log [of "[]"] by (simp add: demo_before_def)

lemma demo_migration: "\<exists>s'. migrate_to_evolve demo_migrate demo_comet (Inr 1) demo_before = (Inr (), s')"
  using demo_migration_result by blast

theorem migration_block_ids_witness:
  "\<exists>s'. migrate_to_evolve demo_migrate demo_comet (Inr 1) demo_before = (Inr (), s') \<and>
     LoadState demo_e (mst_exec s') = Inr (chain_state 2) \<and>
     GetBlockID demo_e 2 (mst_exec s') = Inr \<lparr>bid_Hash = [2], bid_psh_Total = 1, bid_psh_Hash = []\<rparr> \<and>
     (\<exists>c. GetLastCommit demo_e (\<lambda>h. Inr (demo_header h)) None 3 (mst_exec s') = Inr c \<and> bid_Hash (cm_BlockID c) = [2])"
proof -
  obtain s' where run: "migrate_to_evolve demo_migrate demo_comet (Inr 1) demo_before = (Inr (), s')" using demo_migration by blast
  have n: "st_LastBlockHeight demo_comet = 2" by (simp add: demo_comet_def)
  have heights: "\<forall>h b. mc_LoadBlock demo_migrate h = Some b \<longrightarrow> hd_Height (bk_Header b) = h"
    by (simp add: demo_comet_block_def demo_cmt_header_def)
  have codec: "codec_ok (mc_e demo_migrate)" using demo_codec by simp
  have last: "st_LastBlockHeight demo_comet < 2 ^ 63" by (simp add: n)
  note ok = migration_block_ids [OF codec heights last run]
  have none: "{g :: int. 2 < g \<and> g \<le> 2 \<and> P g} = {}" for P by auto
  have u: "to_uint64 2 = 2" by (simp add: to_uint64_def)
  have "GetBlockID demo_e 2 (mst_exec s') = Inr \<lparr>bid_Hash = [2], bid_psh_Total = 1, bid_psh_Hash = []\<rparr>"
    using ok [THEN conjunct2, THEN conjunct1, rule_format, of 2] by (simp add: n none demo_block_id)
  moreover have "\<exists>c. GetLastCommit demo_e (\<lambda>h. Inr (demo_header h)) None 3 (mst_exec s') = Inr c \<and> bid_Hash (cm_BlockID c) = [2]"
    using ok [THEN conjunct2, THEN conjunct2, rule_format, of demo_comet_block "\<lambda>h. Inr (demo_header h)" "demo_header 2" None]
    by (auto simp: n u demo_block_id) (metis block_id.select_convs(1))
  ultimately show ?thesis using run ok demo_comet_truncate by auto
qed

lemma migrate_to_evolve_genesis_example:
  "\<exists>s' g. migrate_to_evolve demo_migrate demo_comet (Inr 1) demo_before = (Inr (), s') \<and>
     loadEvolveMigrationGenesis demo_migrate (mst_genesis s') = Inr (Some g) \<and> eg_ChainID g = ''demo'' \<and> eg_SequencerAddr g = [1]"
proof -
  obtain s' where run: "migrate_to_evolve demo_migrate demo_comet (Inr 1) demo_before = (Inr (), s')" using demo_migration by blast
  have "\<forall>g bs. mc_MarshalGenesis demo_migrate g = Inr bs \<longrightarrow> mc_UnmarshalGenesis demo_migrate bs = Inr g"
    by (simp add: demo_migrate_def)
  from migrate_to_evolve_genesis [OF this run] show ?thesis
    using run by (auto simp: demo_comet_def demo_valset_def demo_validator_def)
qed

subsection \<open>The handles of the example run\<close>




end
