(* ===== verification/MigratedNode.thy ===== *)
theory MigratedNode
  imports MigrationRun NodeStart
begin

text \<open>
  A chain across its migration: the migration command on the stopped CometBFT node, the start of
  the node from the files the command left, and the first block the adapter executes on the
  database it filled. Each step is one of the definitions of \<open>MigrationCmd\<close>, \<open>NodeStart\<close> and
  \<open>Adapter\<close>; only the file and the database connect them.
\<close>

lemma setup_sources:
  assumes "setupNodeAndExecutor nd ge pe x e pval vp attesterMode gf app = Inr ns"
  shows "start_genesis ge gf = Inr (ns_EvGenesis ns, ns_AppGenesis ns)"
    and "openRawEvolveDB nd = Inr (ns_Database ns)"
  using assms by (auto simp: setupNodeAndExecutor_def start_services_def and_then_Inr_iff case_results)

lemma start_genesis_of_file:
  assumes "genesis_laws ge" and "start_genesis ge gf = Inr (ev, ag)"
    and "loadEvolveMigrationGenesis (ge_mig ge) (gf_Migration gf) = Inr (Some g)"
  shows "gn_ChainID ev = eg_ChainID g" "gn_InitialHeight ev = eg_InitialHeight g"
    "gn_ProposerAddress ev = eg_SequencerAddr g"
    "\<exists>v. ag_Validators ag = [v] \<and> gv_Address v = eg_SequencerAddr g \<and>
       (\<forall>pk. eg_SequencerPubKey g = Some pk \<longrightarrow> gv_PubKey v = pk)"
  using assms
  by (auto simp: start_genesis_def Let_def ToEVGenesis_def migrated_app_genesis_def genesis_laws_def)

lemma to_int64_inc:
  assumes "0 \<le> n" "n + 1 < 2 ^ 63"
  shows "to_int64 (to_uint64 n + 1) = n + 1"
proof -
  have "to_int64 (to_uint64 n + 1) = int64_wrap (n + 1)"
    by (simp add: to_uint64_def to_int64_def int64_wrap_def)
  also have "\<dots> = n + 1" using assms by (intro int64_wrap_id) (simp add: int64_range_def)
  finally show ?thesis .
qed

text \<open>
  C17: the chain continues across the migration. After a successful run of the migration command
  on a chain whose last block is still in the block store, a node that starts from the written
  genesis file and the filled database has the chain ID and the initial height of the CometBFT
  chain, its proposer is one of the last CometBFT validators (the only one, or the one with the
  key the migration manager stored) and is the single validator of the application genesis. When
  its adapter executes the next height, the new block is hash-linked to the last CometBFT block:
  its stored ID hashes a header whose last block ID is that block's ID, the stored state has the
  new height and application hash, the chain ID of the CometBFT state, and its validators as the
  last ones.
\<close>

theorem migrated_node_continues:
  assumes codec: "codec_ok (mc_e (ge_mig ge))" and laws: "genesis_laws ge"
    and heights: "\<forall>h b. mc_LoadBlock (ge_mig ge) h = Some b \<longrightarrow> hd_Height (bk_Header b) = h"
    and json: "\<forall>g bs. mc_MarshalGenesis (ge_mig ge) g = Inr bs \<longrightarrow> mc_UnmarshalGenesis (ge_mig ge) bs = Inr g"
    and last: "1 \<le> st_LastBlockHeight comet" "st_LastBlockHeight comet + 1 < 2 ^ 63"
      "mc_LoadBlock (ge_mig ge) (st_LastBlockHeight comet) = Some block"
    and run: "migrate_to_evolve (ge_mig ge) comet da s = (Inr (), s')"
    and files: "gf_Migration gf = mst_genesis s'" "openRawEvolveDB nd = Inr (mst_exec s')"
    and start: "setupNodeAndExecutor nd ge pe x (mc_e (ge_mig ge)) pval vp attesterMode gf app = Inr ns"
    and exec: "ae_x E = x" "ae_e E = mc_e (ge_mig ge)" "ad_Store a = ns_Database ns"
      "ExecuteTxs E txs (to_uint64 (st_LastBlockHeight comet) + 1) t hdr a = (Inr ah, a')"
  shows "gn_ChainID (ns_EvGenesis ns) = st_ChainID comet \<and>
    gn_InitialHeight (ns_EvGenesis ns) = to_uint64 (cst_InitialHeight comet) \<and>
    gn_ProposerAddress (ns_EvGenesis ns) \<in> cv_Address ` set (vs_Validators (st_LastValidators comet)) \<and>
    (\<exists>v. ag_Validators (ns_AppGenesis ns) = [v] \<and> gv_Address v = gn_ProposerAddress (ns_EvGenesis ns) \<and>
       (case vs_Validators (st_LastValidators comet) of
          [w] \<Rightarrow> gv_PubKey v = cv_PubKey w
        | _ \<Rightarrow> stored_sequencer (ge_mig ge) (mst_app s) (gv_PubKey v))) \<and>
    (\<exists>bid prev header st. block_id_of (mc_x (ge_mig ge)) block = Inr prev \<and>
       GetBlockID (ae_e E) (to_uint64 (st_LastBlockHeight comet) + 1) (ad_Store a') = Inr bid \<and>
       bid_Hash bid = x_header_Hash x header \<and> hd_LastBlockID header = prev \<and>
       LoadState (ae_e E) (ad_Store a') = Inr st \<and> st_LastBlockHeight st = st_LastBlockHeight comet + 1 \<and>
       st_AppHash st = ah \<and> st_ChainID st = st_ChainID comet \<and> st_LastValidators st = st_Validators comet)"
proof -
  let ?n = "st_LastBlockHeight comet" and ?e = "mc_e (ge_mig ge)"
  have below: "?n < 2 ^ 63" using last(2) by simp
  have codec': "codec_ok (ae_e E)" using codec exec(2) by simp
  note gen = setup_sources(1) [OF start]
  have db: "ad_Store a = mst_exec s'" using setup_sources(2) [OF start] files(2) exec(3) by simp
  obtain g pk where load: "loadEvolveMigrationGenesis (ge_mig ge) (gf_Migration gf) = Inr (Some g)"
    and g: "eg_ChainID g = st_ChainID comet" "eg_InitialHeight g = to_uint64 (cst_InitialHeight comet)"
      "eg_SequencerPubKey g = Some pk"
      "eg_SequencerAddr g \<in> cv_Address ` set (vs_Validators (st_LastValidators comet))"
      "case vs_Validators (st_LastValidators comet) of [v] \<Rightarrow> pk = cv_PubKey v
       | _ \<Rightarrow> stored_sequencer (ge_mig ge) (mst_app s) pk \<and> eg_SequencerAddr g = mc_pk_Address (ge_mig ge) pk"
    using migrate_to_evolve_genesis [OF json run] files(1) by auto
  note ev = start_genesis_of_file [OF laws gen load]
  obtain prev where prev: "block_id_of (mc_x (ge_mig ge)) block = Inr prev"
    "GetBlockID ?e (to_uint64 ?n) (mst_exec s') = Inr prev"
    using migrate_to_evolve_last(1) [OF codec heights last(1) below last(3) run] by blast
  have h: "1 < to_uint64 ?n + 1" by (rule migrate_to_evolve_last(2) [OF codec heights last(1) below last(3) run])
  have "GetBlockID (ae_e E) (to_uint64 ?n) (ad_Store a') = Inr prev"
    using ExecuteTxs_stored(2) [OF codec' exec(4), of "to_uint64 ?n"] prev(2) db exec(2) by simp
  then obtain bid header where link: "GetBlockID (ae_e E) (to_uint64 ?n + 1) (ad_Store a') = Inr bid"
    "bid_Hash bid = x_header_Hash x header" "hd_LastBlockID header = prev"
    using ExecuteTxs_links [OF codec' exec(4) h] exec(1) by (auto simp: linked_def)
  obtain st where "LoadState (ae_e E) (ad_Store a') = Inr st" "st_LastBlockHeight st = ?n + 1" "st_AppHash st = ah"
    "st_ChainID st = st_ChainID comet" "st_LastValidators st = st_Validators comet"
    using ExecuteTxs_stored(1) [OF codec' exec(4)] migrate_to_evolve_store(1) [OF codec heights below run]
      db exec(2) to_int64_inc [OF _ last(2)] last(1)
    by (auto simp: cmt_state.truncate_def)
  then have "\<exists>bid prev header st. block_id_of (mc_x (ge_mig ge)) block = Inr prev \<and>
       GetBlockID (ae_e E) (to_uint64 ?n + 1) (ad_Store a') = Inr bid \<and>
       bid_Hash bid = x_header_Hash x header \<and> hd_LastBlockID header = prev \<and>
       LoadState (ae_e E) (ad_Store a') = Inr st \<and> st_LastBlockHeight st = ?n + 1 \<and>
       st_AppHash st = ah \<and> st_ChainID st = st_ChainID comet \<and> st_LastValidators st = st_Validators comet"
    using link prev(1) by blast
  moreover have "\<exists>v. ag_Validators (ns_AppGenesis ns) = [v] \<and> gv_Address v = gn_ProposerAddress (ns_EvGenesis ns) \<and>
       (case vs_Validators (st_LastValidators comet) of
          [w] \<Rightarrow> gv_PubKey v = cv_PubKey w
        | _ \<Rightarrow> stored_sequencer (ge_mig ge) (mst_app s) (gv_PubKey v))"
    using ev(3,4) g(3,5) by (auto split: list.splits)
  ultimately show ?thesis using ev(1-3) g(1,2,4) by simp
qed

end
