(* ===== verification/NodeExample.thy ===== *)
theory NodeExample
  imports NodeRun Gossip MigrationRunExample MigratedNode NetworkExample
begin

text \<open>
  A node on concrete collaborators: its key, its genesis file with the two DA fields, its start,
  a rollback and a posted transaction; and a pubsub on which the gossiper starts or fails.
\<close>

subsection \<open>The signer and the genesis\<close>

definition demo_privkey :: cmt_privkey where
  "demo_privkey = \<lparr>ck_Type = ''ed25519'', ck_Bytes = [1], ck_PubKey = CmtPubKey ''ed25519'' (replicate 32 9)\<rparr>"

definition demo_p2p_key :: p2p_privkey where
  "demo_p2p_key = \<lparr>pp_Public = \<lparr>lk_Type = Ed25519, lk_Raw = Inr (replicate 32 9)\<rparr>, pp_Sign = Inr\<rparr>"

lemma demo_signer:
  "NewSignerWrapper (\<lambda>_. Inr demo_p2p_key) (Some demo_privkey) =
     Inr \<lparr>sw_cmtPrivKey = demo_privkey, sw_p2pPrivKey = demo_p2p_key\<rparr>"
  by (simp add: NewSignerWrapper_def GetNodeKey_def demo_privkey_def)

lemma sequencer_key_accepted_example:
  "\<exists>pub. GetPublic \<lparr>sw_cmtPrivKey = demo_privkey, sw_p2pPrivKey = demo_p2p_key\<rparr> = Inr pub \<and>
     ValidatorHasherProvider demo_x [1] pub = Inr (copy_hash [5])"
proof -
  have "same_ed25519 (\<lambda>_. Inr demo_p2p_key) demo_privkey"
    by (simp add: same_ed25519_def demo_privkey_def demo_p2p_key_def)
  moreover have "\<And>pk. cv_Address (x_NewValidator demo_x pk 1) = [1]" by (simp add: demo_x_def demo_validator_def)
  ultimately show ?thesis
    using sequencer_key_accepted [OF demo_signer, of demo_x "\<lambda>_. [1]"]
    by (auto simp: GetAddress_def demo_x_def)
qed

definition demo_new_genesis :: "string \<Rightarrow> uint64 \<Rightarrow> int \<Rightarrow> bytes \<Rightarrow> ev_genesis" where
  "demo_new_genesis c h t p = \<lparr>gn_ChainID = c, gn_InitialHeight = h, gn_StartTime = t, gn_ProposerAddress = p,
     gn_DAStartHeight = 0, gn_DAEpochForcedInclusion = 0\<rparr>"

definition demo_ge :: "(unit, bytes) genesis_env" where
  "demo_ge = \<lparr>ge_mig = demo_migrate, ge_NewGenesis = demo_new_genesis, ge_ToGenesisDoc = Inr,
     ge_FieldTag = (\<lambda>f. if f = ''DAStartHeight'' then Some ''da_start_height''
       else if f = ''DAEpochForcedInclusion'' then Some ''da_epoch_forced_inclusion,omitempty'' else None),
     ge_NilKey = CmtPubKey [] []\<rparr>"

definition demo_member :: "string \<Rightarrow> uint64 \<Rightarrow> json_member" where
  "demo_member k v = \<lparr>jm_key = Inr (StringTok k), jm_raw = Inr (), jm_uint = Inr v\<rparr>"

definition demo_files :: "bytes option \<Rightarrow> genesis_files" where
  "demo_files mig = \<lparr>gf_Migration = mig, gf_AppGenesis = Inr chain_genesis,
     gf_Open = Inr (Inr (Delim (CHR ''{'')), [demo_member ''chain_id'' 0, demo_member ''da_start_height'' 10,
       demo_member ''da_epoch_forced_inclusion'' 5]), gf_Close = Inr ()\<rparr>"

lemma demo_ge_laws: "genesis_laws demo_ge"
  by (simp add: genesis_laws_def demo_ge_def demo_new_genesis_def)

lemma demo_tag: "takeWhile (\<lambda>c. c \<noteq> CHR '','') ''da_epoch_forced_inclusion,omitempty'' = ''da_epoch_forced_inclusion''"
  by simp

lemma demo_da_fields:
  "getDaStartHeight (ge_FieldTag demo_ge) (demo_files mig) = Inr 10"
  "getDaEpoch (ge_FieldTag demo_ge) (demo_files mig) = Inr 5"
  by (simp_all add: getDaStartHeight_def getDaEpoch_def genesis_field_def getJSONTag_def demo_ge_def demo_files_def
      parseFieldFromGenesis_def demo_member_def)

definition demo_ev :: ev_genesis where
  "demo_ev = \<lparr>gn_ChainID = ''demo'', gn_InitialHeight = 1, gn_StartTime = 0, gn_ProposerAddress = [1],
     gn_DAStartHeight = 10, gn_DAEpochForcedInclusion = 5\<rparr>"

lemma demo_start_genesis: "start_genesis demo_ge (demo_files None) = Inr (demo_ev, chain_genesis)"
  unfolding start_genesis_def demo_da_fields
  by (simp add: loadEvolveMigrationGenesis_def getAppGenesis_def demo_files_def)
    (simp add: demo_ge_def demo_ev_def createEvolveGenesisFromCometBFT_def chain_genesis_def demo_new_genesis_def to_uint64_def)

theorem start_genesis_accepted_witness:
  "fst (InitChain demo_E 0 1 ''demo'' demo_a0) \<notin>
     Inl ` ErrorString ` {''app genesis not loaded'', ''genesis time mismatch'', ''chain ID mismatch'', ''initial height mismatch''}"
proof -
  have "ae_AppGenesis demo_E = Some chain_genesis" by (simp add: demo_E_def)
  from start_genesis_accepted [OF demo_ge_laws demo_start_genesis this, of demo_a0] show ?thesis
    by (simp add: demo_ev_def)
qed

subsection \<open>The node\<close>

definition demo_nd :: "(string, unit) node_deps" where
  "demo_nd = \<lparr>nd_EvLogger = True, nd_P2PLogger = True, nd_UnmarshalEd25519 = (\<lambda>_. Inr demo_p2p_key),
     nd_LoadFromViper = (\<lambda>_. Inr \<lparr>nc_Aggregator = True, nc_BasedSequencer = False\<rparr>), nd_Validate = (\<lambda>_. Inr ()),
     nd_NewDefaultKVStore = (\<lambda>_ _. Inr fmempty), nd_NewP2PClient = Inr (), nd_ProxyStart = Inr (), nd_RollkitHeight = Inr 0,
     nd_NewDAClient = Inr (), nd_NewSequencer = (\<lambda>_ _. Inr ()), nd_NewNode = Inr (), nd_EventBusStart = Inr (),
     nd_IndexersDisabled = Inr False, nd_IndexerStart = Inr (),
     nd_RPCConfig = \<lparr>rs_ListenAddress = ''tcp://0:1'', rs_MaxOpenConnections = 0, rs_IsCorsEnabled = False,
       rs_TLSCertFile = [], rs_TLSKeyFile = []\<rparr>, nd_Listen = (\<lambda>_ addr. Inr addr)\<rparr>"

lemmas node_start_defs = openRawEvolveDB_def initProxyApp_def createAndStartEventBus_def createAndStartIndexerService_def
  start_rpc_server_def RPCServer_Start_def NewRPCServer_def startRPC_def

lemma demo_setup: "\<exists>s. setupNodeAndExecutor demo_nd demo_ge pe demo_x demo_e demo_privkey vp True (demo_files None) (Some solo0) = Inr s"
proof -
  have "GetNodeKey (\<lambda>_. Inr demo_p2p_key) (Some (Some demo_privkey)) = Inr demo_p2p_key"
    by (simp add: GetNodeKey_def demo_privkey_def)
  then show ?thesis
    by (simp add: setupNodeAndExecutor_def start_services_def node_start_defs demo_nd_def load_signer_def demo_signer demo_start_genesis
        wireNetworkKeeperBlockIDProvider_def SetBlockIDProvider_def solo1_fields createSequencer_def)
qed

definition demo_pe :: pruning_ext where
  "demo_pe = \<lparr>pe_FlagPruning = ''pruning'', pe_FlagPruningKeepRecent = ''pruning-keep-recent'',
     pe_FlagPruningInterval = ''pruning-interval'', pe_EvPruningMode = ''ev-mode'', pe_EvPruningKeepRecent = ''ev-keep'',
     pe_EvPruningInterval = ''ev-interval'', pe_EvBlockTime = ''ev-block-time'', pe_ModeDisabled = ''disabled'',
     pe_ModeAll = ''all'', pe_ModeMetadata = ''metadata'', pe_ParseDuration = (\<lambda>_. Inl (ErrorString ''duration'')),
     pe_DurationString = (\<lambda>_. [])\<rparr>"

theorem started_node_consistent_witness:
  "\<exists>s k. setupNodeAndExecutor demo_nd demo_ge demo_pe demo_x demo_e demo_privkey (\<lambda>_. []) True (demo_files None) (Some solo0) = Inr s \<and>
     ns_Signer s \<noteq> None \<and> ns_Network s = Some k \<and> blockIDProvider k = Some (store_provider demo_e (ns_Database s))"
proof -
  obtain s where s: "setupNodeAndExecutor demo_nd demo_ge demo_pe demo_x demo_e demo_privkey (\<lambda>_. []) True (demo_files None) (Some solo0) = Inr s"
    using demo_setup by blast
  from started_node_consistent [OF demo_ge_laws s] s show ?thesis by (auto simp: demo_nd_def)
qed

subsection \<open>The chain of the migration example, continued\<close>

definition migrated_nd :: "(string, unit) node_deps" where
  "migrated_nd = demo_nd\<lparr>nd_NewDefaultKVStore := (\<lambda>_ _. Inr (fmupd (blockIDKey 2) [2] (fmupd stateKey [2] fmempty)))\<rparr>"

definition migrated_adapter :: "(unit, unit) adapter" where
  "migrated_adapter = SetMempool () (NewABCIExecutor () (fmupd (blockIDKey 2) [2] (fmupd stateKey [2] fmempty)))"

lemma migrated_setup:
  "\<exists>ns. setupNodeAndExecutor migrated_nd demo_ge demo_pe demo_x demo_e demo_privkey vp False (demo_files (Some [1])) None = Inr ns"
proof -
  have "GetNodeKey (\<lambda>_. Inr demo_p2p_key) (Some (Some demo_privkey)) = Inr demo_p2p_key"
    by (simp add: GetNodeKey_def demo_privkey_def)
  moreover obtain ev ag where "start_genesis demo_ge (demo_files (Some [1])) = Inr (ev, ag)"
    by (auto simp: start_genesis_def loadEvolveMigrationGenesis_def demo_ge_def demo_files_def demo_migrate_def Let_def)
  ultimately show ?thesis
    by (simp add: setupNodeAndExecutor_def start_services_def node_start_defs migrated_nd_def demo_nd_def load_signer_def demo_signer
        wireNetworkKeeperBlockIDProvider_def createSequencer_def)
qed

lemma migrated_block3:
  "\<exists>a'. ExecuteTxs demo_E [] 3 0 (Some (demo_header 3)) migrated_adapter = (Inr [7], a')"
  by (simp add: exec_defs demo_defs(1-5,7-) migrated_adapter_def)

theorem migrated_node_continues_witness:
  "\<exists>ns a' st. setupNodeAndExecutor migrated_nd demo_ge demo_pe demo_x demo_e demo_privkey (\<lambda>_. []) False (demo_files (Some [1])) None = Inr ns \<and>
     gn_ChainID (ns_EvGenesis ns) = ''demo'' \<and> gn_ProposerAddress (ns_EvGenesis ns) = [1] \<and>
     ExecuteTxs demo_E [] 3 0 (Some (demo_header 3)) migrated_adapter = (Inr [7], a') \<and>
     LoadState demo_e (ad_Store a') = Inr st \<and> st_LastBlockHeight st = 3 \<and> st_LastValidators st = demo_valset"
proof -
  obtain ns where ns: "setupNodeAndExecutor migrated_nd demo_ge demo_pe demo_x demo_e demo_privkey (\<lambda>_. []) False (demo_files (Some [1])) None = Inr ns"
    using migrated_setup by blast
  obtain a' where a': "ExecuteTxs demo_E [] 3 0 (Some (demo_header 3)) migrated_adapter = (Inr [7], a')"
    using migrated_block3 by blast
  have mig: "ge_mig demo_ge = demo_migrate" by (simp add: demo_ge_def)
  have db: "openRawEvolveDB migrated_nd = Inr (fmupd (blockIDKey 2) [2] (fmupd stateKey [2] fmempty))"
    by (simp add: migrated_nd_def demo_nd_def openRawEvolveDB_def)
  have store: "ad_Store migrated_adapter = ns_Database ns"
    using setup_sources(2) [OF ns] by (simp add: db migrated_adapter_def SetMempool_def NewABCIExecutor_def)
  have n: "st_LastBlockHeight demo_comet = 2" "to_uint64 2 + 1 = 3" by (simp_all add: demo_comet_def to_uint64_def)
  have heights: "\<forall>h b. (if h = 2 then Some demo_comet_block else None) = Some b \<longrightarrow> hd_Height (bk_Header b) = h"
    by (simp add: demo_comet_block_def demo_cmt_header_def)
  have json: "\<forall>g bs. mc_MarshalGenesis demo_migrate g = Inr bs \<longrightarrow> mc_UnmarshalGenesis demo_migrate bs = Inr g"
    by (simp add: demo_migrate_def)
  from migrated_node_continues [of demo_ge demo_comet demo_comet_block "Inr 1" demo_before, unfolded mig demo_migrate_simps n,
      OF demo_codec demo_ge_laws heights json _ _ _ demo_migration_result _ _ ns _ _ store a']
  have "gn_ChainID (ns_EvGenesis ns) = st_ChainID demo_comet \<and>
      gn_ProposerAddress (ns_EvGenesis ns) \<in> cv_Address ` set (vs_Validators (st_LastValidators demo_comet)) \<and>
      (\<exists>st. LoadState demo_e (ad_Store a') = Inr st \<and> st_LastBlockHeight st = 3 \<and> st_LastValidators st = st_Validators demo_comet)"
    using db by (fastforce simp: demo_files_def)
  then show ?thesis using ns a' by (auto simp: demo_comet_def demo_valset_def demo_validator_def)
qed

subsection \<open>The gossiper\<close>

text \<open>A pubsub that is the list of its joined topics; the validator is refused or not.\<close>

definition demo_libp2p :: "bool \<Rightarrow> (string list, (unit, unit) tx_validator) libp2p" where
  "demo_libp2p refuse = \<lparr>lp_Join = (\<lambda>t p. if t \<in> set p then (Inl (ErrorString ''topic already exists''), p) else (Inr (), t # p)),
     lp_Subscribe = (\<lambda>t p. (Inr (), p)),
     lp_RegisterTopicValidator = (\<lambda>t v p. (if refuse then Inl (ErrorString ''duplicate validator'') else Inr (), p)),
     lp_UnregisterTopicValidator = (\<lambda>t p. (Inr (), p)), lp_Cancel = (\<lambda>t p. p),
     lp_CloseTopic = (\<lambda>t p. (Inr (), filter (\<lambda>u. u \<noteq> t) p)), lp_Publish = (\<lambda>t d p. (Inr (), p))\<rparr>"

definition third_poll :: "nat \<Rightarrow> string option \<times> bool" where
  "third_poll i = (if i < 2 then (None, False) else (Some ''host'', True))"

lemma third_ready: "ready_at third_poll (\<lambda>_. False) 2"
  by (auto simp: ready_at_def p2p_ready_def third_poll_def)

theorem Start_iff_witness:
  "Start demo_E (demo_libp2p False) True third_poll (\<lambda>_. False) (None, []) =
     (Inr (), Some \<lparr>gs_ownID = ''host'', gs_topic = ''demo-tx''\<rparr>, [''demo-tx''])"
proof -
  have g: "ae_AppGenesis demo_E = Some chain_genesis" by (simp add: demo_E_def)
  have t: "tx_topic chain_genesis = ''demo-tx''" by (simp add: tx_topic_def chain_genesis_def)
  have "NewGossiper (demo_libp2p False) (fst (third_poll 2)) True (tx_topic chain_genesis)
      [WithValidator (demo_libp2p False) (gossip_validator demo_E)] [] =
      (Inr \<lparr>gs_ownID = ''host'', gs_topic = ''demo-tx''\<rparr>, [''demo-tx''])"
    by (simp add: t NewGossiper_def third_poll_def demo_libp2p_def WithValidator_def Let_def)
  then have "\<exists>i < 25. \<exists>gossip. ready_at third_poll (\<lambda>_. False) i \<and>
      NewGossiper (demo_libp2p False) (fst (third_poll i)) True (tx_topic chain_genesis)
        [WithValidator (demo_libp2p False) (gossip_validator demo_E)] [] = (Inr gossip, [''demo-tx'']) \<and>
      Some \<lparr>gs_ownID = ''host'', gs_topic = ''demo-tx''\<rparr> = Some gossip \<and> gs_topic gossip = tx_topic chain_genesis"
    using third_ready t by (intro exI [of _ 2] exI [of _ "\<lparr>gs_ownID = ''host'', gs_topic = ''demo-tx''\<rparr>"]) simp
  then show ?thesis by (rule Start_iff [OF g, THEN conjunct1, THEN iffD2])
qed

lemma demo_topic_laws: "topic_laws (demo_libp2p b) set"
  by (simp add: topic_laws_def demo_libp2p_def is_err_iff)

lemma failed_start_blocks_example:
  "\<exists>err. Start demo_E (demo_libp2p True) True third_poll (\<lambda>_. False) (None, []) = (Inl err, None, [''demo-tx'']) \<and>
     is_err (fst (Start demo_E (demo_libp2p True) True third_poll (\<lambda>_. False) (None, [''demo-tx''])))"
proof -
  have g: "ae_AppGenesis demo_E = Some chain_genesis" by (simp add: demo_E_def)
  have t: "tx_topic chain_genesis = ''demo-tx''" by (simp add: tx_topic_def chain_genesis_def)
  have j: "lp_Join (demo_libp2p True) (tx_topic chain_genesis) [] = (Inr (), [''demo-tx''])"
    by (simp add: demo_libp2p_def t)
  have "Start demo_E (demo_libp2p True) True third_poll (\<lambda>_. False) (None, []) =
      (Inl (ErrorString ''duplicate validator''), None, [''demo-tx''])"
    by (subst Start_ready [OF g _ third_ready])
      (simp_all add: maxRetries_def NewGossiper_def third_poll_def demo_libp2p_def WithValidator_def Let_def t)
  from failed_start_blocks [OF demo_topic_laws g _ third_ready j this, of True third_poll "\<lambda>_. False"] this
  show ?thesis by simp
qed

subsection \<open>Rolling back and posting\<close>






definition demo_post :: "(bytes, nat) post_ops" where
  "demo_post = \<lparr>po_Stat = (\<lambda>_. False), po_ReadFile = (\<lambda>_. Inl (ErrorString ''file'')), po_UnmarshalJSON = (\<lambda>_. Inr ()),
     po_TxJSONDecoder = Inr, po_TxEncoder = Inr, po_LoadConfig = Inr \<lparr>pc_ForcedInclusionNamespace = ''ns'', pc_SubmitOptions = []\<rparr>,
     po_ValidateConfig = (\<lambda>_. Inr ()), po_NamespaceFlag = [], po_GasPriceFlag = Inr 0, po_SubmitOptsFlag = Inr [],
     po_NamespaceFromString = string_bytes, po_NewClient = Inr (),
     po_Submit = (\<lambda>_ _ _ _. \<lparr>dr_Code = StatusSuccess, dr_Height = 14, dr_Message = []\<rparr>),
     po_CalculateEpochBoundaries = (\<lambda>h s n. (10, 14, 1))\<rparr>"

text \<open>With epochs of 5 blocks from height 10, a transaction posted in block 14 is included at 15.\<close>

lemma post_tx_inclusion_estimate_example:
  "\<exists>r. postTxRunE demo_post (ge_FieldTag demo_ge) (demo_files None) ''{}'' = Inr (Posted r) \<and>
     pt_DAHeight r = 14 \<and> pt_InclusionHeight r = 15 \<and> unat (pt_BlocksUntilInclusion r) = 18446744073709551615"
proof -
  obtain r where r: "postTxRunE demo_post (ge_FieldTag demo_ge) (demo_files None) ''{}'' = Inr (Posted r)"
    "pt_DAHeight r = 14" "pt_InclusionHeight r = 15"
    by (simp add: postTxRunE_def tx_data_def decodeTxFromJSON_def post_result_def demo_post_def demo_da_fields string_bytes_def)
  from post_tx_inclusion_estimate [OF r(1)] r show ?thesis by auto
qed

end
