(* ===== verification/AdapterOptions.thy ===== *)
theory AdapterOptions
  imports Adapter
begin

text \<open>
  The configuration of the adapter: its metrics (\<open>pkg/adapter/metrics.go\<close>), its options
  (\<open>pkg/adapter/options.go\<close>) and the default block filter. A metric of go-kit is what it was made
  from: its name parts, its label names, the label values bound by \<open>With\<close>, and its buckets.
\<close>

subsection \<open>Metrics\<close>

datatype buckets = DefBuckets | ExponentialBuckets "nat \<times> nat" nat nat

datatype metric =
    Discard
  | Counter string string string "string list" "string list"
  | Histogram string string string buckets "string list" "string list"

definition MetricsSubsystem :: string where "MetricsSubsystem = ''adapter''"

definition new_counter :: "string \<Rightarrow> string \<Rightarrow> string list \<Rightarrow> string list \<Rightarrow> metric" where
  "new_counter namespace name labels bound = Counter namespace MetricsSubsystem name labels bound"

definition new_histogram :: "string \<Rightarrow> string \<Rightarrow> buckets \<Rightarrow> string list \<Rightarrow> string list \<Rightarrow> metric" where
  "new_histogram namespace name b labels bound = Histogram namespace MetricsSubsystem name b labels bound"

abbreviation discard_counter :: metric where "discard_counter \<equiv> Discard"
abbreviation discard_histogram :: metric where "discard_histogram \<equiv> Discard"

record Metrics =
  mx_TxValidationTotal :: metric
  mx_TxValidationResultTotal :: metric
  mx_CheckTxDurationSeconds :: metric
  mx_InitChainDurationSeconds :: metric
  mx_BlockExecutionDurationSeconds :: metric
  mx_TxsExecutedPerBlock :: metric
  mx_BlockExecutionStepDurationSeconds :: metric
  mx_ValidatorUpdatesTotal :: metric
  mx_ConsensusParamUpdatesTotal :: metric
  mx_GetTxsDurationSeconds :: metric
  mx_TxsProposedTotal :: metric
  mx_MempoolReapDurationSeconds :: metric
  mx_PrepareProposalDurationSeconds :: metric

text \<open>The loop over the pairs: every second argument is a label.\<close>

fun label_names :: "string list \<Rightarrow> string list" where
  "label_names [] = []"
| "label_names [l] = [l]"
| "label_names (l # v # rest) = l # label_names rest"

definition PrometheusMetrics :: "string \<Rightarrow> string list \<Rightarrow> Metrics" where
  "PrometheusMetrics namespace labelsAndValues =
     (let labels = label_names labelsAndValues in
     \<lparr>mx_TxValidationTotal =
        new_counter namespace ''tx_validation_total'' labels labelsAndValues,
      mx_TxValidationResultTotal =
        new_counter namespace ''tx_validation_result_total'' (labels @ [''result'']) labelsAndValues,
      mx_CheckTxDurationSeconds =
        new_histogram namespace ''checktx_duration_seconds'' DefBuckets labels labelsAndValues,
      mx_InitChainDurationSeconds =
        new_histogram namespace ''initchain_duration_seconds'' DefBuckets labels labelsAndValues,
      mx_BlockExecutionDurationSeconds =
        new_histogram namespace ''block_execution_duration_seconds'' (ExponentialBuckets (1, 10) 2 10) labels labelsAndValues,
      mx_TxsExecutedPerBlock =
        new_histogram namespace ''txs_executed_per_block'' (ExponentialBuckets (1, 1) 2 10) labels labelsAndValues,
      mx_BlockExecutionStepDurationSeconds =
        new_histogram namespace ''block_execution_step_duration_seconds'' DefBuckets (labels @ [''step'']) labelsAndValues,
      mx_ValidatorUpdatesTotal =
        new_counter namespace ''validator_updates_total'' labels labelsAndValues,
      mx_ConsensusParamUpdatesTotal =
        new_counter namespace ''consensus_param_updates_total'' labels labelsAndValues,
      mx_GetTxsDurationSeconds =
        new_histogram namespace ''get_txs_duration_seconds'' DefBuckets labels labelsAndValues,
      mx_TxsProposedTotal = new_counter namespace ''txs_proposed_total'' labels labelsAndValues,
      mx_MempoolReapDurationSeconds =
        new_histogram namespace ''mempool_reap_duration_seconds'' DefBuckets labels labelsAndValues,
      mx_PrepareProposalDurationSeconds =
        new_histogram namespace ''prepare_proposal_duration_seconds'' DefBuckets labels labelsAndValues\<rparr>)"

definition NopMetrics :: Metrics where
  "NopMetrics =
     \<lparr>mx_TxValidationTotal = discard_counter,
      mx_TxValidationResultTotal = discard_counter,
      mx_CheckTxDurationSeconds = discard_histogram,
      mx_InitChainDurationSeconds = discard_histogram,
      mx_BlockExecutionDurationSeconds = discard_histogram,
      mx_TxsExecutedPerBlock = discard_histogram,
      mx_BlockExecutionStepDurationSeconds = discard_histogram,
      mx_ValidatorUpdatesTotal = discard_counter,
      mx_ConsensusParamUpdatesTotal = discard_counter,
      mx_GetTxsDurationSeconds = discard_histogram,
      mx_TxsProposedTotal = discard_counter,
      mx_MempoolReapDurationSeconds = discard_histogram,
      mx_PrepareProposalDurationSeconds = discard_histogram\<rparr>"

definition all_metrics :: "Metrics \<Rightarrow> metric list" where
  "all_metrics m =
     [mx_TxValidationTotal m, mx_TxValidationResultTotal m, mx_CheckTxDurationSeconds m,
      mx_InitChainDurationSeconds m, mx_BlockExecutionDurationSeconds m, mx_TxsExecutedPerBlock m,
      mx_BlockExecutionStepDurationSeconds m, mx_ValidatorUpdatesTotal m,
      mx_ConsensusParamUpdatesTotal m, mx_GetTxsDurationSeconds m, mx_TxsProposedTotal m,
      mx_MempoolReapDurationSeconds m,
      mx_PrepareProposalDurationSeconds m]"

subsection \<open>Options\<close>

record adapter_config =
  ac_metrics :: Metrics
  ac_blockFilter :: "int64 \<Rightarrow> bool"

definition WithMetrics :: "Metrics \<Rightarrow> adapter_config \<Rightarrow> adapter_config" where
  "WithMetrics m a = a\<lparr>ac_metrics := m\<rparr>"

definition WithBlockFilter :: "(int64 \<Rightarrow> bool) \<Rightarrow> adapter_config \<Rightarrow> adapter_config" where
  "WithBlockFilter publisher a = a\<lparr>ac_blockFilter := publisher\<rparr>"

definition apply_adapter_options :: "(adapter_config \<Rightarrow> adapter_config) list \<Rightarrow> adapter_config" where
  "apply_adapter_options opts =
     fold (\<lambda>opt a. opt a) opts \<lparr>ac_metrics = NopMetrics, ac_blockFilter = (\<lambda>_. True)\<rparr>"

definition LoadGenesisDoc :: "'d result \<Rightarrow> 'd result" where
  "LoadGenesisDoc genesisDocFromFile = wrap ''read genesis doc from file'' genesisDocFromFile"

subsection \<open>Registration and labels\<close>

text \<open>The name a collector is registered under, and the labels still to be bound when it is used.\<close>

definition full_name :: "metric \<Rightarrow> string" where
  "full_name m = (case m of Discard \<Rightarrow> []
     | Counter ns sub n _ _ \<Rightarrow> ns @ ''_'' @ sub @ ''_'' @ n
     | Histogram ns sub n _ _ _ \<Rightarrow> ns @ ''_'' @ sub @ ''_'' @ n)"

definition open_labels :: "metric \<Rightarrow> string list" where
  "open_labels m = (case m of Discard \<Rightarrow> []
     | Counter _ _ _ ls bound \<Rightarrow> drop (length (label_names bound)) ls
     | Histogram _ _ _ _ ls bound \<Rightarrow> drop (length (label_names bound)) ls)"

lemmas metric_defs = PrometheusMetrics_def all_metrics_def new_counter_def new_histogram_def Let_def

text \<open>
  The registry gets thirteen collectors with different names, whatever the namespace, so no
  registration of them clashes with another.
\<close>

lemma metric_names_distinct:
  "length (all_metrics (PrometheusMetrics ns lvs)) = 13 \<and>
   distinct (map full_name (all_metrics (PrometheusMetrics ns lvs)))"
  by (simp add: metric_defs full_name_def)

text \<open>
  With the constant labels bound, only the validation results are open in \<open>result\<close> and only the
  execution steps in \<open>step\<close>, the labels with which the adapter records them.
\<close>

lemma metric_open_labels:
  "map open_labels (all_metrics (PrometheusMetrics ns lvs)) =
     [[], [''result''], [], [], [], [], [''step''], [], [], [], [], [], []]"
  by (simp add: metric_defs open_labels_def)

lemma label_names_even: "even (length lvs) \<Longrightarrow> 2 * length (label_names lvs) = length lvs"
  by (induction lvs rule: label_names.induct) auto

text \<open>Without a filter every block is publishable; the last filter given is the one in force.\<close>

lemma apply_adapter_options_filter:
  "ac_blockFilter (apply_adapter_options []) h"
  "ac_blockFilter (apply_adapter_options (opts @ [WithBlockFilter f])) = f"
  "ac_blockFilter (apply_adapter_options (opts @ [WithMetrics m])) = ac_blockFilter (apply_adapter_options opts)"
  "ac_metrics (apply_adapter_options (opts @ [WithMetrics m])) = m"
  by (simp_all add: apply_adapter_options_def WithBlockFilter_def WithMetrics_def)

end
