(* ===== verification/AppWiring.thy ===== *)
theory AppWiring
  imports Migration NetworkMsgServer
begin

text \<open>
  How the application builds the keepers of the two modules (\<open>depinject.go\<close> of
  \<open>modules/network\<close> and \<open>modules/migrationmngr\<close>) and the entry points of the migration module
  (\<open>modules/migrationmngr/module.go\<close>). The two address functions of the SDK are parameters, as is
  the address codec: \<open>valid_address\<close> says whether it decodes a string.
\<close>

subsection \<open>Keepers\<close>

definition network_ProvideModule ::
    "(string \<Rightarrow> string) \<Rightarrow> (string \<Rightarrow> string) \<Rightarrow> string \<Rightarrow> ext \<Rightarrow> staking_validator list result \<Rightarrow>
     keeper_env \<times> network_state" where
  "network_ProvideModule newModuleAddress moduleOrBech32 config_Authority e stakingKeeper =
     (let authority = newModuleAddress ''gov'';
          authority = (if config_Authority \<noteq> [] then moduleOrBech32 config_Authority else authority)
      in (\<lparr>env_ext = e, env_authority = authority, env_GetLastValidators = stakingKeeper\<rparr>, NewKeeper))"

text \<open>The constructor of the migration keeper panics on an authority that is no account address.\<close>

definition migration_NewKeeper ::
    "(string \<Rightarrow> bool) \<Rightarrow> mig_ext \<Rightarrow> staking_validator list result \<Rightarrow> string \<Rightarrow>
     (migration_env \<times> migration_state) result" where
  "migration_NewKeeper valid_address e stakingKeeper authority =
     (if \<not> valid_address authority then Inl (Panic ''authority is not a valid acc address'')
      else Inr (\<lparr>me_ext = e, me_authority = authority, me_GetLastValidators = stakingKeeper\<rparr>,
                NewMigrationKeeper))"

definition migration_ProvideModule ::
    "(string \<Rightarrow> string) \<Rightarrow> (string \<Rightarrow> string) \<Rightarrow> (string \<Rightarrow> bool) \<Rightarrow> string \<Rightarrow> mig_ext \<Rightarrow>
     staking_validator list result \<Rightarrow> (migration_env \<times> migration_state) result" where
  "migration_ProvideModule newModuleAddress moduleOrBech32 valid_address config_Authority e stakingKeeper =
     (let authority = newModuleAddress ''gov'';
          authority = (if config_Authority \<noteq> [] then moduleOrBech32 config_Authority else authority)
      in migration_NewKeeper valid_address e stakingKeeper authority)"

subsection \<open>Entry points of the migration module\<close>

definition migration_ValidateGenesis :: "bytes \<Rightarrow> unit result" where
  "migration_ValidateGenesis bz = Inr ()"

definition migration_module_PreBlock ::
    "migration_env \<Rightarrow> sdk_ctx \<Rightarrow> migration_state \<Rightarrow> unit result \<times> migration_state" where
  "migration_module_PreBlock env ctx k = PreBlock env ctx k"

definition migration_module_EndBlock ::
    "migration_env \<Rightarrow> sdk_ctx \<Rightarrow> migration_state \<Rightarrow> val_update list result \<times> migration_state" where
  "migration_module_EndBlock env ctx k = migration_EndBlock env ctx k"

subsection \<open>One authority\<close>

text \<open>
  With the same configuration the keepers of the three modules have the same authority; only the
  migration keeper refuses a string that is no address.
\<close>

lemma authorities_agree:
  assumes "migration_ProvideModule f g valid cfg me sk = Inr (menv, mk)"
  shows "me_authority menv = module_authority f g cfg"
    and "env_authority (fst (network_ProvideModule f g cfg e sk)) = module_authority f g cfg"
    and "valid (module_authority f g cfg)"
  using assms by (auto simp: migration_ProvideModule_def migration_NewKeeper_def
      network_ProvideModule_def module_authority_def Let_def split: if_splits)

text \<open>
  In an application with the default configuration only governance changes the parameters of the
  network module or starts a migration: the parameters are open to no signer but the module account
  of \<open>gov\<close>, in every state, and so is the migration.
\<close>

lemma governed_UpdateParams:
  assumes "network_ProvideModule f g [] e sk = (env, k0)" "UpdateParams env msg k = (Inr (), k')"
  shows "mu_Authority msg = f ''gov''"
  using assms by (auto simp: network_ProvideModule_def UpdateParams_def GetAuthority_def split: if_splits)

lemma governed_MigrateToEvolve:
  assumes "migration_ProvideModule f g valid [] me sk = Inr (env, k0)"
    and "MigrateToEvolve env ctx msg k = (Inr (), k')"
  shows "mm_Authority msg = f ''gov''"
  using assms by (auto simp: migration_ProvideModule_def migration_NewKeeper_def MigrateToEvolve_def
      Let_def split: if_splits)

text \<open>On a fresh migration keeper both entry points leave the state as it is and ask for nothing.\<close>

lemma fresh_migration_quiet:
  assumes "migration_ProvideModule f g valid cfg me sk = Inr (env, k)"
  shows "migration_module_PreBlock env ctx k = (Inr (), k)"
    and "migration_module_EndBlock env ctx k = (Inr [], k)"
  using assms by (auto simp: migration_ProvideModule_def migration_NewKeeper_def NewMigrationKeeper_def
      migration_module_PreBlock_def migration_module_EndBlock_def PreBlock_def migration_EndBlock_def
      IsMigrating_def Migration_Get_def Let_def split: if_splits)

end
