(* ===== verification/ModuleTables.thy ===== *)
theory ModuleTables
  imports Prelude
begin

text \<open>
  What the two modules declare to the SDK: the descriptors of their gRPC services with the request
  messages and their fields (\<open>tx.pb.go\<close>, \<open>query.pb.go\<close>), the messages they register with the codecs
  (\<open>types/codec.go\<close>) and the commands generated from the services (\<open>autocli.go\<close>, without the help texts). The tables are
  written by hand in the code and checked by nothing before the binary runs: a command for a method
  that does not exist, or a positional argument that is no field of its request, fails at start.
\<close>

subsection \<open>Services\<close>

record service_desc =
  sv_ServiceName :: string
  sv_Methods :: "(string \<times> string) list"

text \<open>A method is its name with the type of its request; the fields of
  the requests are those of the proto files.\<close>

definition network_Query_serviceDesc :: service_desc where
  "network_Query_serviceDesc = \<lparr>sv_ServiceName = ''evabci.network.v1.Query'', sv_Methods =
     [(''Params'', ''QueryParamsRequest''),
      (''AttestationBitmap'', ''QueryAttestationBitmapRequest''),
      (''EpochInfo'', ''QueryEpochInfoRequest''),
      (''ValidatorIndex'', ''QueryValidatorIndexRequest''),
      (''SoftConfirmationStatus'', ''QuerySoftConfirmationStatusRequest''),
      (''AttesterSignatures'', ''QueryAttesterSignaturesRequest''),
      (''LastAttestedHeight'', ''QueryLastAttestedHeightRequest''),
      (''AttesterInfo'', ''QueryAttesterInfoRequest''),
      (''AttesterSet'', ''QueryAttesterSetRequest'')]\<rparr>"

definition network_Msg_serviceDesc :: service_desc where
  "network_Msg_serviceDesc = \<lparr>sv_ServiceName = ''evabci.network.v1.Msg'', sv_Methods =
     [(''Attest'', ''MsgAttest''),
      (''JoinAttesterSet'', ''MsgJoinAttesterSet''),
      (''LeaveAttesterSet'', ''MsgLeaveAttesterSet''),
      (''UpdateParams'', ''MsgUpdateParams'')]\<rparr>"

definition migration_Query_serviceDesc :: service_desc where
  "migration_Query_serviceDesc = \<lparr>sv_ServiceName = ''evabci.migrationmngr.v1.Query'', sv_Methods =
     [(''IsMigrating'', ''QueryIsMigratingRequest''),
      (''Sequencer'', ''QuerySequencerRequest''),
      (''Attesters'', ''QueryAttestersRequest'')]\<rparr>"

definition migration_Msg_serviceDesc :: service_desc where
  "migration_Msg_serviceDesc = \<lparr>sv_ServiceName = ''evabci.migrationmngr.v1.Msg'', sv_Methods =
     [(''MigrateToEvolve'', ''MsgMigrateToEvolve'')]\<rparr>"

definition network_query_fields :: "(string \<times> string list) list" where
  "network_query_fields =
     [(''QueryParamsRequest'', []),
      (''QueryAttestationBitmapRequest'', [''height'']),
      (''QueryEpochInfoRequest'', [''epoch'']),
      (''QueryValidatorIndexRequest'', [''address'']),
      (''QuerySoftConfirmationStatusRequest'', [''height'']),
      (''QueryAttesterSignaturesRequest'', [''height'']),
      (''QueryLastAttestedHeightRequest'', []),
      (''QueryAttesterInfoRequest'', [''validator_address'']),
      (''QueryAttesterSetRequest'', [])]"

definition network_msg_fields :: "(string \<times> string list) list" where
  "network_msg_fields =
     [(''MsgAttest'', [''authority'', ''consensus_address'', ''height'', ''vote'']),
      (''MsgJoinAttesterSet'', [''authority'', ''consensus_address'', ''pubkey'']),
      (''MsgLeaveAttesterSet'', [''authority'', ''consensus_address'']),
      (''MsgUpdateParams'', [''authority'', ''params''])]"

definition migration_query_fields :: "(string \<times> string list) list" where
  "migration_query_fields =
     [(''QueryIsMigratingRequest'', []), (''QuerySequencerRequest'', []), (''QueryAttestersRequest'', [])]"

definition migration_msg_fields :: "(string \<times> string list) list" where
  "migration_msg_fields =
     [(''MsgMigrateToEvolve'', [''authority'', ''block_height'', ''sequencer'', ''attesters''])]"

definition request_fields :: "string \<Rightarrow> string list option" where
  "request_fields =
     map_of (network_query_fields @ network_msg_fields @ migration_query_fields @ migration_msg_fields)"

subsection \<open>Codecs\<close>

text \<open>
  The codecs and the registry belong to the SDK: a registration function is the list of the calls it
  makes on them, in their order. An amino message is registered by \<open>RegisterConcrete\<close> or
  \<open>RegisterAminoMsg\<close>, an implementation of an interface by \<open>RegisterImplementations\<close> or together with
  the interface by \<open>RegisterInterface\<close>.
\<close>

datatype registration =
    RegisterConcrete string string
  | RegisterAminoMsg string string
  | RegisterImplementations string "string list"
  | RegisterInterface string string "string list"
  | RegisterMsgServiceDesc service_desc

definition network_RegisterCodec :: "registration list" where
  "network_RegisterCodec =
     [RegisterConcrete ''MsgAttest'' ''network/Attest'',
      RegisterConcrete ''MsgJoinAttesterSet'' ''network/JoinAttesterSet'',
      RegisterConcrete ''MsgLeaveAttesterSet'' ''network/LeaveAttesterSet'',
      RegisterConcrete ''MsgUpdateParams'' ''network/UpdateParams'']"

definition network_RegisterInterfaces :: "registration list" where
  "network_RegisterInterfaces =
     [RegisterImplementations ''sdk.Msg''
        [''MsgAttest'', ''MsgJoinAttesterSet'', ''MsgLeaveAttesterSet'', ''MsgUpdateParams''],
      RegisterInterface ''cosmos.crypto.PubKey'' ''cryptotypes.PubKey''
        [''ed25519.PubKey'', ''secp256k1.PubKey''],
      RegisterMsgServiceDesc network_Msg_serviceDesc]"

text \<open>The codec of the network module itself, which \<open>init\<close> fills: public keys, no messages.\<close>

definition network_ModuleCdc :: "registration list" where
  "network_ModuleCdc =
     [RegisterInterface ''cosmos.crypto.PubKey'' ''cryptotypes.PubKey''
        [''ed25519.PubKey'', ''secp256k1.PubKey'']]"

definition migration_RegisterLegacyAminoCodec :: "registration list" where
  "migration_RegisterLegacyAminoCodec =
     [RegisterAminoMsg ''MsgMigrateToEvolve'' ''migrationmngr/v1/MsgMigrateToEvolve'']"

definition migration_RegisterInterfaces :: "registration list" where
  "migration_RegisterInterfaces =
     [RegisterImplementations ''sdk.Msg'' [''MsgMigrateToEvolve''],
      RegisterMsgServiceDesc migration_Msg_serviceDesc]"

subsection \<open>Generated commands\<close>

record rpc_command =
  rc_RpcMethod :: string
  rc_Use :: string
  rc_PositionalArgs :: "string list"
  rc_GovProposal :: bool

record module_options =
  mo_Query :: "service_desc \<times> rpc_command list"
  mo_Tx :: "service_desc \<times> rpc_command list"

definition command :: "string \<Rightarrow> string \<Rightarrow> string list \<Rightarrow> rpc_command" where
  "command method usage args =
     \<lparr>rc_RpcMethod = method, rc_Use = usage, rc_PositionalArgs = args, rc_GovProposal = False\<rparr>"

definition network_AutoCLIOptions :: module_options where
  "network_AutoCLIOptions =
     \<lparr>mo_Query = (network_Query_serviceDesc,
        [command ''Params'' ''params'' [],
         command ''AttestationBitmap'' ''attestation [height]'' [''height''],
         command ''EpochInfo'' ''epoch [epoch-number]'' [''epoch''],
         command ''ValidatorIndex'' ''validator-index [address]'' [''address''],
         command ''SoftConfirmationStatus'' ''soft-confirmation [height]'' [''height''],
         command ''AttesterSignatures'' ''signatures [height]'' [''height'']]),
      mo_Tx = (network_Msg_serviceDesc,
        [command ''Attest'' ''attest [height] [vote-base64]'' [''height'', ''vote''],
         command ''JoinAttesterSet'' ''join-attester'' [],
         command ''LeaveAttesterSet'' ''leave-attester'' []])\<rparr>"

definition migration_AutoCLIOptions :: module_options where
  "migration_AutoCLIOptions =
     \<lparr>mo_Query = (migration_Query_serviceDesc,
        [command ''Attesters'' ''attesters'' [],
         command ''Sequencer'' ''sequencer'' [],
         command ''IsMigrating'' ''is_migrating'' []]),
      mo_Tx = (migration_Msg_serviceDesc,
        [\<lparr>rc_RpcMethod = ''MigrateToEvolve'', rc_Use = [], rc_PositionalArgs = [], rc_GovProposal = True\<rparr>])\<rparr>"

subsection \<open>The tables fit together\<close>

text \<open>The fields of the request of a command's method; none when the service has no such method.\<close>

definition command_fields :: "service_desc \<Rightarrow> rpc_command \<Rightarrow> string list option" where
  "command_fields sd c = Option.bind (map_of (sv_Methods sd) (rc_RpcMethod c)) request_fields"

definition placeholders :: "string \<Rightarrow> nat" where
  "placeholders usage = length (filter (\<lambda>c. c = CHR ''['') usage)"

definition command_name :: "rpc_command \<Rightarrow> string" where
  "command_name c = takeWhile (\<lambda>ch. ch \<noteq> CHR '' '') (rc_Use c)"

definition command_ok :: "service_desc \<Rightarrow> rpc_command \<Rightarrow> bool" where
  "command_ok sd c =
     (case command_fields sd c of
        None \<Rightarrow> False
      | Some fs \<Rightarrow> list_all (\<lambda>a. a \<in> set fs) (rc_PositionalArgs c) \<and> distinct (rc_PositionalArgs c) \<and>
          placeholders (rc_Use c) = length (rc_PositionalArgs c))"

definition options_ok :: "service_desc \<times> rpc_command list \<Rightarrow> bool" where
  "options_ok o1 = (case o1 of (sd, cs) \<Rightarrow> list_all (command_ok sd) cs \<and> distinct (map command_name cs))"

lemmas service_defs = network_Query_serviceDesc_def network_Msg_serviceDesc_def
  migration_Query_serviceDesc_def migration_Msg_serviceDesc_def

lemmas table_defs = service_defs network_AutoCLIOptions_def migration_AutoCLIOptions_def command_def
  request_fields_def network_query_fields_def network_msg_fields_def migration_query_fields_def
  migration_msg_fields_def command_fields_def

lemmas codec_defs = network_RegisterCodec_def network_RegisterInterfaces_def network_ModuleCdc_def
  migration_RegisterLegacyAminoCodec_def migration_RegisterInterfaces_def

text \<open>
  Every generated command belongs to a method of its service, its positional arguments are fields
  of the request, one for each placeholder of its usage line, and no two commands of a service have
  the same name.
\<close>

lemma autocli_options_ok:
  "options_ok (mo_Query network_AutoCLIOptions)" "options_ok (mo_Tx network_AutoCLIOptions)"
  "options_ok (mo_Query migration_AutoCLIOptions)" "options_ok (mo_Tx migration_AutoCLIOptions)"
  by (simp_all add: options_ok_def command_ok_def table_defs placeholders_def command_name_def)

text \<open>
  A query command takes all of its request from its arguments. Of the transactions, \<open>attest\<close> leaves
  the authority and the consensus address to flags, and joining leaves the public key as well.
\<close>

definition flag_fields :: "service_desc \<Rightarrow> rpc_command \<Rightarrow> string list option" where
  "flag_fields sd c = map_option (filter (\<lambda>f. f \<notin> set (rc_PositionalArgs c))) (command_fields sd c)"

lemma autocli_flag_fields:
  "map (flag_fields network_Query_serviceDesc) (snd (mo_Query network_AutoCLIOptions)) = replicate 6 (Some [])"
  "map (flag_fields migration_Query_serviceDesc) (snd (mo_Query migration_AutoCLIOptions)) = replicate 3 (Some [])"
  "map (flag_fields network_Msg_serviceDesc) (snd (mo_Tx network_AutoCLIOptions)) =
     [Some [''authority'', ''consensus_address''], Some [''authority'', ''consensus_address'', ''pubkey''],
      Some [''authority'', ''consensus_address'']]"
  by (simp_all add: flag_fields_def table_defs numeral_eq_Suc)

text \<open>The messages a list of calls names to the registry and to amino, and the services in it.\<close>

definition implementations :: "string \<Rightarrow> registration list \<Rightarrow> string list" where
  "implementations iface rs = concat (map (\<lambda>r. case r of
     RegisterImplementations i impls \<Rightarrow> if i = iface then impls else []
   | RegisterInterface _ i impls \<Rightarrow> if i = iface then impls else [] | _ \<Rightarrow> []) rs)"

definition amino_names :: "registration list \<Rightarrow> (string \<times> string) list" where
  "amino_names rs = concat (map (\<lambda>r. case r of
     RegisterConcrete m n \<Rightarrow> [(m, n)] | RegisterAminoMsg m n \<Rightarrow> [(m, n)] | _ \<Rightarrow> []) rs)"

definition service_requests :: "registration list \<Rightarrow> string list" where
  "service_requests rs = concat (map (\<lambda>r. case r of
     RegisterMsgServiceDesc sd \<Rightarrow> map snd (sv_Methods sd) | _ \<Rightarrow> []) rs)"

text \<open>
  With both modules in an application, the messages registered one by one are exactly the requests
  of the message services registered beside them, amino knows the same messages, each under a name
  of its own, and the public key types an attester may have are the same in the application's
  registry and in the module's own codec, which holds no message.
\<close>

lemma messages_registered:
  defines "registry \<equiv> network_RegisterInterfaces @ migration_RegisterInterfaces"
    and "amino \<equiv> amino_names (network_RegisterCodec @ migration_RegisterLegacyAminoCodec)"
  shows "implementations ''sdk.Msg'' registry = service_requests registry"
    and "map fst amino = service_requests registry" and "distinct (map snd amino)"
    and "implementations ''cryptotypes.PubKey'' registry = implementations ''cryptotypes.PubKey'' network_ModuleCdc"
    and "implementations ''sdk.Msg'' network_ModuleCdc = []"
  by (simp_all add: registry_def amino_def codec_defs service_defs implementations_def amino_names_def
      service_requests_def)

end
