(* ===== verification/Spec2Isabelle.thy ===== *)
theory Spec2Isabelle
  imports MigrationExample RpcExample AttesterExample RpcEvents NetworkCli NodeExample AdapterOptions
    AppWiring ModuleTables
begin

text \<open>
  \<^bold>\<open>Verification of ev-abci.\<close>

  ev-abci connects an ABCI application (a Cosmos SDK chain) to the ev-node sequencer. ev-node
  orders transactions into blocks; the execution adapter (\<open>pkg/adapter\<close>) turns every such block
  into the ABCI calls of a CometBFT block, keeps the resulting CometBFT state, block IDs and
  block responses in the execution store (\<open>pkg/store\<close>), signs and fires events; the RPC
  (\<open>pkg/rpc\<close>) presents the result to CometBFT clients. On chain, the network module
  (\<open>modules/network\<close>) collects the attesters' votes on those blocks and confirms heights; the
  migration manager (\<open>modules/migrationmngr\<close>) moves a running CometBFT chain to a sequencer or to
  an attester set, and the staking wrapper (\<open>modules/staking\<close>) keeps the SDK's staking module
  from changing the validators. The attester client (\<open>server/attester_cmd.go\<close>) reads blocks from
  the RPC, signs votes on them and submits them to the network module. The commands under
  \<open>server\<close> start a node, migrate a CometBFT home directory, roll a node back and post transactions.

  \<^bold>\<open>Theories and the code they model.\<close> Definitions keep the source's names; a Go struct is a
  record with a field prefix, a collection of the SDK is a finite map with ordered iteration, a
  \<open>uintN\<close> or \<open>intN\<close> is an \<open>N word\<close> or an \<open>int\<close> with the conversion written out, an error is the
  left side of a sum, and an operation that changes state returns the new state.

  \<^item> \<open>Prelude\<close>: integers, bytes, collections (locale \<open>collection\<close>, interpretation \<open>kv\<close>), sums.
  \<^item> \<open>SdkTypes\<close>, \<open>CometTypes\<close>: the data of the Cosmos SDK, CometBFT and ev-node at the interfaces.
  \<^item> \<open>Bitmap\<close>: \<open>keeper/bitmap.go\<close>; locale \<open>index_set\<close> with interpretation \<open>bm\<close>: a bitmap refines a
    set of indices (set bit, membership, cardinality by the population count).
  \<^item> \<open>NetworkTypes\<close>: \<open>types/params.go\<close>, \<open>attester.go\<close>, \<open>msgs.go\<close>, \<open>genesis.go\<close>, \<open>keys.go\<close>.
  \<^item> \<open>NetworkKeeper\<close>, \<open>NetworkVotes\<close>: \<open>keeper/keeper.go\<close>, record \<open>network_state\<close> with one finite map per
    collection; the two-thirds rule (locale \<open>quorum_rule\<close>, interpretation \<open>cq\<close>): quorums intersect.
  \<^item> \<open>NetworkMsgServer\<close>: \<open>keeper/msg_server.go\<close>: \<open>Attest\<close> with \<open>verifyVote\<close> and every guard, the
    join, leave and parameter messages.
  \<^item> \<open>NetworkAbci\<close>: \<open>keeper/abci.go\<close>: the end blocker, checkpoints and pruning.
  \<^item> \<open>NetworkGenesis\<close>, \<open>NetworkQuery\<close>: \<open>genesis.go\<close> and \<open>keeper/grpc_query.go\<close>.
  \<^item> \<open>NetworkSystem\<close>: the module as a state machine (\<open>net_step\<close>, an inductive step relation, and
    its reachable states) with the invariant \<open>network_inv\<close>: a confirmed height is backed by
    verified votes of more than two thirds of the power, votes stay until the retention window
    passes them, pruned heights never return, end blocks do not fail.
  \<^item> \<open>NetworkSpec\<close>: what the module promises, as a ledger of votes (a set of attesters, the
    voters of each height, the confirmed height, a log of all votes). Every step of the module is a step of the
    ledger or leaves it alone (forward simulation); a client's view of the ledger is proved once in
    the locale \<open>attestation_ledger\<close> and interpreted (\<open>net_ledger\<close>) on the module.
  \<^item> \<open>Migration\<close>: \<open>modules/migrationmngr\<close> (keeper, end blocker, migration, messages, queries).
  \<^item> \<open>NetworkCli\<close>: the module's command line (\<open>client/cli\<close>) and entry points (\<open>module.go\<close>): its \<open>attest\<close>
    command can never submit a vote.
  \<^item> \<open>Staking\<close>: \<open>modules/staking\<close>, with the registration of the staking hooks.
  \<^item> \<open>AppWiring\<close>: the dependency injection of the two modules and the entry points of the migration
    module: the three keepers have one authority, by default governance, and nobody else changes the
    parameters or starts a migration.
  \<^item> \<open>ModuleTables\<close>: the service descriptors, the codec registrations (\<open>types/codec.go\<close>) and the generated
    commands (\<open>autocli.go\<close>) of the two modules: every command fits a method and its request, and every
    message of the services is registered.
  \<^item> \<open>ExecStore\<close>: \<open>pkg/store/store.go\<close> over a datastore of byte keys (locale \<open>exec_store\<close>,
    interpretation \<open>es\<close>: what a load returns after each save and after pruning).
  \<^item> \<open>MempoolIds\<close>, \<open>FilterTxs\<close>, \<open>Convert\<close>, \<open>Events\<close>, \<open>Adapter\<close>, \<open>AdapterExec\<close>: \<open>pkg/adapter\<close>: peer
    numbers, the transaction filter, block and validator conversion with the hash providers, the
    event bus, \<open>InitChain\<close>, \<open>ExecuteTxs\<close>, \<open>GetTxs\<close> and the queue of block events. Shown are the
    effect of a block on every store and on the bus, what a failure leaves behind, that the
    stored block ID, the signed bytes and the RPC block agree, and that blocks link by hash.
  \<^item> \<open>AdapterOptions\<close>: the metrics of the adapter (\<open>metrics.go\<close>: thirteen collectors with distinct names,
    and the labels left open in each), its options and the default block filter.
  \<^item> \<open>Gossip\<close>: \<open>pkg/p2p/gossip.go\<close> and the start of the adapter, which polls for the network; when it
    starts, and that a start that fails after joining its topic cannot be repeated.
  \<^item> \<open>RpcEnv\<close>, \<open>RpcBlocks\<close>, \<open>RpcCommit\<close>, \<open>RpcNode\<close>, \<open>RpcMempool\<close>: \<open>pkg/rpc/core\<close>. \<open>RpcCommit\<close> proves
    the commit endpoint once over the interface \<open>attested_height\<close> and interprets it (\<open>nq\<close>) on the
    network module's queries.
  \<^item> \<open>RpcEvents\<close>: subscriptions (\<open>pkg/rpc/core/events.go\<close>): their limits over any sequence of requests,
    what a slow subscriber receives, and that a client that disconnects is gone from the bus.
  \<^item> \<open>RpcServer\<close>: the route table (\<open>pkg/rpc/core/routes.go\<close>: distinct names, parameter counts that fit
    the handlers, which routes only a websocket reaches) and the server object (\<open>pkg/rpc/server.go\<close>:
    how it listens, starts and stops, and when an address is served).
  \<^item> \<open>AttesterClient\<close>, \<open>Attester\<close>, \<open>AttesterVote\<close>: \<open>server/attester_cmd.go\<close>. The polling loop is
    followed over a list of wake-ups and returns its actions: heights are attested consecutively
    and once; a cached account sequence ahead of the chain is never corrected. \<open>AttesterVote\<close>
    follows a vote from the execution store through the RPC and the client into the network
    module, which records it.
  \<^item> \<open>MigrationCmd\<close>, \<open>MigrationRun\<close>: the migration command (\<open>server/migration_cmd.go\<close>): the block IDs
    and the state it leaves in the execution store, and the sequencer in the genesis file it writes.
  \<^item> \<open>MigrationStores\<close>: the stores and sync services the command opens and its deferred closing, as a
    log of actions: what a success releases and what each failure leaves open.
  \<^item> \<open>MigratedNode\<close>: the migration command, the node started on the directory it leaves and the first
    block this node executes: the chain goes on at the next height, with the migrated sequencer, and
    the new block names the last CometBFT block as its predecessor.
  \<^item> \<open>ServerStart\<close>, \<open>NodeStart\<close>, \<open>NodeRun\<close>: \<open>server/start.go\<close>, \<open>server/genesis_helpers.go\<close> and
    \<open>pkg/signer\<close>: the wiring of the block IDs, the pruning settings, the genesis documents, the signer,
    the application proxy, the event bus and the indexer, the assembled node, and what the process
    opens and releases.
  \<^item> \<open>NodeCmds\<close>: the commands \<open>rollback\<close>, \<open>post-tx\<close> and \<open>init\<close>.
  \<^item> \<open>DemoEnv\<close>, \<open>DemoAdapter\<close> and the theories ending in \<open>Example\<close>: concrete instances of the
    external code and small chains, on which every theorem with hypotheses is applied.

  \<^bold>\<open>External code.\<close> Functions of packages outside the repository are fields of parameter records:
  \<open>ext\<close> (addresses, keys, signatures, vote codec), \<open>mig_ext\<close>, \<open>store_ext\<close> (codecs of the store),
  \<open>cmt_ext\<close> (hashes, sign bytes, part sets, merkle proofs), \<open>adapter_env\<close> (the application, the
  mempool, ev-node's store), \<open>proto_ext\<close>, \<open>rpc_env\<close>, \<open>node_ext\<close>, \<open>submit_ops\<close>, \<open>pubsub_ops\<close> (the event bus),
  \<open>libp2p\<close>, \<open>client_env\<close>, \<open>key_ext\<close>, \<open>cli_env\<close>, \<open>migrate_env\<close>, \<open>store_deps\<close>, \<open>genesis_env\<close>, \<open>pruning_ext\<close>, \<open>node_deps\<close>,
  \<open>grpc_deps\<close>, \<open>run_deps\<close>, \<open>rollback_ops\<close>, \<open>init_ops\<close> and \<open>post_ops\<close>. A theorem that
  relies on them names the law it needs (an address string decodes to its address, a stored
  value decodes to itself, a signature made with a key verifies under it, a successful rollback
  is at its target), and its witness
  instantiates the parameter.

  \<^bold>\<open>Termination and bounds.\<close> Every function is total. Loops over lists are structural; the loops
  counting heights or chunks (\<open>list_metas\<close>, \<open>chunk_loop\<close>) have measures. The pruning loop of the
  store, the search of a free peer number and the client's loop over new heights may run for
  ever in the code: they are partial
  functions into \<open>option\<close>, and the theorems state for which inputs they return. There is no fuel.
  Powers, heights and sequence numbers keep their width, and the theorems state the bounds under
  which sums do not wrap.

  \<^bold>\<open>Modelling decisions.\<close> A collection decodes what it encoded. The SDK discards the writes of a
  transaction whose handler fails and commits the others. An absent bitmap in a genesis file is
  the empty bitmap. \<open>sort.Slice\<close> is a stable sort, used where keys are distinct. Datastore reads
  and writes succeed. What a handler wakes up with on its channels is an argument. Times are
  integers. Logging and the observations made on the metrics are left out.

  \<^bold>\<open>Not modelled.\<close> The generated protobuf and gateway code (\<open>*.pb.go\<close>, \<open>*.pb.gw.go\<close>): its messages are
  records, its service descriptors tables and its codecs parameters; the gateway only forwards requests
  to the query handlers that are modelled. The declarations of expected keepers, which have no bodies.
  The registration of the command line flags. The HTTP and websocket serving inside CometBFT's
  packages, the signal handling and the errgroup of the process. The helpers of the tests. The
  manifest lists each of them with its reason.
\<close>

end
